(* ===== verification/Prelude.thy ===== *)
theory Prelude
  imports Complex_Main "HOL-Library.List_Lexorder" "HOL-Library.Char_ord"
begin

text \<open>
  Shared vocabulary of the development: computations with state and exceptions, tables kept
  as lists of rows, and the generic facts on both that the component theories use.

  An operation of the program is a value of type \<open>('s, 'e, 'a) act\<close>: it takes the state
  and gives either the exception that left the Python function (\<open>Inl\<close>) or its result
  (\<open>Inr\<close>), with the state at that point. State changes made before an exception stay, as
  they do in the program.
\<close>

named_theorems act_simps \<open>when a computation returns or raises, as equations\<close>
named_theorems keeps_intros \<open>how the control structures keep an invariant\<close>

subsection \<open>Computations\<close>

type_synonym ('s, 'e, 'a) act = "'s \<Rightarrow> ('e + 'a) \<times> 's"

definition ret :: "'a \<Rightarrow> ('s, 'e, 'a) act" where
  "ret x s = (Inr x, s)"

definition raise :: "'e \<Rightarrow> ('s, 'e, 'a) act" where
  "raise e s = (Inl e, s)"

definition bindA :: "('s, 'e, 'a) act \<Rightarrow> ('a \<Rightarrow> ('s, 'e, 'b) act) \<Rightarrow> ('s, 'e, 'b) act" where
  "bindA m k s = (case m s of (Inl e, s') \<Rightarrow> (Inl e, s') | (Inr x, s') \<Rightarrow> k x s')"

definition seqA :: "('s, 'e, unit) act \<Rightarrow> ('s, 'e, 'b) act \<Rightarrow> ('s, 'e, 'b) act" where
  "seqA m k = bindA m (\<lambda>_. k)"

definition modifyA :: "('s \<Rightarrow> 's) \<Rightarrow> ('s, 'e, unit) act" where
  "modifyA f s = (Inr (), f s)"

definition askA :: "('s \<Rightarrow> 'a) \<Rightarrow> ('s, 'e, 'a) act" where
  "askA f s = (Inr (f s), s)"

definition tryA :: "('s, 'e, 'a) act \<Rightarrow> ('e \<Rightarrow> ('s, 'e, 'a) act) \<Rightarrow> ('s, 'e, 'a) act" where
  "tryA m h s = (case m s of (Inl e, s') \<Rightarrow> h e s' | (Inr x, s') \<Rightarrow> (Inr x, s'))"

text \<open>\<open>finallyA m f\<close> runs the clean-up \<open>f\<close> after \<open>m\<close> on every path, as
  \<^verbatim>\<open>try: ... finally: ...\<close> does; an exception of the clean-up replaces the outcome.\<close>

definition finallyA :: "('s, 'e, 'a) act \<Rightarrow> ('s, 'e, unit) act \<Rightarrow> ('s, 'e, 'a) act" where
  "finallyA m f s =
     (case m s of (r, s') \<Rightarrow>
       (case f s' of (Inl e, s'') \<Rightarrow> (Inl e, s'') | (Inr _, s'') \<Rightarrow> (r, s'')))"

definition liftA :: "'e + 'a \<Rightarrow> ('s, 'e, 'a) act" where
  "liftA r s = (r, s)"

fun mapA :: "('x \<Rightarrow> ('s, 'e, 'a) act) \<Rightarrow> 'x list \<Rightarrow> ('s, 'e, 'a list) act" where
  "mapA f [] = ret []"
| "mapA f (x # xs) = bindA (f x) (\<lambda>y. bindA (mapA f xs) (\<lambda>ys. ret (y # ys)))"

fun forA :: "'x list \<Rightarrow> ('x \<Rightarrow> ('s, 'e, unit) act) \<Rightarrow> ('s, 'e, unit) act" where
  "forA [] f = ret ()"
| "forA (x # xs) f = seqA (f x) (forA xs f)"

text \<open>\<open>zoomA get put m\<close> runs \<open>m\<close> on one part of the state.\<close>

definition zoomA :: "('w \<Rightarrow> 's) \<Rightarrow> ('s \<Rightarrow> 'w \<Rightarrow> 'w) \<Rightarrow> ('s, 'e, 'a) act \<Rightarrow> ('w, 'e, 'a) act" where
  "zoomA get put m w = (case m (get w) of (r, s') \<Rightarrow> (r, put s' w))"

definition discard :: "('s, 'e, 'a) act \<Rightarrow> ('s, 'e, unit) act" where
  "discard m = bindA m (\<lambda>_. ret ())"

text \<open>An object of the program with the rest of the world: steps of the world, and of the object.\<close>

definition on_snd :: "('w, 'e, 'a) act \<Rightarrow> ('k \<times> 'w, 'e, 'a) act" where
  "on_snd = zoomA snd (\<lambda>w s. (fst s, w))"

definition upd_fst :: "('k \<Rightarrow> 'k) \<Rightarrow> ('k \<times> 'w, 'e, unit) act" where
  "upd_fst f = modifyA (apfst f)"

text \<open>\<^verbatim>\<open>try: ... except Exception: pass\<close>\<close>

definition ignoring :: "('s, 'e, unit) act \<Rightarrow> ('s, 'e, unit) act" where
  "ignoring m = tryA m (\<lambda>_. ret ())"

lemma zoomA_eq [act_simps]:
  "zoomA get put m w = (r, w') \<longleftrightarrow> (\<exists>s'. m (get w) = (r, s') \<and> w' = put s' w)"
  by (auto simp: zoomA_def split: prod.splits)

lemma ret_eq [simp, act_simps]: "ret x s = (r, s') \<longleftrightarrow> r = Inr x \<and> s' = s"
  by (auto simp: ret_def)

lemma raise_eq [simp, act_simps]: "raise e s = (r, s') \<longleftrightarrow> r = Inl e \<and> s' = s"
  by (auto simp: raise_def)

lemma modifyA_eq [simp, act_simps]: "modifyA f s = (r, s') \<longleftrightarrow> r = Inr () \<and> s' = f s"
  by (auto simp: modifyA_def)

lemma askA_eq [simp, act_simps]: "askA f s = (r, s') \<longleftrightarrow> r = Inr (f s) \<and> s' = s"
  by (auto simp: askA_def)

lemma liftA_eq [simp, act_simps]: "liftA x s = (r, s') \<longleftrightarrow> r = x \<and> s' = s"
  by (auto simp: liftA_def)

lemma bindA_Inr [act_simps]:
  "bindA m k s = (Inr y, s') \<longleftrightarrow> (\<exists>x s1. m s = (Inr x, s1) \<and> k x s1 = (Inr y, s'))"
  by (auto simp: bindA_def split: prod.splits sum.splits)

lemma bindA_Inl [act_simps]:
  "bindA m k s = (Inl e, s') \<longleftrightarrow>
     m s = (Inl e, s') \<or> (\<exists>x s1. m s = (Inr x, s1) \<and> k x s1 = (Inl e, s'))"
  by (auto simp: bindA_def split: prod.splits sum.splits)

lemma seqA_Inr [act_simps]:
  "seqA m k s = (Inr y, s') \<longleftrightarrow> (\<exists>s1. m s = (Inr (), s1) \<and> k s1 = (Inr y, s'))"
  by (auto simp: seqA_def bindA_Inr)

lemma seqA_Inl [act_simps]:
  "seqA m k s = (Inl e, s') \<longleftrightarrow>
     m s = (Inl e, s') \<or> (\<exists>s1. m s = (Inr (), s1) \<and> k s1 = (Inl e, s'))"
  by (auto simp: seqA_def bindA_Inl)

lemma tryA_Inr [act_simps]:
  "tryA m h s = (Inr y, s') \<longleftrightarrow>
     m s = (Inr y, s') \<or> (\<exists>e s1. m s = (Inl e, s1) \<and> h e s1 = (Inr y, s'))"
  by (auto simp: tryA_def split: prod.splits sum.splits)

lemma tryA_Inl [act_simps]:
  "tryA m h s = (Inl e, s') \<longleftrightarrow> (\<exists>e0 s1. m s = (Inl e0, s1) \<and> h e0 s1 = (Inl e, s'))"
  by (auto simp: tryA_def split: prod.splits sum.splits)

lemma finallyA_Inr [act_simps]:
  "finallyA m f s = (Inr y, s') \<longleftrightarrow> (\<exists>s1. m s = (Inr y, s1) \<and> f s1 = (Inr (), s'))"
  by (auto simp: finallyA_def split: prod.splits sum.splits)

lemma finallyA_Inl [act_simps]:
  "finallyA m f s = (Inl e, s') \<longleftrightarrow>
     (\<exists>s1. m s = (Inl e, s1) \<and> f s1 = (Inr (), s')) \<or>
     (\<exists>r s1. m s = (r, s1) \<and> f s1 = (Inl e, s'))"
  by (auto simp: finallyA_def split: prod.splits sum.splits)

text \<open>Running a computation, for evaluation.\<close>

lemma bindA_run_Inr [simp]: "m s = (Inr x, s') \<Longrightarrow> bindA m k s = k x s'"
  by (simp add: bindA_def)

lemma bindA_run_Inl [simp]: "m s = (Inl e, s') \<Longrightarrow> bindA m k s = (Inl e, s')"
  by (simp add: bindA_def)

lemma seqA_run_Inr [simp]: "m s = (Inr x, s') \<Longrightarrow> seqA m k s = k s'"
  by (simp add: seqA_def)

lemma seqA_run_Inl [simp]: "m s = (Inl e, s') \<Longrightarrow> seqA m k s = (Inl e, s')"
  by (simp add: seqA_def)

lemmas act_defs = ret_def raise_def bindA_def seqA_def modifyA_def askA_def liftA_def
  tryA_def finallyA_def zoomA_def

subsection \<open>Invariants of computations\<close>

text \<open>\<open>keeps P m\<close>: whatever the outcome, \<open>m\<close> leads from a state with \<open>P\<close> to a
  state with \<open>P\<close>.\<close>

definition keeps :: "('s \<Rightarrow> bool) \<Rightarrow> ('s, 'e, 'a) act \<Rightarrow> bool" where
  "keeps P m \<longleftrightarrow> (\<forall>s. P s \<longrightarrow> P (snd (m s)))"

lemma keepsI: "(\<And>s r s'. P s \<Longrightarrow> m s = (r, s') \<Longrightarrow> P s') \<Longrightarrow> keeps P m"
  by (metis keeps_def prod.collapse)

lemma keepsD: "keeps P m \<Longrightarrow> P s \<Longrightarrow> m s = (r, s') \<Longrightarrow> P s'"
  by (metis keeps_def snd_conv)

lemma keeps_snd: "keeps P m \<Longrightarrow> P s \<Longrightarrow> P (snd (m s))"
  by (simp add: keeps_def)

lemma keeps_ret [keeps_intros]: "keeps P (ret x)"
  by (simp add: keeps_def ret_def)

lemma keeps_raise [keeps_intros]: "keeps P (raise e)"
  by (simp add: keeps_def raise_def)

lemma keeps_ask [keeps_intros]: "keeps P (askA f)"
  by (simp add: keeps_def askA_def)

lemma keeps_lift [keeps_intros]: "keeps P (liftA r)"
  by (simp add: keeps_def liftA_def)

lemma keeps_bind [keeps_intros]: "keeps P m \<Longrightarrow> (\<And>x. keeps P (k x)) \<Longrightarrow> keeps P (bindA m k)"
  by (auto simp: keeps_def bindA_def split: prod.splits sum.splits)

lemma keeps_seq [keeps_intros]: "keeps P m \<Longrightarrow> keeps P k \<Longrightarrow> keeps P (seqA m k)"
  by (simp add: seqA_def keeps_bind)

lemma keeps_try [keeps_intros]: "keeps P m \<Longrightarrow> (\<And>e. keeps P (h e)) \<Longrightarrow> keeps P (tryA m h)"
  by (auto simp: keeps_def tryA_def split: prod.splits sum.splits)

lemma keeps_finally [keeps_intros]: "keeps P m \<Longrightarrow> keeps P f \<Longrightarrow> keeps P (finallyA m f)"
  by (auto simp: keeps_def finallyA_def split: prod.splits sum.splits)

lemma keeps_discard: "keeps P m \<Longrightarrow> keeps P (discard m)"
  unfolding discard_def by (intro keeps_bind keeps_ret)

lemma keeps_if [keeps_intros]:
  "(b \<Longrightarrow> keeps P m) \<Longrightarrow> (\<not> b \<Longrightarrow> keeps P n) \<Longrightarrow> keeps P (if b then m else n)"
  by simp

lemma keeps_option [keeps_intros]:
  "(x = None \<Longrightarrow> keeps P m) \<Longrightarrow> (\<And>y. x = Some y \<Longrightarrow> keeps P (n y)) \<Longrightarrow>
   keeps P (case x of None \<Rightarrow> m | Some y \<Rightarrow> n y)"
  by (cases x) auto

lemma keeps_zoom: "(\<And>w s'. P w \<Longrightarrow> P (put s' w)) \<Longrightarrow> keeps P (zoomA get put m)"
  by (auto simp: keeps_def zoomA_def split: prod.splits)

lemma keeps_sum [keeps_intros]:
  "(\<And>e. x = Inl e \<Longrightarrow> keeps P (m e)) \<Longrightarrow> (\<And>y. x = Inr y \<Longrightarrow> keeps P (n y)) \<Longrightarrow>
   keeps P (case x of Inl e \<Rightarrow> m e | Inr y \<Rightarrow> n y)"
  by (cases x) auto

lemma keeps_prod [keeps_intros]:
  "(\<And>a b. x = (a, b) \<Longrightarrow> keeps P (m a b)) \<Longrightarrow> keeps P (case x of (a, b) \<Rightarrow> m a b)"
  by (cases x) auto

lemma keeps_let [keeps_intros]: "(\<And>y. y = x \<Longrightarrow> keeps P (m y)) \<Longrightarrow> keeps P (let y = x in m y)"
  by simp

lemma keeps_modify: "(\<And>s. P s \<Longrightarrow> P (f s)) \<Longrightarrow> keeps P (modifyA f)"
  by (simp add: keeps_def modifyA_def)

lemma keeps_for [keeps_intros]: "(\<And>x. keeps P (f x)) \<Longrightarrow> keeps P (forA xs f)"
  by (induction xs) (auto intro: keeps_intros)

lemma keeps_map [keeps_intros]: "(\<And>x. keeps P (f x)) \<Longrightarrow> keeps P (mapA f xs)"
  by (induction xs) (auto intro: keeps_intros)

text \<open>\<open>frames f m\<close>: the computation leaves the part \<open>f\<close> of the state alone.\<close>

named_theorems frames_intros \<open>how the control structures frame a part of the state\<close>

definition frames :: "('s \<Rightarrow> 'c) \<Rightarrow> ('s, 'e, 'a) act \<Rightarrow> bool" where
  "frames f m \<longleftrightarrow> (\<forall>s. f (snd (m s)) = f s)"

lemma frames_keeps: "frames f m \<longleftrightarrow> (\<forall>c. keeps (\<lambda>s. f s = c) m)"
  by (auto simp: frames_def keeps_def)

lemma framesI: "(\<And>s r s'. m s = (r, s') \<Longrightarrow> f s' = f s) \<Longrightarrow> frames f m"
  by (metis frames_def prod.collapse)

lemma framesD: "frames f m \<Longrightarrow> m s = (r, s') \<Longrightarrow> f s' = f s"
  by (metis frames_def snd_conv)

lemma frames_via: "frames f m \<Longrightarrow> (\<And>s s'. f s' = f s \<Longrightarrow> g s' = g s) \<Longrightarrow> frames g m"
  unfolding frames_def by blast

lemma keeps_of_frames: "frames f m \<Longrightarrow> (\<And>s s'. f s' = f s \<Longrightarrow> P s \<Longrightarrow> P s') \<Longrightarrow> keeps P m"
  unfolding frames_def keeps_def by blast

lemma frames_ret [frames_intros]: "frames f (ret x)"
  by (simp add: frames_def ret_def)

lemma frames_raise [frames_intros]: "frames f (raise e)"
  by (simp add: frames_def raise_def)

lemma frames_ask [frames_intros]: "frames f (askA g)"
  by (simp add: frames_def askA_def)

lemma frames_lift [frames_intros]: "frames f (liftA r)"
  by (simp add: frames_def liftA_def)

lemma frames_bind [frames_intros]: "frames f m \<Longrightarrow> (\<And>x. frames f (k x)) \<Longrightarrow> frames f (bindA m k)"
  by (simp add: frames_keeps keeps_bind)

lemma frames_seq [frames_intros]: "frames f m \<Longrightarrow> frames f k \<Longrightarrow> frames f (seqA m k)"
  by (simp add: frames_keeps keeps_seq)

lemma frames_try [frames_intros]: "frames f m \<Longrightarrow> (\<And>e. frames f (h e)) \<Longrightarrow> frames f (tryA m h)"
  by (simp add: frames_keeps keeps_try)

lemma frames_finally [frames_intros]: "frames f m \<Longrightarrow> frames f c \<Longrightarrow> frames f (finallyA m c)"
  by (simp add: frames_keeps keeps_finally)

lemma frames_if [frames_intros]:
  "(b \<Longrightarrow> frames f m) \<Longrightarrow> (\<not> b \<Longrightarrow> frames f n) \<Longrightarrow> frames f (if b then m else n)"
  by simp

lemma frames_option [frames_intros]:
  "(x = None \<Longrightarrow> frames f m) \<Longrightarrow> (\<And>y. x = Some y \<Longrightarrow> frames f (n y)) \<Longrightarrow>
   frames f (case x of None \<Rightarrow> m | Some y \<Rightarrow> n y)"
  by (cases x) auto

lemma frames_sum [frames_intros]:
  "(\<And>e. x = Inl e \<Longrightarrow> frames f (m e)) \<Longrightarrow> (\<And>y. x = Inr y \<Longrightarrow> frames f (n y)) \<Longrightarrow>
   frames f (case x of Inl e \<Rightarrow> m e | Inr y \<Rightarrow> n y)"
  by (cases x) auto

lemma frames_prod [frames_intros]:
  "(\<And>a b. x = (a, b) \<Longrightarrow> frames f (m a b)) \<Longrightarrow> frames f (case x of (a, b) \<Rightarrow> m a b)"
  by (cases x) auto

lemma frames_let [frames_intros]: "(\<And>y. y = x \<Longrightarrow> frames f (m y)) \<Longrightarrow> frames f (let y = x in m y)"
  by simp

lemma frames_for [frames_intros]: "(\<And>x. frames f (g x)) \<Longrightarrow> frames f (forA xs g)"
  by (simp add: frames_keeps keeps_for)

lemma frames_map [frames_intros]: "(\<And>x. frames f (g x)) \<Longrightarrow> frames f (mapA g xs)"
  by (simp add: frames_keeps keeps_map)

lemma frames_zoom: "(\<And>w s'. f (put s' w) = f w) \<Longrightarrow> frames f (zoomA get put m)"
  by (simp add: frames_keeps keeps_zoom)

lemma frames_modify: "(\<And>s. f (g s) = f s) \<Longrightarrow> frames f (modifyA g)"
  by (simp add: frames_def modifyA_def)

lemma frames_on_snd: "frames f m \<Longrightarrow> frames (\<lambda>p. f (snd p)) (on_snd m)"
  by (auto simp: frames_def on_snd_def zoomA_def split: prod.splits) (metis snd_conv)

lemma frames_upd_fst: "frames (\<lambda>p. f (snd p)) (upd_fst g)"
  by (auto simp: upd_fst_def intro: frames_modify)

lemma frames_ignoring: "frames f m \<Longrightarrow> frames f (ignoring m)"
  unfolding ignoring_def by (intro frames_try frames_ret)

lemma ignoring_Inr: "fst (ignoring m s) = Inr ()"
  by (auto simp: ignoring_def tryA_def ret_def split: prod.splits sum.splits)

lemma fst_on_snd: "fst (snd (on_snd m p)) = fst p"
  by (auto simp: on_snd_def zoomA_def split: prod.splits)

lemma frames_fst_on_snd: "frames fst (on_snd m)"
  by (simp add: frames_def fst_on_snd)

text \<open>A loop that collects results: a relation between each item and its result, under an
  invariant of the state.\<close>

lemma mapA_all2:
  assumes "mapA f xs s = (Inr ys, s')" "I s"
    and "\<And>x s y s'. x \<in> set xs \<Longrightarrow> I s \<Longrightarrow> f x s = (Inr y, s') \<Longrightarrow> R x y \<and> I s'"
  shows "list_all2 R xs ys \<and> I s'"
  using assms
proof (induction xs arbitrary: s ys)
  case Nil
  then show ?case by simp
next
  case (Cons x xs)
  then obtain y s1 zs where "f x s = (Inr y, s1)" "mapA f xs s1 = (Inr zs, s')" "ys = y # zs"
    by (auto simp: bindA_Inr)
  note parts = this
  have now: "R x y \<and> I s1"
    using Cons.prems(2) by (intro Cons.prems(3) [of x s]) (simp_all add: parts(1))
  have "list_all2 R xs zs \<and> I s'"
  proof (rule Cons.IH [OF parts(2)])
    show "I s1" using now by simp
    show "R x y \<and> I s'" if "x \<in> set xs" "I s" "f x s = (Inr y, s')" for x s y s'
      using that by (intro Cons.prems(3)) simp_all
  qed
  with now parts(3) show ?case by simp
qed

end
