(* ===== verification/PyValues.thy ===== *)
theory PyValues
  imports Prelude "HOL-Library.Sublist"
begin

text \<open>
  The Python values the services pass around: JSON documents (configuration values, provider
  settings, event payloads), strings and their methods, datetimes with and without a time zone,
  the conversions \<^verbatim>\<open>str()\<close>, \<^verbatim>\<open>int()\<close> and \<^verbatim>\<open>float()\<close>, and the exceptions.
  Strings are ASCII (one \<open>char\<close> per character) and a \<^verbatim>\<open>float\<close> is the exact rational it
  denotes, so arithmetic on floats is exact here.
\<close>

subsection \<open>Exceptions\<close>

text \<open>\<^verbatim>\<open>AppError(error_code, message, status_code)\<close>, the provider errors and the
  exceptions of libraries. The messages and the \<^verbatim>\<open>details\<close> are for people and are left out.\<close>

datatype exn =
    AppError (error_code: string) (status_code: int)
  | MockBrokerError string int bool  \<comment> \<open>code, status, retryable\<close>
  | MockInfrastructureError string int  \<comment> \<open>code, status\<close>
  | VultrProviderError string int  \<comment> \<open>code, status\<close>
  | RedisUnavailableError
  | IntegrityError
  | MultipleResultsFound
  | PyError string  \<comment> \<open>any other exception, by its class name\<close>

subsection \<open>Strings\<close>

definition upper_char :: "char \<Rightarrow> char" where
  "upper_char c =
     (let n = (of_char c :: nat) in if 97 \<le> n \<and> n \<le> 122 then char_of (n - 32) else c)"

definition lower_char :: "char \<Rightarrow> char" where
  "lower_char c =
     (let n = (of_char c :: nat) in if 65 \<le> n \<and> n \<le> 90 then char_of (n + 32) else c)"

definition py_upper :: "string \<Rightarrow> string" where
  "py_upper s = map upper_char s"

definition py_lower :: "string \<Rightarrow> string" where
  "py_lower s = map lower_char s"

definition is_space :: "char \<Rightarrow> bool" where
  "is_space c \<longleftrightarrow> (let n = (of_char c :: nat) in n = 32 \<or> 9 \<le> n \<and> n \<le> 13 \<or> 28 \<le> n \<and> n \<le> 31)"

definition strip_by :: "(char \<Rightarrow> bool) \<Rightarrow> string \<Rightarrow> string" where
  "strip_by p s = rev (dropWhile p (rev (dropWhile p s)))"

definition py_strip :: "string \<Rightarrow> string" where
  "py_strip s = strip_by is_space s"

text \<open>\<^verbatim>\<open>s.rstrip('.')\<close>\<close>

definition rstrip_dot :: "string \<Rightarrow> string" where
  "rstrip_dot s = rev (dropWhile (\<lambda>c. c = CHR ''.'') (rev s))"

text \<open>\<^verbatim>\<open>s.split('.', 1)[-1]\<close>: what follows the first dot, or the whole string.\<close>

definition after_first_dot :: "string \<Rightarrow> string" where
  "after_first_dot s =
     (case dropWhile (\<lambda>c. c \<noteq> CHR ''.'') s of [] \<Rightarrow> s | _ # rest \<Rightarrow> rest)"

text \<open>\<^verbatim>\<open>sub in s\<close> for strings.\<close>

definition contains :: "string \<Rightarrow> string \<Rightarrow> bool" where
  "contains s sub \<longleftrightarrow> sublist sub s"

text \<open>\<^verbatim>\<open>s.endswith(t)\<close>\<close>

definition ends_with :: "string \<Rightarrow> string \<Rightarrow> bool" where
  "ends_with s t \<longleftrightarrow> suffix t s"

text \<open>Decimal notation of an integer, as \<^verbatim>\<open>str(n)\<close> and f-strings print it.\<close>

definition digit_char :: "nat \<Rightarrow> char" where
  "digit_char d = char_of (48 + d)"

fun show_nat :: "nat \<Rightarrow> string" where
  "show_nat n = (if n < 10 then [digit_char n] else show_nat (n div 10) @ [digit_char (n mod 10)])"

declare show_nat.simps [simp del]

definition show_int :: "int \<Rightarrow> string" where
  "show_int n = (if n < 0 then CHR ''-'' # show_nat (nat (- n)) else show_nat (nat n))"

text \<open>\<^verbatim>\<open>int(s)\<close>: blanks around, a sign, digits with single underscores between them.\<close>

definition digit_of :: "char \<Rightarrow> nat option" where
  "digit_of c = (let n = (of_char c :: nat) in if 48 \<le> n \<and> n \<le> 57 then Some (n - 48) else None)"

fun parse_digits :: "nat \<Rightarrow> string \<Rightarrow> nat option" where
  "parse_digits acc [] = Some acc"
| "parse_digits acc (c # cs) =
     (case digit_of c of
        Some d \<Rightarrow> parse_digits (10 * acc + d) cs
      | None \<Rightarrow>
          (case cs of
             d # ds \<Rightarrow>
               (if c = CHR ''_'' then
                  (case digit_of d of Some k \<Rightarrow> parse_digits (10 * acc + k) ds | None \<Rightarrow> None)
                else None)
           | [] \<Rightarrow> None))"

definition parse_nat :: "string \<Rightarrow> nat option" where
  "parse_nat s =
     (case s of
        [] \<Rightarrow> None
      | c # cs \<Rightarrow> (case digit_of c of Some d \<Rightarrow> parse_digits d cs | None \<Rightarrow> None))"

definition parse_int :: "string \<Rightarrow> int option" where
  "parse_int s =
     (let t = py_strip s in
      case t of
        [] \<Rightarrow> None
      | c # cs \<Rightarrow>
          (if c = CHR ''-'' then map_option (\<lambda>n. - int n) (parse_nat cs)
           else if c = CHR ''+'' then map_option int (parse_nat cs)
           else map_option int (parse_nat t)))"

text \<open>A uuid is its 128-bit number; \<^verbatim>\<open>u.hex\<close> and \<^verbatim>\<open>str(u)\<close>.\<close>

definition hex_digit :: "nat \<Rightarrow> char" where
  "hex_digit d = char_of (if d < 10 then 48 + d else 87 + d)"

definition uuid_hex :: "nat \<Rightarrow> string" where
  "uuid_hex u = map (\<lambda>i. hex_digit (u div 16 ^ (31 - i) mod 16)) [0..<32]"

definition uuid_text :: "nat \<Rightarrow> string" where
  "uuid_text u =
     (let h = uuid_hex u in
      take 8 h @ ''-'' @ take 4 (drop 8 h) @ ''-'' @ take 4 (drop 12 h) @ ''-'' @
      take 4 (drop 16 h) @ ''-'' @ drop 20 h)"

subsection \<open>JSON values and dicts\<close>

datatype json =
    JNull
  | JBool bool
  | JInt int
  | JFloat rat
  | JStr string
  | JList "json list"
  | JObj "(string \<times> json) list"

type_synonym dict = "(string \<times> json) list"

text \<open>\<^verbatim>\<open>d[k] = v\<close>: an existing key keeps its place, a new one goes to the end.\<close>

fun dict_set :: "(string \<times> 'v) list \<Rightarrow> string \<Rightarrow> 'v \<Rightarrow> (string \<times> 'v) list" where
  "dict_set [] k v = [(k, v)]"
| "dict_set ((k', v') # d) k v = (if k' = k then (k, v) # d else (k', v') # dict_set d k v)"

text \<open>\<^verbatim>\<open>d.update(e)\<close>\<close>

definition dict_update :: "(string \<times> 'v) list \<Rightarrow> (string \<times> 'v) list \<Rightarrow> (string \<times> 'v) list" where
  "dict_update d e = foldl (\<lambda>d kv. dict_set d (fst kv) (snd kv)) d e"

text \<open>\<^verbatim>\<open>d.get(k, default)\<close>\<close>

definition dict_get :: "(string \<times> 'v) list \<Rightarrow> string \<Rightarrow> 'v \<Rightarrow> 'v" where
  "dict_get d k v = (case map_of d k of Some x \<Rightarrow> x | None \<Rightarrow> v)"

fun truthy :: "json \<Rightarrow> bool" where
  "truthy JNull = False"
| "truthy (JBool b) = b"
| "truthy (JInt n) = (n \<noteq> 0)"
| "truthy (JFloat x) = (x \<noteq> 0)"
| "truthy (JStr s) = (s \<noteq> [])"
| "truthy (JList xs) = (xs \<noteq> [])"
| "truthy (JObj d) = (d \<noteq> [])"

text \<open>\<^verbatim>\<open>a or b\<close> on JSON values.\<close>

definition py_or :: "json \<Rightarrow> json \<Rightarrow> json" where
  "py_or a b = (if truthy a then a else b)"

text \<open>
  The conversions. What Python prints for a float, a list or a dict and how it reads a float
  from a string are parameters (\<open>str_of\<close>, \<open>float_of\<close>).
\<close>

fun py_str :: "(json \<Rightarrow> string) \<Rightarrow> json \<Rightarrow> string" where
  "py_str str_of JNull = ''None''"
| "py_str str_of (JBool b) = (if b then ''True'' else ''False'')"
| "py_str str_of (JInt n) = show_int n"
| "py_str str_of (JStr s) = s"
| "py_str str_of j = str_of j"

fun py_int :: "json \<Rightarrow> exn + int" where
  "py_int (JBool b) = Inr (if b then 1 else 0)"
| "py_int (JInt n) = Inr n"
| "py_int (JFloat x) = Inr (if 0 \<le> x then \<lfloor>x\<rfloor> else \<lceil>x\<rceil>)"
| "py_int (JStr s) = (case parse_int s of Some n \<Rightarrow> Inr n | None \<Rightarrow> Inl (PyError ''ValueError''))"
| "py_int _ = Inl (PyError ''TypeError'')"

fun py_float :: "(string \<Rightarrow> rat option) \<Rightarrow> json \<Rightarrow> exn + rat" where
  "py_float float_of (JBool b) = Inr (if b then 1 else 0)"
| "py_float float_of (JInt n) = Inr (of_int n)"
| "py_float float_of (JFloat x) = Inr x"
| "py_float float_of (JStr s) =
     (case float_of s of Some x \<Rightarrow> Inr x | None \<Rightarrow> Inl (PyError ''ValueError''))"
| "py_float float_of _ = Inl (PyError ''TypeError'')"

text \<open>\<^verbatim>\<open>list(v)\<close> for a JSON value.\<close>

fun py_list :: "json \<Rightarrow> exn + json list" where
  "py_list (JList xs) = Inr xs"
| "py_list (JStr s) = Inr (map (\<lambda>c. JStr [c]) s)"
| "py_list (JObj d) = Inr (map (\<lambda>kv. JStr (fst kv)) d)"
| "py_list _ = Inl (PyError ''TypeError'')"

subsection \<open>Datetimes\<close>

text \<open>A datetime counts microseconds. An aware one carries its offset from UTC.\<close>

datatype pydatetime = Naive int | Aware int int

fun as_utc :: "pydatetime \<Rightarrow> int" where
  "as_utc (Naive t) = t"
| "as_utc (Aware t off) = t - off"

text \<open>\<^verbatim>\<open>a <= b\<close> raises TypeError when only one of the two is aware.\<close>

fun dt_le :: "pydatetime \<Rightarrow> pydatetime \<Rightarrow> exn + bool" where
  "dt_le (Naive a) (Naive b) = Inr (a \<le> b)"
| "dt_le (Aware a x) (Aware b y) = Inr (a - x \<le> b - y)"
| "dt_le _ _ = Inl (PyError ''TypeError'')"

definition hour :: int where
  "hour = 3600 * 1000000"

subsection \<open>Rounding\<close>

text \<open>\<^verbatim>\<open>round(x, n)\<close> rounds half to even.\<close>

definition round_even :: "rat \<Rightarrow> int" where
  "round_even x =
     (let f = \<lfloor>x\<rfloor>; d = x - of_int f in
      if d < 1 / 2 then f
      else if 1 / 2 < d then f + 1
      else if even f then f else f + 1)"

definition py_round :: "rat \<Rightarrow> nat \<Rightarrow> rat" where
  "py_round x n = of_int (round_even (x * 10 ^ n)) / 10 ^ n"

subsection \<open>Facts\<close>

lemma map_of_dict_set [simp]: "map_of (dict_set d k v) = (map_of d)(k \<mapsto> v)"
  by (induction d) (auto simp: fun_eq_iff)

lemma dict_get_set [simp]: "dict_get (dict_set d k v) k' w = (if k' = k then v else dict_get d k' w)"
  by (simp add: dict_get_def)

lemma keys_dict_set: "map fst (dict_set d k v) = (if k \<in> fst ` set d then map fst d else map fst d @ [k])"
  by (induction d) (auto, metis fst_conv image_eqI)

lemma distinct_dict_set [simp]: "distinct (map fst d) \<Longrightarrow> distinct (map fst (dict_set d k v))"
  by (simp add: keys_dict_set)

lemma map_of_dict_update: "distinct (map fst e) \<Longrightarrow> map_of (dict_update d e) = map_of d ++ map_of e"
proof (induction e arbitrary: d)
  case Nil
  then show ?case by (simp add: dict_update_def)
next
  case (Cons kv e)
  obtain k v where kv: "kv = (k, v)" by (cases kv)
  from Cons.prems kv have "k \<notin> dom (map_of e)"
    by (simp add: dom_map_of_conv_image_fst)
  then have k: "map_of e k = None" by (simp add: domIff)
  have "map_of (dict_update (dict_set d k v) e) = map_of (dict_set d k v) ++ map_of e"
    using Cons by simp
  with kv k show ?case
    by (auto simp: dict_update_def map_add_def fun_eq_iff split: option.splits)
qed

lemma upper_char_lower: "upper_char (upper_char c) = upper_char c"
  by (auto simp: upper_char_def Let_def)

lemma py_upper_idem [simp]: "py_upper (py_upper s) = py_upper s"
  by (simp add: py_upper_def upper_char_lower)

lemma lower_char_idem: "lower_char (lower_char c) = lower_char c"
  by (auto simp: lower_char_def Let_def)

lemma py_lower_idem [simp]: "py_lower (py_lower s) = py_lower s"
  by (simp add: py_lower_def lower_char_idem)

lemma strip_by_none: "\<forall>c \<in> set s. \<not> p c \<Longrightarrow> strip_by p s = s"
proof -
  assume s: "\<forall>c \<in> set s. \<not> p c"
  then have "dropWhile p s = s" "dropWhile p (rev s) = rev s"
    by (auto simp: dropWhile_eq_self_iff hd_rev)
  then show ?thesis by (simp add: strip_by_def)
qed

lemma round_even_of_int [simp]: "round_even (of_int n) = n"
  by (simp add: round_even_def)

lemma round_even_bounds: "of_int (round_even x) - 1 / 2 \<le> x" "x \<le> of_int (round_even x) + 1 / 2"
  by (auto simp: round_even_def Let_def split: if_splits) linarith+

lemma round_even_mono_int: "of_int n \<le> x \<Longrightarrow> n \<le> round_even x"
  by (auto simp: round_even_def Let_def le_floor_iff intro: add_increasing2)

lemma round_even_le_int: "x \<le> of_int n \<Longrightarrow> round_even x \<le> n"
proof -
  assume x: "x \<le> of_int n"
  have "(of_int (round_even x) :: rat) < of_int (n + 1)"
    unfolding of_int_add of_int_1 using round_even_bounds(1) [of x] x by linarith
  then show ?thesis by (simp only: of_int_less_iff)
qed

text \<open>Case distinctions on values and exceptions, for the two collections of rules.\<close>

lemma keeps_json [keeps_intros]:
  "(\<And>d. keeps P (m d)) \<Longrightarrow> keeps P n \<Longrightarrow> keeps P (case j of JObj d \<Rightarrow> m d | _ \<Rightarrow> n)"
  by (cases j) auto

lemma frames_json [frames_intros]:
  "(\<And>d. frames f (m d)) \<Longrightarrow> frames f n \<Longrightarrow> frames f (case j of JObj d \<Rightarrow> m d | _ \<Rightarrow> n)"
  by (cases j) auto

lemma keeps_list [keeps_intros]:
  "keeps P m \<Longrightarrow> (\<And>x xs. keeps P (n x xs)) \<Longrightarrow> keeps P (case l of [] \<Rightarrow> m | x # xs \<Rightarrow> n x xs)"
  by (cases l) auto

lemma frames_list [frames_intros]:
  "frames f m \<Longrightarrow> (\<And>x xs. frames f (n x xs)) \<Longrightarrow> frames f (case l of [] \<Rightarrow> m | x # xs \<Rightarrow> n x xs)"
  by (cases l) auto

lemma keeps_broker_error [keeps_intros]:
  "(\<And>c s r. keeps P (m c s r)) \<Longrightarrow> keeps P n \<Longrightarrow>
   keeps P (case e of MockBrokerError c s r \<Rightarrow> m c s r | _ \<Rightarrow> n)"
  by (cases e) auto

lemma frames_broker_error [frames_intros]:
  "(\<And>c s r. frames f (m c s r)) \<Longrightarrow> frames f n \<Longrightarrow>
   frames f (case e of MockBrokerError c s r \<Rightarrow> m c s r | _ \<Rightarrow> n)"
  by (cases e) auto

end
