(* ===== verification/Tables.thy ===== *)
theory Tables
  imports PyValues
begin

text \<open>
  The tables of \<^verbatim>\<open>app/models/\<close>: one record per mapped class, with the columns as fields (a
  short prefix keeps the names apart), and the database as one list of rows per table, oldest
  row first. Row ids are the numbers uuid4 gives; instants are microseconds in UTC.
\<close>

type_synonym uuid = nat
type_synonym instant = int

subsection \<open>Clients, users, subscriptions\<close>

datatype user_role = RoleClient | RoleAdmin | RoleOps | RoleReadonly

record client =
  cl_id :: uuid
  cl_name :: string
  cl_status :: string

record user =
  u_id :: uuid
  u_client_id :: "uuid option"
  u_email :: string
  u_role :: user_role
  u_password_hash :: "string option"
  u_is_active :: bool

record subscription =
  su_id :: uuid
  su_client_id :: uuid
  su_status :: string
  su_starts_at :: instant
  su_ends_at :: instant
  su_teardown_mode :: string
  su_teardown_completed_at :: "instant option"

subsection \<open>Broker accounts and their sessions\<close>

record broker_account =
  ba_id :: uuid
  ba_client_id :: uuid
  ba_provider_type :: string
  ba_display_name :: string
  ba_priority :: int
  ba_enabled :: bool
  ba_allowed_regions :: "string list"
  ba_capabilities :: dict
  ba_credentials :: string
  ba_rate_limit_rps :: "rat option"

record broker_session =
  bs_id :: uuid
  bs_broker :: uuid
  bs_access_token :: "string option"
  bs_refresh_token :: "string option"
  bs_expires_at :: "instant option"
  bs_status :: string
  bs_updated_at :: instant

subsection \<open>Instances, static IPs, assignments\<close>

record infra_instance =
  in_id :: uuid
  in_client_id :: uuid
  in_provider :: string
  in_external_id :: string
  in_region :: string
  in_status :: string
  in_auto_renew :: bool
  in_metadata :: dict
  in_created_at :: instant

record static_ip =
  ip_id :: uuid
  ip_provider :: string
  ip_external_id :: string
  ip_address :: string
  ip_region :: string
  ip_status :: string
  ip_instance_id :: "uuid option"
  ip_health_score :: "int option"
  ip_metadata :: dict
  ip_created_at :: instant

record ip_assignment =
  as_id :: uuid
  as_client_id :: uuid
  as_broker :: uuid
  as_ip :: uuid
  as_status :: string
  as_assigned_at :: instant
  as_released_at :: "instant option"

record ip_usage =
  us_id :: uuid
  us_broker :: uuid
  us_ip :: uuid
  us_used_at :: instant
  us_released_at :: "instant option"
  us_eligible_at :: "instant option"

subsection \<open>Orders\<close>

record order =
  o_id :: uuid
  o_client_id :: uuid
  o_client_order_id :: string
  o_side :: string
  o_symbol :: string
  o_quantity :: rat
  o_order_type :: string
  o_time_in_force :: string
  o_status :: string
  o_broker :: "uuid option"
  o_static_ip :: "uuid option"
  o_preferred_broker :: "uuid option"
  o_region_preference :: "string option"
  o_error_code :: "string option"
  o_broker_order_id :: "string option"
  o_created_at :: instant
  o_updated_at :: instant

record order_attempt =
  oa_id :: uuid
  oa_order :: uuid
  oa_attempt_no :: int
  oa_broker :: uuid
  oa_static_ip :: "uuid option"
  oa_status :: string
  oa_broker_order_id :: "string option"
  oa_request :: dict
  oa_response :: "dict option"
  oa_error :: "string option"
  oa_idempotency_key :: "string option"

record failover_event =
  fo_id :: uuid
  fo_order :: "uuid option"
  fo_from :: uuid
  fo_to :: uuid
  fo_reason :: string
  fo_created_at :: instant

subsection \<open>Health, whitelist, outbox, configuration\<close>

record health_snapshot =
  hs_id :: uuid
  hs_broker :: uuid
  hs_latency_ms :: rat
  hs_success_rate :: rat
  hs_timeout_rate :: rat
  hs_connectivity :: bool
  hs_ip_health :: rat
  hs_score :: rat
  hs_status :: string
  hs_measured_at :: instant

record whitelist_snapshot =
  ws_id :: uuid
  ws_broker :: uuid
  ws_raw_format :: string
  ws_raw_payload :: string
  ws_ips :: "string list"
  ws_fetched_at :: instant

record whitelist_finding =
  wf_id :: uuid
  wf_broker :: uuid
  wf_ip_address :: string
  wf_finding_type :: string
  wf_expected :: bool
  wf_on_whitelist :: bool
  wf_detected_at :: instant

record outbox_event =
  ob_id :: uuid
  ob_event_type :: string
  ob_topic :: string
  ob_payload :: dict
  ob_status :: string
  ob_error :: "string option"
  ob_correlation_id :: "string option"
  ob_created_at :: instant
  ob_sent_at :: "instant option"

record config_item =
  ci_id :: uuid
  ci_key :: string
  ci_value :: dict
  ci_version :: int
  ci_updated_by :: "uuid option"

datatype provider_kind =
  PkInfrastructure | PkBrokerDefault | PkEvent | PkCache | PkLock | PkSession

datatype provider_scope = ScopeGlobal | ScopeClient

datatype provider_status = PsPending | PsActive | PsRetired | PsFailedValidation

record provider_config =
  pc_id :: uuid
  pc_kind :: provider_kind
  pc_provider_type :: string
  pc_scope_type :: provider_scope
  pc_client_id :: "uuid option"
  pc_status :: provider_status
  pc_version :: int
  pc_config_encrypted :: "string option"
  pc_config_non_secret :: dict
  pc_last_validation_status :: "string option"
  pc_last_validation_at :: "instant option"
  pc_activated_at :: "instant option"
  pc_created_by :: "uuid option"

subsection \<open>The database\<close>

record database =
  clients :: "client list"
  users :: "user list"
  subscriptions :: "subscription list"
  brokers :: "broker_account list"
  broker_sessions :: "broker_session list"
  instances :: "infra_instance list"
  static_ips :: "static_ip list"
  assignments :: "ip_assignment list"
  usages :: "ip_usage list"
  orders :: "order list"
  attempts :: "order_attempt list"
  failovers :: "failover_event list"
  snapshots :: "health_snapshot list"
  whitelists :: "whitelist_snapshot list"
  findings :: "whitelist_finding list"
  outbox :: "outbox_event list"
  config_items :: "config_item list"
  provider_configs :: "provider_config list"

definition empty_db :: database where
  "empty_db = \<lparr>clients = [], users = [], subscriptions = [], brokers = [], broker_sessions = [],
     instances = [], static_ips = [], assignments = [], usages = [], orders = [], attempts = [],
     failovers = [], snapshots = [], whitelists = [], findings = [], outbox = [],
     config_items = [], provider_configs = []\<rparr>"

subsection \<open>Selecting and updating rows\<close>

text \<open>\<^verbatim>\<open>result.scalar_one_or_none()\<close> raises when the query gives more than one row.\<close>

fun scalar_one_or_none :: "'r list \<Rightarrow> exn + 'r option" where
  "scalar_one_or_none [] = Inr None"
| "scalar_one_or_none [r] = Inr (Some r)"
| "scalar_one_or_none _ = Inl MultipleResultsFound"

text \<open>\<^verbatim>\<open>result.first()\<close>\<close>

definition first_row :: "'r list \<Rightarrow> 'r option" where
  "first_row rows = (case rows of [] \<Rightarrow> None | r # _ \<Rightarrow> Some r)"

text \<open>A select on the primary key (\<^verbatim>\<open>db.get\<close>, or a query \<^verbatim>\<open>id == x\<close>).\<close>

definition row_by :: "('r \<Rightarrow> uuid) \<Rightarrow> uuid \<Rightarrow> 'r list \<Rightarrow> 'r option" where
  "row_by key k rows = find (\<lambda>r. key r = k) rows"

text \<open>Assigning attributes of the rows a query gave: the update of those rows.\<close>

definition upd_rows :: "('r \<Rightarrow> bool) \<Rightarrow> ('r \<Rightarrow> 'r) \<Rightarrow> 'r list \<Rightarrow> 'r list" where
  "upd_rows p f rows = map (\<lambda>r. if p r then f r else r) rows"

text \<open>\<^verbatim>\<open>limit(min(max(limit, 1), 100)).offset(max(offset, 0))\<close> over the ordered rows.\<close>

definition page_of :: "int \<Rightarrow> int \<Rightarrow> 'r list \<Rightarrow> 'r list" where
  "page_of limit offset rows =
     take (nat (min (max limit 1) 100)) (drop (nat (max offset 0)) rows)"

text \<open>\<^verbatim>\<open>order_by(col.desc())\<close> and \<^verbatim>\<open>order_by(col.asc())\<close>; rows with equal keys keep
  their insertion order.\<close>

definition order_asc :: "('r \<Rightarrow> int) \<Rightarrow> 'r list \<Rightarrow> 'r list" where
  "order_asc key rows = sort_key key rows"

definition order_desc :: "('r \<Rightarrow> int) \<Rightarrow> 'r list \<Rightarrow> 'r list" where
  "order_desc key rows = sort_key (\<lambda>r. - key r) rows"

text \<open>\<^verbatim>\<open>select(col, func.count()).group_by(col)\<close>, as the dict the callers build.\<close>

fun count_by :: "string list \<Rightarrow> (string \<times> nat) list" where
  "count_by [] = []"
| "count_by (x # xs) =
     (let d = count_by xs in dict_set d x (Suc (dict_get d x 0)))"

subsection \<open>Facts\<close>

lemma row_by_SomeD: "row_by key k rows = Some r \<Longrightarrow> r \<in> set rows \<and> key r = k"
  by (auto simp: row_by_def find_Some_iff)

lemma row_by_None_iff: "row_by key k rows = None \<longleftrightarrow> (\<forall>r \<in> set rows. key r \<noteq> k)"
  by (auto simp: row_by_def find_None_iff)

lemma row_by_Nil [simp]: "row_by key k [] = None"
  by (simp add: row_by_def)

lemma row_by_Cons [simp]:
  "row_by key k (r # rows) = (if key r = k then Some r else row_by key k rows)"
  by (simp add: row_by_def)

lemma row_by_append:
  "row_by key k (xs @ ys) = (case row_by key k xs of Some r \<Rightarrow> Some r | None \<Rightarrow> row_by key k ys)"
  by (induction xs) auto

lemma set_upd_rows: "set (upd_rows p f rows) = (\<lambda>r. if p r then f r else r) ` set rows"
  by (simp add: upd_rows_def)

lemma upd_rows_Nil [simp]: "upd_rows p f [] = []"
  by (simp add: upd_rows_def)

lemma upd_rows_Cons [simp]:
  "upd_rows p f (r # rows) = (if p r then f r else r) # upd_rows p f rows"
  by (simp add: upd_rows_def)

lemma upd_rows_append [simp]: "upd_rows p f (xs @ ys) = upd_rows p f xs @ upd_rows p f ys"
  by (simp add: upd_rows_def)

lemma length_upd_rows [simp]: "length (upd_rows p f rows) = length rows"
  by (simp add: upd_rows_def)

lemma map_upd_rows:
  "(\<And>r. p r \<Longrightarrow> key (f r) = key r) \<Longrightarrow> map key (upd_rows p f rows) = map key rows"
  by (simp add: upd_rows_def)

lemma row_by_upd:
  assumes "\<And>r. key (f r) = key r"
  shows "row_by key k (upd_rows p f rows) =
    map_option (\<lambda>r. if p r then f r else r) (row_by key k rows)"
  using assms by (induction rows) auto

lemma row_by_mem:
  assumes "distinct (map key rows)" "r \<in> set rows"
  shows "row_by key (key r) rows = Some r"
  using assms by (induction rows) (auto simp: rev_image_eqI)

lemma row_by_unique:
  assumes "distinct (map key rows)" "row_by key k rows = Some r" "r' \<in> set rows" "key r' = k"
  shows "r' = r"
  using assms row_by_mem by fastforce

lemma upd_rows_none: "(\<And>r. r \<in> set rows \<Longrightarrow> \<not> p r) \<Longrightarrow> upd_rows p f rows = rows"
  by (simp add: upd_rows_def map_idI)

lemma filter_upd_rows_same:
  assumes "\<And>r. p r \<Longrightarrow> q (f r) \<longleftrightarrow> q r"
  shows "length (filter q (upd_rows p f rows)) = length (filter q rows)"
  using assms by (induction rows) auto

lemma scalar_one_or_none_Inr:
  "scalar_one_or_none rows = Inr r \<longleftrightarrow>
     (case r of None \<Rightarrow> rows = [] | Some x \<Rightarrow> rows = [x])"
  by (cases rows rule: scalar_one_or_none.cases) (auto split: option.splits)

lemma scalar_one_or_none_Inl:
  "scalar_one_or_none rows = Inl e \<longleftrightarrow> 2 \<le> length rows \<and> e = MultipleResultsFound"
  by (cases rows rule: scalar_one_or_none.cases) auto

lemma length_page_of: "length (page_of limit offset rows) \<le> 100"
  by (simp add: page_of_def)

lemma set_page_of: "set (page_of limit offset rows) \<subseteq> set rows"
  by (metis page_of_def set_drop_subset set_take_subset subset_trans)

lemma set_order_asc [simp]: "set (order_asc key rows) = set rows"
  by (simp add: order_asc_def)

lemma set_order_desc [simp]: "set (order_desc key rows) = set rows"
  by (simp add: order_desc_def)

lemma sorted_order_asc: "sorted (map key (order_asc key rows))"
  by (simp add: order_asc_def)

lemma map_of_count_by: "map_of (count_by xs) x = (if x \<in> set xs then Some (count_list xs x) else None)"
  by (induction xs arbitrary: x) (auto simp: Let_def dict_get_def count_list_0_iff split: option.splits)

end
