(* ===== verification/Paging.thy ===== *)
theory Paging
  imports Tables
begin

text \<open>
  The pagination envelope of \<^verbatim>\<open>app/schemas/pagination.py\<close>: clamping of the query
  parameters, the offset of the next page, and the model \<^verbatim>\<open>PaginatedList\<close> with its field
  bounds. The lemmas show that a client that follows \<^verbatim>\<open>next_offset\<close> sees every item once.
\<close>

definition DEFAULT_LIMIT :: int where
  "DEFAULT_LIMIT = 25"

definition MAX_LIMIT :: int where
  "MAX_LIMIT = 100"

definition clamp_limit :: "int option \<Rightarrow> int" where
  "clamp_limit limit = (case limit of None \<Rightarrow> DEFAULT_LIMIT | Some n \<Rightarrow> max 1 (min n MAX_LIMIT))"

definition clamp_offset :: "int option \<Rightarrow> int" where
  "clamp_offset offset = (case offset of None \<Rightarrow> 0 | Some n \<Rightarrow> max 0 n)"

definition next_offset :: "int \<Rightarrow> int \<Rightarrow> int \<Rightarrow> int \<Rightarrow> int option" where
  "next_offset offset limit item_count tot =
     (let nxt = offset + item_count in
      if nxt \<ge> tot \<or> item_count = 0 then None else Some nxt)"

record 'a paginated_list =
  pg_items :: "'a list"
  pg_total :: int
  pg_limit :: int
  pg_offset :: int
  pg_next_offset :: "int option"

text \<open>\<^verbatim>\<open>PaginatedList.build\<close>; the field bounds raise pydantic's ValidationError.\<close>

definition build_page :: "'a list \<Rightarrow> int \<Rightarrow> int \<Rightarrow> int \<Rightarrow> exn + 'a paginated_list" where
  "build_page its tot lmt off =
     (if tot < 0 \<or> lmt < 1 \<or> MAX_LIMIT < lmt \<or> off < 0 then Inl (PyError ''ValidationError'')
      else Inr \<lparr>pg_items = its, pg_total = tot, pg_limit = lmt, pg_offset = off,
                pg_next_offset = next_offset off lmt (int (length its)) tot\<rparr>)"

text \<open>The page a list endpoint returns: slice \<^verbatim>\<open>rows[offset : offset + limit]\<close>, total
  \<^verbatim>\<open>len(rows)\<close>, with the parameters clamped.\<close>

definition page_slice :: "int \<Rightarrow> int \<Rightarrow> 'a list \<Rightarrow> 'a list" where
  "page_slice lmt off rows = take (nat lmt) (drop (nat off) rows)"

definition page_response :: "int option \<Rightarrow> int option \<Rightarrow> 'a list \<Rightarrow> exn + 'a paginated_list" where
  "page_response lmt off rows =
     (let l = clamp_limit lmt; o' = clamp_offset off
      in build_page (page_slice l o' rows) (int (length rows)) l o')"

lemma clamp_limit_bounds: "1 \<le> clamp_limit l" "clamp_limit l \<le> MAX_LIMIT"
  by (auto simp: clamp_limit_def DEFAULT_LIMIT_def MAX_LIMIT_def split: option.splits)

lemma clamp_offset_nonneg: "0 \<le> clamp_offset off"
  by (auto simp: clamp_offset_def split: option.splits)

lemma page_response_Inr: "\<exists>p. page_response lmt off rows = Inr p"
  using clamp_limit_bounds [of lmt] clamp_offset_nonneg [of off]
  by (auto simp: page_response_def build_page_def Let_def)

lemma next_offset_grows:
  "next_offset off lmt n tot = Some m \<Longrightarrow> 0 \<le> n \<Longrightarrow> off < m \<and> m < tot \<and> m = off + n"
  by (auto simp: next_offset_def Let_def split: if_splits)

text \<open>A client that asks for the page at \<open>off\<close> and follows \<^verbatim>\<open>next_offset\<close> until it is
  null; the pages it has received, in order. \<open>fuel\<close> bounds the number of requests.\<close>

fun walk_pages :: "nat \<Rightarrow> int option \<Rightarrow> int \<Rightarrow> 'a list \<Rightarrow> 'a list option" where
  "walk_pages 0 lmt off rows = None"
| "walk_pages (Suc fuel) lmt off rows =
     (case page_response lmt (Some off) rows of
        Inl e \<Rightarrow> None
      | Inr p \<Rightarrow>
          (case pg_next_offset p of
             None \<Rightarrow> Some (pg_items p)
           | Some off' \<Rightarrow> map_option (\<lambda>rest. pg_items p @ rest) (walk_pages fuel lmt off' rows)))"

lemma page_response_at:
  "0 \<le> off \<Longrightarrow> page_response lmt (Some off) rows =
     Inr \<lparr>pg_items = page_slice (clamp_limit lmt) off rows, pg_total = int (length rows),
          pg_limit = clamp_limit lmt, pg_offset = off,
          pg_next_offset = next_offset off (clamp_limit lmt)
            (int (length (page_slice (clamp_limit lmt) off rows))) (int (length rows))\<rparr>"
  using clamp_limit_bounds [of lmt]
  by (simp add: page_response_def build_page_def Let_def clamp_offset_def)

lemma page_slice_last:
  assumes "0 \<le> off" "1 \<le> lmt"
    and "next_offset off lmt (int (length (page_slice lmt off rows))) (int (length rows)) = None"
  shows "page_slice lmt off rows = drop (nat off) rows"
  using assms by (auto simp: next_offset_def Let_def page_slice_def split: if_splits)

lemma page_slice_more:
  assumes "0 \<le> off" "1 \<le> lmt"
    and "next_offset off lmt (int (length (page_slice lmt off rows))) (int (length rows)) = Some m"
  shows "m = off + lmt" "page_slice lmt off rows @ drop (nat m) rows = drop (nat off) rows"
    "length rows - nat m < length rows - nat off"
proof -
  have m: "m = off + int (length (page_slice lmt off rows))" "m < int (length rows)"
    using assms(3) by (auto simp: next_offset_def Let_def split: if_splits)
  then show "m = off + lmt"
    using assms(1,2) by (auto simp: page_slice_def min_def split: if_splits)
  then have "nat m = nat lmt + nat off"
    using assms(1,2) by simp
  then show "page_slice lmt off rows @ drop (nat m) rows = drop (nat off) rows"
    by (simp add: page_slice_def flip: drop_drop)
  show "length rows - nat m < length rows - nat off"
    using assms(1,2) m(2) \<open>m = off + lmt\<close> by linarith
qed

lemma walk_pages_from:
  "0 \<le> off \<Longrightarrow> length rows - nat off < fuel \<Longrightarrow>
   walk_pages fuel lmt off rows = Some (drop (nat off) rows)"
proof (induction fuel arbitrary: off)
  case (Suc fuel)
  note lmt = clamp_limit_bounds(1) [of lmt]
  show ?case
  proof (cases "next_offset off (clamp_limit lmt)
      (int (length (page_slice (clamp_limit lmt) off rows))) (int (length rows))")
    case None
    then show ?thesis
      using page_slice_last [OF Suc.prems(1) lmt None]
      by (simp add: page_response_at Suc.prems(1))
  next
    case (Some m)
    note more = page_slice_more [OF Suc.prems(1) lmt Some]
    have "walk_pages fuel lmt m rows = Some (drop (nat m) rows)"
      using Suc.prems more(1,3) lmt by (intro Suc.IH) auto
    then show ?thesis
      using Some more(2) by (simp add: page_response_at Suc.prems(1))
  qed
qed simp

end
