(* ===== verification/Faults.thy ===== *)
theory Faults
  imports Paging
begin

text \<open>
  The chaos switchboard of \<^verbatim>\<open>app/sim/flags.py\<close>: three named faults that the mock adapters
  read at call time, and a bounded history of the toggles. The texts \<^verbatim>\<open>label\<close> and
  \<^verbatim>\<open>affects\<close> are left out. The module lock makes each operation one step.
\<close>

record fault =
  f_id :: string
  f_enabled :: bool
  f_target :: string
  f_code :: string
  f_status :: int
  f_retryable :: "bool option"  \<comment> \<open>the infrastructure profile has no such key\<close>

record toggle =
  t_at :: instant
  t_action :: string
  t_fault_id :: string

record flags =
  fl_faults :: "(string \<times> fault) list"
  fl_history :: "toggle list"

definition initial_faults :: "(string \<times> fault) list" where
  "initial_faults =
     [(''broker_unavailable'',
       \<lparr>f_id = ''broker_unavailable'', f_enabled = False, f_target = ''broker'',
        f_code = ''BROKER_UNAVAILABLE'', f_status = 503, f_retryable = Some True\<rparr>),
      (''broker_reject'',
       \<lparr>f_id = ''broker_reject'', f_enabled = False, f_target = ''broker'',
        f_code = ''BROKER_REJECT'', f_status = 400, f_retryable = Some False\<rparr>),
      (''infra_probe_fail'',
       \<lparr>f_id = ''infra_probe_fail'', f_enabled = False, f_target = ''infra'',
        f_code = ''INFRA_UNAVAILABLE'', f_status = 503, f_retryable = None\<rparr>)]"

definition initial_flags :: flags where
  "initial_flags = \<lparr>fl_faults = initial_faults, fl_history = []\<rparr>"

definition list_faults :: "flags \<Rightarrow> fault list" where
  "list_faults F = map snd (fl_faults F)"

definition is_enabled :: "flags \<Rightarrow> string \<Rightarrow> bool" where
  "is_enabled F fid = (case map_of (fl_faults F) fid of None \<Rightarrow> False | Some row \<Rightarrow> f_enabled row)"

definition broker_faults :: "string list" where
  "broker_faults = [''broker_unavailable'', ''broker_reject'']"

text \<open>The first enabled broker fault in the order of the tuple.\<close>

definition active_broker_fault :: "flags \<Rightarrow> fault option" where
  "active_broker_fault F =
     (case filter (is_enabled F) broker_faults of
        [] \<Rightarrow> None
      | key # _ \<Rightarrow> map_of (fl_faults F) key)"

definition infra_fault_enabled :: "flags \<Rightarrow> bool" where
  "infra_fault_enabled F = is_enabled F ''infra_probe_fail''"

text \<open>\<^verbatim>\<open>items[offset : offset + limit]\<close>; the callers pass clamped, non-negative values.\<close>

definition get_fault_history :: "int \<Rightarrow> int \<Rightarrow> flags \<Rightarrow> toggle list \<times> nat" where
  "get_fault_history lmt off F =
     (let its = rev (fl_history F) in (page_slice lmt off its, length its))"

text \<open>\<^verbatim>\<open>del _history[:-200]\<close> once there are more than 200.\<close>

definition trim_history :: "toggle list \<Rightarrow> toggle list" where
  "trim_history h = (if length h > 200 then drop (length h - 200) h else h)"

definition record_toggle :: "instant \<Rightarrow> string \<Rightarrow> string \<Rightarrow> flags \<Rightarrow> flags" where
  "record_toggle now action fid F =
     F\<lparr>fl_history := trim_history (fl_history F @ [\<lparr>t_at = now, t_action = action, t_fault_id = fid\<rparr>])\<rparr>"

definition set_flag :: "string \<Rightarrow> bool \<Rightarrow> (string \<times> fault) list \<Rightarrow> (string \<times> fault) list" where
  "set_flag fid b fs = map (\<lambda>(k, row). (k, if k = fid then row\<lparr>f_enabled := b\<rparr> else row)) fs"

definition set_enabled :: "instant \<Rightarrow> string \<Rightarrow> bool \<Rightarrow> flags \<Rightarrow> (exn + fault) \<times> flags" where
  "set_enabled now fid enabled F =
     (if fid \<notin> fst ` set (fl_faults F) then (Inl (PyError ''KeyError''), F)
      else
        let fs1 = (if enabled \<and> fid \<in> set broker_faults
                   then foldl (\<lambda>fs other. if other \<noteq> fid then set_flag other False fs else fs)
                          (fl_faults F) broker_faults
                   else fl_faults F);
            fs2 = set_flag fid enabled fs1
        in (Inr (the (map_of fs2 fid)),
            record_toggle now (if enabled then ''enable'' else ''disable'') fid
              (F\<lparr>fl_faults := fs2\<rparr>)))"

definition clear_all :: "instant \<Rightarrow> flags \<Rightarrow> fault list \<times> flags" where
  "clear_all now F =
     (let new = [\<lparr>t_at = now, t_action = ''disable'', t_fault_id = f_id row\<rparr>.
                  (k, row) \<leftarrow> fl_faults F, f_enabled row];
          F' = \<lparr>fl_faults = map (\<lambda>(k, row). (k, row\<lparr>f_enabled := False\<rparr>)) (fl_faults F),
                fl_history = trim_history (fl_history F @ new)\<rparr>
      in (list_faults F', F'))"

definition reset_for_tests :: "flags \<Rightarrow> flags" where
  "reset_for_tests F =
     \<lparr>fl_faults = map (\<lambda>(k, row). (k, row\<lparr>f_enabled := False\<rparr>)) (fl_faults F), fl_history = []\<rparr>"

subsection \<open>The switchboard invariant\<close>

text \<open>The profiles are the three of the module up to the switch, at most one broker fault is on,
  and the history is bounded.\<close>

definition flags_ok :: "flags \<Rightarrow> bool" where
  "flags_ok F \<longleftrightarrow>
     map (\<lambda>(k, row). (k, row\<lparr>f_enabled := False\<rparr>)) (fl_faults F) = initial_faults \<and>
     \<not> (is_enabled F ''broker_unavailable'' \<and> is_enabled F ''broker_reject'') \<and>
     length (fl_history F) \<le> 200"

lemma length_trim_history [simp]: "length (trim_history h) \<le> 200"
  by (simp add: trim_history_def)

lemma map_of_set_flag:
  "map_of (set_flag fid b fs) k = map_option (\<lambda>row. if k = fid then row\<lparr>f_enabled := b\<rparr> else row) (map_of fs k)"
  by (induction fs) (auto simp: set_flag_def)

lemma keys_set_flag [simp]: "map fst (set_flag fid b fs) = map fst fs"
  by (induction fs) (auto simp: set_flag_def)

lemma blank_set_flag [simp]:
  "map (\<lambda>(k, row). (k, row\<lparr>f_enabled := False\<rparr>)) (set_flag fid b fs) =
   map (\<lambda>(k, row). (k, row\<lparr>f_enabled := False\<rparr>)) fs"
  by (induction fs) (auto simp: set_flag_def)

lemma is_enabled_set_flag:
  "is_enabled (F\<lparr>fl_faults := set_flag fid b fs\<rparr>) k =
   (if k = fid then b \<and> fid \<in> dom (map_of fs) else is_enabled (F\<lparr>fl_faults := fs\<rparr>) k)"
  by (auto simp: is_enabled_def map_of_set_flag split: option.splits)

lemma record_toggle_simps [simp]:
  "fl_faults (record_toggle now a fid F) = fl_faults F"
  "is_enabled (record_toggle now a fid F) k = is_enabled F k"
  "length (fl_history (record_toggle now a fid F)) \<le> 200"
  by (simp_all add: record_toggle_def is_enabled_def)

lemma flags_ok_initial: "flags_ok initial_flags"
  by (simp add: flags_ok_def initial_flags_def initial_faults_def is_enabled_def)

lemma flags_ok_keys: "flags_ok F \<Longrightarrow> map fst (fl_faults F) = map fst initial_faults"
proof -
  assume "flags_ok F"
  then have "map fst (map (\<lambda>(k, row). (k, row\<lparr>f_enabled := False\<rparr>)) (fl_faults F)) = map fst initial_faults"
    by (simp add: flags_ok_def)
  then show ?thesis by (simp add: comp_def case_prod_beta)
qed

lemma flags_ok_keys_set: "flags_ok F \<Longrightarrow> fst ` set (fl_faults F) = fst ` set initial_faults"
  by (metis flags_ok_keys list.set_map)

lemma set_enabled_cases:
  obtains (unknown) "fid \<notin> fst ` set (fl_faults F)"
      "set_enabled now fid b F = (Inl (PyError ''KeyError''), F)"
    | (on) fs where "fid \<in> fst ` set (fl_faults F)" "b" "fid \<in> set broker_faults"
      "fs = set_flag fid True (set_flag (if fid = ''broker_reject'' then ''broker_unavailable''
              else ''broker_reject'') False (fl_faults F))"
      "set_enabled now fid b F =
        (Inr (the (map_of fs fid)), record_toggle now ''enable'' fid (F\<lparr>fl_faults := fs\<rparr>))"
    | (other) fs where "fid \<in> fst ` set (fl_faults F)" "\<not> (b \<and> fid \<in> set broker_faults)"
      "fs = set_flag fid b (fl_faults F)"
      "set_enabled now fid b F =
        (Inr (the (map_of fs fid)),
         record_toggle now (if b then ''enable'' else ''disable'') fid (F\<lparr>fl_faults := fs\<rparr>))"
  by (cases "fid \<in> fst ` set (fl_faults F)"; cases "b \<and> fid \<in> set broker_faults")
     (auto simp: set_enabled_def Let_def broker_faults_def)

lemma set_enabled_ok: "flags_ok F \<Longrightarrow> flags_ok (snd (set_enabled now fid b F))"
  by (cases rule: set_enabled_cases [of fid F now b])
     (auto simp: flags_ok_def is_enabled_set_flag broker_faults_def)

lemma clear_all_off: "\<not> is_enabled (snd (clear_all now F)) k"
proof -
  have "map_of (map (\<lambda>(k, row). (k, row\<lparr>f_enabled := False\<rparr>)) fs) k =
      map_option (\<lambda>row. row\<lparr>f_enabled := False\<rparr>) (map_of fs k)" for fs :: "(string \<times> fault) list"
    by (induction fs) auto
  then show ?thesis
    by (simp add: clear_all_def Let_def is_enabled_def split: option.splits)
qed

lemma clear_all_ok: "flags_ok F \<Longrightarrow> flags_ok (snd (clear_all now F))"
proof -
  assume "flags_ok F"
  moreover have "map (\<lambda>(k, row). (k, row\<lparr>f_enabled := False\<rparr>)) (fl_faults (snd (clear_all now F))) =
      map (\<lambda>(k, row). (k, row\<lparr>f_enabled := False\<rparr>)) (fl_faults F)"
    by (simp add: clear_all_def Let_def comp_def case_prod_beta)
  moreover have "length (fl_history (snd (clear_all now F))) \<le> 200"
    by (simp add: clear_all_def Let_def)
  ultimately show ?thesis
    by (simp add: flags_ok_def clear_all_off)
qed

lemma flags_ok_row:
  assumes "flags_ok F" "map_of (fl_faults F) k = Some row"
  shows "map_of initial_faults k = Some (row\<lparr>f_enabled := False\<rparr>)"
proof -
  have "map_of (map (\<lambda>(k, row). (k, row\<lparr>f_enabled := False\<rparr>)) fs) k =
      map_option (\<lambda>row. row\<lparr>f_enabled := False\<rparr>) (map_of fs k)" for fs :: "(string \<times> fault) list"
    by (induction fs) auto
  from this [of "fl_faults F"] assms show ?thesis by (simp add: flags_ok_def)
qed

text \<open>What the adapters see: the enabled profile, with its fixed code and retryability.\<close>

lemma active_broker_fault_iff:
  assumes "flags_ok F"
  shows "active_broker_fault F = Some row \<longleftrightarrow>
    (\<exists>k \<in> set broker_faults. is_enabled F k \<and> map_of (fl_faults F) k = Some row)"
  using assms unfolding flags_ok_def
  by (auto simp: active_broker_fault_def broker_faults_def is_enabled_def split: option.splits)

lemma active_broker_fault_None:
  "active_broker_fault F = None \<longleftrightarrow> (\<forall>k \<in> set broker_faults. \<not> is_enabled F k)"
  by (auto simp: active_broker_fault_def broker_faults_def is_enabled_def split: option.splits)

end
