(* ===== verification/Redis.thy ===== *)
theory Redis
  imports PyValues "HOL-Library.Multiset"
begin

text \<open>
  The Redis client as the adapters of \<^verbatim>\<open>app/providers/redis_adapters.py\<close> use it. The server is
  not part of the repository: its commands are the fields of \<open>redis_ops\<close>, a parameter, over a
  server state of any type. \<open>redis_laws\<close> states the documented behaviour of the commands;
  \<open>table_server\<close> is a concrete server (keys never expire in it) for evaluating examples.
\<close>

record 'r redis_ops =
  rd_link :: "'r \<Rightarrow> (exn \<times> bool) option"
    \<comment> \<open>the exception the next call raises, and whether the server had executed it by then\<close>
  rd_get :: "string \<Rightarrow> 'r \<Rightarrow> string option"
  rd_set :: "string \<Rightarrow> string \<Rightarrow> int option \<Rightarrow> 'r \<Rightarrow> 'r"  \<comment> \<open>SET key value [EX ttl]\<close>
  rd_set_nx_px :: "string \<Rightarrow> string \<Rightarrow> int \<Rightarrow> 'r \<Rightarrow> bool \<times> 'r"  \<comment> \<open>SET key value NX PX ttl\<close>
  rd_del :: "string \<Rightarrow> 'r \<Rightarrow> int \<times> 'r"
  rd_zremrangebyscore :: "string \<Rightarrow> rat \<Rightarrow> rat \<Rightarrow> 'r \<Rightarrow> 'r"
  rd_zadd :: "string \<Rightarrow> string \<Rightarrow> rat \<Rightarrow> 'r \<Rightarrow> 'r"
  rd_expire :: "string \<Rightarrow> int \<Rightarrow> 'r \<Rightarrow> 'r"
  rd_zset :: "string \<Rightarrow> 'r \<Rightarrow> (string \<times> rat) list"  \<comment> \<open>ZRANGE key WITHSCORES\<close>

definition rd_zcard :: "'r redis_ops \<Rightarrow> string \<Rightarrow> 'r \<Rightarrow> nat" where
  "rd_zcard R key r = length (rd_zset R key r)"

text \<open>One round trip: a script or a pipeline (MULTI/EXEC) is one atomic command.\<close>

definition redis_io :: "'r redis_ops \<Rightarrow> ('r \<Rightarrow> 'a \<times> 'r) \<Rightarrow> ('r, exn, 'a) act" where
  "redis_io R cmd r =
     (case rd_link R r of
        None \<Rightarrow> (case cmd r of (x, r') \<Rightarrow> (Inr x, r'))
      | Some (e, applied) \<Rightarrow> (Inl e, if applied then snd (cmd r) else r))"

text \<open>\<^verbatim>\<open>@_redis_call\<close>: connection failures become RedisUnavailableError.\<close>

definition connection_failure :: "exn \<Rightarrow> bool" where
  "connection_failure e \<longleftrightarrow>
     e \<in> {PyError ''RedisError'', PyError ''ConnectionError'', PyError ''TimeoutError'', PyError ''OSError''}"

definition redis_call :: "('r, exn, 'a) act \<Rightarrow> ('r, exn, 'a) act" where
  "redis_call m = tryA m (\<lambda>e. if connection_failure e then raise RedisUnavailableError else raise e)"

definition redis_laws :: "'r redis_ops \<Rightarrow> bool" where
  "redis_laws R \<longleftrightarrow>
     (\<forall>r k v ttl. fst (rd_set_nx_px R k v ttl r) = (rd_get R k r = None) \<and>
        (\<forall>k'. rd_get R k' (snd (rd_set_nx_px R k v ttl r)) =
           (if k' = k \<and> rd_get R k r = None then Some v else rd_get R k' r))) \<and>
     (\<forall>r k v ttl k'. rd_get R k' (rd_set R k v ttl r) = (if k' = k then Some v else rd_get R k' r)) \<and>
     (\<forall>r k. fst (rd_del R k r) = (if rd_get R k r = None then 0 else 1) \<and>
        (\<forall>k'. rd_get R k' (snd (rd_del R k r)) = (if k' = k then None else rd_get R k' r))) \<and>
     (\<forall>r k lo hi k'. rd_zset R k' (rd_zremrangebyscore R k lo hi r) =
        (if k' = k then filter (\<lambda>(m, x). \<not> (lo \<le> x \<and> x \<le> hi)) (rd_zset R k r) else rd_zset R k' r)) \<and>
     (\<forall>r k m x k'. mset (rd_zset R k' (rd_zadd R k m x r)) =
        mset (if k' = k then dict_set (rd_zset R k r) m x else rd_zset R k' r)) \<and>
     (\<forall>r k n k'. rd_zset R k' (rd_expire R k n r) = rd_zset R k' r)"

lemma redis_io_Inr:
  "redis_io R cmd r = (Inr x, r') \<longleftrightarrow> rd_link R r = None \<and> cmd r = (x, r')"
  by (auto simp: redis_io_def split: option.splits prod.splits)

lemma redis_io_cases:
  obtains (replied) x r' where "redis_io R cmd r = (Inr x, r')" "cmd r = (x, r')"
    | (lost) e where "redis_io R cmd r = (Inl e, snd (cmd r))"
    | (failed) e where "redis_io R cmd r = (Inl e, r)"
  by (cases "rd_link R r"; cases "cmd r"; cases "snd (the (rd_link R r))")
     (auto simp: redis_io_def)

lemma redis_call_Inr [simp]: "redis_call m r = (Inr x, r') \<longleftrightarrow> m r = (Inr x, r')"
  by (auto simp: redis_call_def tryA_Inr)

lemma snd_redis_call [simp]: "snd (redis_call m r) = snd (m r)"
  by (auto simp: redis_call_def tryA_def raise_def split: prod.splits sum.splits)

lemma redis_call_never_connection:
  "redis_call m r = (Inl e, r') \<Longrightarrow> \<not> connection_failure e"
  by (auto simp: redis_call_def tryA_Inl connection_failure_def split: if_splits)

lemma redis_nx:
  assumes "redis_laws R"
  shows "fst (rd_set_nx_px R k v ttl r) \<longleftrightarrow> rd_get R k r = None"
    "rd_get R k' (snd (rd_set_nx_px R k v ttl r)) =
      (if k' = k \<and> rd_get R k r = None then Some v else rd_get R k' r)"
  using assms by (simp_all add: redis_laws_def)

lemma redis_del:
  assumes "redis_laws R"
  shows "fst (rd_del R k r) = (if rd_get R k r = None then 0 else 1)"
    "rd_get R k' (snd (rd_del R k r)) = (if k' = k then None else rd_get R k' r)"
  using assms by (simp_all add: redis_laws_def)

lemma redis_set:
  "redis_laws R \<Longrightarrow> rd_get R k' (rd_set R k v ttl r) = (if k' = k then Some v else rd_get R k' r)"
  by (simp add: redis_laws_def)

lemma redis_zsets:
  assumes "redis_laws R"
  shows "rd_zset R k' (rd_zremrangebyscore R k lo hi r) =
      (if k' = k then filter (\<lambda>(m, x). \<not> (lo \<le> x \<and> x \<le> hi)) (rd_zset R k r) else rd_zset R k' r)"
    "mset (rd_zset R k' (rd_zadd R k m x r)) =
      mset (if k' = k then dict_set (rd_zset R k r) m x else rd_zset R k' r)"
    "rd_zset R k' (rd_expire R k n r) = rd_zset R k' r"
  using assms by (simp_all add: redis_laws_def)

subsection \<open>A server for the examples\<close>

record table =
  tb_link :: "(exn \<times> bool) option"
  tb_strings :: "(string \<times> string) list"
  tb_zsets :: "string \<Rightarrow> (string \<times> rat) list"

definition empty_table :: table where
  "empty_table = \<lparr>tb_link = None, tb_strings = [], tb_zsets = (\<lambda>_. [])\<rparr>"

definition table_server :: "table redis_ops" where
  "table_server =
     \<lparr>rd_link = tb_link,
      rd_get = (\<lambda>k r. map_of (tb_strings r) k),
      rd_set = (\<lambda>k v ttl r. r\<lparr>tb_strings := dict_set (tb_strings r) k v\<rparr>),
      rd_set_nx_px = (\<lambda>k v ttl r.
        if map_of (tb_strings r) k = None then (True, r\<lparr>tb_strings := dict_set (tb_strings r) k v\<rparr>)
        else (False, r)),
      rd_del = (\<lambda>k r.
        (if map_of (tb_strings r) k = None then 0 else 1,
         r\<lparr>tb_strings := filter (\<lambda>(k', v). k' \<noteq> k) (tb_strings r)\<rparr>)),
      rd_zremrangebyscore = (\<lambda>k lo hi r.
        r\<lparr>tb_zsets := (tb_zsets r)(k := filter (\<lambda>(m, x). \<not> (lo \<le> x \<and> x \<le> hi)) (tb_zsets r k))\<rparr>),
      rd_zadd = (\<lambda>k m x r. r\<lparr>tb_zsets := (tb_zsets r)(k := dict_set (tb_zsets r k) m x)\<rparr>),
      rd_expire = (\<lambda>k n r. r),
      rd_zset = (\<lambda>k r. tb_zsets r k)\<rparr>"

lemma map_of_filter_key: "map_of (filter (\<lambda>(k', v). k' \<noteq> k) d) j = (if j = k then None else map_of d j)"
  by (induction d) auto

lemma table_server_laws: "redis_laws table_server"
  by (auto simp: redis_laws_def table_server_def map_of_filter_key)

end
