(* ===== verification/Locks.thy ===== *)
theory Locks
  imports Redis
begin

text \<open>
  The lock providers (\<^verbatim>\<open>MemoryLock\<close>, \<^verbatim>\<open>RedisLock\<close>) and the wrappers of
  \<^verbatim>\<open>app/core/redis_deps.py\<close> the services call. The locale \<open>lock_provider\<close> is the contract of
  \<^verbatim>\<open>LockProvider\<close>; mutual exclusion is proved in it once and holds for both.
\<close>

subsection \<open>In memory\<close>

text \<open>\<^verbatim>\<open>_locks\<close>: key to holding token. The TTL is ignored: an entry never expires.\<close>

type_synonym memory_lock = "string \<rightharpoonup> string"

definition memory_acquire :: "string \<Rightarrow> rat \<Rightarrow> string \<Rightarrow> (memory_lock, exn, bool) act" where
  "memory_acquire key ttl token L =
     (case L key of
        None \<Rightarrow> (Inr True, L(key \<mapsto> token))
      | Some t \<Rightarrow> if t \<noteq> token then (Inr False, L) else (Inr True, L(key \<mapsto> token)))"

definition memory_release :: "string \<Rightarrow> string \<Rightarrow> (memory_lock, exn, bool) act" where
  "memory_release key token L =
     (if L key \<noteq> Some token then (Inr False, L) else (Inr True, L(key := None)))"

subsection \<open>In Redis\<close>

text \<open>\<^verbatim>\<open>int(ttl_seconds * 1000)\<close>, at least 1, as the expiry in milliseconds.\<close>

definition ttl_ms :: "rat \<Rightarrow> int" where
  "ttl_ms ttl = max 1 (if 0 \<le> ttl then \<lfloor>ttl * 1000\<rfloor> else \<lceil>ttl * 1000\<rceil>)"

definition redis_acquire ::
  "'r redis_ops \<Rightarrow> string \<Rightarrow> rat \<Rightarrow> string \<Rightarrow> ('r, exn, bool) act" where
  "redis_acquire R key ttl token = redis_call (redis_io R (rd_set_nx_px R key token (ttl_ms ttl)))"

text \<open>The Lua script of \<^verbatim>\<open>release\<close>: delete the key if it still holds the token.\<close>

definition release_script :: "'r redis_ops \<Rightarrow> string \<Rightarrow> string \<Rightarrow> 'r \<Rightarrow> int \<times> 'r" where
  "release_script R key token r = (if rd_get R key r = Some token then rd_del R key r else (0, r))"

definition redis_release :: "'r redis_ops \<Rightarrow> string \<Rightarrow> string \<Rightarrow> ('r, exn, bool) act" where
  "redis_release R key token =
     redis_call (bindA (redis_io R (release_script R key token)) (\<lambda>result. ret (result = 1)))"

subsection \<open>The contract\<close>

text \<open>
  \<open>holder s k\<close> is the token under which key \<open>k\<close> is locked. An acquire that returns True
  leaves its own token in place and found no other; no operation, returning or raising, takes a
  lock away from another token.
\<close>

locale lock_provider =
  fixes acquire :: "string \<Rightarrow> rat \<Rightarrow> string \<Rightarrow> ('s, exn, bool) act"
    and release :: "string \<Rightarrow> string \<Rightarrow> ('s, exn, bool) act"
    and holder :: "'s \<Rightarrow> string \<Rightarrow> string option"
  assumes acquire_True:
      "acquire k ttl t s = (Inr True, s') \<Longrightarrow> holder s k \<in> {None, Some t} \<and> holder s' k = Some t"
    and acquire_False:
      "acquire k ttl t s = (Inr False, s') \<Longrightarrow> holder s k \<noteq> None \<and> holder s' = holder s"
    and acquire_other:
      "holder s k' = Some t' \<Longrightarrow> holder (snd (acquire k ttl t s)) k' = Some t'"
    and acquire_only:
      "holder (snd (acquire k ttl t s)) k' = Some t' \<Longrightarrow> holder s k' = Some t' \<or> k' = k \<and> t' = t"
    and release_True:
      "release k t s = (Inr True, s') \<Longrightarrow> holder s k = Some t \<and> holder s' = (holder s)(k := None)"
    and release_False:
      "release k t s = (Inr False, s') \<Longrightarrow> holder s k \<noteq> Some t \<and> holder s' = holder s"
    and release_other:
      "holder s k' = Some t' \<Longrightarrow> k' \<noteq> k \<or> t' \<noteq> t \<Longrightarrow> holder (snd (release k t s)) k' = Some t'"
    and release_only:
      "holder (snd (release k t s)) k' = Some t' \<Longrightarrow> holder s k' = Some t'"

text \<open>The calls a population of clients makes, in the order the provider serves them.\<close>

datatype lock_call = Acquire string rat string | Release string string

definition lock_step ::
  "(string \<Rightarrow> rat \<Rightarrow> string \<Rightarrow> ('s, exn, bool) act) \<Rightarrow> (string \<Rightarrow> string \<Rightarrow> ('s, exn, bool) act) \<Rightarrow>
   lock_call \<Rightarrow> ('s, exn, bool) act" where
  "lock_step acq rel c = (case c of Acquire k ttl t \<Rightarrow> acq k ttl t | Release k t \<Rightarrow> rel k t)"

fun lock_run ::
  "(string \<Rightarrow> rat \<Rightarrow> string \<Rightarrow> ('s, exn, bool) act) \<Rightarrow> (string \<Rightarrow> string \<Rightarrow> ('s, exn, bool) act) \<Rightarrow>
   lock_call list \<Rightarrow> 's \<Rightarrow> (lock_call \<times> (exn + bool)) list \<times> 's" where
  "lock_run acq rel [] s = ([], s)"
| "lock_run acq rel (c # cs) s =
     (case lock_step acq rel c s of (r, s1) \<Rightarrow>
       (case lock_run acq rel cs s1 of (tr, s2) \<Rightarrow> ((c, r) # tr, s2)))"

context lock_provider begin

lemma step_keeps_holder:
  assumes "holder s k = Some t" "c \<noteq> Release k t"
  shows "holder (snd (lock_step acquire release c s)) k = Some t"
  using assms by (cases c) (auto simp: lock_step_def intro: acquire_other release_other)

text \<open>Between a granted acquire and the release by its own token no other token gets the key.\<close>

lemma no_second_grant:
  assumes "holder s k = Some t" "Release k t \<notin> set cs" "t' \<noteq> t"
  shows "(Acquire k ttl t', Inr True) \<notin> set (fst (lock_run acquire release cs s)) \<and>
    holder (snd (lock_run acquire release cs s)) k = Some t"
  using assms(1,2)
proof (induction cs arbitrary: s)
  case (Cons c cs)
  obtain r s1 where step: "lock_step acquire release c s = (r, s1)"
    by fastforce
  have "holder s1 k = Some t"
    using step_keeps_holder [of s k t c] Cons.prems step by auto
  with Cons.IH [of s1] Cons.prems
  have "(Acquire k ttl t', Inr True) \<notin> set (fst (lock_run acquire release cs s1)) \<and>
    holder (snd (lock_run acquire release cs s1)) k = Some t"
    by simp
  moreover have "\<not> (c = Acquire k ttl t' \<and> r = Inr True)"
    using step acquire_True [of k ttl t' s s1] Cons.prems(1) assms(3) by (auto simp: lock_step_def)
  ultimately show ?case
    using step by (auto split: prod.splits)
qed simp

lemma mutual_exclusion:
  assumes "acquire k ttl t s = (Inr True, s1)" "Release k t \<notin> set cs" "t' \<noteq> t"
  shows "(Acquire k ttl' t', Inr True) \<notin> set (fst (lock_run acquire release cs s1))"
  using assms no_second_grant acquire_True by blast

end

subsection \<open>Both providers keep the contract\<close>

interpretation memory: lock_provider memory_acquire memory_release "\<lambda>L. L"
proof
  fix k ttl t and s s' :: memory_lock
  show "memory_acquire k ttl t s = (Inr True, s') \<Longrightarrow> s k \<in> {None, Some t} \<and> s' k = Some t"
    by (cases "s k") (auto simp: memory_acquire_def split: if_splits)
qed (auto simp: memory_acquire_def memory_release_def split: if_splits option.splits)

lemma release_script_holder:
  assumes "redis_laws R"
  shows "fst (release_script R k t r) = 1 \<longleftrightarrow> rd_get R k r = Some t"
    "rd_get R k' (snd (release_script R k t r)) =
      (if k' = k \<and> rd_get R k r = Some t then None else rd_get R k' r)"
  by (simp_all add: release_script_def redis_del [OF assms])

lemma redis_acquire_snd:
  assumes "redis_laws R"
  shows "rd_get R k' (snd (redis_acquire R k ttl t r)) = rd_get R k' r \<or>
    rd_get R k' (snd (redis_acquire R k ttl t r)) =
      (if k' = k \<and> rd_get R k r = None then Some t else rd_get R k' r)"
  using redis_nx(1) [OF assms, of k t "ttl_ms ttl" r] redis_nx(2) [OF assms, of k' k t "ttl_ms ttl" r]
  by (cases rule: redis_io_cases [of R "rd_set_nx_px R k t (ttl_ms ttl)" r])
     (simp_all add: redis_acquire_def)

lemma redis_release_snd:
  assumes "redis_laws R"
  shows "rd_get R k' (snd (redis_release R k t r)) = rd_get R k' r \<or>
    rd_get R k' (snd (redis_release R k t r)) =
      (if k' = k \<and> rd_get R k r = Some t then None else rd_get R k' r)"
  using release_script_holder(1) [OF assms, of k t r] release_script_holder(2) [OF assms, of k' k t r]
  by (cases rule: redis_io_cases [of R "release_script R k t" r])
     (simp_all add: redis_release_def bindA_def ret_def)

lemma redis_acquire_result:
  assumes "redis_laws R" "redis_acquire R k ttl t r = (Inr b, r')"
  shows "b \<longleftrightarrow> rd_get R k r = None"
    "rd_get R k' r' = (if k' = k \<and> rd_get R k r = None then Some t else rd_get R k' r)"
  using assms(2) redis_nx(1) [OF assms(1), of k t "ttl_ms ttl" r] redis_nx(2) [OF assms(1), of k' k t "ttl_ms ttl" r]
  by (simp_all add: redis_acquire_def redis_io_Inr)

lemma redis_release_result:
  assumes "redis_laws R" "redis_release R k t r = (Inr b, r')"
  shows "b \<longleftrightarrow> rd_get R k r = Some t"
    "rd_get R k' r' = (if k' = k \<and> rd_get R k r = Some t then None else rd_get R k' r)"
  using assms(2) release_script_holder(1) [OF assms(1), of k t r] release_script_holder(2) [OF assms(1), of k' k t r]
  by (auto simp: redis_release_def redis_io_Inr bindA_Inr)

lemma redis_lock_provider:
  assumes R: "redis_laws R"
  shows "lock_provider (redis_acquire R) (redis_release R) (\<lambda>r k. rd_get R k r)"
proof
  fix k ttl t s s'
  show "redis_acquire R k ttl t s = (Inr True, s') \<Longrightarrow>
      rd_get R k s \<in> {None, Some t} \<and> rd_get R k s' = Some t"
    using redis_acquire_result [OF R, of k ttl t s True s'] by simp
  show "redis_acquire R k ttl t s = (Inr False, s') \<Longrightarrow>
      rd_get R k s \<noteq> None \<and> (\<lambda>k. rd_get R k s') = (\<lambda>k. rd_get R k s)"
    using redis_acquire_result [OF R, of k ttl t s False s'] by (simp add: fun_eq_iff)
  show "redis_release R k t s = (Inr True, s') \<Longrightarrow>
      rd_get R k s = Some t \<and> (\<lambda>k. rd_get R k s') = (\<lambda>k. rd_get R k s)(k := None)"
    using redis_release_result [OF R, of k t s True s'] by (simp add: fun_eq_iff)
  show "redis_release R k t s = (Inr False, s') \<Longrightarrow>
      rd_get R k s \<noteq> Some t \<and> (\<lambda>k. rd_get R k s') = (\<lambda>k. rd_get R k s)"
    using redis_release_result [OF R, of k t s False s'] by (simp add: fun_eq_iff)
next
  fix s k' t' k ttl t
  show "rd_get R k' s = Some t' \<Longrightarrow> rd_get R k' (snd (redis_acquire R k ttl t s)) = Some t'"
    using redis_acquire_snd [OF R, of k' k ttl t s] by (auto split: if_splits)
  show "rd_get R k' (snd (redis_acquire R k ttl t s)) = Some t' \<Longrightarrow>
      rd_get R k' s = Some t' \<or> k' = k \<and> t' = t"
    using redis_acquire_snd [OF R, of k' k ttl t s] by (auto split: if_splits)
  show "rd_get R k' s = Some t' \<Longrightarrow> k' \<noteq> k \<or> t' \<noteq> t \<Longrightarrow>
      rd_get R k' (snd (redis_release R k t s)) = Some t'"
    using redis_release_snd [OF R, of k' k t s] by (auto split: if_splits)
  show "rd_get R k' (snd (redis_release R k t s)) = Some t' \<Longrightarrow> rd_get R k' s = Some t'"
    using redis_release_snd [OF R, of k' k t s] by (auto split: if_splits)
qed

interpretation table_lock: lock_provider "redis_acquire table_server" "redis_release table_server"
    "\<lambda>r k. rd_get table_server k r"
  by (rule redis_lock_provider [OF table_server_laws])

end
