(* ===== verification/RateLimiters.thy ===== *)
theory RateLimiters
  imports Redis
begin

text \<open>
  The sliding-window rate limiters (\<^verbatim>\<open>MemoryRateLimit\<close>, \<^verbatim>\<open>RedisRateLimit\<close>). Times are seconds.
  The locale \<open>rate_limiter\<close> is the contract of \<^verbatim>\<open>RateLimitProvider\<close>; the bound on the calls
  admitted in any window is proved in it, for both providers.
\<close>

record rl_snapshot =
  rs_allowed :: bool
  rs_limit :: rat
  rs_used :: rat
  rs_remaining :: rat
  rs_pressure :: rat
  rs_window_seconds :: rat

definition rl_pressure :: "rat \<Rightarrow> rat \<Rightarrow> rat" where
  "rl_pressure limit used = (if limit \<le> 0 then 0 else min 20 (20 * (used / limit)))"

definition rl_snap :: "bool \<Rightarrow> rat \<Rightarrow> rat \<Rightarrow> rat \<Rightarrow> rl_snapshot" where
  "rl_snap allowed limit window used =
     \<lparr>rs_allowed = allowed, rs_limit = limit, rs_used = used, rs_remaining = max 0 (limit - used),
      rs_pressure = rl_pressure limit used, rs_window_seconds = window\<rparr>"

subsection \<open>In memory\<close>

type_synonym memory_hits = "string \<Rightarrow> rat list"  \<comment> \<open>\<^verbatim>\<open>_hits.get(key, [])\<close>\<close>

definition prune :: "string \<Rightarrow> rat \<Rightarrow> rat \<Rightarrow> memory_hits \<Rightarrow> memory_hits" where
  "prune key window now H = H(key := filter (\<lambda>t. now - t < window) (H key))"

definition memory_check ::
  "string \<Rightarrow> rat \<Rightarrow> rat \<Rightarrow> rat \<Rightarrow> (memory_hits, exn, rl_snapshot) act" where
  "memory_check key limit window now H =
     (let H' = prune key window now H; used = of_nat (length (H' key))
      in (Inr (rl_snap (used < limit) limit window used), H'))"

definition memory_consume ::
  "string \<Rightarrow> rat \<Rightarrow> rat \<Rightarrow> rat \<Rightarrow> (memory_hits, exn, rl_snapshot) act" where
  "memory_consume key limit window now H =
     (let H' = prune key window now H; hits = H' key in
      if of_nat (length hits) \<ge> limit
      then (Inr \<lparr>rs_allowed = False, rs_limit = limit, rs_used = of_nat (length hits),
                  rs_remaining = 0, rs_pressure = rl_pressure limit (of_nat (length hits)),
                  rs_window_seconds = window\<rparr>, H')
      else
        let hits' = hits @ [now]
        in (Inr (rl_snap True limit window (of_nat (length hits'))), H'(key := hits')))"

subsection \<open>In Redis\<close>

text \<open>\<open>member_of\<close> is the f-string \<^verbatim>\<open>{now}:{id(self)}:{now}\<close>. The clock is read once for the
  removal and once more for the new member; both readings are arguments.\<close>

definition redis_snapshot ::
  "'r redis_ops \<Rightarrow> string \<Rightarrow> rat \<Rightarrow> rat \<Rightarrow> rat \<Rightarrow> ('r, exn, rl_snapshot) act" where
  "redis_snapshot R key limit window now =
     bindA (redis_io R (\<lambda>r. let r1 = rd_zremrangebyscore R key 0 (now - window) r
                             in (of_nat (rd_zcard R key r1), r1)))
       (\<lambda>used. ret (rl_snap (used < limit) limit window used))"

definition redis_check ::
  "'r redis_ops \<Rightarrow> string \<Rightarrow> rat \<Rightarrow> rat \<Rightarrow> rat \<Rightarrow> ('r, exn, rl_snapshot) act" where
  "redis_check R key limit window now = redis_call (redis_snapshot R key limit window now)"

definition redis_add ::
  "'r redis_ops \<Rightarrow> (rat \<Rightarrow> string) \<Rightarrow> string \<Rightarrow> rat \<Rightarrow> rat \<Rightarrow> ('r, exn, rat) act" where
  "redis_add R member_of key window now =
     redis_io R (\<lambda>r. let r1 = rd_zadd R key (member_of now) now r;
                          r2 = rd_expire R key (max 1 (\<lfloor>window\<rfloor> + 1)) r1
                      in (of_nat (rd_zcard R key r2), r2))"

definition redis_consume ::
  "'r redis_ops \<Rightarrow> (rat \<Rightarrow> string) \<Rightarrow> string \<Rightarrow> rat \<Rightarrow> rat \<Rightarrow> rat \<Rightarrow> rat \<Rightarrow> ('r, exn, rl_snapshot) act" where
  "redis_consume R member_of key limit window now now' =
     redis_call
       (bindA (redis_snapshot R key limit window now) (\<lambda>snap.
          if \<not> rs_allowed snap then ret snap
          else bindA (redis_add R member_of key window now') (\<lambda>used.
                 ret (rl_snap True limit window used))))"

subsection \<open>The contract\<close>

text \<open>
  \<open>live s k now\<close> are the times of the calls still counted at \<open>now\<close>. A consume that is
  admitted finds fewer of them than the limit and adds its own time; a refused one and a check
  change none; a call that raises takes none away; as time goes on they only fall out of the
  window \<open>W\<close>. \<open>ok s k now\<close>: the provider can tell a call at \<open>now\<close> from the counted ones.
\<close>

locale rate_limiter =
  fixes check :: "string \<Rightarrow> rat \<Rightarrow> rat \<Rightarrow> ('s, exn, rl_snapshot) act"
    and consume :: "string \<Rightarrow> rat \<Rightarrow> rat \<Rightarrow> ('s, exn, rl_snapshot) act"
    and live :: "'s \<Rightarrow> string \<Rightarrow> rat \<Rightarrow> rat multiset"
    and ok :: "'s \<Rightarrow> string \<Rightarrow> rat \<Rightarrow> bool"
    and W :: rat
  assumes admitted:
      "consume k limit now s = (Inr snap, s') \<Longrightarrow> rs_allowed snap \<Longrightarrow>
         of_nat (size (live s k now)) < limit \<and>
         (ok s k now \<longrightarrow> live s' k now = live s k now + {#now#})"
    and refused:
      "consume k limit now s = (Inr snap, s') \<Longrightarrow> \<not> rs_allowed snap \<Longrightarrow> live s' k now = live s k now"
    and failed:
      "consume k limit now s = (Inl e, s') \<Longrightarrow> ok s k now \<Longrightarrow> live s k now \<subseteq># live s' k now"
    and checked:
      "check k limit now s = (Inr snap, s') \<Longrightarrow> live s' k now = live s k now"
    and later:
      "now \<le> now' \<Longrightarrow> live s k now' = filter_mset (\<lambda>t. now' - t < W) (live s k now)"

text \<open>The calls on one key at the given times, the latest first; the times admitted.\<close>

fun admissions ::
  "(rat \<Rightarrow> ('s, exn, rl_snapshot) act) \<Rightarrow> 's \<Rightarrow> rat list \<Rightarrow> rat list \<times> 's" where
  "admissions cons s [] = ([], s)"
| "admissions cons s (now # earlier) =
     (case admissions cons s earlier of (adm, s1) \<Rightarrow>
       (case cons now s1 of
          (Inr snap, s2) \<Rightarrow> (if rs_allowed snap then (now # adm, s2) else (adm, s2))
        | (Inl e, s2) \<Rightarrow> (adm, s2)))"

fun calls_ok ::
  "('s \<Rightarrow> rat \<Rightarrow> bool) \<Rightarrow> (rat \<Rightarrow> ('s, exn, rl_snapshot) act) \<Rightarrow> 's \<Rightarrow> rat list \<Rightarrow> bool" where
  "calls_ok ok cons s [] = True"
| "calls_ok ok cons s (now # earlier) =
     (calls_ok ok cons s earlier \<and> ok (snd (admissions cons s earlier)) now)"

definition in_window :: "rat \<Rightarrow> rat \<Rightarrow> rat list \<Rightarrow> rat list" where
  "in_window W T ts = filter (\<lambda>t. T - W < t \<and> t \<le> T) ts"

lemma in_window_latest:
  assumes "length (in_window W t ts) \<le> n" "\<forall>u \<in> set ts. u \<le> t" "t \<le> T"
  shows "length (in_window W T ts) \<le> n"
proof -
  have "in_window W T ts = filter (\<lambda>u. T - W < u) (in_window W t ts)"
    using assms(2,3) by (auto simp: in_window_def intro!: filter_cong)
  then show ?thesis using assms(1) by (metis length_filter_le order_trans)
qed

lemma length_in_window_mset:
  assumes "\<forall>u \<in> set ts. u \<le> t"
  shows "length (in_window W t ts) = size (filter_mset (\<lambda>u. t - u < W) (mset ts))"
proof -
  have "in_window W t ts = filter (\<lambda>u. t - u < W) ts"
    using assms by (auto simp: in_window_def algebra_simps intro!: filter_cong)
  then show ?thesis by (simp flip: mset_filter)
qed

lemma within_ceiling: "of_nat n < (limit :: rat) \<Longrightarrow> int (Suc n) \<le> max 0 \<lceil>limit\<rceil>"
  by (metis int_ops(4) le_max_iff_disj less_ceiling_iff of_int_of_nat_eq zless_imp_add1_zle
      add.commute)

context rate_limiter begin

text \<open>Every admitted time that is still inside the window is counted.\<close>

definition covers :: "'s \<Rightarrow> string \<Rightarrow> rat \<Rightarrow> rat list \<Rightarrow> bool" where
  "covers s k now adm \<longleftrightarrow> filter_mset (\<lambda>u. now - u < W) (mset adm) \<subseteq># live s k now"

lemma covers_later: "covers s k now adm \<Longrightarrow> now \<le> now' \<Longrightarrow> covers s k now' adm"
proof -
  assume cov: "covers s k now adm" and le: "now \<le> now'"
  have "filter_mset (\<lambda>u. now' - u < W) (mset adm) =
      filter_mset (\<lambda>u. now' - u < W) (filter_mset (\<lambda>u. now - u < W) (mset adm))"
    using le by (auto simp: filter_filter_mset intro!: filter_mset_cong)
  then show ?thesis
    using cov later [OF le, of s k] by (simp add: covers_def multiset_filter_mono)
qed

lemma admissions_step:
  assumes "covers s k now adm" "ok s k now" "consume k limit now s = (r, s')"
    and adm': "adm' = (case r of Inr snap \<Rightarrow> if rs_allowed snap then now # adm else adm | Inl e \<Rightarrow> adm)"
  shows "covers s' k now adm'"
proof (cases r)
  case (Inl e)
  then show ?thesis
    using assms failed by (auto simp: covers_def intro: subset_mset.order_trans)
next
  case (Inr snap)
  have "M \<subseteq># live s k now \<Longrightarrow> M \<subseteq># add_mset now (live s k now)" for M
    by (metis add_mset_add_single mset_subset_eq_add_left subset_mset.order_trans)
  with Inr show ?thesis
    using assms admitted [of k limit now s snap s'] refused [of k limit now s snap s']
    by (auto simp: covers_def)
qed

text \<open>At most \<open>limit\<close> calls (rounded up) are admitted in any window of length \<open>W\<close>.\<close>

lemma window_bound_aux:
  assumes "admissions (consume k limit) s ts = (adm, s')" "sorted (rev ts)"
    and "calls_ok (\<lambda>s now. ok s k now) (consume k limit) s ts"
  shows "set adm \<subseteq> set ts \<and> (\<forall>now. (\<forall>t \<in> set ts. t \<le> now) \<longrightarrow> covers s' k now adm) \<and>
    (\<forall>T. int (length (in_window W T adm)) \<le> max 0 \<lceil>limit\<rceil>)"
  using assms
proof (induction ts arbitrary: adm s')
  case Nil
  then show ?case by (simp add: covers_def in_window_def)
next
  case (Cons now ts)
  obtain adm1 s1 where ts: "admissions (consume k limit) s ts = (adm1, s1)"
    by fastforce
  obtain r s2 where step: "consume k limit now s1 = (r, s2)"
    by fastforce
  have adm: "adm = (case r of Inr snap \<Rightarrow> if rs_allowed snap then now # adm1 else adm1 | Inl e \<Rightarrow> adm1)"
    and s': "s' = s2"
    using Cons.prems(1) ts step by (auto split: sum.splits if_splits)
  have IH: "set adm1 \<subseteq> set ts" "\<And>t. \<forall>u \<in> set ts. u \<le> t \<Longrightarrow> covers s1 k t adm1"
    "\<And>T. int (length (in_window W T adm1)) \<le> max 0 \<lceil>limit\<rceil>"
    using Cons.IH [OF ts] Cons.prems(2,3) by (auto simp: sorted_append)
  have latest: "\<forall>u \<in> set ts. u \<le> now" and ok: "ok s1 k now"
    using Cons.prems(2,3) ts by (auto simp: sorted_append)
  have cov1: "covers s1 k now adm1"
    using IH(2) latest by blast
  have cov: "covers s2 k now adm"
    by (rule admissions_step [OF cov1 ok step adm])
  have sub: "set adm \<subseteq> set (now # ts)"
    using IH(1) by (auto simp: adm split: sum.splits if_splits)
  have "int (length (in_window W T adm)) \<le> max 0 \<lceil>limit\<rceil>" for T
  proof (cases "adm = adm1 \<or> T < now")
    case True
    then have "in_window W T adm = in_window W T adm1"
      by (auto simp: adm in_window_def split: sum.splits if_splits)
    then show ?thesis using IH(3) by simp
  next
    case False
    then obtain snap where r: "r = Inr snap" "rs_allowed snap" "adm = now # adm1"
      by (auto simp: adm split: sum.splits if_splits)
    have "length (in_window W now adm1) \<le> size (live s1 k now)"
      using cov1 IH(1) latest
      by (subst length_in_window_mset) (auto simp: covers_def intro: size_mset_mono)
    then have "length (in_window W now adm) \<le> Suc (size (live s1 k now))"
      by (auto simp: r(3) in_window_def)
    moreover have "\<forall>u \<in> set adm. u \<le> now"
      using sub latest by auto
    ultimately have "length (in_window W T adm) \<le> Suc (size (live s1 k now))"
      using False in_window_latest by (meson not_less)
    moreover have "of_nat (size (live s1 k now)) < limit"
      using admitted step r by blast
    ultimately show ?thesis
      using within_ceiling by (metis order_trans of_nat_le_iff)
  qed
  moreover have "covers s' k t adm" if "\<forall>u \<in> set (now # ts). u \<le> t" for t
    using covers_later [OF cov] that s' by simp
  ultimately show ?case using sub by blast
qed

lemma window_bound:
  assumes "sorted (rev ts)" "calls_ok (\<lambda>s now. ok s k now) (consume k limit) s ts"
  shows "int (length (in_window W T (fst (admissions (consume k limit) s ts)))) \<le> max 0 \<lceil>limit\<rceil>"
  using window_bound_aux [OF _ assms] by (metis prod.collapse)

end

subsection \<open>Both limiters keep the contract\<close>

definition memory_live :: "rat \<Rightarrow> memory_hits \<Rightarrow> string \<Rightarrow> rat \<Rightarrow> rat multiset" where
  "memory_live W H k now = mset (filter (\<lambda>t. now - t < W) (H k))"

lemma memory_rate_limiter:
  assumes "0 < W"
  shows "rate_limiter (\<lambda>k limit now. memory_check k limit W now)
    (\<lambda>k limit now. memory_consume k limit W now) (memory_live W) (\<lambda>_ _ _. True) W"
proof
  show "now \<le> now' \<Longrightarrow>
      memory_live W s k now' = filter_mset (\<lambda>t. now' - t < W) (memory_live W s k now)" for now now' s k
    by (auto simp: memory_live_def filter_filter_mset intro!: filter_mset_cong)
qed (use assms in \<open>auto simp: memory_consume_def memory_check_def prune_def memory_live_def rl_snap_def
    Let_def split: if_splits simp flip: mset_filter\<close>)

interpretation memory_limiter: rate_limiter "\<lambda>k limit now. memory_check k limit 1 now"
    "\<lambda>k limit now. memory_consume k limit 1 now" "memory_live 1" "\<lambda>_ _ _. True" 1
  by (rule memory_rate_limiter) simp

definition redis_live :: "'r redis_ops \<Rightarrow> rat \<Rightarrow> 'r \<Rightarrow> string \<Rightarrow> rat \<Rightarrow> rat multiset" where
  "redis_live R W r k now = filter_mset (\<lambda>t. now - t < W) (image_mset snd (mset (rd_zset R k r)))"

text \<open>The member string of a new call is not in the set yet.\<close>

definition redis_fresh :: "'r redis_ops \<Rightarrow> (rat \<Rightarrow> string) \<Rightarrow> 'r \<Rightarrow> string \<Rightarrow> rat \<Rightarrow> bool" where
  "redis_fresh R member_of r k now \<longleftrightarrow> member_of now \<notin> fst ` set (rd_zset R k r)"

lemma dict_set_fresh: "k \<notin> fst ` set d \<Longrightarrow> dict_set d k v = d @ [(k, v)]"
  by (induction d) auto

lemma redis_live_zrem:
  assumes "redis_laws R" "t \<le> now"
  shows "redis_live R W (rd_zremrangebyscore R k 0 (t - W) r) k now = redis_live R W r k now"
  using assms(2)
  by (auto simp: redis_live_def redis_zsets [OF assms(1)] filter_mset_image_mset filter_filter_mset
      case_prod_beta intro!: arg_cong [where f = "image_mset snd"] filter_mset_cong)

lemma redis_snapshot_live:
  assumes "redis_laws R" "t \<le> now" "redis_snapshot R k limit W t r = (res, r')"
  shows "redis_live R W r' k now = redis_live R W r k now"
    "fst ` set (rd_zset R k r') \<subseteq> fst ` set (rd_zset R k r)"
    "res = Inr snap \<Longrightarrow> rs_allowed snap \<Longrightarrow> of_nat (size (redis_live R W r k now)) < limit"
proof -
  let ?cmd = "\<lambda>r. let r1 = rd_zremrangebyscore R k 0 (t - W) r in (of_nat (rd_zcard R k r1) :: rat, r1)"
  have "snd (redis_snapshot R k limit W t r) = snd (redis_io R ?cmd r)"
    by (auto simp: redis_snapshot_def bindA_def ret_def split: prod.splits sum.splits)
  moreover have "snd (?cmd r) = rd_zremrangebyscore R k 0 (t - W) r"
    by (simp add: Let_def)
  ultimately have r': "r' = r \<or> r' = rd_zremrangebyscore R k 0 (t - W) r"
    using assms(3) by (cases rule: redis_io_cases [of R ?cmd r]) (metis snd_conv)+
  then show live: "redis_live R W r' k now = redis_live R W r k now"
    using redis_live_zrem [OF assms(1,2)] by auto
  show "fst ` set (rd_zset R k r') \<subseteq> fst ` set (rd_zset R k r)"
    using r' by (auto simp: redis_zsets [OF assms(1)])
  assume "res = Inr snap" "rs_allowed snap"
  then have "of_nat (length (rd_zset R k r')) < limit"
    using assms(3)
    by (auto simp: redis_snapshot_def bindA_Inr redis_io_Inr Let_def rl_snap_def rd_zcard_def)
  moreover have "size (redis_live R W r' k now) \<le> length (rd_zset R k r')"
    by (metis redis_live_def size_filter_mset_lesseq size_image_mset size_mset)
  ultimately show "of_nat (size (redis_live R W r k now)) < limit"
    by (metis live of_nat_mono order_le_less_trans)
qed

lemma redis_add_live:
  assumes "redis_laws R" "redis_fresh R m r k now" "0 < W"
  shows "redis_add R m k W now r = (Inr used, r') \<Longrightarrow>
      redis_live R W r' k now = redis_live R W r k now + {#now#}"
    "redis_add R m k W now r = (Inl e, r') \<Longrightarrow> redis_live R W r k now \<subseteq># redis_live R W r' k now"
proof -
  let ?r = "rd_expire R k (max 1 (\<lfloor>W\<rfloor> + 1)) (rd_zadd R k (m now) now r)"
  have "mset (rd_zset R k ?r) = mset (rd_zset R k r) + {#(m now, now)#}"
    using assms(2) by (simp add: redis_zsets [OF assms(1)] dict_set_fresh redis_fresh_def)
  then have live: "redis_live R W ?r k now = redis_live R W r k now + {#now#}"
    using assms(3) by (simp add: redis_live_def)
  show "redis_add R m k W now r = (Inr used, r') \<Longrightarrow>
      redis_live R W r' k now = redis_live R W r k now + {#now#}"
    using live by (auto simp: redis_add_def redis_io_Inr Let_def)
  show "redis_add R m k W now r = (Inl e, r') \<Longrightarrow> redis_live R W r k now \<subseteq># redis_live R W r' k now"
    using live by (auto simp: redis_add_def redis_io_def Let_def split: option.splits prod.splits if_splits)
qed

text \<open>The two clock readings of a consume: the first is \<open>lag now\<close> before the second.\<close>

lemma redis_rate_limiter:
  assumes R: "redis_laws R" and W: "0 < W" and lag: "\<And>now. 0 \<le> lag now"
  shows "rate_limiter (\<lambda>k limit now. redis_check R k limit W now)
    (\<lambda>k limit now. redis_consume R m k limit W (now - lag now) now)
    (redis_live R W) (\<lambda>r k now. redis_fresh R m r k now) W"
proof
  fix k limit now r snap r'
  have le: "now - lag now \<le> now" using lag by simp
  note snapshot = redis_snapshot_live [OF R le]
  {
    assume run: "redis_consume R m k limit W (now - lag now) now r = (Inr snap, r')" "rs_allowed snap"
    then obtain snap1 r1 used where s1: "redis_snapshot R k limit W (now - lag now) r = (Inr snap1, r1)"
      "rs_allowed snap1" "redis_add R m k W now r1 = (Inr used, r')"
      by (auto simp: redis_consume_def bindA_Inr split: if_splits)
    have "redis_fresh R m r k now \<Longrightarrow> redis_fresh R m r1 k now"
      using snapshot(2) [OF s1(1)] by (auto simp: redis_fresh_def)
    then show "of_nat (size (redis_live R W r k now)) < limit \<and>
        (redis_fresh R m r k now \<longrightarrow> redis_live R W r' k now = redis_live R W r k now + {#now#})"
      using snapshot(1,3) [OF s1(1)] s1(2) redis_add_live(1) [OF R _ W s1(3)] by auto
  next
    assume run: "redis_consume R m k limit W (now - lag now) now r = (Inr snap, r')" "\<not> rs_allowed snap"
    then have "redis_snapshot R k limit W (now - lag now) r = (Inr snap, r')"
      by (auto simp: redis_consume_def bindA_Inr rl_snap_def split: if_splits)
    then show "redis_live R W r' k now = redis_live R W r k now"
      by (rule snapshot(1))
  next
    assume run: "redis_check R k limit W now r = (Inr snap, r')"
    then show "redis_live R W r' k now = redis_live R W r k now"
      using redis_snapshot_live(1) [OF R, of now now] by (simp add: redis_check_def)
  }
next
  fix k limit now r e r'
  have le: "now - lag now \<le> now" using lag by simp
  assume run: "redis_consume R m k limit W (now - lag now) now r = (Inl e, r')"
    and fresh: "redis_fresh R m r k now"
  let ?snap = "redis_snapshot R k limit W (now - lag now)"
  obtain e0 where "bindA ?snap (\<lambda>snap. if \<not> rs_allowed snap then ret snap
      else bindA (redis_add R m k W now) (\<lambda>used. ret (rl_snap True limit W used))) r = (Inl e0, r')"
    using run by (auto simp: redis_consume_def redis_call_def tryA_Inl split: if_splits)
  then consider "?snap r = (Inl e0, r')"
    | snap r1 where "?snap r = (Inr snap, r1)" "redis_add R m k W now r1 = (Inl e0, r')"
    by (auto simp: bindA_Inl split: if_splits)
  then show "redis_live R W r k now \<subseteq># redis_live R W r' k now"
  proof cases
    case 1
    then show ?thesis using redis_snapshot_live(1) [OF R le] by simp
  next
    case 2
    then have "redis_fresh R m r1 k now"
      using redis_snapshot_live(2) [OF R le 2(1)] fresh by (auto simp: redis_fresh_def)
    then show ?thesis
      using redis_add_live(2) [OF R _ W 2(2)] redis_snapshot_live(1) [OF R le 2(1)] by simp
  qed
next
  show "now \<le> now' \<Longrightarrow>
      redis_live R W r k now' = filter_mset (\<lambda>t. now' - t < W) (redis_live R W r k now)" for now now' r k
    by (auto simp: redis_live_def filter_filter_mset intro!: filter_mset_cong)
qed

text \<open>A refusal is never spurious in memory.\<close>

lemma memory_refused:
  "memory_consume k limit W now H = (Inr snap, H') \<Longrightarrow> \<not> rs_allowed snap \<Longrightarrow>
   limit \<le> of_nat (size (memory_live W H k now))"
  by (auto simp: memory_consume_def memory_live_def prune_def Let_def rl_snap_def simp flip: mset_filter
      split: if_splits)

lemma rl_pressure_bounds: "0 \<le> used \<Longrightarrow> 0 \<le> rl_pressure limit used \<and> rl_pressure limit used \<le> 20"
  by (auto simp: rl_pressure_def)

end
