(* ===== verification/SessionStores.thy ===== *)
theory SessionStores
  imports Redis
begin

text \<open>
  The key-value providers: \<^verbatim>\<open>MemoryCache\<close>, \<^verbatim>\<open>MemorySession\<close> and \<^verbatim>\<open>RedisSession\<close>, with the
  contract of \<^verbatim>\<open>SessionProvider\<close> as a locale. Redis keeps the JSON text of a value; writing and
  reading that text (\<^verbatim>\<open>json.dumps\<close>, \<^verbatim>\<open>json.loads\<close>) are parameters.
\<close>

type_synonym memory_cache = "string \<rightharpoonup> string"

definition cache_get :: "string \<Rightarrow> (memory_cache, exn, string option) act" where
  "cache_get key C = (Inr (C key), C)"

definition cache_set :: "string \<Rightarrow> string \<Rightarrow> int option \<Rightarrow> (memory_cache, exn, unit) act" where
  "cache_set key v ttl C = (Inr (), C(key \<mapsto> v))"

type_synonym memory_session = "string \<rightharpoonup> dict"

definition memory_session_get :: "string \<Rightarrow> (memory_session, exn, dict option) act" where
  "memory_session_get key S = (Inr (S key), S)"

definition memory_session_set :: "string \<Rightarrow> dict \<Rightarrow> int option \<Rightarrow> (memory_session, exn, unit) act" where
  "memory_session_set key v ttl S = (Inr (), S(key \<mapsto> v))"

definition memory_session_delete :: "string \<Rightarrow> (memory_session, exn, unit) act" where
  "memory_session_delete key S = (Inr (), S(key := None))"

definition redis_session_get ::
  "'r redis_ops \<Rightarrow> (string \<Rightarrow> exn + dict) \<Rightarrow> string \<Rightarrow> ('r, exn, dict option) act" where
  "redis_session_get R loads key =
     redis_call (bindA (redis_io R (\<lambda>r. (rd_get R key r, r))) (\<lambda>raw.
       case raw of None \<Rightarrow> ret None
       | Some text \<Rightarrow> bindA (liftA (loads text)) (\<lambda>d. ret (Some d))))"

definition redis_session_set ::
  "'r redis_ops \<Rightarrow> (dict \<Rightarrow> string) \<Rightarrow> string \<Rightarrow> dict \<Rightarrow> int option \<Rightarrow> ('r, exn, unit) act" where
  "redis_session_set R dumps key v ttl =
     redis_call (redis_io R (\<lambda>r. ((), rd_set R key (dumps v) ttl r)))"

definition redis_session_delete :: "'r redis_ops \<Rightarrow> string \<Rightarrow> ('r, exn, unit) act" where
  "redis_session_delete R key = redis_call (redis_io R (\<lambda>r. ((), snd (rd_del R key r))))"

text \<open>\<open>val s k\<close> is what is stored under \<open>k\<close>.\<close>

locale session_store =
  fixes get :: "string \<Rightarrow> ('s, exn, dict option) act"
    and put :: "string \<Rightarrow> dict \<Rightarrow> int option \<Rightarrow> ('s, exn, unit) act"
    and delete :: "string \<Rightarrow> ('s, exn, unit) act"
    and val :: "'s \<Rightarrow> string \<Rightarrow> dict option"
  assumes get_val: "get k s = (Inr u, s') \<Longrightarrow> u = val s k \<and> val s' = val s"
    and put_val: "put k v ttl s = (Inr (), s') \<Longrightarrow> val s' = (val s)(k \<mapsto> v)"
    and delete_val: "delete k s = (Inr (), s') \<Longrightarrow> val s' = (val s)(k := None)"

context session_store begin

lemma get_after_put: "put k v ttl s = (Inr (), s1) \<Longrightarrow> get k' s1 = (Inr w, s2) \<Longrightarrow>
    w = (if k' = k then Some v else val s k')"
  using put_val get_val by fastforce

lemma get_after_delete: "delete k s = (Inr (), s1) \<Longrightarrow> get k' s1 = (Inr w, s2) \<Longrightarrow>
    w = (if k' = k then None else val s k')"
  using delete_val get_val by fastforce

end

interpretation memory_session: session_store memory_session_get memory_session_set
    memory_session_delete "\<lambda>S. S"
  by unfold_locales (auto simp: memory_session_get_def memory_session_set_def memory_session_delete_def)

definition redis_val :: "'r redis_ops \<Rightarrow> (string \<Rightarrow> exn + dict) \<Rightarrow> 'r \<Rightarrow> string \<Rightarrow> dict option" where
  "redis_val R loads r k =
     (case rd_get R k r of None \<Rightarrow> None
      | Some text \<Rightarrow> (case loads text of Inr d \<Rightarrow> Some d | Inl e \<Rightarrow> None))"

lemma redis_session_store:
  assumes R: "redis_laws R" and json: "\<And>d. loads (dumps d) = Inr d"
  shows "session_store (redis_session_get R loads) (redis_session_set R dumps)
    (redis_session_delete R) (redis_val R loads)"
proof
  fix k :: string and r r' v ttl
  show "redis_session_get R loads k r = (Inr u, r') \<Longrightarrow>
      u = redis_val R loads r k \<and> redis_val R loads r' = redis_val R loads r" for u
    by (auto simp: redis_session_get_def redis_val_def act_simps redis_io_Inr split: option.splits sum.splits)
  show "redis_session_set R dumps k v ttl r = (Inr (), r') \<Longrightarrow>
      redis_val R loads r' = (redis_val R loads r)(k \<mapsto> v)"
    by (auto simp: redis_session_set_def redis_val_def redis_io_Inr redis_set [OF R] json fun_eq_iff)
  show "redis_session_delete R k r = (Inr (), r') \<Longrightarrow>
      redis_val R loads r' = (redis_val R loads r)(k := None)"
    by (auto simp: redis_session_delete_def redis_val_def redis_io_Inr redis_del [OF R] fun_eq_iff)
qed

end
