(* ===== verification/EventBus.thy ===== *)
theory EventBus
  imports Paging
begin

text \<open>
  The event bus: envelopes and topic names (\<^verbatim>\<open>app/events/envelope.py\<close>), the ring buffer behind
  the admin view (\<^verbatim>\<open>app/events/bus_buffer.py\<close>), the consumer's handler and default topics
  (\<^verbatim>\<open>app/events/consumer.py\<close>) and the in-process provider (\<^verbatim>\<open>MemoryEventProvider\<close>).
  The text of a time is a parameter (\<open>isotext\<close>).
\<close>

subsection \<open>Envelopes and topics\<close>

definition build_envelope ::
  "(instant \<Rightarrow> string) \<Rightarrow> instant \<Rightarrow> string \<Rightarrow> dict \<Rightarrow> string \<Rightarrow> string option \<Rightarrow>
   uuid \<Rightarrow> dict" where
  "build_envelope isotext now event_type payload producer correlation_id event_id =
     [(''event_id'', JStr (uuid_text event_id)),
      (''event_type'', JStr event_type),
      (''occurred_at'', JStr (isotext now)),
      (''producer'', JStr producer),
      (''correlation_id'', case correlation_id of None \<Rightarrow> JNull | Some c \<Rightarrow> JStr c),
      (''payload'', JObj payload)]"

definition DEFAULT_TOPIC_MAP :: "(string \<times> string) list" where
  "DEFAULT_TOPIC_MAP =
     [(''orders'', ''brokerbridge.orders''), (''brokers'', ''brokerbridge.brokers''),
      (''ip'', ''brokerbridge.ip''), (''subscriptions'', ''brokerbridge.subscriptions''),
      (''config'', ''brokerbridge.config'')]"

definition resolve_physical_topic ::
  "(json \<Rightarrow> string) \<Rightarrow> string \<Rightarrow> string option \<Rightarrow> dict option \<Rightarrow> string" where
  "resolve_physical_topic str_of logical topic_prefix topic_map =
     (let given = (case topic_map of None \<Rightarrow> [] | Some m \<Rightarrow> m);
          has_prefix = (topic_prefix \<noteq> None \<and> topic_prefix \<noteq> Some []);
          merged = dict_update DEFAULT_TOPIC_MAP (map (\<lambda>(k, v). (k, py_str str_of v)) given);
          physical =
            (case map_of merged logical of
               Some p \<Rightarrow> p
             | None \<Rightarrow> if has_prefix then rstrip_dot (the topic_prefix) @ ''.'' @ logical
                       else ''brokerbridge.'' @ logical)
      in if has_prefix \<and> logical \<notin> fst ` set given \<and> prefix ''brokerbridge.'' physical
         then rstrip_dot (the topic_prefix) @ ''.'' @ after_first_dot physical
         else physical)"

text \<open>\<^verbatim>\<open>list(dict.fromkeys(xs))\<close>: without duplicates, first occurrences in order.\<close>

definition dedup :: "'a list \<Rightarrow> 'a list" where
  "dedup xs = rev (remdups (rev xs))"

definition default_topics :: "(json \<Rightarrow> string) \<Rightarrow> string option \<Rightarrow> dict option \<Rightarrow> string list" where
  "default_topics str_of topic_prefix topic_map =
     dedup (map (\<lambda>logical. resolve_physical_topic str_of logical topic_prefix topic_map)
              (map fst DEFAULT_TOPIC_MAP))"

subsection \<open>The ring buffer\<close>

record bus_row =
  br_id :: string
  br_event_type :: string
  br_topic :: string
  br_payload :: dict
  br_correlation_id :: json
  br_occurred_at :: json  \<comment> \<open>\<^verbatim>\<open>created_at\<close>, \<^verbatim>\<open>sent_at\<close> and \<^verbatim>\<open>envelope.occurred_at\<close>\<close>
  br_source :: string
  br_env_event_id :: json
  br_env_producer :: json

record bus_buffer =
  bb_rows :: "bus_row list"  \<comment> \<open>newest first; \<^verbatim>\<open>deque(maxlen=...)\<close>\<close>
  bb_total_seen :: nat
  bb_last_event_at :: "json option"
  bb_by_type :: "(string \<times> nat) list"
  bb_source :: string
  bb_maxlen :: nat

definition new_buffer :: "nat \<Rightarrow> bus_buffer" where
  "new_buffer maxlen = \<lparr>bb_rows = [], bb_total_seen = 0, bb_last_event_at = None,
     bb_by_type = [], bb_source = ''empty'', bb_maxlen = maxlen\<rparr>"

definition buffer_clear :: "bus_buffer \<Rightarrow> bus_buffer" where
  "buffer_clear B = B\<lparr>bb_rows := [], bb_total_seen := 0, bb_last_event_at := None,
     bb_by_type := [], bb_source := ''empty''\<rparr>"

definition bus_row_of :: "(json \<Rightarrow> string) \<Rightarrow> string \<Rightarrow> nat \<Rightarrow> string \<Rightarrow> dict \<Rightarrow> string \<Rightarrow> bus_row" where
  "bus_row_of str_of now_text seen topic event source =
     \<lparr>br_id = py_str str_of (py_or (dict_get event ''event_id'' JNull)
                              (JStr (''consumed-'' @ show_nat seen))),
      br_event_type = py_str str_of (py_or (dict_get event ''event_type'' JNull) (JStr ''unknown'')),
      br_topic = topic,
      br_payload = (case dict_get event ''payload'' JNull of JObj d \<Rightarrow> d | _ \<Rightarrow> event),
      br_correlation_id = dict_get event ''correlation_id'' JNull,
      br_occurred_at = py_or (dict_get event ''occurred_at'' JNull) (JStr now_text),
      br_source = source,
      br_env_event_id = dict_get event ''event_id'' JNull,
      br_env_producer = dict_get event ''producer'' JNull\<rparr>"

text \<open>\<^verbatim>\<open>appendleft\<close> on a full deque drops the oldest row.\<close>

definition buffer_append ::
  "(json \<Rightarrow> string) \<Rightarrow> string \<Rightarrow> string \<Rightarrow> dict \<Rightarrow> string \<Rightarrow> bus_buffer \<Rightarrow> bus_buffer" where
  "buffer_append str_of now_text topic event source B =
     (let row = bus_row_of str_of now_text (bb_total_seen B) topic event source in
      if br_id row \<in> set (map br_id (bb_rows B)) then B
      else B\<lparr>bb_rows := take (bb_maxlen B) (row # bb_rows B),
             bb_total_seen := Suc (bb_total_seen B),
             bb_last_event_at := Some (br_occurred_at row),
             bb_by_type := dict_set (bb_by_type B) (br_event_type row)
               (Suc (dict_get (bb_by_type B) (br_event_type row) 0)),
             bb_source := source\<rparr>)"

definition buffer_list :: "int \<Rightarrow> int \<Rightarrow> bus_buffer \<Rightarrow> bus_row list \<times> nat" where
  "buffer_list lmt off B = (page_slice lmt off (bb_rows B), length (bb_rows B))"

record bus_stats =
  st_buffered :: nat
  st_total_seen :: nat
  st_last_event_at :: "json option"
  st_by_type :: "(string \<times> nat) list"
  st_source :: string

definition buffer_stats :: "bus_buffer \<Rightarrow> bus_stats" where
  "buffer_stats B = \<lparr>st_buffered = length (bb_rows B), st_total_seen = bb_total_seen B,
     st_last_event_at = bb_last_event_at B, st_by_type = bb_by_type B,
     st_source = (if bb_rows B \<noteq> [] then bb_source B else ''empty'')\<rparr>"

subsection \<open>The in-process provider\<close>

text \<open>The only handler the program registers is \<open>on_consumed_event\<close>, so a registration is its
  topic filter.\<close>

record memory_bus =
  mb_published :: "(string \<times> dict) list"
  mb_topic_prefix :: "string option"
  mb_topic_map :: "dict option"
  mb_consumer_group :: string
  mb_closed :: bool
  mb_handlers :: "string list option list"
  mb_stopped :: bool

record event_state =
  ev_bus :: memory_bus
  ev_buffer :: bus_buffer

definition new_memory_bus :: "string option \<Rightarrow> memory_bus" where
  "new_memory_bus grp =
     \<lparr>mb_published = [], mb_topic_prefix = None, mb_topic_map = None,
      mb_consumer_group = (case grp of Some g \<Rightarrow> if g \<noteq> [] then g else ''brokerbridge-lab''
                           | None \<Rightarrow> ''brokerbridge-lab''),
      mb_closed = False, mb_handlers = [], mb_stopped = False\<rparr>"

definition on_consumed_event ::
  "(json \<Rightarrow> string) \<Rightarrow> string \<Rightarrow> string \<Rightarrow> dict \<Rightarrow> (event_state, exn, unit) act" where
  "on_consumed_event str_of now_text topic event =
     modifyA (\<lambda>S. S\<lparr>ev_buffer := buffer_append str_of now_text topic event ''consumed'' (ev_buffer S)\<rparr>)"

definition wants :: "string list option \<Rightarrow> string \<Rightarrow> bool" where
  "wants filt topic = (case filt of None \<Rightarrow> True | Some topics \<Rightarrow> topic \<in> set topics)"

definition memory_publish ::
  "(json \<Rightarrow> string) \<Rightarrow> string \<Rightarrow> string \<Rightarrow> dict \<Rightarrow> (event_state, exn, unit) act" where
  "memory_publish str_of now_text topic event =
     bindA (askA (\<lambda>S. mb_closed (ev_bus S))) (\<lambda>closed.
       if closed then raise (PyError ''RuntimeError'')
       else seqA (modifyA (\<lambda>S. S\<lparr>ev_bus := (ev_bus S)\<lparr>mb_published := mb_published (ev_bus S) @ [(topic, event)]\<rparr>\<rparr>))
         (bindA (askA (\<lambda>S. mb_handlers (ev_bus S))) (\<lambda>handlers.
           forA handlers (\<lambda>filt.
             if wants filt topic then on_consumed_event str_of now_text topic event else ret ()))))"

definition memory_subscribe ::
  "(json \<Rightarrow> string) \<Rightarrow> string \<Rightarrow> string list \<Rightarrow> string option \<Rightarrow> (event_state, exn, unit) act" where
  "memory_subscribe str_of now_text topics grp =
     bindA (askA (\<lambda>S. mb_closed (ev_bus S))) (\<lambda>closed.
       if closed then raise (PyError ''RuntimeError'')
       else
         let filt = (if topics = [] then None else Some topics) in
         seqA (modifyA (\<lambda>S. S\<lparr>ev_bus := (ev_bus S)\<lparr>
                mb_consumer_group := (case grp of Some g \<Rightarrow> if g \<noteq> [] then g else mb_consumer_group (ev_bus S)
                                      | None \<Rightarrow> mb_consumer_group (ev_bus S)),
                mb_handlers := [filt]\<rparr>\<rparr>))
           (bindA (askA (\<lambda>S. mb_published (ev_bus S))) (\<lambda>published.
             forA published (\<lambda>(topic, event).
               if wants filt topic then on_consumed_event str_of now_text topic event else ret ()))))"

definition memory_bus_probe :: "memory_bus \<Rightarrow> dict" where
  "memory_bus_probe M = [(''ok'', JBool True), (''provider_type'', JStr ''memory''),
     (''published'', JInt (int (length (mb_published M)))),
     (''handlers'', JInt (int (length (mb_handlers M)))),
     (''consumer_group'', JStr (mb_consumer_group M))]"

definition memory_bus_aclose :: "memory_bus \<Rightarrow> memory_bus" where
  "memory_bus_aclose M = M\<lparr>mb_closed := True, mb_handlers := [], mb_stopped := True\<rparr>"

subsection \<open>What the buffer promises\<close>

text \<open>Distinct ids, no more than \<^verbatim>\<open>maxlen\<close> rows, and counters that agree.\<close>

definition buffer_ok :: "bus_buffer \<Rightarrow> bool" where
  "buffer_ok B \<longleftrightarrow>
     distinct (map br_id (bb_rows B)) \<and> length (bb_rows B) \<le> bb_maxlen B \<and>
     length (bb_rows B) \<le> bb_total_seen B \<and> distinct (map fst (bb_by_type B)) \<and>
     sum_list (map snd (bb_by_type B)) = bb_total_seen B"

lemma set_dedup [simp]: "set (dedup xs) = set xs"
  by (simp add: dedup_def)

lemma distinct_dedup [simp]: "distinct (dedup xs)"
  by (simp add: dedup_def)

lemma sum_list_dict_set:
  "sum_list (map snd (dict_set d k (Suc (dict_get d k 0)))) = Suc (sum_list (map snd d))"
  by (induction d) (auto simp: dict_get_def)

lemma buffer_ok_new: "buffer_ok (new_buffer n)"
  by (simp add: buffer_ok_def new_buffer_def)

lemma buffer_ok_append:
  assumes "buffer_ok B"
  shows "buffer_ok (buffer_append str_of now_text topic event source B)"
proof -
  have "distinct (map br_id (take n (row # rows)))"
    if "distinct (map br_id rows)" "br_id row \<notin> br_id ` set rows" for row rows n
  proof -
    have "distinct (take n (map br_id (row # rows)))"
      using that by (intro distinct_take) simp
    then show ?thesis by (simp only: take_map)
  qed
  then show ?thesis
    using assms by (auto simp: buffer_append_def buffer_ok_def Let_def sum_list_dict_set)
qed

lemma buffer_append_idem:
  assumes "bb_maxlen B > 0" "truthy (dict_get event ''event_id'' JNull)"
  shows "buffer_append str_of t2 topic2 event s2 (buffer_append str_of t1 topic event s1 B) =
    buffer_append str_of t1 topic event s1 B"
proof -
  have ids: "br_id (bus_row_of str_of t2 n topic2 event s2) = br_id (bus_row_of str_of t1 m topic event s1)"
    for n m using assms(2) by (simp add: bus_row_of_def py_or_def)
  have "br_id (bus_row_of str_of t1 m topic event s1) \<in>
      br_id ` set (bb_rows (buffer_append str_of t1 topic event s1 B))" for m
    using assms(1) ids
    by (cases "bb_maxlen B") (auto simp: buffer_append_def Let_def bus_row_of_def py_or_def assms(2))
  then have "br_id (bus_row_of str_of t2 m topic2 event s2) \<in>
      br_id ` set (bb_rows (buffer_append str_of t1 topic event s1 B))" for m
    by (metis ids)
  then show ?thesis
    by (simp add: buffer_append_def [of str_of t2] Let_def)
qed

text \<open>The page and the topics.\<close>

lemma resolve_default:
  "resolve_physical_topic str_of logical None None =
   (case map_of DEFAULT_TOPIC_MAP logical of Some p \<Rightarrow> p | None \<Rightarrow> ''brokerbridge.'' @ logical)"
  by (simp add: resolve_physical_topic_def Let_def dict_update_def split: option.splits)

lemma map_of_DEFAULT_TOPIC_MAP:
  "map_of DEFAULT_TOPIC_MAP l = Some p \<Longrightarrow> p = ''brokerbridge.'' @ l"
  by (auto simp: DEFAULT_TOPIC_MAP_def split: if_splits)

lemma resolve_unmapped:
  assumes "logical \<notin> fst ` set (case topic_map of None \<Rightarrow> [] | Some m \<Rightarrow> m)"
    and "distinct (map fst (case topic_map of None \<Rightarrow> [] | Some m \<Rightarrow> m))"
    and "topic_prefix \<noteq> Some []" "topic_prefix = None \<or> logical \<in> fst ` set DEFAULT_TOPIC_MAP"
  shows "resolve_physical_topic str_of logical topic_prefix topic_map =
    (case topic_prefix of None \<Rightarrow> ''brokerbridge'' | Some p \<Rightarrow> rstrip_dot p) @ ''.'' @ logical"
proof -
  let ?given = "case topic_map of None \<Rightarrow> [] | Some m \<Rightarrow> m"
  have "map_of (map (\<lambda>(k, v). (k, py_str str_of v)) ?given) logical = None"
    using assms(1) by (simp add: map_of_eq_None_iff image_image case_prod_beta)
  moreover have "distinct (map fst (map (\<lambda>(k, v). (k, py_str str_of v)) ?given))"
    using assms(2) by (simp add: comp_def case_prod_beta)
  ultimately have merged: "map_of (dict_update DEFAULT_TOPIC_MAP
      (map (\<lambda>(k, v). (k, py_str str_of v)) ?given)) logical = map_of DEFAULT_TOPIC_MAP logical"
    by (simp add: map_of_dict_update map_add_def)
  have "after_first_dot (''brokerbridge.'' @ logical) = logical"
    by (simp add: after_first_dot_def)
  then show ?thesis
    using assms(1,3,4) merged map_of_DEFAULT_TOPIC_MAP [of logical]
    by (auto simp: resolve_physical_topic_def Let_def after_first_dot_def map_of_eq_None_iff
        split: option.splits)
qed

lemma resolve_mapped:
  assumes "topic_map = Some m" "map_of m logical = Some v" "distinct (map fst m)"
  shows "resolve_physical_topic str_of logical topic_prefix topic_map = py_str str_of v"
proof -
  have "map_of (map (\<lambda>(k, v). (k, py_str str_of v)) m) = map_option (py_str str_of) \<circ> map_of m"
    by (rule map_of_map)
  moreover have "distinct (map fst (map (\<lambda>(k, v). (k, py_str str_of v)) m))"
    using assms(3) by (simp add: comp_def case_prod_beta)
  ultimately have "map_of (dict_update DEFAULT_TOPIC_MAP
      (map (\<lambda>(k, v). (k, py_str str_of v)) m)) logical = Some (py_str str_of v)"
    using assms(2) by (simp add: map_of_dict_update)
  moreover have "logical \<in> fst ` set m"
    using assms(2) by (metis domI dom_map_of_conv_image_fst)
  ultimately show ?thesis
    using assms(1) by (simp add: resolve_physical_topic_def Let_def)
qed

end
