(* ===== verification/MockBroker.thy ===== *)
theory MockBroker
  imports Faults
begin

text \<open>
  The broker adapter of \<^verbatim>\<open>app/providers/broker/mock.py\<close>, the only broker provider of the
  program. The live simulator fault is an argument of the operations; \<open>U\<close> gives the uuids that
  uuid4 draws, and the state carries how many have been drawn.
\<close>

record broker_fault =
  bf_code :: string
  bf_status :: int
  bf_retryable :: bool

record mock_broker =
  mk_sessions :: "(string \<times> dict) list"
  mk_orders :: "(string \<times> dict) list"
  mk_fail_remaining :: int
  mk_fail_status :: int
  mk_fail_code :: string
  mk_fail_retryable :: bool
  mk_persistent :: "broker_fault option"

definition new_mock_broker :: mock_broker where
  "new_mock_broker = \<lparr>mk_sessions = [], mk_orders = [], mk_fail_remaining = 0, mk_fail_status = 503,
     mk_fail_code = ''BROKER_UNAVAILABLE'', mk_fail_retryable = True, mk_persistent = None\<rparr>"

definition fail_next_n :: "int \<Rightarrow> int \<Rightarrow> string \<Rightarrow> mock_broker \<Rightarrow> mock_broker" where
  "fail_next_n n status code B = B\<lparr>mk_fail_remaining := max 0 n, mk_fail_status := status,
     mk_fail_code := code, mk_fail_retryable := True\<rparr>"

definition set_persistent_fault :: "string \<Rightarrow> int \<Rightarrow> bool \<Rightarrow> mock_broker \<Rightarrow> mock_broker" where
  "set_persistent_fault code status retryable B =
     B\<lparr>mk_persistent := Some \<lparr>bf_code = code, bf_status = status, bf_retryable = retryable\<rparr>\<rparr>"

definition clear_persistent_fault :: "mock_broker \<Rightarrow> mock_broker" where
  "clear_persistent_fault B = B\<lparr>mk_persistent := None\<rparr>"

definition clear_faults :: "mock_broker \<Rightarrow> mock_broker" where
  "clear_faults B = B\<lparr>mk_persistent := None, mk_fail_remaining := 0\<rparr>"

text \<open>\<^verbatim>\<open>_active_fault\<close>: the live flag first, then the fault set on the adapter.\<close>

definition broker_active_fault :: "flags \<Rightarrow> mock_broker \<Rightarrow> broker_fault option" where
  "broker_active_fault F B =
     (case active_broker_fault F of
        Some live \<Rightarrow> Some \<lparr>bf_code = f_code live, bf_status = f_status live,
          bf_retryable = (case f_retryable live of Some b \<Rightarrow> b | None \<Rightarrow> True)\<rparr>
      | None \<Rightarrow> mk_persistent B)"

definition broker_probe :: "flags \<Rightarrow> mock_broker \<Rightarrow> dict" where
  "broker_probe F B =
     (case broker_active_fault F B of
        Some fault \<Rightarrow>
          (if bf_code fault = ''BROKER_REJECT'' \<or> \<not> bf_retryable fault
           then [(''ok'', JBool False), (''provider'', JStr ''mock''), (''error'', JStr (bf_code fault)),
                 (''success_rate'', JFloat (1 / 4)), (''timeout_rate'', JFloat (15 / 100)),
                 (''connectivity'', JBool True)]
           else [(''ok'', JBool False), (''provider'', JStr ''mock''), (''error'', JStr (bf_code fault)),
                 (''success_rate'', JFloat 0), (''timeout_rate'', JFloat 1),
                 (''connectivity'', JBool False)])
      | None \<Rightarrow> [(''ok'', JBool True), (''provider'', JStr ''mock''), (''success_rate'', JFloat 1),
                 (''timeout_rate'', JFloat 0)])"

definition new_uuid :: "(nat \<Rightarrow> uuid) \<Rightarrow> ('s \<times> nat, exn, uuid) act" where
  "new_uuid U = (\<lambda>(s, n). (Inr (U n), (s, Suc n)))"

definition broker_place_order ::
  "(nat \<Rightarrow> uuid) \<Rightarrow> flags \<Rightarrow> dict \<Rightarrow> (mock_broker \<times> nat, exn, dict) act" where
  "broker_place_order U F payload =
     bindA (askA fst) (\<lambda>B.
       case broker_active_fault F B of
         Some fault \<Rightarrow> raise (MockBrokerError (bf_code fault) (bf_status fault) (bf_retryable fault))
       | None \<Rightarrow>
           if mk_fail_remaining B > 0
           then seqA (modifyA (apfst (\<lambda>B. B\<lparr>mk_fail_remaining := mk_fail_remaining B - 1\<rparr>)))
                  (raise (MockBrokerError (mk_fail_code B) (mk_fail_status B) (mk_fail_retryable B)))
           else bindA (new_uuid U) (\<lambda>u.
             let oid = ''mock-'' @ take 8 (uuid_hex u);
                 result = [(''status'', JStr ''accepted''), (''broker_order_id'', JStr oid),
                           (''echo'', JObj payload)]
             in seqA (modifyA (apfst (\<lambda>B. B\<lparr>mk_orders := dict_set (mk_orders B) oid result\<rparr>)))
                  (ret result)))"

definition broker_cancel_order ::
  "string \<Rightarrow> dict option \<Rightarrow> (mock_broker \<times> nat, exn, dict) act" where
  "broker_cancel_order oid payload =
     bindA (askA fst) (\<lambda>B.
       if oid \<notin> fst ` set (mk_orders B) \<and> \<not> prefix ''mock-'' oid
       then raise (MockBrokerError ''ORDER_NOT_FOUND'' 404 False)
       else
         let cancelled = [(''status'', JStr ''cancelled''), (''broker_order_id'', JStr oid),
                          (''echo'', JObj (case payload of Some p \<Rightarrow> p | None \<Rightarrow> []))]
         in seqA (modifyA (apfst (\<lambda>B. B\<lparr>mk_orders := dict_set (mk_orders B) oid cancelled\<rparr>)))
              (ret cancelled))"

text \<open>The session document; \<open>text_of\<close> is \<^verbatim>\<open>isoformat\<close>.\<close>

definition broker_authenticate ::
  "(nat \<Rightarrow> uuid) \<Rightarrow> (instant \<Rightarrow> string) \<Rightarrow> instant \<Rightarrow> dict \<Rightarrow> (mock_broker \<times> nat, exn, dict) act" where
  "broker_authenticate U text_of now credentials =
     bindA (new_uuid U) (\<lambda>u1. bindA (new_uuid U) (\<lambda>u2.
       let access = ''mock-access-'' @ uuid_hex u1; refresh = ''mock-refresh-'' @ uuid_hex u2;
           expires = JStr (text_of (now + hour))
       in seqA (modifyA (apfst (\<lambda>B. B\<lparr>mk_sessions := dict_set (mk_sessions B) access
                  [(''refresh'', JStr refresh), (''expires_at'', expires)]\<rparr>)))
            (ret [(''access_token'', JStr access), (''refresh_token'', JStr refresh),
                  (''expires_at'', expires), (''status'', JStr ''valid''),
                  (''credentials_echo_keys'', JList (map JStr (sort (map fst credentials))))])))"

definition broker_refresh_session ::
  "(nat \<Rightarrow> uuid) \<Rightarrow> (instant \<Rightarrow> string) \<Rightarrow> instant \<Rightarrow> string option \<Rightarrow> (mock_broker \<times> nat, exn, dict) act" where
  "broker_refresh_session U text_of now refresh_token =
     bindA (new_uuid U) (\<lambda>u1.
       bindA (case refresh_token of
                Some (c # t) \<Rightarrow> ret (c # t)
              | _ \<Rightarrow> bindA (new_uuid U) (\<lambda>u2. ret (''mock-refresh-'' @ uuid_hex u2))) (\<lambda>refresh.
         ret [(''access_token'', JStr (''mock-access-'' @ uuid_hex u1)), (''refresh_token'', JStr refresh),
              (''expires_at'', JStr (text_of (now + hour))), (''status'', JStr ''valid'')]))"

definition DEFAULT_CAPS :: dict where
  "DEFAULT_CAPS =
     [(''asset_classes'', JList [JStr ''equities'', JStr ''options'']),
      (''order_types'', JList [JStr ''MARKET'', JStr ''LIMIT'']),
      (''time_in_force'', JList [JStr ''DAY'', JStr ''GTC'']),
      (''supports_whitelist'', JBool True),
      (''regions'', JList [JStr ''ewr'', JStr ''ord'', JStr ''lax''])]"

definition list_capabilities :: dict where
  "list_capabilities = DEFAULT_CAPS"

text \<open>The whitelist the broker reports: the addresses of the document it sends, by format. The
  document itself is printed by \<open>dumps\<close> (JSON) or is the XML constant of the code.\<close>

definition XML_WHITELIST :: string where
  "XML_WHITELIST = ''<?xml version=\"1.0\"?><whitelist><ip>198.51.100.10</ip><ip>198.51.100.11</ip></whitelist>''"

definition fetch_whitelist_raw ::
  "(json \<Rightarrow> string) \<Rightarrow> (instant \<Rightarrow> string) \<Rightarrow> instant \<Rightarrow> string option \<Rightarrow> dict" where
  "fetch_whitelist_raw dumps text_of now format_hint =
     (let fmt = py_lower (case format_hint of Some (c # t) \<Rightarrow> c # t | _ \<Rightarrow> ''json'') in
      if fmt = ''xml'' then [(''format'', JStr ''xml''), (''payload'', JStr XML_WHITELIST)]
      else [(''format'', JStr ''json''),
            (''payload'', JStr (dumps (JObj
               [(''ips'', JList [JStr ''198.51.100.10'', JStr ''198.51.100.11'', JStr ''203.0.113.5'']),
                (''updated_at'', JStr (text_of now))])))])"

subsection \<open>Facts\<close>

lemma new_uuid_eq [simp, act_simps]: "new_uuid U (s, n) = (r, t) \<longleftrightarrow> r = Inr (U n) \<and> t = (s, Suc n)"
  by (auto simp: new_uuid_def)

text \<open>An accepted order is on the broker's book under the id that was returned, and only
  \<^verbatim>\<open>place_order\<close> with no fault accepts.\<close>

lemma broker_place_order_accepted:
  "broker_place_order U F payload (B, n) = (Inr res, (B', n')) \<Longrightarrow>
   broker_active_fault F B = None \<and> mk_fail_remaining B \<le> 0 \<and> n' = Suc n \<and>
   res = [(''status'', JStr ''accepted''), (''broker_order_id'', JStr (''mock-'' @ take 8 (uuid_hex (U n)))),
          (''echo'', JObj payload)] \<and>
   B' = B\<lparr>mk_orders := dict_set (mk_orders B) (''mock-'' @ take 8 (uuid_hex (U n))) res\<rparr>"
  by (auto simp: broker_place_order_def act_simps Let_def split: option.splits if_splits)

lemma broker_place_order_refused:
  "broker_place_order U F payload (B, n) = (Inl e, (B', n')) \<Longrightarrow>
   n' = n \<and> mk_orders B' = mk_orders B \<and> (\<exists>code status retry. e = MockBrokerError code status retry)"
  by (auto simp: broker_place_order_def act_simps Let_def split: option.splits if_splits)

end
