(* ===== verification/MockInfra.thy ===== *)
theory MockInfra
  imports MockBroker
begin

text \<open>
  The infrastructure adapters of \<^verbatim>\<open>app/providers/infrastructure/\<close>: the address allocator of
  the documentation ranges, the region table, and the in-process backend (database mode of the
  mock, the program's default). \<open>U\<close> and the number of drawn uuids are as in \<open>MockBroker\<close>.
\<close>

subsection \<open>Addresses (docnet.py)\<close>

definition candidate_address :: "nat \<Rightarrow> nat \<Rightarrow> string" where
  "candidate_address n salt =
     (let host = (n + salt) mod 254 + 1 in
      if (n + salt) mod 2 = 0 then ''203.0.113.'' @ show_nat host else ''198.51.100.'' @ show_nat host)"

text \<open>\<^verbatim>\<open>int(uuid4().hex[:8], 16)\<close> is the top 32 bits of the uuid.\<close>

definition salt_of :: "uuid \<Rightarrow> nat" where
  "salt_of u = u div 16 ^ 24 mod 16 ^ 8"

text \<open>The loop of \<^verbatim>\<open>next_address\<close>: rounds left, then the allocator's counter and the number
  of uuids drawn.\<close>

fun next_address_loop ::
  "(nat \<Rightarrow> uuid) \<Rightarrow> string list \<Rightarrow> nat \<Rightarrow> nat \<times> nat \<Rightarrow> string \<times> nat \<times> nat" where
  "next_address_loop U used 0 (c, d) = (''198.51.100.'' @ show_nat (c mod 254 + 1), Suc c, d)"
| "next_address_loop U used (Suc k) (c, d) =
     (let candidate = candidate_address c (salt_of (U d)) in
      if candidate \<notin> set used then (candidate, Suc c, Suc d)
      else next_address_loop U used k (Suc c, Suc d))"

definition next_address :: "(nat \<Rightarrow> uuid) \<Rightarrow> string list \<Rightarrow> nat \<times> nat \<Rightarrow> string \<times> nat \<times> nat" where
  "next_address U used = next_address_loop U used 64"

definition docnet_addresses :: "string set" where
  "docnet_addresses = {a. \<exists>h. 1 \<le> h \<and> h \<le> 254 \<and> (a = ''203.0.113.'' @ show_nat h \<or> a = ''198.51.100.'' @ show_nat h)}"

lemma candidate_in_docnet: "candidate_address n salt \<in> docnet_addresses"
proof -
  have "1 \<le> (n + salt) mod 254 + 1 \<and> (n + salt) mod 254 + 1 \<le> (254::nat)"
    using mod_less_divisor [of 254 "n + salt"] by linarith
  then show ?thesis
    by (auto simp: candidate_address_def docnet_addresses_def Let_def)
qed

lemma next_address_loop_spec:
  "next_address_loop U used k (c, d) = (a, c', d') \<Longrightarrow>
   a \<in> docnet_addresses \<and> (a \<notin> set used \<or>
     (\<forall>i < k. candidate_address (c + i) (salt_of (U (d + i))) \<in> set used)) \<and>
   c < c' \<and> d \<le> d' \<and> d' \<le> d + k"
proof (induction k arbitrary: c d)
  case 0
  have "1 \<le> c mod 254 + 1 \<and> c mod 254 + 1 \<le> (254::nat)"
    using mod_less_divisor [of 254 c] by linarith
  with 0 show ?case by (auto simp: docnet_addresses_def)
next
  case (Suc k)
  show ?case
  proof (cases "candidate_address c (salt_of (U d)) \<in> set used")
    case True
    then have rest: "next_address_loop U used k (Suc c, Suc d) = (a, c', d')"
      using Suc.prems by (simp add: Let_def)
    have "candidate_address (c + i) (salt_of (U (d + i))) \<in> set used"
      if "\<forall>i < k. candidate_address (Suc c + i) (salt_of (U (Suc d + i))) \<in> set used" "i < Suc k" for i
      using that True by (cases i) auto
    with Suc.IH [OF rest] show ?thesis by auto
  next
    case False
    then show ?thesis using Suc.prems candidate_in_docnet by (auto simp: Let_def)
  qed
qed

subsection \<open>Regions (regions.py)\<close>

definition COMMON_REGIONS :: "string list" where
  "COMMON_REGIONS = [''ewr'', ''ord'', ''dfw'', ''sea'', ''lax'', ''atl'', ''mia'', ''sjc'', ''ams'',
     ''lhr'', ''fra'', ''nrt'', ''syd'', ''sgp'', ''icn'', ''yto'', ''mex'', ''sao'', ''mad'', ''waw'', ''sto'']"

definition REGION_ALIASES :: "(string \<times> string) list" where
  "REGION_ALIASES = [(''eur'', ''ewr''), (''nyc'', ''ewr''), (''ny'', ''ewr''), (''newyork'', ''ewr''),
     (''chicago'', ''ord''), (''london'', ''lhr''), (''amsterdam'', ''ams''), (''frankfurt'', ''fra'')]"

datatype region_result = NoRegion | Region string | UnknownRegion

definition normalize_region :: "string option \<Rightarrow> region_result" where
  "normalize_region raw =
     (case raw of
        None \<Rightarrow> NoRegion
      | Some s \<Rightarrow>
          (let region = py_lower (py_strip s) in
           if region = [] then NoRegion
           else case map_of REGION_ALIASES region of
                  Some r \<Rightarrow> Region r
                | None \<Rightarrow> if region \<in> set COMMON_REGIONS then Region region else UnknownRegion))"

lemma normalize_region_common: "normalize_region raw = Region r \<Longrightarrow> r \<in> set COMMON_REGIONS"
proof -
  have in_table: "map_of REGION_ALIASES s = Some r \<Longrightarrow> r \<in> set COMMON_REGIONS" for s
    by (auto simp: REGION_ALIASES_def COMMON_REGIONS_def split: if_splits)
  show "normalize_region raw = Region r \<Longrightarrow> r \<in> set COMMON_REGIONS"
    by (auto simp: normalize_region_def Let_def in_table split: option.splits if_splits)
qed

subsection \<open>The in-process backend (mock_database.py)\<close>

record mock_infra =
  mi_counter :: nat  \<comment> \<open>the allocator's next number\<close>
  mi_ips :: "(string \<times> dict) list"
  mi_instances :: "(string \<times> dict) list"
  mi_probe_fail :: bool

definition new_mock_infra :: mock_infra where
  "new_mock_infra = \<lparr>mi_counter = 1, mi_ips = [], mi_instances = [], mi_probe_fail = False\<rparr>"

definition set_probe_fail :: "bool \<Rightarrow> mock_infra \<Rightarrow> mock_infra" where
  "set_probe_fail b M = M\<lparr>mi_probe_fail := b\<rparr>"

definition infra_fault_active :: "flags \<Rightarrow> mock_infra \<Rightarrow> bool" where
  "infra_fault_active F M \<longleftrightarrow> mi_probe_fail M \<or> infra_fault_enabled F"

definition mi_probe :: "flags \<Rightarrow> mock_infra \<Rightarrow> dict" where
  "mi_probe F M =
     (if infra_fault_active F M
      then [(''ok'', JBool False), (''provider'', JStr ''mock''), (''backend'', JStr ''database''),
            (''error'', JStr ''INFRA_UNAVAILABLE'')]
      else [(''ok'', JBool True), (''provider'', JStr ''mock''), (''backend'', JStr ''database'')])"

text \<open>The addresses of the known IPs, \<^verbatim>\<open>r.get("ip_address")\<close> when it is set.\<close>

definition addresses_in :: "(string \<times> dict) list \<Rightarrow> string list" where
  "addresses_in ips =
     concat (map (\<lambda>(k, r). case dict_get r ''ip_address'' JNull of JStr a \<Rightarrow> if a \<noteq> [] then [a] else []
                           | _ \<Rightarrow> []) ips)"

definition used_addresses :: "mock_infra \<Rightarrow> string list" where
  "used_addresses M = addresses_in (mi_ips M)"

definition mi_create_ip ::
  "(nat \<Rightarrow> uuid) \<Rightarrow> flags \<Rightarrow> string \<Rightarrow> (mock_infra \<times> nat, exn, dict) act" where
  "mi_create_ip U F region = (\<lambda>(M, d).
     if infra_fault_active F M then (Inl (MockInfrastructureError ''INFRA_UNAVAILABLE'' 503), (M, d))
     else
       let external_id = ''mock-ip-'' @ take 12 (uuid_hex (U d));
           (addr, c', d') = next_address U (used_addresses M) (mi_counter M, Suc d);
           resource = [(''id'', JStr external_id), (''external_id'', JStr external_id),
             (''ip_address'', JStr addr), (''region'', JStr region), (''status'', JStr ''allocated''),
             (''provider'', JStr ''mock''), (''backend'', JStr ''database''), (''auto_renew'', JBool True)]
       in (Inr resource,
           (M\<lparr>mi_counter := c', mi_ips := dict_set (mi_ips M) external_id resource\<rparr>, d')))"

definition mi_delete_ip :: "string \<Rightarrow> mock_infra \<Rightarrow> mock_infra" where
  "mi_delete_ip external_id M =
     (case map_of (mi_ips M) external_id of
        Some r \<Rightarrow> M\<lparr>mi_ips := dict_set (mi_ips M) external_id (dict_set r ''status'' (JStr ''released''))\<rparr>
      | None \<Rightarrow> M)"

definition mi_attach_ip :: "string \<Rightarrow> string \<Rightarrow> mock_infra \<Rightarrow> mock_infra" where
  "mi_attach_ip external_id instance_id M =
     (case map_of (mi_ips M) external_id of
        None \<Rightarrow> M\<lparr>mi_ips := dict_set (mi_ips M) external_id
          [(''external_id'', JStr external_id), (''status'', JStr ''attached''),
           (''instance_external_id'', JStr instance_id)]\<rparr>
      | Some r \<Rightarrow> M\<lparr>mi_ips := dict_set (mi_ips M) external_id
          (dict_set (dict_set r ''status'' (JStr ''attached'')) ''instance_external_id'' (JStr instance_id))\<rparr>)"

text \<open>\<^verbatim>\<open>d.pop(k, None)\<close>\<close>

definition dict_pop :: "(string \<times> 'v) list \<Rightarrow> string \<Rightarrow> (string \<times> 'v) list" where
  "dict_pop d k = filter (\<lambda>kv. fst kv \<noteq> k) d"

definition mi_detach_ip :: "string \<Rightarrow> mock_infra \<Rightarrow> mock_infra" where
  "mi_detach_ip external_id M =
     (case map_of (mi_ips M) external_id of
        Some r \<Rightarrow> M\<lparr>mi_ips := dict_set (mi_ips M) external_id
          (dict_pop (dict_set r ''status'' (JStr ''detached'')) ''instance_external_id'')\<rparr>
      | None \<Rightarrow> M)"

definition mi_create_instance ::
  "(nat \<Rightarrow> uuid) \<Rightarrow> flags \<Rightarrow> string \<Rightarrow> string option \<Rightarrow> (mock_infra \<times> nat, exn, dict) act" where
  "mi_create_instance U F region label = (\<lambda>(M, d).
     if infra_fault_active F M then (Inl (MockInfrastructureError ''INFRA_UNAVAILABLE'' 503), (M, d))
     else
       let external_id = ''mock-inst-'' @ take 12 (uuid_hex (U d));
           lbl = (case label of Some (c # t) \<Rightarrow> c # t | _ \<Rightarrow> ''Lab Instance '' @ region);
           resource = [(''id'', JStr external_id), (''external_id'', JStr external_id),
             (''region'', JStr region), (''status'', JStr ''running''), (''provider'', JStr ''mock''),
             (''backend'', JStr ''database''), (''label'', JStr lbl), (''auto_renew'', JBool True)]
       in (Inr resource, (M\<lparr>mi_instances := dict_set (mi_instances M) external_id resource\<rparr>, Suc d)))"

definition set_instance_status :: "string \<Rightarrow> string \<Rightarrow> mock_infra \<Rightarrow> mock_infra" where
  "set_instance_status external_id status M =
     (case map_of (mi_instances M) external_id of
        Some r \<Rightarrow> M\<lparr>mi_instances := dict_set (mi_instances M) external_id (dict_set r ''status'' (JStr status))\<rparr>
      | None \<Rightarrow> M\<lparr>mi_instances := dict_set (mi_instances M) external_id
          [(''external_id'', JStr external_id), (''status'', JStr status), (''provider'', JStr ''mock''),
           (''backend'', JStr ''database'')]\<rparr>)"

definition mi_destroy_instance :: "string \<Rightarrow> mock_infra \<Rightarrow> mock_infra" where
  "mi_destroy_instance external_id M =
     (case map_of (mi_instances M) external_id of
        Some r \<Rightarrow> M\<lparr>mi_instances := dict_set (mi_instances M) external_id (dict_set r ''status'' (JStr ''destroyed''))\<rparr>
      | None \<Rightarrow> M)"

definition mi_suspend_instance :: "string \<Rightarrow> mock_infra \<Rightarrow> mock_infra" where
  "mi_suspend_instance external_id M = set_instance_status external_id ''suspended'' M"

definition mi_start_instance :: "string \<Rightarrow> mock_infra \<Rightarrow> mock_infra" where
  "mi_start_instance external_id M = set_instance_status external_id ''running'' M"

definition mi_set_auto_renew :: "string \<Rightarrow> bool \<Rightarrow> mock_infra \<Rightarrow> mock_infra" where
  "mi_set_auto_renew rid enabled M =
     (case map_of (mi_instances M) rid of
        Some r \<Rightarrow> M\<lparr>mi_instances := dict_set (mi_instances M) rid (dict_set r ''auto_renew'' (JBool enabled))\<rparr>
      | None \<Rightarrow>
          (case map_of (mi_ips M) rid of
             Some r \<Rightarrow> M\<lparr>mi_ips := dict_set (mi_ips M) rid (dict_set r ''auto_renew'' (JBool enabled))\<rparr>
           | None \<Rightarrow> M\<lparr>mi_instances := dict_set (mi_instances M) rid
               [(''external_id'', JStr rid), (''auto_renew'', JBool enabled), (''status'', JStr ''running''),
                (''provider'', JStr ''mock''), (''backend'', JStr ''database'')]\<rparr>))"

definition mi_list_ips :: "string option \<Rightarrow> mock_infra \<Rightarrow> dict list" where
  "mi_list_ips region M =
     (let rows = map snd (mi_ips M) in
      case region of
        Some (c # t) \<Rightarrow> filter (\<lambda>r. dict_get r ''region'' JNull = JStr (c # t)) rows
      | _ \<Rightarrow> rows)"

definition mi_get_ip :: "string \<Rightarrow> mock_infra \<Rightarrow> dict option" where
  "mi_get_ip external_id M =
     (case map_of (mi_ips M) external_id of Some r \<Rightarrow> if r = [] then None else Some r | None \<Rightarrow> None)"

end
