(* ===== verification/OutboxSvc.thy ===== *)
theory OutboxSvc
  imports World
begin

text \<open>
  The transactional outbox (\<^verbatim>\<open>app/events/outbox.py\<close>): listing, and the drain that publishes
  the pending rows and marks each one sent or error. Staging a row is in \<open>World\<close>.
\<close>

definition list_outbox :: "int \<Rightarrow> int \<Rightarrow> string option \<Rightarrow> ('x, outbox_event list \<times> nat) op" where
  "list_outbox lmt off status =
     ask_db (\<lambda>d.
       let rows = (case status of
                     Some (c # t) \<Rightarrow> filter (\<lambda>r. ob_status r = c # t) (outbox d)
                   | _ \<Rightarrow> outbox d)
       in (page_of lmt off (order_desc ob_created_at rows), length rows))"

definition pending_batch :: "nat \<Rightarrow> database \<Rightarrow> outbox_event list" where
  "pending_batch lmt d =
     take lmt (order_asc ob_created_at (filter (\<lambda>r. ob_status r = ''pending'') (outbox d)))"

definition upd_outbox :: "uuid \<Rightarrow> (outbox_event \<Rightarrow> outbox_event) \<Rightarrow> ('x, unit) op" where
  "upd_outbox i f = upd_db (\<lambda>d. d\<lparr>outbox := upd_rows (\<lambda>r. ob_id r = i) f (outbox d)\<rparr>)"

definition feed_bus_buffer :: "'x env \<Rightarrow> string \<Rightarrow> dict \<Rightarrow> ('x, unit) op" where
  "feed_bus_buffer E topic event =
     bindA now_utc (\<lambda>now.
       zoomA the_bus (\<lambda>S w. w\<lparr>the_bus := S\<rparr>)
         (on_consumed_event (str_of E) (isotext E now) topic event))"

text \<open>One row of the loop: True when it was sent.\<close>

definition drain_one ::
  "'x env \<Rightarrow> string option \<Rightarrow> dict option \<Rightarrow> string \<Rightarrow> outbox_event \<Rightarrow> ('x, bool) op" where
  "drain_one E topic_prefix topic_map producer row =
     bindA now_utc (\<lambda>now.
       let envelope = build_envelope (isotext E) now (ob_event_type row) (ob_payload row) producer
                        (ob_correlation_id row) (ob_id row);
           physical = resolve_physical_topic (str_of E) (ob_topic row) topic_prefix topic_map
       in tryA
         (seqA (eo_publish (event_bus E) physical envelope)
         (seqA (upd_outbox (ob_id row) (\<lambda>r. r\<lparr>ob_status := ''sent'', ob_sent_at := Some now\<rparr>))
         (seqA (tryA (feed_bus_buffer E physical envelope) (\<lambda>_. ret ()))
            (ret True))))
         (\<lambda>e. seqA (upd_outbox (ob_id row)
                      (\<lambda>r. r\<lparr>ob_status := ''error'', ob_error := Some (take 2000 (exn_text E e))\<rparr>))
                (ret False)))"

fun drain_rows ::
  "'x env \<Rightarrow> string option \<Rightarrow> dict option \<Rightarrow> string \<Rightarrow> outbox_event list \<Rightarrow> nat \<times> nat \<Rightarrow>
   ('x, nat \<times> nat) op" where
  "drain_rows E topic_prefix topic_map producer [] counts = ret counts"
| "drain_rows E topic_prefix topic_map producer (row # rows) (sent, errors) =
     bindA (drain_one E topic_prefix topic_map producer row) (\<lambda>ok.
       drain_rows E topic_prefix topic_map producer rows
         (if ok then (Suc sent, errors) else (sent, Suc errors)))"

definition drain_outbox :: "'x env \<Rightarrow> nat \<Rightarrow> string \<Rightarrow> ('x, nat \<times> nat) op" where
  "drain_outbox E lmt producer =
     bindA (ask_db (pending_batch lmt)) (\<lambda>rows.
       if rows = [] then ret (0, 0)
       else
         bindA (askA (\<lambda>w. (eo_topic_prefix (event_bus E) w, eo_topic_map (event_bus E) w)))
           (\<lambda>(topic_prefix, topic_map).
         bindA (drain_rows E topic_prefix topic_map producer rows (0, 0)) (\<lambda>counts.
         seqA commit (ret counts))))"

subsection \<open>The contract of an event provider\<close>

text \<open>Publishing does not touch the database session; the drain relies on nothing else.\<close>

locale event_env =
  fixes E :: "'x env"
  assumes publish_store: "\<And>t e. frames store (eo_publish (event_bus E) t e)"

text \<open>The state of a row after a drain: it is done, or it is what it was.\<close>

definition drained :: "outbox_event \<Rightarrow> outbox_event \<Rightarrow> bool" where
  "drained r r' \<longleftrightarrow> ob_id r' = ob_id r \<and> ob_event_type r' = ob_event_type r \<and>
     ob_topic r' = ob_topic r \<and> ob_payload r' = ob_payload r \<and> ob_created_at r' = ob_created_at r \<and>
     ob_correlation_id r' = ob_correlation_id r \<and> ob_status r' \<in> {''sent'', ''error''} \<and>
     (ob_status r' = ''sent'' \<longrightarrow> ob_sent_at r' \<noteq> None) \<and>
     (ob_status r' = ''error'' \<longrightarrow> ob_error r' \<noteq> None)"

lemma feed_run [run_simps]:
  "feed_bus_buffer E t e w = (Inr (), w\<lparr>the_bus := (the_bus w)\<lparr>ev_buffer :=
     buffer_append (str_of E) (isotext E (clock w)) t e ''consumed'' (ev_buffer (the_bus w))\<rparr>\<rparr>)"
  by (simp add: feed_bus_buffer_def run_simps zoomA_def on_consumed_event_def modifyA_def)

lemma frames_feed_store: "frames store (feed_bus_buffer E t e)"
  by (auto simp: frames_def feed_run)

lemma drain_one_cases:
  obtains (sent) w1 bus where
      "drain_one E tp tm pr row w = (Inr True, w1\<lparr>db := (db w1)\<lparr>outbox := upd_rows (\<lambda>r. ob_id r = ob_id row)
         (\<lambda>r. r\<lparr>ob_status := ''sent'', ob_sent_at := Some (clock w)\<rparr>) (outbox (db w1))\<rparr>, the_bus := bus\<rparr>)"
      "eo_publish (event_bus E) (resolve_physical_topic (str_of E) (ob_topic row) tp tm)
         (build_envelope (isotext E) (clock w) (ob_event_type row) (ob_payload row) pr
           (ob_correlation_id row) (ob_id row)) w = (Inr (), w1)"
    | (error) w1 e where
      "drain_one E tp tm pr row w = (Inr False, w1\<lparr>db := (db w1)\<lparr>outbox := upd_rows (\<lambda>r. ob_id r = ob_id row)
         (\<lambda>r. r\<lparr>ob_status := ''error'', ob_error := Some (take 2000 (exn_text E e))\<rparr>) (outbox (db w1))\<rparr>\<rparr>)"
      "eo_publish (event_bus E) (resolve_physical_topic (str_of E) (ob_topic row) tp tm)
         (build_envelope (isotext E) (clock w) (ob_event_type row) (ob_payload row) pr
           (ob_correlation_id row) (ob_id row)) w = (Inl e, w1)"
proof -
  let ?p = "eo_publish (event_bus E) (resolve_physical_topic (str_of E) (ob_topic row) tp tm)
         (build_envelope (isotext E) (clock w) (ob_event_type row) (ob_payload row) pr
           (ob_correlation_id row) (ob_id row)) w"
  obtain r w1 where p: "?p = (r, w1)" by fastforce
  show thesis
  proof (cases r)
    case (Inl e)
    then show ?thesis
      using p by (intro error [of e w1]) (simp_all add: drain_one_def run_simps upd_outbox_def Let_def)
  next
    case (Inr x)
    then show ?thesis
      using p by (intro sent [of _ w1]) (simp_all add: drain_one_def run_simps upd_outbox_def Let_def)
  qed
qed

text \<open>Each row of the batch is marked, once, and the other tables stay as they are.\<close>

definition outbox_after :: "outbox_event list \<Rightarrow> outbox_event list \<Rightarrow> outbox_event list \<Rightarrow> bool" where
  "outbox_after batch old new \<longleftrightarrow>
     list_all2 (\<lambda>r r'. if ob_id r \<in> ob_id ` set batch then drained r r' else r' = r) old new"

lemma list_all2_upd_rows:
  "list_all2 P xs ys \<Longrightarrow> (\<And>x y. x \<in> set xs \<Longrightarrow> P x y \<Longrightarrow> Q x (if p y then f y else y)) \<Longrightarrow>
   list_all2 Q xs (upd_rows p f ys)"
  by (auto simp: upd_rows_def list_all2_conv_all_nth)

lemma drained_trans: "drained r r1 \<Longrightarrow> drained r1 r2 \<Longrightarrow> drained r r2"
  by (simp add: drained_def)

lemma outbox_after_Cons:
  assumes "outbox_after rows (outbox d1) new"
    and "outbox d1 = upd_rows (\<lambda>r. ob_id r = ob_id row) f old" "\<And>r. drained r (f r)"
  shows "outbox_after (row # rows) old new"
  unfolding outbox_after_def list_all2_conv_all_nth
proof (intro conjI allI impI)
  show "length old = length new"
    using assms(1,2) by (auto simp: outbox_after_def dest: list_all2_lengthD)
  fix i assume i: "i < length old"
  let ?r1 = "if ob_id (old ! i) = ob_id row then f (old ! i) else old ! i"
  have "if ob_id ?r1 \<in> ob_id ` set rows then drained ?r1 (new ! i) else new ! i = ?r1"
    using assms(1,2) i by (auto simp: outbox_after_def list_all2_conv_all_nth upd_rows_def)
  moreover have id: "ob_id ?r1 = ob_id (old ! i)"
    using assms(3) [of "old ! i"] by (simp add: drained_def)
  ultimately show "if ob_id (old ! i) \<in> ob_id ` set (row # rows) then drained (old ! i) (new ! i)
      else new ! i = old ! i"
    using assms(3) [of "old ! i"] drained_trans by (auto split: if_splits)
qed

context event_env begin

lemma drain_one_effect:
  assumes "drain_one E tp tm pr row w = (res, w')"
  obtains ok f where "res = Inr ok" "saved w' = saved w"
    "db w' = (db w)\<lparr>outbox := upd_rows (\<lambda>r. ob_id r = ob_id row) f (outbox (db w))\<rparr>"
    "\<And>r. drained r (f r)" "\<And>r. ob_status (f r) = ''sent'' \<longleftrightarrow> ok"
proof (cases rule: drain_one_cases [of E tp tm pr row w])
  case (sent w1 bus)
  have "store w1 = store w" using publish_store sent(2) by (rule framesD)
  then show ?thesis
    using sent(1) assms
    by (intro that [of True "\<lambda>r. r\<lparr>ob_status := ''sent'', ob_sent_at := Some (clock w)\<rparr>"])
       (auto simp: store_def drained_def)
next
  case (error w1 e)
  have "store w1 = store w" using publish_store error(2) by (rule framesD)
  then show ?thesis
    using error(1) assms
    by (intro that [of False "\<lambda>r. r\<lparr>ob_status := ''error'', ob_error := Some (take 2000 (exn_text E e))\<rparr>"])
       (auto simp: store_def drained_def)
qed

lemma drain_rows_effect:
  "\<exists>s e w' new. drain_rows E tp tm pr rows (sent, errs) w = (Inr (sent + s, errs + e), w') \<and>
     s + e = length rows \<and> saved w' = saved w \<and>
     db w' = (db w)\<lparr>outbox := new\<rparr> \<and> outbox_after rows (outbox (db w)) new"
proof (induction rows arbitrary: sent errs w)
  case Nil
  have "db w = (db w)\<lparr>outbox := outbox (db w)\<rparr>" by simp
  moreover have "outbox_after [] (outbox (db w)) (outbox (db w))"
    by (simp add: outbox_after_def list_all2_same)
  moreover have "drain_rows E tp tm pr [] (sent, errs) w = (Inr (sent + 0, errs + 0), w)"
    by (simp add: run_simps)
  ultimately show ?case by (metis add.right_neutral list.size(3))
next
  case (Cons row rows)
  obtain res w1 where one: "drain_one E tp tm pr row w = (res, w1)" by fastforce
  obtain ok f where ok: "res = Inr ok" "saved w1 = saved w"
    "db w1 = (db w)\<lparr>outbox := upd_rows (\<lambda>r. ob_id r = ob_id row) f (outbox (db w))\<rparr>"
    "\<And>r. drained r (f r)"
    using drain_one_effect [OF one] by metis
  define counts where "counts = (if ok then (Suc sent, errs) else (sent, Suc errs))"
  obtain s e w' new where rest:
    "drain_rows E tp tm pr rows (fst counts, snd counts) w1 = (Inr (fst counts + s, snd counts + e), w')"
    "s + e = length rows" "saved w' = saved w1" "db w' = (db w1)\<lparr>outbox := new\<rparr>"
    "outbox_after rows (outbox (db w1)) new"
    using Cons.IH by blast
  have "outbox_after (row # rows) (outbox (db w)) new"
    using outbox_after_Cons [OF rest(5), of row f "outbox (db w)"] ok(3,4) by simp
  moreover have "drain_rows E tp tm pr (row # rows) (sent, errs) w =
      (Inr (sent + (if ok then Suc s else s), errs + (if ok then e else Suc e)), w')"
    using rest(1) one ok(1) by (simp add: run_simps counts_def split: if_splits)
  moreover have "(if ok then Suc s else s) + (if ok then e else Suc e) = length (row # rows)"
    using rest(2) by simp
  moreover have "saved w' = saved w" "db w' = (db w)\<lparr>outbox := new\<rparr>"
    using rest(3,4) ok(2,3) by simp_all
  ultimately show ?case by blast
qed

lemma drain_outbox_effect:
  "\<exists>s e w' new. drain_outbox E n pr w = (Inr (s, e), w') \<and>
     s + e = length (pending_batch n (db w)) \<and>
     db w' = (db w)\<lparr>outbox := new\<rparr> \<and> outbox_after (pending_batch n (db w)) (outbox (db w)) new \<and>
     (pending_batch n (db w) \<noteq> [] \<longrightarrow> saved w' = db w')"
proof (cases "pending_batch n (db w) = []")
  case True
  have "db w = (db w)\<lparr>outbox := outbox (db w)\<rparr>" by simp
  moreover have "outbox_after [] (outbox (db w)) (outbox (db w))"
    by (simp add: outbox_after_def list_all2_same)
  moreover have "drain_outbox E n pr w = (Inr (0, 0), w)"
    using True by (simp add: drain_outbox_def run_simps)
  ultimately show ?thesis using True by (metis add.right_neutral list.size(3))
next
  case False
  obtain s e w' new where rows:
    "drain_rows E (eo_topic_prefix (event_bus E) w) (eo_topic_map (event_bus E) w) pr
      (pending_batch n (db w)) (0, 0) w = (Inr (0 + s, 0 + e), w')"
    "s + e = length (pending_batch n (db w))" "db w' = (db w)\<lparr>outbox := new\<rparr>"
    "outbox_after (pending_batch n (db w)) (outbox (db w)) new"
    using drain_rows_effect by blast
  have "drain_outbox E n pr w = (Inr (s, e), w'\<lparr>saved := db w'\<rparr>)"
    using False rows(1) by (simp add: drain_outbox_def run_simps)
  moreover have "db (w'\<lparr>saved := db w'\<rparr>) = (db w)\<lparr>outbox := new\<rparr>" "saved (w'\<lparr>saved := db w'\<rparr>) = db (w'\<lparr>saved := db w'\<rparr>)"
    using rows(3) by simp_all
  ultimately show ?thesis using rows(2,4) by blast
qed

end

subsection \<open>Draining into the in-process bus\<close>

definition with_memory_bus :: "'x env \<Rightarrow> 'x env" where
  "with_memory_bus E = E\<lparr>event_bus := memory_event_ops (str_of E) (isotext E)\<rparr>"

interpretation memory_bus: event_env "with_memory_bus E" for E :: "'x env"
  by unfold_locales
     (auto simp: with_memory_bus_def memory_event_ops_def intro!: frames_intros frames_world)

end
