(* ===== verification/Subscriptions.thy ===== *)
theory Subscriptions
  imports World
begin

text \<open>
  The subscription lifecycle (\<^verbatim>\<open>app/subscriptions/service.py\<close>, BR-G07): creating a window,
  whether a client may trade, and the expiry sweep that suspends clients and tears down their
  instances.
\<close>

definition default_teardown_mode :: "'x env \<Rightarrow> ('x, string) op" where
  "default_teardown_mode E =
     bindA (one_of (config_rows ''subscription.teardown_mode'')) (\<lambda>item.
       ret (case item of
              None \<Rightarrow> ''SUSPEND''
            | Some c \<Rightarrow>
                (let mode = py_upper (py_str (str_of E)
                       (py_or (py_or (dict_get (ci_value c) ''mode'' JNull)
                                     (dict_get (ci_value c) ''policy'' JNull)) (JStr ''SUSPEND'')))
                 in if mode \<in> {''SUSPEND'', ''DESTROY''} then mode else ''SUSPEND'')))"

definition client_row :: "uuid \<Rightarrow> database \<Rightarrow> client option" where
  "client_row i d = row_by cl_id i (clients d)"

definition set_client_status :: "uuid \<Rightarrow> string \<Rightarrow> ('x, unit) op" where
  "set_client_status i st =
     upd_db (\<lambda>d. d\<lparr>clients := upd_rows (\<lambda>c. cl_id c = i) (\<lambda>c. c\<lparr>cl_status := st\<rparr>) (clients d)\<rparr>)"

definition invalid_argument :: exn where
  "invalid_argument = AppError ''INVALID_ARGUMENT'' 422"

definition create_subscription ::
  "'x env \<Rightarrow> uuid \<Rightarrow> pydatetime \<Rightarrow> pydatetime \<Rightarrow> string option \<Rightarrow> ('x, subscription) op" where
  "create_subscription E client_id starts_at ends_at teardown_mode =
     bindA (ask_db (client_row client_id)) (\<lambda>c.
     bindA (found c) (\<lambda>client.
     bindA (liftA (dt_le ends_at starts_at)) (\<lambda>empty.
       if empty then raise invalid_argument
       else
         bindA (case teardown_mode of
                  Some (x # t) \<Rightarrow> ret (x # t)
                | _ \<Rightarrow> default_teardown_mode E) (\<lambda>m.
         let mode = py_upper m in
         if mode \<notin> {''SUSPEND'', ''DESTROY''} then raise invalid_argument
         else
           bindA (fresh_uuid E) (\<lambda>u.
           let row = \<lparr>su_id = u, su_client_id = client_id, su_status = ''active'',
                      su_starts_at = as_utc starts_at, su_ends_at = as_utc ends_at,
                      su_teardown_mode = mode, su_teardown_completed_at = None\<rparr> in
           seqA (upd_db (\<lambda>d. d\<lparr>subscriptions := subscriptions d @ [row]\<rparr>))
           (bindA now_utc (\<lambda>now.
           seqA (if as_utc starts_at \<le> now \<and> now \<le> as_utc ends_at \<and> cl_status client = ''suspended''
                 then set_client_status client_id ''active'' else ret ())
           (seqA commit (ret row)))))))))"

definition list_subscriptions ::
  "uuid option \<Rightarrow> int \<Rightarrow> int \<Rightarrow> ('x, subscription list \<times> nat) op" where
  "list_subscriptions client_id lmt off =
     ask_db (\<lambda>d.
       let rows = (case client_id of None \<Rightarrow> subscriptions d
                   | Some c \<Rightarrow> filter (\<lambda>r. su_client_id r = c) (subscriptions d))
       in (page_of lmt off (order_desc su_ends_at rows), length rows))"

definition get_subscription :: "uuid \<Rightarrow> ('x, subscription) op" where
  "get_subscription i = bindA (ask_db (\<lambda>d. row_by su_id i (subscriptions d))) found"

definition subs_of :: "uuid \<Rightarrow> database \<Rightarrow> subscription list" where
  "subs_of client_id d = filter (\<lambda>r. su_client_id r = client_id) (subscriptions d)"

definition covering_active :: "instant \<Rightarrow> subscription list \<Rightarrow> subscription list" where
  "covering_active now rows =
     filter (\<lambda>r. su_status r = ''active'' \<and> su_starts_at r \<le> now \<and> now \<le> su_ends_at r \<and>
                 su_teardown_completed_at r = None) rows"

definition client_trading_allowed :: "uuid \<Rightarrow> ('x, bool) op" where
  "client_trading_allowed client_id =
     bindA (ask_db (client_row client_id)) (\<lambda>c.
       case c of
         None \<Rightarrow> ret False
       | Some client \<Rightarrow>
           bindA (ask_db (subs_of client_id)) (\<lambda>rows.
             if rows = [] then ret (cl_status client \<noteq> ''suspended'')
             else bindA now_utc (\<lambda>now. ret (covering_active now rows \<noteq> []))))"

text \<open>The hint in the message of the refusal is left out.\<close>

definition subscription_expired :: exn where
  "subscription_expired = AppError ''SUBSCRIPTION_EXPIRED'' 403"

definition assert_trading_allowed :: "uuid \<Rightarrow> ('x, unit) op" where
  "assert_trading_allowed client_id =
     bindA (client_trading_allowed client_id) (\<lambda>allowed.
       if allowed then
         bindA (ask_db (client_row client_id)) (\<lambda>c.
           case c of
             Some client \<Rightarrow>
               if cl_status client = ''suspended''
               then seqA (set_client_status client_id ''active'') commit
               else ret ()
           | None \<Rightarrow> ret ())
       else raise subscription_expired)"

subsection \<open>The expiry sweep\<close>

definition due_subscriptions :: "instant \<Rightarrow> database \<Rightarrow> subscription list" where
  "due_subscriptions now d =
     filter (\<lambda>r. su_status r = ''active'' \<and> su_ends_at r \<le> now \<and> su_teardown_completed_at r = None)
       (subscriptions d)"

definition upd_sub :: "uuid \<Rightarrow> (subscription \<Rightarrow> subscription) \<Rightarrow> ('x, unit) op" where
  "upd_sub i f = upd_db (\<lambda>d. d\<lparr>subscriptions := upd_rows (\<lambda>r. su_id r = i) f (subscriptions d)\<rparr>)"

definition upd_inst :: "uuid \<Rightarrow> (infra_instance \<Rightarrow> infra_instance) \<Rightarrow> ('x, unit) op" where
  "upd_inst i f = upd_db (\<lambda>d. d\<lparr>instances := upd_rows (\<lambda>r. in_id r = i) f (instances d)\<rparr>)"

definition live_instances :: "uuid \<Rightarrow> database \<Rightarrow> infra_instance list" where
  "live_instances client_id d =
     filter (\<lambda>i. in_client_id i = client_id \<and> in_status i \<in> {''running'', ''pending'', ''suspended''})
       (instances d)"

text \<open>One instance: 1 when it was torn down, 0 when the provider raised.\<close>

definition teardown_instance :: "'x env \<Rightarrow> string \<Rightarrow> infra_instance \<Rightarrow> ('x, nat) op" where
  "teardown_instance E mode inst =
     tryA
       (seqA (io_set_auto_renew (infra E) (in_external_id inst) False)
       (seqA (upd_inst (in_id inst) (\<lambda>i. i\<lparr>in_auto_renew := False\<rparr>))
       (if mode = ''DESTROY''
        then seqA (io_destroy_instance (infra E) (in_external_id inst))
            (seqA (upd_inst (in_id inst) (\<lambda>i. i\<lparr>in_status := ''destroyed''\<rparr>)) (ret 1))
        else seqA (io_suspend_instance (infra E) (in_external_id inst))
            (seqA (upd_inst (in_id inst) (\<lambda>i. i\<lparr>in_status := ''suspended''\<rparr>)) (ret 1)))))
       (\<lambda>_. ret 0)"

definition expire_one :: "'x env \<Rightarrow> instant \<Rightarrow> subscription \<Rightarrow> ('x, nat) op" where
  "expire_one E now sub =
     seqA (upd_sub (su_id sub) (\<lambda>r. r\<lparr>su_status := ''expired''\<rparr>))
     (bindA (ask_db (client_row (su_client_id sub))) (\<lambda>c.
     seqA (case c of Some _ \<Rightarrow> set_client_status (su_client_id sub) ''suspended'' | None \<Rightarrow> ret ())
     (bindA (ask_db (live_instances (su_client_id sub))) (\<lambda>insts.
     bindA (mapA (teardown_instance E (su_teardown_mode sub)) insts) (\<lambda>ns.
     seqA (upd_sub (su_id sub) (\<lambda>r. r\<lparr>su_teardown_completed_at := Some now\<rparr>))
     (seqA (enqueue_outbox E ''subscription.expired'' ''subscriptions''
              [(''subscription_id'', JStr (uuid_text (su_id sub))),
               (''client_id'', JStr (uuid_text (su_client_id sub))),
               (''teardown_mode'', JStr (su_teardown_mode sub)),
               (''ends_at'', JStr (isotext E (su_ends_at sub)))])
       (ret (sum_list ns))))))))"

definition enforce_expiry :: "'x env \<Rightarrow> instant option \<Rightarrow> ('x, nat \<times> nat) op" where
  "enforce_expiry E at_time =
     bindA now_utc (\<lambda>clock_now.
       let now = (case at_time of Some t \<Rightarrow> t | None \<Rightarrow> clock_now) in
       bindA (ask_db (due_subscriptions now)) (\<lambda>due.
       bindA (mapA (expire_one E now) due) (\<lambda>ns.
       seqA (if due \<noteq> [] then commit else ret ())
         (ret (length due, sum_list ns)))))"

definition expire_now :: "'x env \<Rightarrow> uuid \<Rightarrow> ('x, subscription) op" where
  "expire_now E i =
     bindA (get_subscription i) (\<lambda>sub.
     bindA now_utc (\<lambda>now.
     seqA (upd_sub i (\<lambda>r. r\<lparr>su_ends_at := now\<rparr>))
     (if su_status sub = ''active''
      then seqA commit (bindA (enforce_expiry E None) (\<lambda>_.
             bindA (ask_db (\<lambda>d. row_by su_id i (subscriptions d))) found))
      else ret (sub\<lparr>su_ends_at := now\<rparr>))))"

subsection \<open>Who may trade\<close>

text \<open>The specification of BR-G07 over the database at a time.\<close>

definition may_trade :: "instant \<Rightarrow> uuid \<Rightarrow> database \<Rightarrow> bool" where
  "may_trade now client_id d \<longleftrightarrow>
     (case client_row client_id d of
        None \<Rightarrow> False
      | Some client \<Rightarrow>
          (if subs_of client_id d = [] then cl_status client \<noteq> ''suspended''
           else covering_active now (subs_of client_id d) \<noteq> []))"

lemma client_trading_allowed_run [run_simps]:
  "client_trading_allowed c w = (Inr (may_trade (clock w) c (db w)), w)"
  by (simp add: client_trading_allowed_def may_trade_def run_simps split: option.splits)

lemma client_row_after_status:
  "row_by cl_id i (upd_rows (\<lambda>c. cl_id c = i) (\<lambda>c. c\<lparr>cl_status := st\<rparr>) rows) =
   map_option (\<lambda>c. c\<lparr>cl_status := st\<rparr>) (row_by cl_id i rows)"
  by (induction rows) auto

lemma set_client_status_run [run_simps]:
  "set_client_status i st w = (Inr (), w\<lparr>db := (db w)\<lparr>clients :=
     upd_rows (\<lambda>c. cl_id c = i) (\<lambda>c. c\<lparr>cl_status := st\<rparr>) (clients (db w))\<rparr>\<rparr>)"
  by (simp add: set_client_status_def run_simps)

lemma assert_trading_allowed_cases:
  obtains (refused) "\<not> may_trade (clock w) c (db w)" "assert_trading_allowed c w = (Inl subscription_expired, w)"
    | (kept) client where "may_trade (clock w) c (db w)" "client_row c (db w) = Some client"
        "cl_status client \<noteq> ''suspended''" "assert_trading_allowed c w = (Inr (), w)"
    | (cleared) client d where "may_trade (clock w) c (db w)" "client_row c (db w) = Some client"
        "cl_status client = ''suspended''"
        "d = (db w)\<lparr>clients := upd_rows (\<lambda>x. cl_id x = c) (\<lambda>x. x\<lparr>cl_status := ''active''\<rparr>) (clients (db w))\<rparr>"
        "assert_trading_allowed c w = (Inr (), w\<lparr>db := d, saved := d\<rparr>)"
proof (cases "may_trade (clock w) c (db w)")
  case True
  then obtain client where c: "client_row c (db w) = Some client"
    by (auto simp: may_trade_def split: option.splits)
  show thesis
  proof (cases "cl_status client = ''suspended''")
    case True
    with c \<open>may_trade (clock w) c (db w)\<close> show thesis
      by (intro cleared) (simp_all add: assert_trading_allowed_def run_simps)
  next
    case False
    with c \<open>may_trade (clock w) c (db w)\<close> show thesis
      by (intro kept) (simp_all add: assert_trading_allowed_def run_simps)
  qed
next
  case False
  then show thesis by (intro refused) (simp_all add: assert_trading_allowed_def run_simps)
qed

lemma keeps_both_trading:
  assumes "\<And>d c. Q d \<Longrightarrow> Q (d\<lparr>clients := c\<rparr>)"
  shows "keeps (both Q) (assert_trading_allowed c)"
  unfolding assert_trading_allowed_def client_trading_allowed_def set_client_status_def
  by (intro keeps_intros keeps_both_upd assms)

subsection \<open>What the sweep does\<close>

definition expire_row :: "instant \<Rightarrow> subscription \<Rightarrow> subscription" where
  "expire_row now r = r\<lparr>su_status := ''expired'', su_teardown_completed_at := Some now\<rparr>"

text \<open>The subscription and client tables after the rows \<open>due\<close> were expired.\<close>

definition expired_subs :: "instant \<Rightarrow> subscription list \<Rightarrow> subscription list \<Rightarrow> subscription list" where
  "expired_subs now due rows = upd_rows (\<lambda>r. su_id r \<in> su_id ` set due) (expire_row now) rows"

definition suspended_clients :: "subscription list \<Rightarrow> client list \<Rightarrow> client list" where
  "suspended_clients due rows =
     upd_rows (\<lambda>c. cl_id c \<in> su_client_id ` set due) (\<lambda>c. c\<lparr>cl_status := ''suspended''\<rparr>) rows"

lemma mapA_run_total:
  assumes "\<And>x w. \<exists>y w'. f x w = (Inr y, w') \<and> g w' = g w"
  shows "\<exists>ys w'. mapA f xs w = (Inr ys, w') \<and> g w' = g w"
proof (induction xs arbitrary: w)
  case (Cons x xs)
  obtain y w1 where 1: "f x w = (Inr y, w1)" "g w1 = g w" using assms by blast
  obtain ys w2 where 2: "mapA f xs w1 = (Inr ys, w2)" "g w2 = g w1" using Cons by blast
  from 1 2 show ?case by (simp add: run_simps)
qed (simp add: run_simps)

text \<open>The part of the state that tearing down an instance has no hand in.\<close>

definition but_instances :: "'x world \<Rightarrow> database \<times> database \<times> instant" where
  "but_instances w = ((db w)\<lparr>instances := []\<rparr>, saved w, clock w)"

lemma but_instancesD:
  assumes "but_instances w = but_instances v"
  shows "subscriptions (db w) = subscriptions (db v)" "clients (db w) = clients (db v)"
    "outbox (db w) = outbox (db v)" "saved w = saved v" "clock w = clock v"
  using arg_cong [OF assms, of "\<lambda>x. subscriptions (fst x)"] arg_cong [OF assms, of "\<lambda>x. clients (fst x)"]
    arg_cong [OF assms, of "\<lambda>x. outbox (fst x)"] arg_cong [OF assms, of "\<lambda>x. snd x"]
  by (simp_all add: but_instances_def)

lemma frames_upd_inst: "frames but_instances (upd_inst i f)"
  by (simp add: frames_def upd_inst_def run_simps but_instances_def)

context infra_env begin

lemma infra_but_instances: "frames core m \<Longrightarrow> frames but_instances m"
  by (erule frames_via) (simp add: core_def but_instances_def)

lemma frames_teardown: "frames but_instances (teardown_instance E mode inst)"
  unfolding teardown_instance_def
  by (intro frames_intros frames_upd_inst infra_but_instances infra_core)

lemma teardown_total:
  "\<exists>n w'. teardown_instance E mode inst w = (Inr n, w') \<and> but_instances w' = but_instances w"
proof -
  obtain r w' where run: "teardown_instance E mode inst w = (r, w')" by fastforce
  then obtain n where "r = Inr n"
    by (auto simp: teardown_instance_def tryA_def ret_def split: prod.splits sum.splits)
  with run framesD [OF frames_teardown run] show ?thesis by blast
qed

lemma expire_one_run:
  "\<exists>n w'. expire_one E now sub w = (Inr n, w') \<and> saved w' = saved w \<and> clock w' = clock w \<and>
     subscriptions (db w') = expired_subs now [sub] (subscriptions (db w)) \<and>
     clients (db w') = suspended_clients [sub] (clients (db w))"
proof -
  let ?w1 = "w\<lparr>db := (db w)\<lparr>subscriptions := upd_rows (\<lambda>r. su_id r = su_id sub)
       (\<lambda>r. r\<lparr>su_status := ''expired''\<rparr>) (subscriptions (db w)),
     clients := suspended_clients [sub] (clients (db w))\<rparr>\<rparr>"
  have status: "(case client_row (su_client_id sub) d of Some _ \<Rightarrow> set_client_status (su_client_id sub) ''suspended''
      | None \<Rightarrow> ret ()) (v::'a world) = (Inr (), v\<lparr>db := (db v)\<lparr>clients := suspended_clients [sub] (clients (db v))\<rparr>\<rparr>)"
    if "clients d = clients (db v)" for d v
  proof (cases "client_row (su_client_id sub) d")
    case None
    then have "suspended_clients [sub] (clients (db v)) = clients (db v)"
      using that by (auto simp: suspended_clients_def client_row_def row_by_None_iff intro!: upd_rows_none)
    with None show ?thesis by (simp add: run_simps)
  qed (simp add: run_simps suspended_clients_def)
  obtain ns w2 where tear: "mapA (teardown_instance E (su_teardown_mode sub))
      (live_instances (su_client_id sub) (db ?w1)) ?w1 = (Inr ns, w2)" "but_instances w2 = but_instances ?w1"
    using mapA_run_total [of "teardown_instance E (su_teardown_mode sub)" but_instances] teardown_total
    by blast
  note w2 = but_instancesD [OF tear(2)]
  have "\<exists>n. expire_one E now sub w = (Inr n, w2\<lparr>drawn := Suc (drawn w2), db := (db w2)\<lparr>
      subscriptions := upd_rows (\<lambda>r. su_id r = su_id sub)
        (\<lambda>r. r\<lparr>su_teardown_completed_at := Some now\<rparr>) (subscriptions (db w2)),
      outbox := outbox (db w2) @ [\<lparr>ob_id = uuid_at E (drawn w2), ob_event_type = ''subscription.expired'',
        ob_topic = ''subscriptions'', ob_payload = [(''subscription_id'', JStr (uuid_text (su_id sub))),
               (''client_id'', JStr (uuid_text (su_client_id sub))),
               (''teardown_mode'', JStr (su_teardown_mode sub)),
               (''ends_at'', JStr (isotext E (su_ends_at sub)))],
        ob_status = ''pending'', ob_error = None, ob_correlation_id = None,
        ob_created_at = clock w2, ob_sent_at = None\<rparr>]\<rparr>\<rparr>)"
    using tear(1)
    by (simp add: expire_one_def seq_run bind_run upd_sub_def upd_db_run ask_db_run status ret_run enqueue_run)
  then obtain n w' where run: "expire_one E now sub w = (Inr n, w')" "saved w' = saved w2" "clock w' = clock w2"
    "subscriptions (db w') = upd_rows (\<lambda>r. su_id r = su_id sub)
        (\<lambda>r. r\<lparr>su_teardown_completed_at := Some now\<rparr>) (subscriptions (db w2))"
    "clients (db w') = clients (db w2)"
    by (auto simp del: show_int_def)
  have "upd_rows (\<lambda>r. su_id r = su_id sub) (\<lambda>r. r\<lparr>su_teardown_completed_at := Some now\<rparr>)
      (upd_rows (\<lambda>r. su_id r = su_id sub) (\<lambda>r. r\<lparr>su_status := ''expired''\<rparr>) rows) =
      expired_subs now [sub] rows" for rows
    by (simp add: expired_subs_def expire_row_def upd_rows_def)
  with run w2 show ?thesis by simp
qed

lemma expire_all_run:
  "\<exists>ns w'. mapA (expire_one E now) due w = (Inr ns, w') \<and> length ns = length due \<and>
     saved w' = saved w \<and> clock w' = clock w \<and>
     subscriptions (db w') = expired_subs now due (subscriptions (db w)) \<and>
     clients (db w') = suspended_clients due (clients (db w))"
proof (induction due arbitrary: w)
  case Nil
  show ?case by (simp add: run_simps expired_subs_def suspended_clients_def upd_rows_def)
next
  case (Cons sub due)
  obtain n w1 where 1: "expire_one E now sub w = (Inr n, w1)" "saved w1 = saved w" "clock w1 = clock w"
    "subscriptions (db w1) = expired_subs now [sub] (subscriptions (db w))"
    "clients (db w1) = suspended_clients [sub] (clients (db w))"
    using expire_one_run by blast
  obtain ns w2 where 2: "mapA (expire_one E now) due w1 = (Inr ns, w2)" "length ns = length due"
    "saved w2 = saved w1" "clock w2 = clock w1"
    "subscriptions (db w2) = expired_subs now due (subscriptions (db w1))"
    "clients (db w2) = suspended_clients due (clients (db w1))"
    using Cons.IH by blast
  have "expired_subs now due (expired_subs now [sub] rows) = expired_subs now (sub # due) rows" for rows
    by (auto simp: expired_subs_def expire_row_def upd_rows_def)
  moreover have "suspended_clients due (suspended_clients [sub] rows) = suspended_clients (sub # due) rows" for rows
    by (auto simp: suspended_clients_def upd_rows_def)
  ultimately show ?case using 1 2 by (simp add: run_simps)
qed

text \<open>The sweep always returns; it expires the due rows, suspends their clients and commits.\<close>

lemma enforce_expiry_run:
  assumes "now = (case at_time of Some t \<Rightarrow> t | None \<Rightarrow> clock w)"
  defines "due \<equiv> due_subscriptions now (db w)"
  shows "\<exists>n w'. enforce_expiry E at_time w = (Inr (length due, n), w') \<and> clock w' = clock w \<and>
     subscriptions (db w') = expired_subs now due (subscriptions (db w)) \<and>
     clients (db w') = suspended_clients due (clients (db w)) \<and>
     (if due = [] then n = 0 \<and> w' = w else saved w' = db w')"
proof (cases "due = []")
  case True
  then have "enforce_expiry E at_time w = (Inr (0, 0), w)"
    using assms by (simp add: enforce_expiry_def run_simps Let_def)
  with True show ?thesis
    by (simp add: expired_subs_def suspended_clients_def upd_rows_def)
next
  case False
  obtain ns w1 where all: "mapA (expire_one E now) due w = (Inr ns, w1)" "clock w1 = clock w"
     "subscriptions (db w1) = expired_subs now due (subscriptions (db w))"
     "clients (db w1) = suspended_clients due (clients (db w))"
    using expire_all_run by blast
  have "enforce_expiry E at_time w = (Inr (length due, sum_list ns), w1\<lparr>saved := db w1\<rparr>)"
    using all(1) False assms by (simp add: enforce_expiry_def run_simps Let_def)
  with all False show ?thesis by simp
qed

end

lemma due_expired:
  "due_subscriptions now d' = []"
  if "subscriptions d' = expired_subs now (due_subscriptions now d) (subscriptions d)"
  using that by (auto simp: due_subscriptions_def expired_subs_def set_upd_rows expire_row_def
      filter_empty_conv image_iff split: if_splits)

lemma client_row_suspended:
  "row_by cl_id i (suspended_clients due rows) =
   map_option (\<lambda>c. if i \<in> su_client_id ` set due then c\<lparr>cl_status := ''suspended''\<rparr> else c)
     (row_by cl_id i rows)"
  unfolding suspended_clients_def
  by (induction rows) auto

text \<open>A provider whose every call fails.\<close>

lemma teardown_fails:
  assumes "\<And>e b w. fst (io_set_auto_renew (infra E) e b w) = Inl err"
  shows "\<exists>w'. teardown_instance E mode inst w = (Inr 0, w') \<and>
    w' = snd (io_set_auto_renew (infra E) (in_external_id inst) False w)"
  using assms [of "in_external_id inst" False w]
  by (auto simp: teardown_instance_def run_simps split: prod.splits)

end
