(* ===== verification/Health.thy ===== *)
theory Health
  imports World
begin

text \<open>
  Rate-limit snapshots of brokers (\<^verbatim>\<open>app/rate_limit/service.py\<close>) and broker health
  (\<^verbatim>\<open>app/health/service.py\<close>): the score, its status, the probe that stores a snapshot, and
  the latest snapshot of every broker.
\<close>

subsection \<open>Rate limits\<close>

definition rl_key :: "uuid \<Rightarrow> string" where
  "rl_key b = ''rl:broker:'' @ uuid_text b"

text \<open>\<^verbatim>\<open>float(broker.rate_limit_rps or 50)\<close>\<close>

definition broker_limit :: "broker_account \<Rightarrow> rat" where
  "broker_limit b = (case ba_rate_limit_rps b of Some r \<Rightarrow> if r \<noteq> 0 then r else 50 | None \<Rightarrow> 50)"

definition exceed_policy :: "'x env \<Rightarrow> ('x, string) op" where
  "exceed_policy E =
     bindA (config_get_value ''rate_limit.exceed_policy'' [(''policy'', JStr ''REROUTE'')]) (\<lambda>v.
       ret (py_upper (py_str (str_of E) (dict_get v ''policy'' (JStr ''REROUTE'')))))"

definition broker_by_id :: "uuid \<Rightarrow> database \<Rightarrow> broker_account list" where
  "broker_by_id b d = filter (\<lambda>r. ba_id r = b) (brokers d)"

definition limit_or_lookup :: "uuid \<Rightarrow> rat option \<Rightarrow> ('x, rat) op" where
  "limit_or_lookup b limit =
     (case limit of
        Some l \<Rightarrow> ret l
      | None \<Rightarrow> bindA (one_of (broker_by_id b)) (\<lambda>r. bindA (found r) (\<lambda>broker. ret (broker_limit broker))))"

definition rl_check :: "'x env \<Rightarrow> uuid \<Rightarrow> rat option \<Rightarrow> ('x, rl_snapshot) op" where
  "rl_check E b limit =
     bindA (limit_or_lookup b limit) (\<lambda>l.
       tryA (limiter_check E (rl_key b) l) raise_redis_unavailable)"

definition rl_consume :: "'x env \<Rightarrow> uuid \<Rightarrow> rat option \<Rightarrow> ('x, rl_snapshot) op" where
  "rl_consume E b limit =
     bindA (limit_or_lookup b limit) (\<lambda>l.
       tryA (limiter_consume E (rl_key b) l) raise_redis_unavailable)"

definition broker_pressure :: "'x env \<Rightarrow> uuid \<Rightarrow> rat option \<Rightarrow> ('x, rat) op" where
  "broker_pressure E b limit = bindA (rl_check E b limit) (\<lambda>snap. ret (rs_pressure snap))"

record broker_rate =
  rb_broker :: uuid
  rb_display_name :: string
  rb_limit_rps :: rat
  rb_used :: rat
  rb_remaining :: rat
  rb_pressure :: rat
  rb_window_seconds :: rat

definition snapshot_for_broker :: "'x env \<Rightarrow> broker_account \<Rightarrow> ('x, broker_rate) op" where
  "snapshot_for_broker E broker =
     (let limit = broker_limit broker in
      bindA (tryA (limiter_check E (rl_key (ba_id broker)) limit) raise_redis_unavailable) (\<lambda>snap.
        ret \<lparr>rb_broker = ba_id broker, rb_display_name = ba_display_name broker, rb_limit_rps = limit,
             rb_used = rs_used snap, rb_remaining = rs_remaining snap, rb_pressure = rs_pressure snap,
             rb_window_seconds = rs_window_seconds snap\<rparr>))"

definition list_rate_snapshots :: "'x env \<Rightarrow> ('x, broker_rate list) op" where
  "list_rate_snapshots E =
     bindA (ask_db (\<lambda>d. order_asc ba_priority (brokers d))) (mapA (snapshot_for_broker E))"

subsection \<open>The score\<close>

definition clamp :: "rat \<Rightarrow> rat \<Rightarrow> rat \<Rightarrow> rat" where
  "clamp v lo hi = max lo (min hi v)"

text \<open>\<^verbatim>\<open>float(d.get(k, default))\<close>\<close>

definition float_at :: "'x env \<Rightarrow> dict \<Rightarrow> string \<Rightarrow> rat \<Rightarrow> exn + rat" where
  "float_at E d k dflt = py_float (float_of E) (dict_get d k (JFloat dflt))"

record weights =
  w_lat :: rat
  w_succ :: rat
  w_conn :: rat
  w_to :: rat
  w_ip :: rat

definition read_weights :: "'x env \<Rightarrow> dict \<Rightarrow> ('x, weights) op" where
  "read_weights E d =
     bindA (liftA (float_at E d ''w_lat'' (25 / 100))) (\<lambda>l.
     bindA (liftA (float_at E d ''w_succ'' (30 / 100))) (\<lambda>s.
     bindA (liftA (float_at E d ''w_conn'' (15 / 100))) (\<lambda>c.
     bindA (liftA (float_at E d ''w_to'' (20 / 100))) (\<lambda>t.
     bindA (liftA (float_at E d ''w_ip'' (10 / 100))) (\<lambda>i.
       ret \<lparr>w_lat = l, w_succ = s, w_conn = c, w_to = t, w_ip = i\<rparr>)))))"

definition health_score :: "rat \<Rightarrow> rat \<Rightarrow> rat \<Rightarrow> bool \<Rightarrow> rat \<Rightarrow> weights \<Rightarrow> rat \<Rightarrow> rat" where
  "health_score latency_ms success_rate timeout_rate connectivity ip_health W budget =
     (let latency_score = clamp (100 * (1 - latency_ms / budget)) 0 100;
          success_score = success_rate * 100;
          connectivity_score = (if connectivity then 100 else 0);
          timeout_penalty = timeout_rate * 100
      in w_lat W * latency_score + w_succ W * success_score + w_conn W * connectivity_score
         + w_to W * (100 - timeout_penalty) + w_ip W * ip_health)"

text \<open>The division comes first, so a zero budget raises before the weights are read.\<close>

definition compute_health_score ::
  "'x env \<Rightarrow> rat \<Rightarrow> rat \<Rightarrow> rat \<Rightarrow> bool \<Rightarrow> rat \<Rightarrow> dict \<Rightarrow> rat \<Rightarrow> ('x, rat) op" where
  "compute_health_score E latency_ms success_rate timeout_rate connectivity ip_health weights budget =
     (if budget = 0 then raise (PyError ''ZeroDivisionError'')
      else bindA (read_weights E weights) (\<lambda>W.
        ret (health_score latency_ms success_rate timeout_rate connectivity ip_health W budget)))"

definition status_from_score :: "'x env \<Rightarrow> rat \<Rightarrow> dict \<Rightarrow> ('x, string) op" where
  "status_from_score E score thresholds =
     bindA (liftA (float_at E thresholds ''healthy_min'' 80)) (\<lambda>healthy_min.
     bindA (liftA (float_at E thresholds ''degraded_min'' 50)) (\<lambda>degraded_min.
       ret (if score \<ge> healthy_min then ''healthy''
            else if score \<ge> degraded_min then ''degraded'' else ''unhealthy'')))"

subsection \<open>Probing\<close>

text \<open>The join of the active assignments of a broker with their addresses, in table order.\<close>

definition active_assignments :: "uuid \<Rightarrow> database \<Rightarrow> ip_assignment list" where
  "active_assignments b d =
     filter (\<lambda>a. as_broker a = b \<and> as_status a = ''active'') (assignments d)"

definition active_ips :: "uuid \<Rightarrow> database \<Rightarrow> (ip_assignment \<times> static_ip) list" where
  "active_ips b d =
     concat (map (\<lambda>a. map (Pair a) (filter (\<lambda>ip. ip_id ip = as_ip a) (static_ips d)))
              (active_assignments b d))"

definition ip_health_for_broker :: "uuid \<Rightarrow> ('x, rat) op" where
  "ip_health_for_broker b =
     ask_db (\<lambda>d. case first_row (active_ips b d) of
        None \<Rightarrow> 50
      | Some (a, ip) \<Rightarrow> (case ip_health_score ip of Some h \<Rightarrow> of_int h | None \<Rightarrow> 100))"

definition routing_weights_default :: dict where
  "routing_weights_default = [(''w_lat'', JFloat (25 / 100)), (''w_succ'', JFloat (30 / 100)),
     (''w_conn'', JFloat (15 / 100)), (''w_to'', JFloat (20 / 100)), (''w_ip'', JFloat (10 / 100))]"

definition thresholds_default :: dict where
  "thresholds_default = [(''healthy_min'', JInt 80), (''degraded_min'', JInt 50)]"

text \<open>Connectivity, success and timeout rates from the provider's answer.\<close>

definition read_probe :: "'x env \<Rightarrow> dict \<Rightarrow> exn + bool \<times> rat \<times> rat" where
  "read_probe E probe =
     (let connectivity = (if ''connectivity'' \<in> fst ` set probe
                          then truthy (dict_get probe ''connectivity'' JNull)
                          else truthy (dict_get probe ''ok'' (JBool True)))
      in case float_at E probe ''success_rate'' (if connectivity then 1 else 0) of
           Inl e \<Rightarrow> Inl e
         | Inr s \<Rightarrow>
             (case float_at E probe ''timeout_rate'' (if connectivity then 0 else 1) of
                Inl e \<Rightarrow> Inl e
              | Inr t \<Rightarrow> Inr (connectivity, s, t)))"

definition probe_broker :: "'x env \<Rightarrow> broker_account \<Rightarrow> ('x, health_snapshot) op" where
  "probe_broker E broker =
     bindA (config_get_value ''routing.weights'' routing_weights_default) (\<lambda>weights.
     bindA (config_get_value ''routing.health_thresholds'' thresholds_default) (\<lambda>thresholds.
     bindA (askA (\<lambda>w. latency_at E (drawn w))) (\<lambda>latency_ms.
     bindA (tryA (bindA (askA (\<lambda>w. broker_probe (sim_flags w) (the_broker w))) (\<lambda>probe.
                   liftA (read_probe E probe)))
             (\<lambda>_. ret (False, 0, 1))) (\<lambda>(connectivity, success_rate, timeout_rate).
     bindA (ip_health_for_broker (ba_id broker)) (\<lambda>ip_health.
     bindA (compute_health_score E latency_ms success_rate timeout_rate connectivity ip_health weights
              (latency_budget_ms (cfg E))) (\<lambda>score.
     bindA (status_from_score E score thresholds) (\<lambda>status.
     bindA (fresh_uuid E) (\<lambda>u. bindA now_utc (\<lambda>now.
       let snap = \<lparr>hs_id = u, hs_broker = ba_id broker, hs_latency_ms = py_round latency_ms 4,
                   hs_success_rate = py_round success_rate 6, hs_timeout_rate = py_round timeout_rate 6,
                   hs_connectivity = connectivity, hs_ip_health = py_round ip_health 4,
                   hs_score = py_round score 4, hs_status = status, hs_measured_at = now\<rparr>
       in seqA (upd_db (\<lambda>d. d\<lparr>snapshots := snapshots d @ [snap]\<rparr>))
          (seqA commit (ret snap)))))))))))"

definition probe_all :: "'x env \<Rightarrow> ('x, health_snapshot list) op" where
  "probe_all E = bindA (ask_db (\<lambda>d. filter ba_enabled (brokers d))) (mapA (probe_broker E))"

record health_row =
  hr_broker :: uuid
  hr_display_name :: string
  hr_enabled :: bool
  hr_latency_ms :: rat
  hr_success_rate :: rat
  hr_timeout_rate :: rat
  hr_connectivity :: bool
  hr_ip_health :: rat
  hr_score :: rat
  hr_status :: string
  hr_measured_at :: instant

definition latest_snapshot :: "uuid \<Rightarrow> database \<Rightarrow> health_snapshot option" where
  "latest_snapshot b d =
     first_row (order_desc hs_measured_at (filter (\<lambda>s. hs_broker s = b) (snapshots d)))"

definition health_row_of :: "broker_account \<Rightarrow> health_snapshot \<Rightarrow> health_row" where
  "health_row_of broker snap =
     \<lparr>hr_broker = ba_id broker, hr_display_name = ba_display_name broker, hr_enabled = ba_enabled broker,
      hr_latency_ms = hs_latency_ms snap, hr_success_rate = hs_success_rate snap,
      hr_timeout_rate = hs_timeout_rate snap, hr_connectivity = hs_connectivity snap,
      hr_ip_health = hs_ip_health snap, hr_score = hs_score snap, hr_status = hs_status snap,
      hr_measured_at = hs_measured_at snap\<rparr>"

definition latest_for_broker :: "'x env \<Rightarrow> bool \<Rightarrow> broker_account \<Rightarrow> ('x, health_row list) op" where
  "latest_for_broker E probe_if_empty broker =
     bindA (ask_db (latest_snapshot (ba_id broker))) (\<lambda>s.
     bindA (case s of
              Some snap \<Rightarrow> ret (Some snap)
            | None \<Rightarrow> if probe_if_empty \<and> ba_enabled broker
                       then bindA (probe_broker E broker) (\<lambda>snap. ret (Some snap)) else ret None)
       (\<lambda>r. ret (case r of None \<Rightarrow> [] | Some snap \<Rightarrow> [health_row_of broker snap])))"

definition latest_for_brokers :: "'x env \<Rightarrow> bool \<Rightarrow> ('x, health_row list) op" where
  "latest_for_brokers E probe_if_empty =
     bindA (ask_db (\<lambda>d. order_asc ba_priority (brokers d))) (\<lambda>bs.
     bindA (mapA (latest_for_broker E probe_if_empty) bs) (\<lambda>rows. ret (concat rows)))"

subsection \<open>Facts\<close>

text \<open>With the weights of the code the score is a percentage.\<close>

definition good_weights :: "weights \<Rightarrow> bool" where
  "good_weights W \<longleftrightarrow> 0 \<le> w_lat W \<and> 0 \<le> w_succ W \<and> 0 \<le> w_conn W \<and> 0 \<le> w_to W \<and> 0 \<le> w_ip W \<and>
     w_lat W + w_succ W + w_conn W + w_to W + w_ip W = 1"

lemma clamp_bounds: "lo \<le> hi \<Longrightarrow> lo \<le> clamp v lo hi \<and> clamp v lo hi \<le> hi"
  by (auto simp: clamp_def)

lemma convex_bound:
  assumes "good_weights W" "0 \<le> a" "a \<le> 100" "0 \<le> b" "b \<le> 100" "0 \<le> c" "c \<le> 100" "0 \<le> d" "d \<le> 100"
    "0 \<le> e" "e \<le> 100"
  shows "0 \<le> w_lat W * a + w_succ W * b + w_conn W * c + w_to W * d + w_ip W * e"
    "w_lat W * a + w_succ W * b + w_conn W * c + w_to W * d + w_ip W * e \<le> 100"
proof -
  note w = assms(1) [unfolded good_weights_def]
  show "0 \<le> w_lat W * a + w_succ W * b + w_conn W * c + w_to W * d + w_ip W * e"
    using w assms by (intro add_nonneg_nonneg mult_nonneg_nonneg) auto
  have "w_lat W * a + w_succ W * b + w_conn W * c + w_to W * d + w_ip W * e
      \<le> w_lat W * 100 + w_succ W * 100 + w_conn W * 100 + w_to W * 100 + w_ip W * 100"
    using w assms by (intro add_mono mult_left_mono) auto
  also have "\<dots> = (w_lat W + w_succ W + w_conn W + w_to W + w_ip W) * 100"
    by (simp only: distrib_right)
  also have "\<dots> = 100"
    using w by simp
  finally show "w_lat W * a + w_succ W * b + w_conn W * c + w_to W * d + w_ip W * e \<le> 100" .
qed

lemma health_score_bounds:
  assumes "good_weights W" "0 \<le> s" "s \<le> 1" "0 \<le> t" "t \<le> 1" "0 \<le> i" "i \<le> 100"
  shows "0 \<le> health_score l s t c i W budget" "health_score l s t c i W budget \<le> 100"
  using assms clamp_bounds [of 0 100] unfolding health_score_def Let_def
  by (intro convex_bound; simp)+

lemma health_score_mono:
  assumes "good_weights W" "s \<le> s'" "t' \<le> t" "i \<le> i'" "c \<longrightarrow> c'"
  shows "health_score l s t c i W budget \<le> health_score l s' t' c' i' W budget"
  using assms unfolding health_score_def Let_def good_weights_def
  by (intro add_mono mult_left_mono) auto

lemma py_round_percent: "0 \<le> x \<Longrightarrow> x \<le> 100 \<Longrightarrow> 0 \<le> py_round x n \<and> py_round x n \<le> 100"
proof -
  assume x: "0 \<le> x" "x \<le> 100"
  have "0 \<le> round_even (x * 10 ^ n)"
    using x by (intro round_even_mono_int) simp
  moreover have "round_even (x * 10 ^ n) \<le> 100 * 10 ^ n"
    using x by (intro round_even_le_int) simp
  then have "of_int (round_even (x * 10 ^ n)) \<le> (100 :: rat) * 10 ^ n"
    by (metis of_int_le_iff of_int_mult of_int_numeral of_int_power)
  ultimately show ?thesis
    by (simp add: py_round_def divide_le_eq)
qed

lemma active_ips_mem:
  "(a, ip) \<in> set (active_ips b d) \<longleftrightarrow>
   a \<in> set (assignments d) \<and> as_broker a = b \<and> as_status a = ''active'' \<and>
   ip \<in> set (static_ips d) \<and> ip_id ip = as_ip a"
  by (auto simp: active_ips_def active_assignments_def)

text \<open>The mock broker always answers with rates between 0 and 1.\<close>

lemma mock_probe_rates:
  "\<exists>c s t. read_probe E (broker_probe F B) = Inr (c, s, t) \<and> 0 \<le> s \<and> s \<le> 1 \<and> 0 \<le> t \<and> t \<le> 1"
proof (cases "broker_active_fault F B")
  case None
  then have "read_probe E (broker_probe F B) = Inr (True, 1, 0)"
    by (simp add: broker_probe_def read_probe_def float_at_def dict_get_def)
  then show ?thesis by (intro exI conjI) (assumption, simp_all)
next
  case (Some fault)
  show ?thesis
  proof (cases "bf_code fault = ''BROKER_REJECT'' \<or> \<not> bf_retryable fault")
    case True
    with Some have "read_probe E (broker_probe F B) = Inr (True, 1 / 4, 15 / 100)"
      by (simp add: broker_probe_def read_probe_def float_at_def dict_get_def)
    then show ?thesis by (intro exI conjI) (assumption, simp_all)
  next
    case False
    with Some have "read_probe E (broker_probe F B) = Inr (False, 0, 1)"
      by (simp add: broker_probe_def read_probe_def float_at_def dict_get_def)
    then show ?thesis by (intro exI conjI) (assumption, simp_all)
  qed
qed

lemma read_default_weights:
  "read_weights E routing_weights_default w =
    (Inr \<lparr>w_lat = 25 / 100, w_succ = 30 / 100, w_conn = 15 / 100, w_to = 20 / 100, w_ip = 10 / 100\<rparr>, w)"
  by (simp add: read_weights_def routing_weights_default_def float_at_def dict_get_def run_simps liftA_def)

text \<open>Health probing adds rows to the snapshot table and changes no other.\<close>

definition but_snapshots :: "'x world \<Rightarrow> database" where
  "but_snapshots w = (db w)\<lparr>snapshots := []\<rparr>"

lemma frames_probe_broker [frames_intros]:
  assumes "\<And>w n. f (w\<lparr>drawn := n\<rparr>) = f w" "\<And>w s. f (w\<lparr>db := (db w)\<lparr>snapshots := s\<rparr>\<rparr>) = f w"
    "\<And>w d. f (w\<lparr>saved := d\<rparr>) = f w"
  shows "frames f (probe_broker E b)"
  unfolding probe_broker_def compute_health_score_def read_weights_def status_from_score_def
    ip_health_for_broker_def upd_db_def
  using assms by (intro frames_intros frames_commit frames_modify) auto

lemma frames_latest [frames_intros]:
  assumes "\<And>w n. f (w\<lparr>drawn := n\<rparr>) = f w" "\<And>w s. f (w\<lparr>db := (db w)\<lparr>snapshots := s\<rparr>\<rparr>) = f w"
    "\<And>w d. f (w\<lparr>saved := d\<rparr>) = f w"
  shows "frames f (latest_for_brokers E p)"
  unfolding latest_for_brokers_def latest_for_broker_def
  using assms by (intro frames_intros) auto

lemma frames_rl [frames_intros]:
  assumes "\<And>w H. f (w\<lparr>mem_hits := H\<rparr>) = f w" "\<And>w x. f (w\<lparr>ext := x\<rparr>) = f w"
  shows "frames f (rl_check E b l)" "frames f (rl_consume E b l)"
  using assms
  by (auto simp: rl_check_def rl_consume_def limit_or_lookup_def raise_redis_unavailable_def
      intro!: frames_intros)

lemma frames_exceed_policy [frames_intros]: "frames f (exceed_policy E)"
  by (auto simp: exceed_policy_def intro!: frames_intros)

lemma keeps_both_rl [keeps_intros]:
  "keeps (both Q) (rl_check E b l)" "keeps (both Q) (rl_consume E b l)" "keeps (both Q) (exceed_policy E)"
  by (rule keeps_both_frames, intro frames_intros; simp)+

lemma keeps_both_probe:
  assumes "\<And>d s. Q d \<Longrightarrow> Q (d\<lparr>snapshots := s\<rparr>)"
  shows "keeps (both Q) (probe_broker E b)" "keeps (both Q) (latest_for_brokers E p)"
proof -
  show probe: "keeps (both Q) (probe_broker E b)" for b
    unfolding probe_broker_def compute_health_score_def read_weights_def status_from_score_def
      ip_health_for_broker_def
    by (intro keeps_intros keeps_both_upd assms)
  show "keeps (both Q) (latest_for_brokers E p)"
    unfolding latest_for_brokers_def latest_for_broker_def by (intro keeps_intros probe)
qed

end
