(* ===== verification/Sessions.thy ===== *)
theory Sessions
  imports Health
begin

text \<open>
  Broker accounts (\<^verbatim>\<open>app/broker/service.py\<close>) and their login sessions
  (\<^verbatim>\<open>app/sessions/service.py\<close>): the session in the table is reused while it is valid, and
  refreshed or created under the session lock otherwise.
\<close>

subsection \<open>Broker accounts\<close>

definition create_broker ::
  "'x env \<Rightarrow> uuid \<Rightarrow> string \<Rightarrow> string \<Rightarrow> dict \<Rightarrow> int \<Rightarrow> string list option \<Rightarrow> rat option \<Rightarrow> bool \<Rightarrow>
   ('x, broker_account) op" where
  "create_broker E client_id provider_type display_name credentials priority allowed_regions
     rate_limit_rps enabled =
     (let encrypted = encrypt E (json_dumps E (JObj credentials)) in
      bindA (fresh_uuid E) (\<lambda>u.
        let row = \<lparr>ba_id = u, ba_client_id = client_id, ba_provider_type = provider_type,
                   ba_display_name = display_name, ba_priority = priority, ba_enabled = enabled,
                   ba_allowed_regions = (case allowed_regions of Some (r # rs) \<Rightarrow> r # rs | _ \<Rightarrow> [''ewr'']),
                   ba_capabilities = list_capabilities, ba_credentials = encrypted,
                   ba_rate_limit_rps = rate_limit_rps\<rparr>
        in seqA (upd_db (\<lambda>d. d\<lparr>brokers := brokers d @ [row]\<rparr>)) (seqA commit (ret row))))"

definition list_brokers :: "uuid option \<Rightarrow> int \<Rightarrow> int \<Rightarrow> ('x, broker_account list \<times> nat) op" where
  "list_brokers client_id lmt off =
     ask_db (\<lambda>d.
       let rows = (case client_id of None \<Rightarrow> brokers d
                   | Some c \<Rightarrow> filter (\<lambda>r. ba_client_id r = c) (brokers d))
       in (page_of lmt off (order_asc ba_priority (sort_key ba_display_name rows)), length rows))"

definition get_broker :: "uuid \<Rightarrow> ('x, broker_account) op" where
  "get_broker b = bindA (one_of (broker_by_id b)) found"

definition upd_broker :: "uuid \<Rightarrow> (broker_account \<Rightarrow> broker_account) \<Rightarrow> ('x, unit) op" where
  "upd_broker b f = upd_db (\<lambda>d. d\<lparr>brokers := upd_rows (\<lambda>r. ba_id r = b) f (brokers d)\<rparr>)"

definition patch_row ::
  "bool option \<Rightarrow> int option \<Rightarrow> string option \<Rightarrow> rat option \<Rightarrow> string list option \<Rightarrow>
   broker_account \<Rightarrow> broker_account" where
  "patch_row enabled priority display_name rate_limit_rps allowed_regions r =
     r\<lparr>ba_enabled := (case enabled of Some b \<Rightarrow> b | None \<Rightarrow> ba_enabled r),
       ba_priority := (case priority of Some p \<Rightarrow> p | None \<Rightarrow> ba_priority r),
       ba_display_name := (case display_name of Some n \<Rightarrow> n | None \<Rightarrow> ba_display_name r),
       ba_rate_limit_rps := (case rate_limit_rps of Some x \<Rightarrow> Some x | None \<Rightarrow> ba_rate_limit_rps r),
       ba_allowed_regions := (case allowed_regions of Some rs \<Rightarrow> rs | None \<Rightarrow> ba_allowed_regions r)\<rparr>"

definition patch_broker ::
  "uuid \<Rightarrow> bool option \<Rightarrow> int option \<Rightarrow> string option \<Rightarrow> rat option \<Rightarrow> string list option \<Rightarrow>
   ('x, broker_account) op" where
  "patch_broker b enabled priority display_name rate_limit_rps allowed_regions =
     bindA (get_broker b) (\<lambda>row.
       let f = patch_row enabled priority display_name rate_limit_rps allowed_regions in
       seqA (upd_broker b f) (seqA commit (ret (f row))))"

definition refresh_capabilities :: "uuid \<Rightarrow> ('x, broker_account) op" where
  "refresh_capabilities b =
     bindA (get_broker b) (\<lambda>row.
       let f = (\<lambda>r. r\<lparr>ba_capabilities := list_capabilities\<rparr>) in
       seqA (upd_broker b f) (seqA commit (ret (f row))))"

subsection \<open>Sessions\<close>

definition sessions_of :: "uuid \<Rightarrow> database \<Rightarrow> broker_session list" where
  "sessions_of b d = filter (\<lambda>s. bs_broker s = b) (broker_sessions d)"

definition get_for_broker :: "uuid \<Rightarrow> ('x, broker_session option) op" where
  "get_for_broker b = one_of (sessions_of b)"

definition list_all_sessions ::
  "int \<Rightarrow> int \<Rightarrow> ('x, (broker_session \<times> broker_account) list \<times> nat) op" where
  "list_all_sessions lmt off =
     ask_db (\<lambda>d.
       (page_of lmt off
          (concat (map (\<lambda>s. map (Pair s) (filter (\<lambda>b. ba_id b = bs_broker s) (brokers d)))
             (order_desc bs_updated_at (broker_sessions d)))),
        length (broker_sessions d)))"

definition session_usable :: "instant \<Rightarrow> broker_session \<Rightarrow> bool" where
  "session_usable now s \<longleftrightarrow> bs_status s = ''valid'' \<and> (\<exists>t. bs_expires_at s = Some t \<and> t > now)"

lemma session_usable_code [code]:
  "session_usable now s \<longleftrightarrow> bs_status s = ''valid'' \<and> (case bs_expires_at s of Some t \<Rightarrow> t > now | None \<Rightarrow> False)"
  by (auto simp: session_usable_def split: option.splits)

text \<open>\<^verbatim>\<open>expires_raw.replace("Z", "+00:00")\<close>\<close>

definition z_to_offset :: "string \<Rightarrow> string" where
  "z_to_offset s = concat (map (\<lambda>c. if c = CHR ''Z'' then ''+00:00'' else [c]) s)"

definition authenticate_broker :: "'x env \<Rightarrow> broker_account \<Rightarrow> instant \<Rightarrow> ('x, dict) op" where
  "authenticate_broker E broker now =
     bindA (liftA (decrypt E (ba_credentials broker))) (\<lambda>text.
     bindA (liftA (json_loads E text)) (\<lambda>creds.
       case creds of
         JObj d \<Rightarrow> on_broker (broker_authenticate (uuid_at E) (isotext E) now d)
       | _ \<Rightarrow> raise (PyError ''AttributeError'')))"

definition fetch_tokens ::
  "'x env \<Rightarrow> broker_account \<Rightarrow> broker_session option \<Rightarrow> bool \<Rightarrow> instant \<Rightarrow> ('x, dict) op" where
  "fetch_tokens E broker existing force_refresh now =
     (case Option.bind existing bs_refresh_token of
        Some (c # t) \<Rightarrow>
          (if \<not> force_refresh
           then bindA (liftA (decrypt E (c # t))) (\<lambda>refresh.
                  on_broker (broker_refresh_session (uuid_at E) (isotext E) now (Some refresh)))
           else authenticate_broker E broker now)
      | _ \<Rightarrow> authenticate_broker E broker now)"

definition expiry_of :: "'x env \<Rightarrow> dict \<Rightarrow> instant \<Rightarrow> exn + instant" where
  "expiry_of E tokens now =
     (case dict_get tokens ''expires_at'' JNull of
        JStr raw \<Rightarrow> (case parse_iso E (z_to_offset raw) of Inl e \<Rightarrow> Inl e | Inr t \<Rightarrow> Inr (as_utc t))
      | _ \<Rightarrow> Inr now)"

text \<open>The row to update: the one that was found, or a new one.\<close>

definition session_row :: "'x env \<Rightarrow> uuid \<Rightarrow> broker_session option \<Rightarrow> ('x, broker_session) op" where
  "session_row E b existing =
     (case existing of
        Some s \<Rightarrow> ret s
      | None \<Rightarrow> bindA (fresh_uuid E) (\<lambda>u. bindA now_utc (\<lambda>now.
          let row = \<lparr>bs_id = u, bs_broker = b, bs_access_token = None, bs_refresh_token = None,
                     bs_expires_at = None, bs_status = ''missing'', bs_updated_at = now\<rparr>
          in seqA (upd_db (\<lambda>d. d\<lparr>broker_sessions := broker_sessions d @ [row]\<rparr>)) (ret row))))"

definition renew_session ::
  "'x env \<Rightarrow> broker_account \<Rightarrow> broker_session option \<Rightarrow> bool \<Rightarrow> instant \<Rightarrow> ('x, broker_session) op" where
  "renew_session E broker existing force_refresh now =
     bindA (fetch_tokens E broker existing force_refresh now) (\<lambda>tokens.
     bindA (liftA (expiry_of E tokens now)) (\<lambda>expires_at.
     bindA (liftA (text_item tokens ''access_token'')) (\<lambda>access.
     bindA (liftA (text_value (py_or (dict_get tokens ''refresh_token'' JNull) (JStr [])))) (\<lambda>refresh.
     bindA (session_row E (ba_id broker) existing) (\<lambda>row.
     bindA (liftA (text_value (py_or (dict_get tokens ''status'' JNull) (JStr ''valid'')))) (\<lambda>status.
       let f = (\<lambda>s. s\<lparr>bs_access_token := Some (encrypt E access), bs_refresh_token := Some (encrypt E refresh),
                      bs_expires_at := Some expires_at, bs_status := status, bs_updated_at := now\<rparr>)
       in seqA (upd_db (\<lambda>d. d\<lparr>broker_sessions := upd_rows (\<lambda>s. bs_id s = bs_id row) f (broker_sessions d)\<rparr>))
          (seqA commit
          (seqA (tryA (session_cache_set E (''session:'' @ uuid_text (ba_id broker))
                  [(''broker_id'', JStr (uuid_text (ba_id broker))), (''status'', JStr status),
                   (''expires_at'', JStr (isotext E expires_at))] (Some 3600))
                  raise_redis_unavailable)
             (ret (f row))))))))))"

definition ensure_session :: "'x env \<Rightarrow> uuid \<Rightarrow> bool \<Rightarrow> ('x, broker_session) op" where
  "ensure_session E b force_refresh =
     bindA (one_of (broker_by_id b)) (\<lambda>r. bindA (found r) (\<lambda>broker.
       if \<not> ba_enabled broker then raise (AppError ''BROKER_DISABLED'' 409)
       else with_lock E (session_lock b) 30
         (bindA (get_for_broker b) (\<lambda>existing. bindA now_utc (\<lambda>now.
            case existing of
              Some s \<Rightarrow> if \<not> force_refresh \<and> session_usable now s then ret s
                        else renew_session E broker existing force_refresh now
            | None \<Rightarrow> renew_session E broker existing force_refresh now)))))"

subsection \<open>Facts\<close>

lemma broker_by_id_mem: "scalar_one_or_none (broker_by_id b d) = Inr (Some r) \<Longrightarrow> r \<in> set (brokers d) \<and> ba_id r = b"
  by (auto simp: scalar_one_or_none_Inr broker_by_id_def filter_eq_Cons_iff)

lemma get_for_broker_mem:
  "scalar_one_or_none (sessions_of b d) = Inr (Some s) \<Longrightarrow> bs_broker s = b"
  by (auto simp: scalar_one_or_none_Inr sessions_of_def filter_eq_Cons_iff)

text \<open>The tokens of the mock broker: valid for an hour.\<close>

definition good_tokens :: "'x env \<Rightarrow> instant \<Rightarrow> dict \<Rightarrow> bool" where
  "good_tokens E now tokens \<longleftrightarrow> dict_get tokens ''status'' JNull = JStr ''valid'' \<and>
     dict_get tokens ''expires_at'' JNull = JStr (isotext E (now + hour))"

lemma authenticate_good:
  "broker_authenticate U (isotext E) now c s = (Inr tokens, s') \<Longrightarrow> good_tokens E now tokens"
  by (cases s) (auto simp: broker_authenticate_def act_simps Let_def good_tokens_def dict_get_def)

lemma refresh_good:
  "broker_refresh_session U (isotext E) now r s = (Inr tokens, s') \<Longrightarrow> good_tokens E now tokens"
  by (cases s) (auto simp: broker_refresh_session_def act_simps Let_def good_tokens_def dict_get_def)

lemma on_broker_Inr: "on_broker m w = (Inr x, w') \<Longrightarrow> \<exists>s s'. m s = (Inr x, s')"
  by (auto simp: on_broker_def zoomA_def split: prod.splits)

lemma authenticate_broker_good:
  "authenticate_broker E broker now w = (Inr tokens, w') \<Longrightarrow> good_tokens E now tokens"
  unfolding authenticate_broker_def bindA_Inr
  by (elim exE conjE) (auto split: json.splits dest!: on_broker_Inr authenticate_good)

lemma fetch_tokens_valid:
  "fetch_tokens E broker existing fr now w = (Inr tokens, w') \<Longrightarrow> good_tokens E now tokens"
  by (auto simp: fetch_tokens_def bindA_Inr split: option.splits list.splits if_splits
      dest!: on_broker_Inr refresh_good authenticate_broker_good)

definition iso_readable :: "'x env \<Rightarrow> bool" where
  "iso_readable E \<longleftrightarrow> (\<forall>t. parse_iso E (z_to_offset (isotext E t)) = Inr (Aware t 0))"

lemma session_row_broker:
  "session_row E b existing w = (Inr row, w') \<Longrightarrow> (\<And>s. existing = Some s \<Longrightarrow> bs_broker s = b) \<Longrightarrow>
   bs_broker row = b"
  by (auto simp: session_row_def act_simps Let_def split: option.splits)

lemma expiry_of_good:
  "iso_readable E \<Longrightarrow> good_tokens E now tokens \<Longrightarrow> expiry_of E tokens now = Inr (now + hour)"
  by (simp add: expiry_of_def good_tokens_def iso_readable_def)

lemma status_of_good:
  "good_tokens E now tokens \<Longrightarrow>
   text_value (py_or (dict_get tokens ''status'' JNull) (JStr ''valid'')) = Inr ''valid''"
  by (simp add: good_tokens_def py_or_def text_value_def)

lemma renew_session_usable:
  assumes "iso_readable E" "renew_session E broker existing fr now w = (Inr s, w')"
    and "\<And>s. existing = Some s \<Longrightarrow> bs_broker s = ba_id broker"
  shows "session_usable now s \<and> bs_broker s = ba_id broker"
proof -
  obtain tokens w1 where tokens: "fetch_tokens E broker existing fr now w = (Inr tokens, w1)"
    using assms(2) unfolding renew_session_def bindA_Inr by blast
  note good = fetch_tokens_valid [OF tokens]
  show ?thesis
    using assms(2) tokens unfolding renew_session_def Let_def
    by (auto simp: bindA_Inr seqA_Inr expiry_of_good [OF assms(1) good] status_of_good [OF good]
        session_usable_def hour_def dest!: session_row_broker [OF _ assms(3)])
qed

lemma ensure_session_usable:
  assumes "iso_readable E" "ensure_session E b fr w = (Inr s, w')"
  shows "session_usable (clock w) s \<and> bs_broker s = b"
proof -
  obtain broker where broker: "scalar_one_or_none (broker_by_id b (db w)) = Inr (Some broker)"
    and locked: "with_lock E (session_lock b) 30
         (bindA (get_for_broker b) (\<lambda>existing. bindA now_utc (\<lambda>now.
            case existing of
              Some s \<Rightarrow> if \<not> fr \<and> session_usable now s then ret s
                        else renew_session E broker existing fr now
            | None \<Rightarrow> renew_session E broker existing fr now))) w = (Inr s, w')"
    using assms(2)
    by (auto simp: ensure_session_def run_simps found_def split: sum.splits option.splits if_splits)
  have b: "ba_id broker = b"
    using broker_by_id_mem [OF broker] by simp
  obtain w1 w2 where acq: "acquire_lock E (session_lock b) 30 (uuid_hex (uuid_at E (drawn w)))
      (w\<lparr>drawn := Suc (drawn w)\<rparr>) = (Inr True, w1)"
    and body: "bindA (get_for_broker b) (\<lambda>existing. bindA now_utc (\<lambda>now.
            case existing of
              Some s \<Rightarrow> if \<not> fr \<and> session_usable now s then ret s
                        else renew_session E broker existing fr now
            | None \<Rightarrow> renew_session E broker existing fr now)) w1 = (Inr s, w2)"
    using locked by (auto simp: with_lock_def act_simps run_simps Let_def split: if_splits sum.splits prod.splits)
  have clk: "clock w1 = clock w"
    using framesD [OF frames_acquire_lock [where f = clock] acq] by simp
  obtain existing where ex: "scalar_one_or_none (sessions_of b (db w1)) = Inr existing"
    and rest: "(case existing of
              Some s \<Rightarrow> if \<not> fr \<and> session_usable (clock w1) s then ret s
                        else renew_session E broker existing fr (clock w1)
            | None \<Rightarrow> renew_session E broker existing fr (clock w1)) w1 = (Inr s, w2)"
    using body by (auto simp: get_for_broker_def run_simps split: sum.splits)
  have old: "\<And>s. existing = Some s \<Longrightarrow> bs_broker s = ba_id broker"
    using ex get_for_broker_mem b by blast
  have "(\<exists>x. existing = Some x \<and> session_usable (clock w1) x \<and> s = x) \<or>
      renew_session E broker existing fr (clock w1) w1 = (Inr s, w2)"
    using rest by (auto split: option.splits if_splits)
  then show ?thesis
  proof
    assume "\<exists>x. existing = Some x \<and> session_usable (clock w1) x \<and> s = x"
    then show ?thesis using old b clk by auto
  next
    assume "renew_session E broker existing fr (clock w1) w1 = (Inr s, w2)"
    from renew_session_usable [OF assms(1) this old] show ?thesis using b clk by simp
  qed
qed

lemma frames_ensure_session [frames_intros]:
  assumes "\<And>w n. f (w\<lparr>drawn := n\<rparr>) = f w" "\<And>w L. f (w\<lparr>mem_locks := L\<rparr>) = f w"
    "\<And>w x. f (w\<lparr>ext := x\<rparr>) = f w" "\<And>w S. f (w\<lparr>mem_sessions := S\<rparr>) = f w"
    "\<And>w B n. f (w\<lparr>the_broker := B, drawn := n\<rparr>) = f w" "\<And>w d. f (w\<lparr>saved := d\<rparr>) = f w"
    "\<And>w s. f (w\<lparr>db := (db w)\<lparr>broker_sessions := s\<rparr>\<rparr>) = f w"
  shows "frames f (ensure_session E b fr)"
proof -
  have upd: "frames f (upd_db (\<lambda>d. d\<lparr>broker_sessions := g d\<rparr>))" for g
    using assms(7) by (simp add: upd_db_def frames_modify)
  have "frames f (renew_session E broker ex fr now)" for broker ex fr now
    unfolding renew_session_def raise_redis_unavailable_def fetch_tokens_def authenticate_broker_def
      session_row_def
    by (intro frames_intros upd frames_commit assms)
  then show ?thesis
    unfolding ensure_session_def get_for_broker_def by (intro frames_intros assms)
qed

lemma keeps_both_ensure:
  assumes "\<And>d s. Q d \<Longrightarrow> Q (d\<lparr>broker_sessions := s\<rparr>)"
  shows "keeps (both Q) (ensure_session E b fr)"
  unfolding ensure_session_def get_for_broker_def renew_session_def raise_redis_unavailable_def
    fetch_tokens_def authenticate_broker_def session_row_def
  by (intro keeps_intros keeps_both_upd assms)

end
