(* ===== verification/IpManager.thy ===== *)
theory IpManager
  imports Health
begin

text \<open>
  Instances and static IPs (\<^verbatim>\<open>app/ip_manager/service.py\<close>): creating and stopping instances,
  allocating addresses, assigning them to brokers under locks with the reuse cooldown (BR-G04),
  attaching, detaching and releasing them.
\<close>

subsection \<open>Settings and conversions\<close>

definition hours :: "int \<Rightarrow> int" where
  "hours n = n * hour"

definition cooldown_hours :: "'x env \<Rightarrow> ('x, int) op" where
  "cooldown_hours E =
     bindA (one_of (config_rows ''ip.reuse.cooldown_hours'')) (\<lambda>item.
       case item of
         None \<Rightarrow> ret (ip_reuse_cooldown_hours (cfg E))
       | Some c \<Rightarrow>
           (case map_of (ci_value c) ''hours'' of
              Some j \<Rightarrow> liftA (py_int j)
            | None \<Rightarrow> ret (ip_reuse_cooldown_hours (cfg E))))"

text \<open>\<^verbatim>\<open>except MockInfrastructureError as exc: raise AppError(exc.code, ..., exc.status)\<close>\<close>

definition map_infra_error :: "('x, 'a) op \<Rightarrow> ('x, 'a) op" where
  "map_infra_error m =
     tryA m (\<lambda>e. case e of MockInfrastructureError code st \<Rightarrow> raise (AppError code st) | _ \<Rightarrow> raise e)"

text \<open>\<^verbatim>\<open>s.rsplit("-", 1)[-1][:8]\<close>\<close>

definition short_id :: "string \<Rightarrow> string" where
  "short_id s = take 8 (rev (takeWhile (\<lambda>c. c \<noteq> CHR ''-'') (rev s)))"

definition str_or :: "'x env \<Rightarrow> dict \<Rightarrow> string \<Rightarrow> string \<Rightarrow> string" where
  "str_or E d k dflt = py_str (str_of E) (py_or (dict_get d k JNull) (JStr dflt))"

definition invalid_state :: exn where
  "invalid_state = AppError ''INVALID_STATE'' 409"

subsection \<open>Instances\<close>

definition create_instance :: "'x env \<Rightarrow> uuid \<Rightarrow> string \<Rightarrow> string option \<Rightarrow> ('x, infra_instance) op" where
  "create_instance E client_id region label =
     bindA (map_infra_error (io_create_instance (infra E) region label)) (\<lambda>resource.
     bindA (liftA (text_item resource ''external_id'')) (\<lambda>external_id.
     bindA (liftA (text_value (dict_get resource ''status'' (JStr ''running'')))) (\<lambda>status.
     bindA (fresh_uuid E) (\<lambda>u. bindA now_utc (\<lambda>now.
       let stripped = py_strip (case label of Some l \<Rightarrow> l | None \<Rightarrow> []);
           display = (if stripped \<noteq> [] then stripped
                      else ''Lab Instance '' @ region @ ''-'' @ short_id external_id);
           row = \<lparr>in_id = u, in_client_id = client_id, in_provider = str_or E resource ''provider'' ''mock'',
                  in_external_id = external_id, in_region = region, in_status = status,
                  in_auto_renew = truthy (dict_get resource ''auto_renew'' (JBool True)),
                  in_metadata = [(''label'', JStr display), (''backend'', dict_get resource ''backend'' JNull)],
                  in_created_at = now\<rparr>
       in seqA (upd_db (\<lambda>d. d\<lparr>instances := instances d @ [row]\<rparr>)) (seqA commit (ret row)))))))"

definition instance_by_id :: "uuid \<Rightarrow> database \<Rightarrow> infra_instance list" where
  "instance_by_id i d = filter (\<lambda>r. in_id r = i) (instances d)"

definition get_instance :: "uuid \<Rightarrow> ('x, infra_instance) op" where
  "get_instance i = bindA (one_of (instance_by_id i)) found"

definition upd_instance :: "uuid \<Rightarrow> (infra_instance \<Rightarrow> infra_instance) \<Rightarrow> ('x, unit) op" where
  "upd_instance i f = upd_db (\<lambda>d. d\<lparr>instances := upd_rows (\<lambda>r. in_id r = i) f (instances d)\<rparr>)"

definition destroy_instance :: "'x env \<Rightarrow> uuid \<Rightarrow> ('x, unit) op" where
  "destroy_instance E i =
     bindA (get_instance i) (\<lambda>row.
     seqA (map_infra_error (io_destroy_instance (infra E) (in_external_id row)))
     (seqA (upd_instance i (\<lambda>r. r\<lparr>in_status := ''destroyed''\<rparr>)) commit))"

definition suspend_instance :: "'x env \<Rightarrow> uuid \<Rightarrow> ('x, infra_instance) op" where
  "suspend_instance E i =
     bindA (get_instance i) (\<lambda>row.
       if in_status row = ''destroyed'' then raise invalid_state
       else seqA (map_infra_error (io_suspend_instance (infra E) (in_external_id row)))
           (seqA (upd_instance i (\<lambda>r. r\<lparr>in_status := ''suspended''\<rparr>))
           (seqA commit (ret (row\<lparr>in_status := ''suspended''\<rparr>)))))"

definition start_instance :: "'x env \<Rightarrow> uuid \<Rightarrow> ('x, infra_instance) op" where
  "start_instance E i =
     bindA (get_instance i) (\<lambda>row.
       if in_status row = ''destroyed'' then raise invalid_state
       else seqA (map_infra_error (io_start_instance (infra E) (in_external_id row)))
           (seqA (upd_instance i (\<lambda>r. r\<lparr>in_status := ''running''\<rparr>))
           (seqA commit (ret (row\<lparr>in_status := ''running''\<rparr>)))))"

definition set_auto_renew :: "'x env \<Rightarrow> uuid \<Rightarrow> bool \<Rightarrow> ('x, infra_instance) op" where
  "set_auto_renew E i enabled =
     bindA (get_instance i) (\<lambda>row.
     seqA (io_set_auto_renew (infra E) (in_external_id row) enabled)
     (seqA (upd_instance i (\<lambda>r. r\<lparr>in_auto_renew := enabled\<rparr>))
     (seqA commit (ret (row\<lparr>in_auto_renew := enabled\<rparr>)))))"

definition list_instances :: "('x, infra_instance list) op" where
  "list_instances = ask_db (\<lambda>d. order_desc in_created_at (instances d))"

subsection \<open>Allocating addresses\<close>

text \<open>One round of the loop and the rounds left. The unique index on \<^verbatim>\<open>ip_address\<close> makes the
  flush of a taken address raise IntegrityError, which rolls the session back.\<close>

fun allocate_rounds :: "'x env \<Rightarrow> string \<Rightarrow> nat \<Rightarrow> ('x, static_ip) op" where
  "allocate_rounds E region 0 = raise (AppError ''IP_ALLOCATE_CONFLICT'' 409)"
| "allocate_rounds E region (Suc n) =
     bindA (map_infra_error (io_create_ip (infra E) region)) (\<lambda>resource.
     bindA (liftA (text_item resource ''external_id'')) (\<lambda>external_id.
     bindA (liftA (text_item resource ''ip_address'')) (\<lambda>address.
     bindA (fresh_uuid E) (\<lambda>u. bindA now_utc (\<lambda>now.
     bindA (ask_db (\<lambda>d. address \<in> set (map ip_address (static_ips d)))) (\<lambda>taken.
       if taken then seqA rollback (allocate_rounds E region n)
       else
         let row = \<lparr>ip_id = u, ip_provider = str_or E resource ''provider'' ''mock'',
                    ip_external_id = external_id, ip_address = address, ip_region = region,
                    ip_status = ''allocated'', ip_instance_id = None, ip_health_score = Some 100,
                    ip_metadata = [(''backend'', dict_get resource ''backend'' JNull)], ip_created_at = now\<rparr>
         in seqA (upd_db (\<lambda>d. d\<lparr>static_ips := static_ips d @ [row]\<rparr>))
            (seqA (enqueue_outbox E ''ip.allocated'' ''ip''
                     [(''static_ip_id'', JStr (uuid_text u)), (''ip_address'', JStr address),
                      (''region'', JStr region)])
            (seqA commit (ret row)))))))))"

definition allocate_ip :: "'x env \<Rightarrow> string \<Rightarrow> ('x, static_ip) op" where
  "allocate_ip E region = allocate_rounds E region 8"

definition list_ips :: "string option \<Rightarrow> int \<Rightarrow> int \<Rightarrow> ('x, static_ip list \<times> nat) op" where
  "list_ips region lmt off =
     ask_db (\<lambda>d.
       let rows = (case region of
                     Some (c # t) \<Rightarrow> filter (\<lambda>r. ip_region r = c # t) (static_ips d)
                   | _ \<Rightarrow> static_ips d)
       in (page_of lmt off (order_desc ip_created_at rows), length rows))"

definition ip_by_id :: "uuid \<Rightarrow> database \<Rightarrow> static_ip list" where
  "ip_by_id i d = filter (\<lambda>r. ip_id r = i) (static_ips d)"

definition get_ip :: "uuid \<Rightarrow> ('x, static_ip) op" where
  "get_ip i = bindA (one_of (ip_by_id i)) found"

definition upd_ip :: "uuid \<Rightarrow> (static_ip \<Rightarrow> static_ip) \<Rightarrow> ('x, unit) op" where
  "upd_ip i f = upd_db (\<lambda>d. d\<lparr>static_ips := upd_rows (\<lambda>r. ip_id r = i) f (static_ips d)\<rparr>)"

subsection \<open>Assigning an address to a broker\<close>

definition usages_of :: "uuid \<Rightarrow> uuid \<Rightarrow> database \<Rightarrow> ip_usage list" where
  "usages_of b i d = filter (\<lambda>h. us_broker h = b \<and> us_ip h = i) (usages d)"

definition cooling :: "instant \<Rightarrow> ip_usage \<Rightarrow> bool" where
  "cooling now h = (case us_eligible_at h of Some t \<Rightarrow> t > now | None \<Rightarrow> False)"

definition reuse_policy :: exn where
  "reuse_policy = AppError ''IP_REUSE_POLICY'' 409"

definition assert_reuse_allowed :: "uuid \<Rightarrow> uuid \<Rightarrow> ('x, unit) op" where
  "assert_reuse_allowed b i =
     bindA now_utc (\<lambda>now. bindA (ask_db (usages_of b i)) (\<lambda>hs.
       if (\<exists>h \<in> set hs. cooling now h) then raise reuse_policy else ret ()))"

definition add_usage :: "'x env \<Rightarrow> uuid \<Rightarrow> uuid \<Rightarrow> ('x, unit) op" where
  "add_usage E b i =
     bindA (fresh_uuid E) (\<lambda>u. bindA now_utc (\<lambda>now.
       upd_db (\<lambda>d. d\<lparr>usages := usages d @
         [\<lparr>us_id = u, us_broker = b, us_ip = i, us_used_at = now, us_released_at = None,
           us_eligible_at = None\<rparr>]\<rparr>)))"

definition add_assignment :: "'x env \<Rightarrow> uuid \<Rightarrow> uuid \<Rightarrow> uuid \<Rightarrow> ('x, ip_assignment) op" where
  "add_assignment E client_id b i =
     bindA (fresh_uuid E) (\<lambda>u. bindA now_utc (\<lambda>now.
       let row = \<lparr>as_id = u, as_client_id = client_id, as_broker = b, as_ip = i, as_status = ''active'',
                  as_assigned_at = now, as_released_at = None\<rparr>
       in seqA (upd_db (\<lambda>d. d\<lparr>assignments := assignments d @ [row]\<rparr>)) (ret row)))"

definition assign_body :: "'x env \<Rightarrow> uuid \<Rightarrow> uuid \<Rightarrow> uuid option \<Rightarrow> ('x, ip_assignment) op" where
  "assign_body E i b client_id =
     bindA (get_ip i) (\<lambda>ip.
       if ip_status ip = ''quarantined'' then raise invalid_state
       else if ip_status ip = ''attached'' then raise invalid_state
       else
         bindA (one_of (broker_by_id b)) (\<lambda>r. bindA (found r) (\<lambda>broker.
         seqA (assert_reuse_allowed b i)
         (bindA (one_of (active_assignments b)) (\<lambda>active.
           if active \<noteq> None then raise (AppError ''ASSIGNMENT_CONFLICT'' 409)
           else
             bindA (add_assignment E (case client_id of Some c \<Rightarrow> c | None \<Rightarrow> ba_client_id broker) b i) (\<lambda>row.
             seqA (add_usage E b i)
             (seqA (if ip_status ip = ''released'' then upd_ip i (\<lambda>r. r\<lparr>ip_status := ''allocated''\<rparr>) else ret ())
             (seqA commit (ret row)))))))))"

text \<open>Both locks under one token, the broker's first.\<close>

definition assign :: "'x env \<Rightarrow> uuid \<Rightarrow> uuid \<Rightarrow> uuid option \<Rightarrow> ('x, ip_assignment) op" where
  "assign E i b client_id =
     bindA (fresh_uuid E) (\<lambda>u.
       let token = uuid_hex u in
       bindA (acquire_lock E (broker_ip_lock b) 30 token) (\<lambda>ok.
         if \<not> ok then raise lock_contention
         else
           bindA (acquire_lock E (ip_lock i) 30 token) (\<lambda>ok2.
             if \<not> ok2 then seqA (release_lock E (broker_ip_lock b) token) (raise lock_contention)
             else finallyA (assign_body E i b client_id)
               (seqA (release_lock E (ip_lock i) token) (release_lock E (broker_ip_lock b) token)))))"

subsection \<open>Attaching, detaching, releasing\<close>

definition attach :: "'x env \<Rightarrow> uuid \<Rightarrow> uuid \<Rightarrow> ('x, static_ip) op" where
  "attach E i instance_id =
     with_lock E (ip_lock i) 30
       (bindA (get_ip i) (\<lambda>ip.
        bindA (get_instance instance_id) (\<lambda>inst.
          if in_status inst = ''destroyed'' then raise invalid_state
          else
            let f = (\<lambda>r. r\<lparr>ip_instance_id := Some instance_id, ip_status := ''attached''\<rparr>) in
            seqA (io_attach_ip (infra E) (ip_external_id ip) (in_external_id inst))
            (seqA (upd_ip i f) (seqA commit (ret (f ip)))))))"

definition detach :: "'x env \<Rightarrow> uuid \<Rightarrow> ('x, static_ip) op" where
  "detach E i =
     with_lock E (ip_lock i) 30
       (bindA (get_ip i) (\<lambda>ip.
          let f = (\<lambda>r. r\<lparr>ip_instance_id := None, ip_status := ''detached''\<rparr>) in
          seqA (io_detach_ip (infra E) (ip_external_id ip))
          (seqA (upd_ip i f) (seqA commit (ret (f ip))))))"

text \<open>Closing the open usage rows of a broker and an address.\<close>

definition close_usages :: "uuid \<Rightarrow> uuid \<Rightarrow> instant \<Rightarrow> instant \<Rightarrow> database \<Rightarrow> database" where
  "close_usages b i now eligible d =
     d\<lparr>usages := upd_rows (\<lambda>h. us_broker h = b \<and> us_ip h = i \<and> us_released_at h = None)
         (\<lambda>h. h\<lparr>us_released_at := Some now, us_eligible_at := Some eligible\<rparr>) (usages d)\<rparr>"

definition release_assignment :: "uuid \<Rightarrow> instant \<Rightarrow> instant \<Rightarrow> ip_assignment \<Rightarrow> ('x, unit) op" where
  "release_assignment i now eligible a =
     seqA (upd_db (\<lambda>d. d\<lparr>assignments := upd_rows (\<lambda>r. as_id r = as_id a)
             (\<lambda>r. r\<lparr>as_status := ''released'', as_released_at := Some now\<rparr>) (assignments d)\<rparr>))
       (upd_db (close_usages (as_broker a) i now eligible))"

definition release_body :: "'x env \<Rightarrow> uuid \<Rightarrow> ('x, static_ip) op" where
  "release_body E i =
     bindA (get_ip i) (\<lambda>ip.
       if ip_status ip = ''attached'' then raise invalid_state
       else
         bindA (cooldown_hours E) (\<lambda>cooldown. bindA now_utc (\<lambda>now.
         bindA (ask_db (\<lambda>d. filter (\<lambda>a. as_ip a = i \<and> as_status a = ''active'') (assignments d))) (\<lambda>as.
         seqA (forA as (release_assignment i now (now + hours cooldown)))
         (seqA (io_delete_ip (infra E) (ip_external_id ip))
         (seqA (upd_ip i (\<lambda>r. r\<lparr>ip_status := ''released''\<rparr>))
         (seqA (enqueue_outbox E ''ip.released'' ''ip''
                  [(''static_ip_id'', JStr (uuid_text i)), (''ip_address'', JStr (ip_address ip)),
                   (''region'', JStr (ip_region ip))])
         (seqA commit (ret (ip\<lparr>ip_status := ''released''\<rparr>))))))))))"

definition release_ip :: "'x env \<Rightarrow> uuid \<Rightarrow> ('x, static_ip) op" where
  "release_ip E i = with_lock E (ip_lock i) 30 (release_body E i)"

record assignment_row =
  ar_assignment :: ip_assignment
  ar_broker_display_name :: string
  ar_ip_address :: string
  ar_ip_status :: string
  ar_region :: string

definition list_assignments :: "('x, assignment_row list) op" where
  "list_assignments =
     ask_db (\<lambda>d.
       [\<lparr>ar_assignment = a, ar_broker_display_name = ba_display_name b, ar_ip_address = ip_address ip,
         ar_ip_status = ip_status ip, ar_region = ip_region ip\<rparr>.
        a \<leftarrow> order_desc as_assigned_at (assignments d),
        ip \<leftarrow> filter (\<lambda>ip. ip_id ip = as_ip a) (static_ips d),
        b \<leftarrow> filter (\<lambda>b. ba_id b = as_broker a) (brokers d)])"

subsection \<open>How the operations run\<close>

lemma get_ip_cases:
  obtains (missing) e where "get_ip i w = (Inl e, w)"
    | (row) ip where "get_ip i w = (Inr ip, w)" "ip_by_id i (db w) = [ip]" "ip_id ip = i"
proof (cases "scalar_one_or_none (ip_by_id i (db w))")
  case (Inl e)
  then show thesis by (intro missing) (simp add: get_ip_def run_simps)
next
  case (Inr r)
  show thesis
  proof (cases r)
    case None
    with Inr show thesis by (intro missing) (simp add: get_ip_def run_simps found_def)
  next
    case (Some ip)
    with Inr have "ip_by_id i (db w) = [ip]" by (simp add: scalar_one_or_none_Inr)
    moreover from this have "ip_id ip = i" by (auto simp: ip_by_id_def filter_eq_Cons_iff)
    ultimately show thesis
      using Some Inr by (intro row) (simp_all add: get_ip_def run_simps found_def)
  qed
qed

lemma assert_reuse_run [run_simps]:
  "assert_reuse_allowed b i w =
     (if \<exists>h \<in> set (usages_of b i (db w)). cooling (clock w) h then (Inl reuse_policy, w) else (Inr (), w))"
  by (simp add: assert_reuse_allowed_def run_simps)

definition new_assignment :: "'x env \<Rightarrow> 'x world \<Rightarrow> uuid \<Rightarrow> uuid \<Rightarrow> uuid \<Rightarrow> ip_assignment" where
  "new_assignment E w c b i = \<lparr>as_id = uuid_at E (drawn w), as_client_id = c, as_broker = b, as_ip = i,
     as_status = ''active'', as_assigned_at = clock w, as_released_at = None\<rparr>"

definition new_usage :: "'x env \<Rightarrow> 'x world \<Rightarrow> uuid \<Rightarrow> uuid \<Rightarrow> ip_usage" where
  "new_usage E w b i = \<lparr>us_id = uuid_at E (drawn w), us_broker = b, us_ip = i, us_used_at = clock w,
     us_released_at = None, us_eligible_at = None\<rparr>"

lemma add_assignment_run [run_simps]:
  "add_assignment E c b i w = (Inr (new_assignment E w c b i),
     w\<lparr>drawn := Suc (drawn w), db := (db w)\<lparr>assignments := assignments (db w) @ [new_assignment E w c b i]\<rparr>\<rparr>)"
  by (simp add: add_assignment_def run_simps Let_def new_assignment_def)

lemma add_usage_run [run_simps]:
  "add_usage E b i w = (Inr (),
     w\<lparr>drawn := Suc (drawn w), db := (db w)\<lparr>usages := usages (db w) @ [new_usage E w b i]\<rparr>\<rparr>)"
  by (simp add: add_usage_def run_simps Let_def new_usage_def)

lemma upd_ip_run [run_simps]:
  "upd_ip i f w = (Inr (), w\<lparr>db := (db w)\<lparr>static_ips := upd_rows (\<lambda>r. ip_id r = i) f (static_ips (db w))\<rparr>\<rparr>)"
  by (simp add: upd_ip_def run_simps)

text \<open>The database after an assignment.\<close>

definition assigned_db :: "ip_assignment \<Rightarrow> ip_usage \<Rightarrow> uuid \<Rightarrow> bool \<Rightarrow> database \<Rightarrow> database" where
  "assigned_db a h i was_released d =
     d\<lparr>assignments := assignments d @ [a], usages := usages d @ [h],
       static_ips := (if was_released then upd_rows (\<lambda>r. ip_id r = i) (\<lambda>r. r\<lparr>ip_status := ''allocated''\<rparr>) (static_ips d)
                      else static_ips d)\<rparr>"

lemma assign_body_cases:
  obtains (refused) e where "assign_body E i b c w = (Inl e, w)"
    | (assigned) ip cid h d where "ip_by_id i (db w) = [ip]" "ip_status ip \<notin> {''quarantined'', ''attached''}"
        "active_assignments b (db w) = []" "\<forall>h \<in> set (usages_of b i (db w)). \<not> cooling (clock w) h"
        "us_broker h = b" "us_ip h = i" "us_released_at h = None"
        "d = assigned_db (new_assignment E w cid b i) h i (ip_status ip = ''released'') (db w)"
        "assign_body E i b c w = (Inr (new_assignment E w cid b i),
           w\<lparr>drawn := Suc (Suc (drawn w)), db := d, saved := d\<rparr>)"
proof (cases rule: get_ip_cases [of i w])
  case (missing e)
  then show thesis by (intro refused) (simp add: assign_body_def run_simps)
next
  case (row ip)
  note ip = row
  show thesis
  proof (cases "ip_status ip \<in> {''quarantined'', ''attached''}")
    case True
    then show thesis
      using ip by (intro refused [of invalid_state]) (auto simp: assign_body_def run_simps)
  next
    case status: False
    show thesis
    proof (cases "scalar_one_or_none (broker_by_id b (db w))")
      case (Inl e)
      then show thesis using ip status by (intro refused [of e]) (simp add: assign_body_def run_simps)
    next
      case (Inr r)
      show thesis
      proof (cases r)
        case None
        then show thesis
          using ip status Inr by (intro refused [of not_found]) (simp add: assign_body_def run_simps found_def)
      next
        case (Some broker)
        show thesis
        proof (cases "\<exists>h \<in> set (usages_of b i (db w)). cooling (clock w) h")
          case True
          then show thesis
            using ip status Inr Some
            by (intro refused [of reuse_policy]) (simp add: assign_body_def run_simps found_def)
        next
          case cool: False
          show thesis
          proof (cases "scalar_one_or_none (active_assignments b (db w)) = Inr None")
            case False
            then obtain e where "assign_body E i b c w = (Inl e, w)"
              using ip status Inr Some cool
              by (cases "scalar_one_or_none (active_assignments b (db w))")
                 (auto simp: assign_body_def run_simps found_def)
            then show thesis by (rule refused)
          next
            case True
            then have none: "active_assignments b (db w) = []"
              by (simp add: scalar_one_or_none_Inr)
            let ?c = "case c of Some c \<Rightarrow> c | None \<Rightarrow> ba_client_id broker"
            let ?w1 = "w\<lparr>drawn := Suc (drawn w), db := (db w)\<lparr>assignments := assignments (db w) @ [new_assignment E w ?c b i]\<rparr>\<rparr>"
            show thesis
            proof (rule assigned [of ip "new_usage E ?w1 b i"])
              show "ip_by_id i (db w) = [ip]" "ip_status ip \<notin> {''quarantined'', ''attached''}"
                using ip status by simp_all
              show "active_assignments b (db w) = []" "\<forall>h \<in> set (usages_of b i (db w)). \<not> cooling (clock w) h"
                using none cool by simp_all
              show "us_broker (new_usage E ?w1 b i) = b" "us_ip (new_usage E ?w1 b i) = i"
                "us_released_at (new_usage E ?w1 b i) = None"
                by (simp_all add: new_usage_def)
              show "assign_body E i b c w = (Inr (new_assignment E w ?c b i),
                w\<lparr>drawn := Suc (Suc (drawn w)),
                  db := assigned_db (new_assignment E w ?c b i) (new_usage E ?w1 b i) i (ip_status ip = ''released'') (db w),
                  saved := assigned_db (new_assignment E w ?c b i) (new_usage E ?w1 b i) i (ip_status ip = ''released'') (db w)\<rparr>)"
                using ip status Inr Some cool none
                by (simp add: assign_body_def run_simps found_def assigned_db_def)
            qed (rule refl)
          qed
        qed
      qed
    qed
  qed
qed

text \<open>Around the body only the locks and the count of drawn uuids move.\<close>

lemma locks_store:
  "acquire_lock E k ttl t w = (r, w') \<Longrightarrow> store w' = store w \<and> clock w' = clock w"
  "release_lock E k t w = (r2, w'') \<Longrightarrow> store w'' = store w \<and> clock w'' = clock w"
  using framesD [OF frames_acquire_lock [where f = "\<lambda>w. (store w, clock w)"]]
    framesD [OF frames_release_lock [where f = "\<lambda>w. (store w, clock w)"]]
  by simp_all blast+

lemma assign_cases:
  assumes "assign E i b c w = (r, w')"
  obtains (refused) e where "r = Inl e" "store w' = store w" "clock w' = clock w"
    | (ran) e w1 r1 w2 where "assign_body E i b c w1 = (r1, w2)" "store w1 = store w" "clock w1 = clock w"
        "store w' = store w2" "clock w' = clock w2" "r = r1 \<or> r = Inl e"
proof -
  let ?u = "uuid_hex (uuid_at E (drawn w))" and ?w0 = "w\<lparr>drawn := Suc (drawn w)\<rparr>"
  obtain a1 v1 where l1: "acquire_lock E (broker_ip_lock b) 30 ?u ?w0 = (a1, v1)" by fastforce
  have s1: "store v1 = store w" "clock v1 = clock w" using locks_store(1) [OF l1] by simp_all
  obtain a2 v2 where l2: "acquire_lock E (ip_lock i) 30 ?u v1 = (a2, v2)" by fastforce
  have s2: "store v2 = store w" "clock v2 = clock w" using locks_store(1) [OF l2] s1 by simp_all
  obtain r3 v3 where l3: "release_lock E (broker_ip_lock b) ?u v2 = (r3, v3)" by fastforce
  have s3: "store v3 = store w" "clock v3 = clock w" using locks_store(2) [OF l3] s2 by simp_all
  obtain rb w2 where body: "assign_body E i b c v2 = (rb, w2)" by fastforce
  obtain r4 v4 where l4: "release_lock E (ip_lock i) ?u w2 = (r4, v4)" by fastforce
  obtain r5 v5 where l5: "release_lock E (broker_ip_lock b) ?u v4 = (r5, v5)" by fastforce
  have s4: "store v4 = store w2" "clock v4 = clock w2" "store v5 = store w2" "clock v5 = clock w2"
    using locks_store(2) [OF l4] locks_store(2) [OF l5] by simp_all
  consider "(\<exists>e. r = Inl e) \<and> w' = v1" | "(\<exists>e. r = Inl e) \<and> w' = v2" | "(\<exists>e. r = Inl e) \<and> w' = v3"
    | "w' \<in> {v4, v5} \<and> (r = rb \<or> (\<exists>e. r = Inl e))"
    using assms l1 l2 l3 body l4 l5
    by (auto simp: assign_def run_simps Let_def finallyA_def split: sum.splits if_splits)
  then show thesis
  proof cases
    case 4
    then show thesis using body s2 s4 ran by blast
  qed (use s1 s2 s3 refused in auto)
qed

lemma assign_success:
  assumes "assign E i b c w = (Inr a, w')"
  obtains ip cid h d w1 where "ip_by_id i (db w) = [ip]" "ip_status ip \<notin> {''quarantined'', ''attached''}"
    "active_assignments b (db w) = []" "\<forall>h \<in> set (usages_of b i (db w)). \<not> cooling (clock w) h"
    "us_broker h = b" "us_ip h = i" "us_released_at h = None" "a = new_assignment E w1 cid b i"
    "d = assigned_db a h i (ip_status ip = ''released'') (db w)" "store w' = (d, d)" "clock w' = clock w"
  using assms
proof (cases rule: assign_cases)
  case (ran e w1 r1 w2)
  then have w1: "db w1 = db w" "r1 = Inr a" by (auto simp: store_def)
  show thesis
  proof (cases rule: assign_body_cases [of E i b c w1])
    case (refused e)
    with ran w1 show thesis by simp
  next
    case (assigned ip cid h d)
    show thesis
      by (rule that [of ip h w1 cid d])
         (use assigned ran w1 in \<open>simp_all add: store_def\<close>)
  qed
qed simp

lemma assign_error_store:
  assumes "assign E i b c w = (Inl e, w')"
  obtains "store w' = store w"
    | x cid h d w1 where "active_assignments b (db w) = []" "us_broker h = b" "us_ip h = i"
        "us_released_at h = None"
        "d = assigned_db (new_assignment E w1 cid b i) h i x (db w)" "store w' = (d, d)"
  using assms
proof (cases rule: assign_cases)
  case (ran e' w1 r1 w2)
  then have w1: "db w1 = db w" by (auto simp: store_def)
  show thesis
  proof (cases rule: assign_body_cases [of E i b c w1])
    case (refused e)
    with ran that(1) show thesis by simp
  next
    case (assigned ip cid h d)
    show thesis
      by (rule that(2) [of h d w1 cid "ip_status ip = ''released''"]) (use assigned ran w1 in \<open>simp_all add: store_def\<close>)
  qed
qed simp

subsection \<open>At most one active address per broker\<close>

definition one_active :: "database \<Rightarrow> bool" where
  "one_active d \<longleftrightarrow> (\<forall>b. length (active_assignments b d) \<le> 1)"

text \<open>Every active assignment has an open usage row, so that its release starts a cooldown.\<close>

definition open_usage :: "database \<Rightarrow> bool" where
  "open_usage d \<longleftrightarrow> (\<forall>a \<in> set (assignments d). as_status a = ''active'' \<longrightarrow>
     (\<exists>h \<in> set (usages d). us_broker h = as_broker a \<and> us_ip h = as_ip a \<and> us_released_at h = None))"

text \<open>An attached address names its instance; no two rows have the same address.\<close>

definition ips_ok :: "database \<Rightarrow> bool" where
  "ips_ok d \<longleftrightarrow> (\<forall>ip \<in> set (static_ips d). ip_status ip = ''attached'' \<longrightarrow> ip_instance_id ip \<noteq> None) \<and>
     distinct (map ip_address (static_ips d))"

lemma active_assignments_append:
  "active_assignments b (d\<lparr>assignments := as @ [a]\<rparr>) =
   active_assignments b (d\<lparr>assignments := as\<rparr>) @ (if as_broker a = b \<and> as_status a = ''active'' then [a] else [])"
  by (simp add: active_assignments_def)

lemma active_assignments_cong [simp]:
  "active_assignments b (d\<lparr>usages := u\<rparr>) = active_assignments b d"
  "active_assignments b (d\<lparr>static_ips := i\<rparr>) = active_assignments b d"
  "active_assignments b (d\<lparr>outbox := x\<rparr>) = active_assignments b d"
  by (simp_all add: active_assignments_def)

lemma one_active_assigned:
  assumes "one_active d" "active_assignments b d = []"
  shows "one_active (assigned_db (new_assignment E w c b i) h i r d)"
proof -
  have "length (active_assignments b' (d\<lparr>assignments := assignments d @ [new_assignment E w c b i]\<rparr>)) \<le> 1" for b'
    using assms by (cases "b' = b")
      (auto simp: one_active_def active_assignments_def new_assignment_def)
  then show ?thesis by (simp add: one_active_def assigned_db_def)
qed

lemma open_usage_assigned:
  assumes "open_usage d" "us_broker h = b" "us_ip h = i" "us_released_at h = None"
  shows "open_usage (assigned_db (new_assignment E w c b i) h i r d)"
  using assms by (auto simp: open_usage_def assigned_db_def new_assignment_def)

lemma ips_ok_upd:
  assumes "ips_ok d" "\<And>r. ip_address (f r) = ip_address r" "\<And>r. ip_status (f r) = ''attached'' \<Longrightarrow> ip_instance_id (f r) \<noteq> None"
  shows "ips_ok (d\<lparr>static_ips := upd_rows p f (static_ips d)\<rparr>)"
  using assms by (auto simp: ips_ok_def set_upd_rows map_upd_rows)

lemma ips_ok_cong [simp]:
  "ips_ok (d\<lparr>assignments := a\<rparr>) = ips_ok d" "ips_ok (d\<lparr>usages := u\<rparr>) = ips_ok d"
  "ips_ok (d\<lparr>outbox := x\<rparr>) = ips_ok d" "ips_ok (d\<lparr>instances := y\<rparr>) = ips_ok d"
  by (simp_all add: ips_ok_def)

lemma ips_ok_assigned: "ips_ok d \<Longrightarrow> ips_ok (assigned_db a h i r d)"
  using ips_ok_upd [of "d\<lparr>assignments := assignments d @ [a], usages := usages d @ [h]\<rparr>"
      "\<lambda>r. r\<lparr>ip_status := ''allocated''\<rparr>" "\<lambda>r. ip_id r = i"]
  by (simp add: assigned_db_def)

definition ip_inv :: "database \<Rightarrow> bool" where
  "ip_inv d \<longleftrightarrow> one_active d \<and> open_usage d \<and> ips_ok d"

lemma assign_keeps_inv: "keeps (both ip_inv) (assign E i b c)"
proof (rule keepsI)
  fix w r w' assume inv: "both ip_inv w" and run: "assign E i b c w = (r, w')"
  have assigned: "ip_inv (assigned_db (new_assignment E w1 cid b i) h i x (db w))"
    if "active_assignments b (db w) = []" "us_broker h = b" "us_ip h = i" "us_released_at h = None"
    for w1 cid h x
    using that inv unfolding both_def ip_inv_def
    by (intro conjI one_active_assigned open_usage_assigned ips_ok_assigned) simp_all
  show "both ip_inv w'"
  proof (cases r)
    case (Inl e)
    with run have "assign E i b c w = (Inl e, w')" by simp
    then show ?thesis
    proof (cases rule: assign_error_store)
      case 1
      then show ?thesis using inv by (simp add: both_def store_def)
    next
      case (2 x cid h d w1)
      then show ?thesis using assigned [of h w1 cid x] by (simp add: both_def store_def)
    qed
  next
    case (Inr a)
    with run have "assign E i b c w = (Inr a, w')" by simp
    then show ?thesis
    proof (cases rule: assign_success)
      case (1 ip cid h d w1)
      then show ?thesis using assigned [of h w1 cid "ip_status ip = ''released''"] by (simp add: both_def store_def)
    qed
  qed
qed

subsection \<open>Releasing\<close>

definition released_db :: "uuid \<Rightarrow> instant \<Rightarrow> instant \<Rightarrow> ip_assignment list \<Rightarrow> database \<Rightarrow> database" where
  "released_db i now eligible as d =
     d\<lparr>assignments := upd_rows (\<lambda>r. as_id r \<in> as_id ` set as)
         (\<lambda>r. r\<lparr>as_status := ''released'', as_released_at := Some now\<rparr>) (assignments d),
       usages := upd_rows (\<lambda>h. us_broker h \<in> as_broker ` set as \<and> us_ip h = i \<and> us_released_at h = None)
         (\<lambda>h. h\<lparr>us_released_at := Some now, us_eligible_at := Some eligible\<rparr>) (usages d)\<rparr>"

lemma upd_rows_twice:
  "(\<And>r. q r \<Longrightarrow> p (f r) \<Longrightarrow> f (f r) = f r) \<Longrightarrow>
   upd_rows p f (upd_rows q f rows) = upd_rows (\<lambda>r. q r \<or> p r) f rows"
  by (induction rows) auto

lemma released_db_Cons:
  "released_db i now el as (close_usages (as_broker a) i now el (d\<lparr>assignments := upd_rows (\<lambda>r. as_id r = as_id a)
     (\<lambda>r. r\<lparr>as_status := ''released'', as_released_at := Some now\<rparr>) (assignments d)\<rparr>)) =
   released_db i now el (a # as) d"
proof -
  have "(\<lambda>r. as_id r = as_id a \<or> as_id r \<in> as_id ` set as) = (\<lambda>r. as_id r \<in> as_id ` set (a # as))"
    by auto
  then show ?thesis
    by (simp add: released_db_def close_usages_def upd_rows_twice conj_disj_distribR)
qed

lemma release_assignment_run:
  "release_assignment i now el a w = (Inr (), w\<lparr>db := close_usages (as_broker a) i now el
     ((db w)\<lparr>assignments := upd_rows (\<lambda>r. as_id r = as_id a)
       (\<lambda>r. r\<lparr>as_status := ''released'', as_released_at := Some now\<rparr>) (assignments (db w))\<rparr>)\<rparr>)"
  by (simp add: release_assignment_def run_simps)

lemma forA_Cons_run: "f x w = (Inr (), w') \<Longrightarrow> forA (x # xs) f w = forA xs f w'"
  by (simp add: seqA_def bindA_def)

lemma release_loop_run [run_simps]:
  "forA as (release_assignment i now el) w = (Inr (), w\<lparr>db := released_db i now el as (db w)\<rparr>)"
proof (induction as arbitrary: w)
  case Nil
  have "released_db i now el [] d = d" for d
    by (simp add: released_db_def upd_rows_none)
  then show ?case by (simp add: run_simps)
next
  case (Cons a as)
  show ?case
    by (subst forA_Cons_run [where f = "release_assignment i now el", OF release_assignment_run]) (simp add: Cons.IH released_db_Cons)
qed

definition active_on :: "uuid \<Rightarrow> database \<Rightarrow> ip_assignment list" where
  "active_on i d = filter (\<lambda>a. as_ip a = i \<and> as_status a = ''active'') (assignments d)"

lemma length_filter_upd_le:
  "(\<And>r. p r \<Longrightarrow> \<not> q (f r)) \<Longrightarrow> length (filter q (upd_rows p f rows)) \<le> length (filter q rows)"
  by (induction rows) auto

lemma one_active_released: "one_active d \<Longrightarrow> one_active (released_db i now el as d)"
proof -
  assume one: "one_active d"
  have "length (active_assignments b (released_db i now el as d)) \<le> length (active_assignments b d)" for b
    by (simp add: active_assignments_def released_db_def length_filter_upd_le)
  with one show ?thesis unfolding one_active_def by (meson order_trans)
qed

lemma open_usage_released:
  assumes "open_usage d"
  shows "open_usage (released_db i now el (active_on i d) d)"
  unfolding open_usage_def
proof (intro ballI impI)
  fix a assume "a \<in> set (assignments (released_db i now el (active_on i d) d))" and act: "as_status a = ''active''"
  then have a: "a \<in> set (assignments d)" "as_id a \<notin> as_id ` set (active_on i d)"
    by (auto simp: released_db_def set_upd_rows split: if_splits)
  then have "as_ip a \<noteq> i"
    using act by (auto simp: active_on_def)
  moreover obtain h where h: "h \<in> set (usages d)" "us_broker h = as_broker a" "us_ip h = as_ip a" "us_released_at h = None"
    using assms a(1) act by (auto simp: open_usage_def)
  ultimately have "h \<in> set (usages (released_db i now el (active_on i d) d))"
    by (auto simp: released_db_def set_upd_rows image_iff)
  with h show "\<exists>h \<in> set (usages (released_db i now el (active_on i d) d)).
      us_broker h = as_broker a \<and> us_ip h = as_ip a \<and> us_released_at h = None"
    by blast
qed

lemma ip_inv_released: "ip_inv d \<Longrightarrow> ip_inv (released_db i now el (active_on i d) d)"
  by (simp add: ip_inv_def one_active_released open_usage_released) (simp add: released_db_def)

lemma ip_inv_cong [simp]:
  "ip_inv (d\<lparr>outbox := x\<rparr>) = ip_inv d" "ip_inv (d\<lparr>instances := y\<rparr>) = ip_inv d"
  by (simp_all add: ip_inv_def one_active_def open_usage_def) (simp add: active_assignments_def)

lemma ip_inv_upd_ips:
  assumes "ip_inv d" "\<And>r. ip_address (f r) = ip_address r"
    "\<And>r. ip_status (f r) = ''attached'' \<Longrightarrow> ip_instance_id (f r) \<noteq> None"
  shows "ip_inv (d\<lparr>static_ips := upd_rows p f (static_ips d)\<rparr>)"
  using assms ips_ok_upd [of d f p] by (simp add: ip_inv_def one_active_def open_usage_def)

lemma cooldown_frames [frames_intros]: "frames f (cooldown_hours E)"
  unfolding cooldown_hours_def by (intro frames_intros)

lemma cooldown_state: "cooldown_hours E w = (r, w') \<Longrightarrow> w' = w"
  by (auto simp: cooldown_hours_def run_simps liftA_def split: option.splits sum.splits)

lemma cooldown_db:
  assumes "db v = db w" "cooldown_hours E v = (Inr n, v')"
  shows "cooldown_hours E w = (Inr n, w)"
  using assms by (auto simp: cooldown_hours_def run_simps liftA_def split: option.splits sum.splits)

lemma cooling_after_release:
  assumes "open_usage d" "a \<in> set (assignments d)" "as_status a = ''active''" "as_ip a = i" "now < el"
  shows "\<exists>h \<in> set (usages_of (as_broker a) i (released_db i t el (active_on i d) d)). cooling now h"
proof -
  obtain h where h: "h \<in> set (usages d)" "us_broker h = as_broker a" "us_ip h = i" "us_released_at h = None"
    using assms by (auto simp: open_usage_def)
  have "as_broker a \<in> as_broker ` set (active_on i d)"
    using assms(2-4) by (auto simp: active_on_def)
  then have "h\<lparr>us_released_at := Some t, us_eligible_at := Some el\<rparr> \<in> set (usages (released_db i t el (active_on i d) d))"
    using h by (auto simp: released_db_def set_upd_rows image_iff intro!: bexI [of _ h])
  then show ?thesis
    using h assms(5) by (auto simp: usages_of_def cooling_def intro!: bexI)
qed

lemma release_body_cases:
  obtains (refused) e where "release_body E i w = (Inl e, w)"
    | (failed) ip n now e w1 where "ip_by_id i (db w) = [ip]" "release_body E i w = (Inl e, w1)" "now = clock w"
        "io_delete_ip (infra E) (ip_external_id ip)
           (w\<lparr>db := released_db i now (now + hours n) (active_on i (db w)) (db w)\<rparr>) = (Inl e, w1)"
    | (released) ip n now w1 where "ip_by_id i (db w) = [ip]" "ip_status ip \<noteq> ''attached''" "now = clock w"
        "cooldown_hours E w = (Inr n, w)"
        "io_delete_ip (infra E) (ip_external_id ip)
           (w\<lparr>db := released_db i now (now + hours n) (active_on i (db w)) (db w)\<rparr>) = (Inr (), w1)"
        "release_body E i w =
          seqA (upd_ip i (\<lambda>r. r\<lparr>ip_status := ''released''\<rparr>))
           (seqA (enqueue_outbox E ''ip.released'' ''ip''
                  [(''static_ip_id'', JStr (uuid_text i)), (''ip_address'', JStr (ip_address ip)),
                   (''region'', JStr (ip_region ip))])
           (seqA commit (ret (ip\<lparr>ip_status := ''released''\<rparr>)))) w1"
proof (cases rule: get_ip_cases [of i w])
  case (missing e)
  then show thesis by (intro refused [of e]) (simp add: release_body_def run_simps)
next
  case (row ip)
  show thesis
  proof (cases "ip_status ip = ''attached''")
    case True
    then show thesis using row by (intro refused [of invalid_state]) (simp add: release_body_def run_simps)
  next
    case status: False
    obtain c w0 where c0: "cooldown_hours E w = (c, w0)" by fastforce
    have c: "cooldown_hours E w = (c, w)" using cooldown_state [OF c0] c0 by simp
    show thesis
    proof (cases c)
      case (Inl e)
      then show thesis using row status c by (intro refused [of e]) (simp add: release_body_def run_simps)
    next
      case (Inr n)
      let ?w = "w\<lparr>db := released_db i (clock w) (clock w + hours n) (active_on i (db w)) (db w)\<rparr>"
      obtain r w1 where del: "io_delete_ip (infra E) (ip_external_id ip) ?w = (r, w1)" by fastforce
      have body: "release_body E i w = (case r of Inl e \<Rightarrow> (Inl e, w1)
          | Inr _ \<Rightarrow> seqA (upd_ip i (\<lambda>r. r\<lparr>ip_status := ''released''\<rparr>))
           (seqA (enqueue_outbox E ''ip.released'' ''ip''
                  [(''static_ip_id'', JStr (uuid_text i)), (''ip_address'', JStr (ip_address ip)),
                   (''region'', JStr (ip_region ip))])
           (seqA commit (ret (ip\<lparr>ip_status := ''released''\<rparr>)))) w1)"
        using row status c Inr del
        by (cases r) (simp_all add: release_body_def run_simps flip: active_on_def)
      show thesis
      proof (cases r)
        case (Inl e)
        then show thesis using failed [OF row(2) _ refl] body del by simp
      next
        case r: (Inr x)
        then show thesis using released [OF row(2) status refl] c Inr body del by simp
      qed
    qed
  qed
qed

lemma keeps_upd_ip:
  assumes "\<And>r. ip_address (f r) = ip_address r" "\<And>r. ip_status (f r) = ''attached'' \<Longrightarrow> ip_instance_id (f r) \<noteq> None"
  shows "keeps (both ip_inv) (upd_ip i f)"
  unfolding upd_ip_def by (rule keeps_both_upd) (use assms in \<open>auto intro: ip_inv_upd_ips\<close>)

lemma frames_get_store [frames_intros]: "frames f (get_ip i)" "frames f (get_instance j)"
  unfolding get_ip_def get_instance_def by (intro frames_intros)+

lemma frames_map_infra [frames_intros]: "frames f m \<Longrightarrow> frames f (map_infra_error m)"
  unfolding map_infra_error_def by (rule frames_try) (auto intro: frames_intros split: exn.splits)

lemma keeps_upd_instance: "keeps (both ip_inv) (upd_instance i f)"
  unfolding upd_instance_def by (rule keeps_both_upd) simp

context infra_env begin

lemma release_success:
  assumes "release_ip E i w = (Inr r, w')"
  obtains n ip os where "ip_by_id i (db w) = [ip]" "ip_status ip \<noteq> ''attached''"
    "store w' = (let d = (released_db i (clock w) (clock w + hours n) (active_on i (db w)) (db w))
        \<lparr>static_ips := upd_rows (\<lambda>r. ip_id r = i) (\<lambda>r. r\<lparr>ip_status := ''released''\<rparr>) (static_ips (db w)),
         outbox := os\<rparr> in (d, d))"
    "\<exists>v. cooldown_hours E v = (Inr n, v) \<and> store v = store w"
    "\<exists>e. os = outbox (db w) @ [e] \<and> ob_event_type e = ''ip.released'' \<and> ob_status e = ''pending''"
    "r = ip\<lparr>ip_status := ''released''\<rparr>" "clock w' = clock w"
proof -
  let ?t = "uuid_hex (uuid_at E (drawn w))"
  obtain w1 w2 where acq: "acquire_lock E (ip_lock i) 30 ?t (w\<lparr>drawn := Suc (drawn w)\<rparr>) = (Inr True, w1)"
    and body: "release_body E i w1 = (Inr r, w2)" and rel: "release_lock E (ip_lock i) ?t w2 = (Inr (), w')"
    using assms
    by (auto simp: release_ip_def with_lock_def run_simps Let_def finallyA_Inr split: sum.splits prod.splits if_splits)
  have w1: "store w1 = store w" "clock w1 = clock w" "db w1 = db w"
    using locks_store(1) [OF acq] by (simp_all add: store_def)
  have w2: "store w' = store w2" "clock w' = clock w2"
    using locks_store(2) [OF rel] by simp_all
  show thesis
  proof (cases rule: release_body_cases [of E i w1])
    case (refused e)
    with body show thesis by simp
  next
    case (failed ip n now e v)
    with body show thesis by simp
  next
    case (released ip n now v)
    have v: "core v = core (w1\<lparr>db := released_db i now (now + hours n) (active_on i (db w1)) (db w1)\<rparr>)"
      using framesD [OF delete_ip_core released(5)] .
    let ?e = "\<lparr>ob_id = uuid_at E (drawn v), ob_event_type = ''ip.released'', ob_topic = ''ip'',
        ob_payload = [(''static_ip_id'', JStr (uuid_text i)), (''ip_address'', JStr (ip_address ip)),
                   (''region'', JStr (ip_region ip))],
        ob_status = ''pending'', ob_error = None, ob_correlation_id = None, ob_created_at = clock v,
        ob_sent_at = None\<rparr>"
    have dbv: "db v = released_db i (clock w) (clock w + hours n) (active_on i (db w)) (db w)" "clock v = clock w"
      using v w1 released(3) by (simp_all add: core_def)
    have fin: "r = ip\<lparr>ip_status := ''released''\<rparr>"
      "w2 = v\<lparr>drawn := Suc (drawn v), db := (db v)\<lparr>static_ips := upd_rows (\<lambda>r. ip_id r = i) (\<lambda>r. r\<lparr>ip_status := ''released''\<rparr>) (static_ips (db v)),
          outbox := outbox (db v) @ [?e]\<rparr>,
        saved := (db v)\<lparr>static_ips := upd_rows (\<lambda>r. ip_id r = i) (\<lambda>r. r\<lparr>ip_status := ''released''\<rparr>) (static_ips (db v)),
          outbox := outbox (db v) @ [?e]\<rparr>\<rparr>"
      using released(6) body by (simp_all add: run_simps)
    show thesis
    proof (rule that [of ip "outbox (db w) @ [?e]" n])
      show "ip_by_id i (db w) = [ip]" "ip_status ip \<noteq> ''attached''" "r = ip\<lparr>ip_status := ''released''\<rparr>"
        using released(1,2) fin(1) w1 by simp_all
      show "store w' = (let d = (released_db i (clock w) (clock w + hours n) (active_on i (db w)) (db w))
          \<lparr>static_ips := upd_rows (\<lambda>r. ip_id r = i) (\<lambda>r. r\<lparr>ip_status := ''released''\<rparr>) (static_ips (db w)),
           outbox := outbox (db w) @ [?e]\<rparr> in (d, d))"
        using w2(1) fin(2) dbv by (simp add: store_def Let_def released_db_def)
      show "\<exists>v. cooldown_hours E v = (Inr n, v) \<and> store v = store w"
        using released(4) w1(1) by blast
      show "clock w' = clock w" using w2(2) fin(2) dbv(2) by simp
    qed simp_all
  qed
qed

lemma keeps_locked: "keeps (both Q) body \<Longrightarrow> keeps (both Q) (with_lock E k ttl body)"
  by (rule keeps_with_lock) (simp_all add: both_def store_def)

lemma keeps_infra: "frames core m \<Longrightarrow> keeps (both Q) m"
  by (intro keeps_both_frames infra_store)

lemma keeps_release_body: "keeps (both ip_inv) (release_body E i)"
proof (rule keepsI)
  fix w r w' assume inv: "both ip_inv w" and run: "release_body E i w = (r, w')"
  show "both ip_inv w'"
  proof (cases rule: release_body_cases [of E i w])
    case (refused e)
    with inv run show ?thesis by simp
  next
    case (failed ip n now e w1)
    have "both ip_inv (w\<lparr>db := released_db i now (now + hours n) (active_on i (db w)) (db w)\<rparr>)"
      using inv by (simp add: both_def ip_inv_released)
    from keepsD [OF keeps_infra [OF delete_ip_core] this failed(4)]
    show ?thesis using failed(2) run by simp
  next
    case (released ip n now w1)
    have "both ip_inv (w\<lparr>db := released_db i now (now + hours n) (active_on i (db w)) (db w)\<rparr>)"
      using inv by (simp add: both_def ip_inv_released)
    from keepsD [OF keeps_infra [OF delete_ip_core] this released(5)] have w1: "both ip_inv w1" .
    have "keeps (both ip_inv) (seqA (upd_ip i (\<lambda>r. r\<lparr>ip_status := ''released''\<rparr>))
           (seqA (enqueue_outbox E ''ip.released'' ''ip''
                  [(''static_ip_id'', JStr (uuid_text i)), (''ip_address'', JStr (ip_address ip)),
                   (''region'', JStr (ip_region ip))])
           (seqA commit (ret (ip\<lparr>ip_status := ''released''\<rparr>)))))"
      by (intro keeps_intros keeps_upd_ip) simp_all
    from keepsD [OF this w1 released(6) [symmetric, unfolded run]] show ?thesis .
  qed
qed

lemma release_keeps_inv: "keeps (both ip_inv) (release_ip E i)"
  unfolding release_ip_def by (intro keeps_locked keeps_release_body)

lemma attach_keeps_inv: "keeps (both ip_inv) (attach E i j)"
  unfolding attach_def Let_def
  by (intro keeps_locked keeps_intros keeps_upd_ip keeps_infra attach_ip_core keeps_both_frames
      frames_get_store) simp_all

lemma detach_keeps_inv: "keeps (both ip_inv) (detach E i)"
  unfolding detach_def Let_def
  by (intro keeps_locked keeps_intros keeps_upd_ip keeps_infra detach_ip_core keeps_both_frames
      frames_get_store) simp_all

lemma instances_keep_inv:
  "keeps (both ip_inv) (destroy_instance E j)" "keeps (both ip_inv) (suspend_instance E j)"
  "keeps (both ip_inv) (start_instance E j)" "keeps (both ip_inv) (set_auto_renew E j b)"
  unfolding destroy_instance_def suspend_instance_def start_instance_def set_auto_renew_def
  by (intro keeps_intros keeps_upd_instance keeps_infra infra_core keeps_both_frames
      frames_get_store frames_map_infra infra_store)+

text \<open>Inserting the row of a new address, once it is known not to be taken.\<close>

lemma insert_ip_keeps:
  assumes "ip_address row = address" "ip_status row = ''allocated''"
    and again: "keeps (both ip_inv) again"
  shows "keeps (both ip_inv)
     (bindA (ask_db (\<lambda>d. address \<in> set (map ip_address (static_ips d)))) (\<lambda>taken.
       if taken then again
       else seqA (upd_db (\<lambda>d. d\<lparr>static_ips := static_ips d @ [row]\<rparr>))
            (seqA (enqueue_outbox E ty tp p) (seqA commit (ret row)))))"
proof (rule keepsI)
  fix w r w' assume inv: "both ip_inv w"
    and run: "bindA (ask_db (\<lambda>d. address \<in> set (map ip_address (static_ips d)))) (\<lambda>taken.
       if taken then again
       else seqA (upd_db (\<lambda>d. d\<lparr>static_ips := static_ips d @ [row]\<rparr>))
            (seqA (enqueue_outbox E ty tp p) (seqA commit (ret row)))) w = (r, w')"
  show "both ip_inv w'"
  proof (cases "address \<in> ip_address ` set (static_ips (db w))")
    case True
    then have "again w = (r, w')"
      using run by (simp add: bind_run ask_db_run)
    from keepsD [OF again inv this] show ?thesis .
  next
    case False
    let ?d = "(db w)\<lparr>static_ips := static_ips (db w) @ [row]\<rparr>"
    have "ip_inv ?d"
      using inv False assms(1,2) by (simp add: both_def ip_inv_def one_active_def open_usage_def ips_ok_def)
    then have "ip_inv (?d\<lparr>outbox := os\<rparr>)" for os
      by (simp only: ip_inv_cong)
    moreover have "\<exists>os. db w' = ?d\<lparr>outbox := os\<rparr> \<and> saved w' = ?d\<lparr>outbox := os\<rparr>"
      using run False by (auto simp: bind_run seq_run ask_db_run upd_db_run enqueue_run commit_run ret_run)
    ultimately show ?thesis by (auto simp: both_def)
  qed
qed

lemma allocate_keeps_inv: "keeps (both ip_inv) (allocate_rounds E region n)"
proof (induction n)
  case 0
  show ?case by (simp add: keeps_raise)
next
  case (Suc n)
  have again: "keeps (both ip_inv) (seqA rollback (allocate_rounds E region n))"
    by (intro keeps_intros Suc.IH)
  show ?case
    unfolding allocate_rounds.simps Let_def
    by (rule keeps_bind, intro keeps_both_frames frames_map_infra infra_store create_ip_core,
        rule keeps_bind, rule keeps_lift, rule keeps_bind, rule keeps_lift,
        rule keeps_bind, intro keeps_both_frames frames_fresh_uuid, simp,
        rule keeps_bind, intro keeps_both_frames frames_now, rule insert_ip_keeps) (simp_all add: again)
qed

end

text \<open>With the in-memory locks a failed assignment or release commits nothing.\<close>

lemma assign_body_Inl: "assign_body E i b c w = (Inl e, w') \<Longrightarrow> w' = w"
  by (cases rule: assign_body_cases [of E i b c w]) auto

lemma assign_failed:
  assumes "uses_memory_locks E" "assign E i b c w = (Inl e, w')"
  shows "store w' = store w"
proof -
  note locks = acquire_lock_memory_run [OF assms(1)] release_lock_memory [OF assms(1)]
  show ?thesis
    using assms(2)
    by (auto simp: assign_def run_simps Let_def locks finallyA_def store_def
        split: option.splits if_splits prod.splits sum.splits dest: assign_body_Inl)
qed

context infra_env begin

lemma release_body_Inl:
  assumes "release_body E i w = (Inl e, w')"
  shows "saved w' = saved w"
proof (cases rule: release_body_cases [of E i w])
  case (refused e)
  with assms show ?thesis by simp
next
  case (failed ip n now e w1)
  with assms framesD [OF delete_ip_core failed(4)] show ?thesis by (simp add: core_def)
next
  case (released ip n now w1)
  with assms show ?thesis by (simp add: run_simps)
qed

lemma release_failed:
  assumes "uses_memory_locks E" "release_ip E i w = (Inl e, w')"
  shows "saved w' = saved w"
  using with_lock_memory [OF assms(1) assms(2) [unfolded release_ip_def]]
proof cases
  case 1
  then show ?thesis by simp
next
  case (2 w2)
  then show ?thesis using release_body_Inl [OF 2(2)] by simp
qed

end

end
