(* ===== verification/Demo.thy ===== *)
theory Demo
  imports OutboxSvc Subscriptions Sessions IpManager
begin

text \<open>
  A concrete environment and world on which the witnesses evaluate the operations: uuids drawn
  in order, times printed in decimal, an encryption that adds a prefix, the in-memory providers
  and the mock infrastructure. Also that a printed number is read back, which gives the one law
  on the text of times that the sessions need.
\<close>

subsection \<open>Printed numbers are read back\<close>

lemma digit_of_digit_char: "d < 10 \<Longrightarrow> digit_of (digit_char d) = Some d"
proof -
  assume "d < 10"
  then have "d \<in> {0, 1, 2, 3, 4, 5, 6, 7, 8, 9}" by auto
  then show ?thesis by (auto simp: digit_of_def digit_char_def)
qed

lemma parse_digits_show: "parse_digits acc (show_nat n) = Some (acc * 10 ^ length (show_nat n) + n)"
proof -
  have append: "parse_digits acc (ds @ [digit_char d]) = map_option (\<lambda>k. 10 * k + d) (parse_digits acc ds)"
    if "d < 10" "\<forall>c \<in> set ds. digit_of c \<noteq> None" for acc ds d
    using that(2) by (induction ds arbitrary: acc) (auto simp: digit_of_digit_char that(1) split: option.splits)
  have digits: "\<forall>c \<in> set (show_nat n). digit_of c \<noteq> None" for n
    by (induction n rule: show_nat.induct)
       (subst show_nat.simps, auto simp: digit_of_digit_char)
  show ?thesis
  proof (induction n arbitrary: acc rule: show_nat.induct)
    case (1 n)
    show ?case
    proof (cases "n < 10")
      case True
      then show ?thesis by (subst (1 2) show_nat.simps) (simp add: digit_of_digit_char)
    next
      case False
      have "n mod 10 < 10" by simp
      with False 1 digits have "parse_digits acc (show_nat (n div 10) @ [digit_char (n mod 10)]) =
          Some (10 * (acc * 10 ^ length (show_nat (n div 10)) + n div 10) + n mod 10)"
        by (simp add: append)
      with False show ?thesis
        by (subst (1 2) show_nat.simps) (simp add: algebra_simps)
    qed
  qed
qed

lemma show_nat_digits: "c \<in> set (show_nat n) \<Longrightarrow> \<exists>d < 10. c = digit_char d"
proof (induction n rule: show_nat.induct)
  case (1 n)
  show ?case
  proof (cases "n < 10")
    case True
    with 1(2) show ?thesis by (subst (asm) show_nat.simps) auto
  next
    case False
    with 1(2) have "c \<in> set (show_nat (n div 10)) \<or> c = digit_char (n mod 10)"
      by (subst (asm) show_nat.simps) auto
    moreover have "n mod 10 < 10" by simp
    ultimately show ?thesis using 1(1) False by blast
  qed
qed

lemma show_nat_nonempty: "show_nat n \<noteq> []"
  by (subst show_nat.simps) simp

lemma parse_nat_show: "parse_nat (show_nat n) = Some n"
proof -
  obtain c cs where c: "show_nat n = c # cs" by (meson neq_Nil_conv show_nat_nonempty)
  then obtain d where d: "d < 10" "c = digit_char d"
    using show_nat_digits [of c n] by auto
  have "parse_digits 0 (c # cs) = Some n"
    using parse_digits_show [of 0 n] c by simp
  then show ?thesis
    using c d by (simp add: parse_nat_def digit_of_digit_char)
qed

lemma digit_char_plain:
  assumes "d < 10"
  shows "\<not> is_space (digit_char d)" "digit_char d \<noteq> CHR ''-''" "digit_char d \<noteq> CHR ''+''"
    "digit_char d \<noteq> CHR ''Z''"
proof -
  have n: "of_char (digit_char d) = 48 + d"
    using assms by (simp add: digit_char_def)
  have "digit_char d \<noteq> c" if "of_char c < (48::nat) \<or> (57::nat) < of_char c" for c
    using that n assms by auto
  then show "digit_char d \<noteq> CHR ''-''" "digit_char d \<noteq> CHR ''+''" "digit_char d \<noteq> CHR ''Z''"
    by simp_all
  show "\<not> is_space (digit_char d)"
    using n by (simp add: is_space_def)
qed

lemma show_int_chars:
  "c \<in> set (show_int n) \<Longrightarrow> \<not> is_space c \<and> c \<noteq> CHR ''Z''"
  using show_nat_digits digit_char_plain
  by (fastforce simp: show_int_def is_space_def split: if_splits)

lemma parse_int_show: "parse_int (show_int n) = Some n"
proof -
  have strip: "py_strip (show_int n) = show_int n"
    using show_int_chars by (simp add: py_strip_def strip_by_none)
  show ?thesis
  proof (cases "n < 0")
    case True
    then have "show_int n = CHR ''-'' # show_nat (nat (- n))" by (simp add: show_int_def)
    with strip show ?thesis using True by (simp add: parse_int_def parse_nat_show)
  next
    case False
    then have s: "show_int n = show_nat (nat n)" by (simp add: show_int_def)
    obtain c cs where c: "show_nat (nat n) = c # cs" by (meson neq_Nil_conv show_nat_nonempty)
    then obtain d where "d < 10" "c = digit_char d"
      using show_nat_digits [of c "nat n"] by auto
    then have "c \<noteq> CHR ''-''" "c \<noteq> CHR ''+''" using digit_char_plain by auto
    with strip s c show ?thesis
      using False parse_nat_show [of "nat n"] by (simp add: parse_int_def)
  qed
qed

lemma z_to_offset_plain: "CHR ''Z'' \<notin> set s \<Longrightarrow> z_to_offset s = s"
  by (induction s) (auto simp: z_to_offset_def)

subsection \<open>The environment\<close>

definition demo_env0 :: "table env" where
  "demo_env0 =
     \<lparr>cfg = default_settings, uuid_at = (\<lambda>n. n), isotext = show_int,
      parse_iso = (\<lambda>s. case parse_int s of Some t \<Rightarrow> Inr (Aware t 0) | None \<Rightarrow> Inl (PyError ''ValueError'')),
      str_of = (\<lambda>_. ''?''), float_of = (\<lambda>_. None), json_dumps = (\<lambda>_. ''{}''), json_loads = (\<lambda>_. Inr (JObj [])),
      xml_nodes = (\<lambda>_. Inr []), encrypt = (\<lambda>s. ''enc:'' @ s), decrypt = (\<lambda>s. Inr (drop 4 s)),
      sha256 = (\<lambda>s. s), exn_text = (\<lambda>_. ''error''), latency_at = (\<lambda>_. 50), redis = table_server,
      redis_member = (\<lambda>_. ''m''), infra = mock_infra_ops (\<lambda>n. n),
      event_bus = memory_event_ops (\<lambda>_. ''?'') show_int\<rparr>"

definition demo_env :: "table env" where
  "demo_env = with_memory_bus (with_mock_infra demo_env0)"

lemma demo_env_simps [simp]:
  "cfg demo_env = default_settings" "uuid_at demo_env = (\<lambda>n. n)" "isotext demo_env = show_int"
  "infra demo_env = mock_infra_ops (\<lambda>n. n)" "event_bus demo_env = memory_event_ops (\<lambda>_. ''?'') show_int"
  "latency_at demo_env = (\<lambda>_. 50)" "str_of demo_env = (\<lambda>_. ''?'')" "float_of demo_env = (\<lambda>_. None)"
  "json_dumps demo_env = (\<lambda>_. ''{}'')" "json_loads demo_env = (\<lambda>_. Inr (JObj []))"
  "encrypt demo_env = (\<lambda>s. ''enc:'' @ s)" "decrypt demo_env = (\<lambda>s. Inr (drop 4 s))"
  "sha256 demo_env = (\<lambda>s. s)" "redis demo_env = table_server" "exn_text demo_env = (\<lambda>_. ''error'')"
  "xml_nodes demo_env = (\<lambda>_. Inr [])"
  by (simp_all add: demo_env_def demo_env0_def with_memory_bus_def with_mock_infra_def)

lemma demo_infra_env: "infra_env demo_env"
proof -
  have "demo_env = with_mock_infra (with_memory_bus demo_env0)"
    by (simp add: demo_env_def with_mock_infra_def with_memory_bus_def)
  then show ?thesis using mock_env.infra_env_axioms by metis
qed

lemma demo_event_env: "event_env demo_env"
  unfolding demo_env_def by (rule memory_bus.event_env_axioms)

lemma demo_memory_locks: "uses_memory_locks demo_env"
  by (simp add: uses_memory_locks_def default_settings_def)

lemma demo_iso_readable: "iso_readable demo_env"
proof -
  have "z_to_offset (show_int t) = show_int t" for t
    using show_int_chars by (intro z_to_offset_plain) blast
  moreover have "parse_iso demo_env = (\<lambda>s. case parse_int s of Some t \<Rightarrow> Inr (Aware t 0) | None \<Rightarrow> Inl (PyError ''ValueError''))"
    by (simp add: demo_env_def demo_env0_def with_memory_bus_def with_mock_infra_def)
  ultimately show ?thesis by (simp add: iso_readable_def parse_int_show)
qed

subsection \<open>A world\<close>

definition world_of :: "database \<Rightarrow> table world" where
  "world_of d =
     \<lparr>db = d, saved = d, drawn = 1000, clock = 0, sim_flags = initial_flags, mem_locks = (\<lambda>_. None),
      mem_hits = (\<lambda>_. []), mem_sessions = (\<lambda>_. None), the_broker = new_mock_broker,
      the_infra = new_mock_infra,
      the_bus = \<lparr>ev_bus = new_memory_bus None, ev_buffer = new_buffer 500\<rparr>,
      inflight = 0, permits = None,
      last_run = \<lparr>ls_ran_at = None, ls_scanned = 0, ls_retried = 0, ls_recovered = 0, ls_skipped = 0,
        ls_failed = 0, ls_detail_count = None\<rparr>, ext = empty_table\<rparr>"

definition demo_client :: client where
  "demo_client = \<lparr>cl_id = 1, cl_name = ''Acme'', cl_status = ''active''\<rparr>"

definition demo_broker :: broker_account where
  "demo_broker = \<lparr>ba_id = 2, ba_client_id = 1, ba_provider_type = ''mock'', ba_display_name = ''B'',
     ba_priority = 10, ba_enabled = True, ba_allowed_regions = [''ewr''], ba_capabilities = [],
     ba_credentials = ''enc:{}'', ba_rate_limit_rps = None\<rparr>"

definition demo_ip :: static_ip where
  "demo_ip = \<lparr>ip_id = 3, ip_provider = ''mock'', ip_external_id = ''x'', ip_address = ''203.0.113.9'',
     ip_region = ''ewr'', ip_status = ''allocated'', ip_instance_id = None, ip_health_score = Some 100,
     ip_metadata = [], ip_created_at = 0\<rparr>"

definition demo_assignment :: ip_assignment where
  "demo_assignment = \<lparr>as_id = 4, as_client_id = 1, as_broker = 2, as_ip = 3, as_status = ''active'',
     as_assigned_at = 0, as_released_at = None\<rparr>"

definition demo_usage :: ip_usage where
  "demo_usage = \<lparr>us_id = 5, us_broker = 2, us_ip = 3, us_used_at = 0, us_released_at = None,
     us_eligible_at = None\<rparr>"

definition demo_db :: database where
  "demo_db = empty_db\<lparr>clients := [demo_client], brokers := [demo_broker], static_ips := [demo_ip],
     assignments := [demo_assignment], usages := [demo_usage]\<rparr>"

lemmas demo_defs = demo_db_def demo_client_def demo_broker_def demo_ip_def demo_assignment_def
  demo_usage_def empty_db_def

lemma demo_ip_inv: "ip_inv demo_db"
  by (simp add: ip_inv_def one_active_def active_assignments_def open_usage_def ips_ok_def demo_defs)

text \<open>Evaluating an operation on the demonstration world.\<close>

lemmas demo_eval = run_simps Let_def finallyA_def zoomA_def modifyA_def liftA_def map_infra_error_def
  with_lock_def acquire_lock_memory_run [OF demo_memory_locks] release_lock_memory [OF demo_memory_locks]
  on_infra_def on_broker_def mock_infra_ops_def get_ip_def get_instance_def found_def ip_by_id_def
  instance_by_id_def broker_by_id_def config_rows_def world_of_def demo_defs

end
