(* ===== verification/Simulator.thy ===== *)
theory Simulator
  imports World
begin

text \<open>
  The simulator service (\<^verbatim>\<open>app/sim/service.py\<close>): it switches the flags of \<open>Faults\<close> and pushes
  them onto the cached mock adapters. Pushing the infrastructure flag changes the mock
  infrastructure only, which another infrastructure provider in use does not look at.
\<close>

definition apply_faults :: "flags \<Rightarrow> mock_broker \<Rightarrow> mock_broker" where
  "apply_faults F B =
     (case active_broker_fault F of
        None \<Rightarrow> clear_persistent_fault B
      | Some active \<Rightarrow> set_persistent_fault (f_code active) (f_status active)
          (case f_retryable active of Some b \<Rightarrow> b | None \<Rightarrow> True) (clear_persistent_fault B))"

definition apply_faults_to_providers :: "('x, unit) op" where
  "apply_faults_to_providers = modifyA (\<lambda>w.
     w\<lparr>the_broker := apply_faults (sim_flags w) (the_broker w),
       the_infra := set_probe_fail (is_enabled (sim_flags w) ''infra_probe_fail'') (the_infra w)\<rparr>)"

definition on_flags :: "(flags, exn, 'a) act \<Rightarrow> ('x, 'a) op" where
  "on_flags = zoomA sim_flags (\<lambda>F w. w\<lparr>sim_flags := F\<rparr>)"

definition set_fault :: "string \<Rightarrow> bool \<Rightarrow> ('x, fault) op" where
  "set_fault fid enabled =
     bindA now_utc (\<lambda>now. bindA (on_flags (set_enabled now fid enabled)) (\<lambda>row.
       seqA apply_faults_to_providers (ret row)))"

definition clear_all_faults :: "('x, fault list) op" where
  "clear_all_faults =
     bindA now_utc (\<lambda>now. bindA (on_flags (\<lambda>F. apfst Inr (clear_all now F))) (\<lambda>rows.
       seqA apply_faults_to_providers (ret rows)))"

definition reset_sim_for_tests :: "('x, unit) op" where
  "reset_sim_for_tests = on_flags (modifyA reset_for_tests)"

subsection \<open>Facts\<close>

text \<open>The adapter agrees with the flags: what it would raise is the active fault's profile.\<close>

definition in_step :: "flags \<Rightarrow> mock_broker \<Rightarrow> mock_infra \<Rightarrow> bool" where
  "in_step F B M \<longleftrightarrow>
     (mk_persistent B = None \<longleftrightarrow> active_broker_fault F = None) \<and>
     broker_active_fault F B = mk_persistent B \<and>
     mi_probe_fail M = infra_fault_enabled F"

lemma apply_faults_in_step:
  "in_step F (apply_faults F B) (set_probe_fail (is_enabled F ''infra_probe_fail'') M)"
  by (auto simp: in_step_def apply_faults_def broker_active_fault_def set_persistent_fault_def
      clear_persistent_fault_def set_probe_fail_def infra_fault_enabled_def split: option.splits)

lemma apply_faults_run [run_simps]:
  "apply_faults_to_providers w = (Inr (),
     w\<lparr>the_broker := apply_faults (sim_flags w) (the_broker w),
       the_infra := set_probe_fail (is_enabled (sim_flags w) ''infra_probe_fail'') (the_infra w)\<rparr>)"
  by (simp add: apply_faults_to_providers_def modifyA_def)

lemma frames_apply_faults [frames_intros]:
  "(\<And>w B M. f (w\<lparr>the_broker := B, the_infra := M\<rparr>) = f w) \<Longrightarrow> frames f apply_faults_to_providers"
  by (simp add: apply_faults_to_providers_def frames_modify)

lemma set_fault_cases:
  obtains (unknown) "fid \<notin> fst ` set (fl_faults (sim_flags w))"
      "set_fault fid b w = (Inl (PyError ''KeyError''), w)"
    | (switched) row F where "set_enabled (clock w) fid b (sim_flags w) = (Inr row, F)"
      "set_fault fid b w = (Inr row, w\<lparr>sim_flags := F, the_broker := apply_faults F (the_broker w),
         the_infra := set_probe_fail (is_enabled F ''infra_probe_fail'') (the_infra w)\<rparr>)"
proof (cases "fid \<in> fst ` set (fl_faults (sim_flags w))")
  case True
  then obtain row F where "set_enabled (clock w) fid b (sim_flags w) = (Inr row, F)"
    by (auto simp: set_enabled_def Let_def)
  then show thesis
    by (intro switched) (simp_all add: set_fault_def run_simps on_flags_def zoomA_def)
next
  case False
  then show thesis
    by (intro unknown) (simp_all add: set_fault_def run_simps on_flags_def zoomA_def set_enabled_def)
qed

text \<open>With no live fault and no injected failures the broker accepts.\<close>

lemma broker_accepts:
  assumes "active_broker_fault F = None" "mk_persistent B = None" "mk_fail_remaining B \<le> 0"
  shows "\<exists>res s. broker_place_order U F p (B, n) = (Inr res, s)"
  using assms by (simp add: broker_place_order_def bindA_def askA_def broker_active_fault_def Let_def
      seqA_def modifyA_def ret_def new_uuid_def)

lemma broker_refuses:
  assumes "broker_active_fault F B = Some f"
  shows "broker_place_order U F p (B, n) =
    (Inl (MockBrokerError (bf_code f) (bf_status f) (bf_retryable f)), (B, n))"
  using assms by (simp add: broker_place_order_def bindA_def askA_def raise_def)

end
