(* ===== verification/Routing.thy ===== *)
theory Routing
  imports Health
begin

text \<open>
  The routing engine (\<^verbatim>\<open>app/routing/engine.py\<close>): which brokers of a client can take an order, in
  which order to try them, and why the others cannot.
\<close>

subsection \<open>Candidates and decisions\<close>

record route_candidate =
  rc_broker :: broker_account
  rc_static_ip :: "uuid option"
  rc_health_score :: rat
  rc_health_status :: string
  rc_rate_pressure :: rat
  rc_route_score :: rat
  rc_reasons :: "string list"

record route_exclusion =
  ex_broker :: uuid
  ex_display_name :: string
  ex_reason :: string
  ex_ip_region :: "string option"
  ex_score :: "rat option"

record route_decision =
  dc_primary :: "route_candidate option"
  dc_chain :: "route_candidate list"
  dc_excluded :: "route_exclusion list"
  dc_require_ip :: bool

definition require_assigned_ip :: "('x, bool) op" where
  "require_assigned_ip =
     bindA (config_get_value ''routing.require_assigned_ip'' [(''enabled'', JBool True)]) (\<lambda>v.
       ret (truthy (dict_get v ''enabled'' (JBool True))))"

definition active_assignment :: "uuid \<Rightarrow> ('x, (ip_assignment \<times> static_ip) option) op" where
  "active_assignment b = ask_db (\<lambda>d. first_row (active_ips b d))"

subsection \<open>Judging one broker\<close>

definition exclude :: "broker_account \<Rightarrow> string \<Rightarrow> route_exclusion" where
  "exclude b reason = \<lparr>ex_broker = ba_id b, ex_display_name = ba_display_name b, ex_reason = reason,
     ex_ip_region = None, ex_score = None\<rparr>"

text \<open>The region checks; \<open>region\<close> is a non-empty preference.\<close>

definition region_exclusion ::
  "string \<Rightarrow> broker_account \<Rightarrow> (ip_assignment \<times> static_ip) option \<Rightarrow> route_exclusion option" where
  "region_exclusion region b assignment =
     (if ba_allowed_regions b \<noteq> [] \<and> region \<notin> set (ba_allowed_regions b)
      then Some (exclude b ''REGION_MISMATCH'')
      else
        (case assignment of
           Some (a, ip) \<Rightarrow>
             if ip_region ip \<noteq> region
             then Some ((exclude b ''REGION_IP_MISMATCH'')\<lparr>ex_ip_region := Some (ip_region ip)\<rparr>) else None
         | None \<Rightarrow> None))"

definition given_region :: "string option \<Rightarrow> string option" where
  "given_region r = (case r of Some (c # t) \<Rightarrow> Some (c # t) | _ \<Rightarrow> None)"

definition health_of :: "health_row list \<Rightarrow> uuid \<Rightarrow> rat \<times> string" where
  "health_of rows b =
     (case map_of (rev (map (\<lambda>h. (hr_broker h, h)) rows)) b of
        Some h \<Rightarrow> (hr_score h, hr_status h)
      | None \<Rightarrow> (0, ''unhealthy''))"

definition candidate_of ::
  "broker_account \<Rightarrow> (ip_assignment \<times> static_ip) option \<Rightarrow> rat \<times> string \<Rightarrow> uuid option \<Rightarrow>
   bool \<Rightarrow> rl_snapshot \<Rightarrow> route_candidate" where
  "candidate_of b assignment health preferred region_match rl =
     (let rate_pressure = (if rs_allowed rl then rs_pressure rl else max (rs_pressure rl) 20);
          sticky = (if preferred = Some (ba_id b) then 15 else 0);
          region_bonus = (if region_match then 10 else 0);
          priority_bonus = of_int (ba_priority b) * 2
      in \<lparr>rc_broker = b, rc_static_ip = map_option (\<lambda>(a, ip). as_ip a) assignment,
          rc_health_score = fst health, rc_health_status = snd health,
          rc_rate_pressure = rate_pressure,
          rc_route_score = fst health + priority_bonus - rate_pressure + sticky + region_bonus,
          rc_reasons = (if region_match then [''region_match''] else []) @
            (if rs_allowed rl then [] else [''rate_limited'']) @
            (if sticky = (0 :: rat) then [] else [''preferred_sticky''])\<rparr>)"

text \<open>The checks before the rate limit, in the order of the loop body.\<close>

definition static_exclusion ::
  "rat \<Rightarrow> bool \<Rightarrow> string option \<Rightarrow> rat \<times> string \<Rightarrow> broker_account \<Rightarrow>
   (ip_assignment \<times> static_ip) option \<Rightarrow> route_exclusion option" where
  "static_exclusion degraded_min require_ip region_preference health b assignment =
     (if require_ip \<and> assignment = None then Some (exclude b ''NO_ASSIGNED_IP'')
      else
        (case Option.bind (given_region region_preference) (\<lambda>region. region_exclusion region b assignment) of
           Some ex \<Rightarrow> Some ex
         | None \<Rightarrow>
             if snd health = ''unhealthy'' \<or> fst health < degraded_min
             then Some ((exclude b ''UNHEALTHY'')\<lparr>ex_score := Some (fst health)\<rparr>) else None))"

definition judge_broker ::
  "'x env \<Rightarrow> rat \<Rightarrow> bool \<Rightarrow> string \<Rightarrow> health_row list \<Rightarrow> uuid option \<Rightarrow> string option \<Rightarrow> bool \<Rightarrow>
   broker_account \<Rightarrow> ('x, route_exclusion + route_candidate) op" where
  "judge_broker E degraded_min require_ip policy rows preferred region_preference consume b =
     bindA (active_assignment (ba_id b)) (\<lambda>assignment.
       let health = health_of rows (ba_id b) in
       case static_exclusion degraded_min require_ip region_preference health b assignment of
         Some ex \<Rightarrow> ret (Inl ex)
       | None \<Rightarrow>
           bindA (if consume then rl_consume E (ba_id b) (Some (broker_limit b))
                  else rl_check E (ba_id b) (Some (broker_limit b))) (\<lambda>rl.
             if \<not> rs_allowed rl \<and> policy = ''REJECT''
             then ret (Inl (exclude b ''RATE_LIMITED''))
             else ret (Inr (candidate_of b assignment health preferred
               (given_region region_preference \<noteq> None) rl))))"

subsection \<open>Ranking\<close>

definition rank :: "route_candidate list \<Rightarrow> route_candidate list" where
  "rank cs = sort_key (\<lambda>c. - rc_route_score c) cs"

definition choose_primary :: "uuid option \<Rightarrow> route_candidate list \<Rightarrow> route_candidate option" where
  "choose_primary preferred cs =
     (case Option.bind preferred (\<lambda>p. find (\<lambda>c. ba_id (rc_broker c) = p) cs) of
        Some c \<Rightarrow> Some c
      | None \<Rightarrow> first_row cs)"

definition build_chain :: "route_candidate option \<Rightarrow> route_candidate list \<Rightarrow> route_candidate list" where
  "build_chain primary cs =
     (case primary of
        None \<Rightarrow> []
      | Some p \<Rightarrow> p # filter (\<lambda>c. ba_id (rc_broker c) \<noteq> ba_id (rc_broker p)) cs)"

fun lefts :: "('a + 'b) list \<Rightarrow> 'a list" where
  "lefts [] = []"
| "lefts (Inl x # rs) = x # lefts rs"
| "lefts (Inr y # rs) = lefts rs"

fun rights :: "('a + 'b) list \<Rightarrow> 'b list" where
  "rights [] = []"
| "rights (Inl x # rs) = rights rs"
| "rights (Inr y # rs) = y # rights rs"

definition client_brokers :: "uuid \<Rightarrow> database \<Rightarrow> broker_account list" where
  "client_brokers c d = filter (\<lambda>b. ba_client_id b = c \<and> ba_enabled b) (brokers d)"

definition select_route ::
  "'x env \<Rightarrow> uuid \<Rightarrow> uuid option \<Rightarrow> string option \<Rightarrow> bool \<Rightarrow> ('x, route_decision) op" where
  "select_route E client_id preferred region_preference consume =
     bindA (config_get_value ''routing.health_thresholds'' thresholds_default) (\<lambda>thresholds.
     bindA (liftA (float_at E thresholds ''degraded_min'' 50)) (\<lambda>degraded_min.
     bindA require_assigned_ip (\<lambda>require_ip.
     bindA (exceed_policy E) (\<lambda>policy.
     bindA (ask_db (client_brokers client_id)) (\<lambda>bs.
     bindA (latest_for_brokers E True) (\<lambda>rows.
     bindA (mapA (judge_broker E degraded_min require_ip policy rows preferred region_preference consume) bs)
       (\<lambda>judged.
       let candidates = rank (rights judged);
           primary = choose_primary preferred candidates
       in ret \<lparr>dc_primary = primary, dc_chain = build_chain primary candidates,
               dc_excluded = lefts judged, dc_require_ip = require_ip\<rparr>)))))))"

definition no_route :: exn where
  "no_route = AppError ''NO_ROUTE'' 409"

definition select_or_raise ::
  "'x env \<Rightarrow> uuid \<Rightarrow> uuid option \<Rightarrow> string option \<Rightarrow> bool \<Rightarrow> ('x, route_decision) op" where
  "select_or_raise E client_id preferred region_preference consume =
     bindA (select_route E client_id preferred region_preference consume) (\<lambda>decision.
       if dc_primary decision = None then raise no_route else ret decision)"

record route_preview =
  rp_broker :: uuid
  rp_display_name :: string
  rp_route_score :: rat
  rp_health_score :: rat
  rp_health_status :: string
  rp_rate_pressure :: rat
  rp_static_ip :: "uuid option"
  rp_reasons :: "string list"

definition preview_row :: "route_candidate \<Rightarrow> route_preview" where
  "preview_row c = \<lparr>rp_broker = ba_id (rc_broker c), rp_display_name = ba_display_name (rc_broker c),
     rp_route_score = rc_route_score c, rp_health_score = rc_health_score c,
     rp_health_status = rc_health_status c, rp_rate_pressure = rc_rate_pressure c,
     rp_static_ip = rc_static_ip c, rp_reasons = rc_reasons c\<rparr>"

definition preview_route ::
  "'x env \<Rightarrow> uuid \<Rightarrow> uuid option \<Rightarrow> string option \<Rightarrow> bool \<Rightarrow>
   ('x, bool \<times> route_preview option \<times> route_preview list \<times> route_exclusion list) op" where
  "preview_route E client_id preferred region_preference consume =
     bindA (select_route E client_id preferred region_preference consume) (\<lambda>decision.
       ret (dc_require_ip decision, map_option preview_row (dc_primary decision),
            map preview_row (dc_chain decision), dc_excluded decision))"

subsection \<open>Facts\<close>

lemma set_lefts: "x \<in> set (lefts rs) \<longleftrightarrow> Inl x \<in> set rs"
  by (induction rs rule: lefts.induct) auto

lemma set_rights: "y \<in> set (rights rs) \<longleftrightarrow> Inr y \<in> set rs"
  by (induction rs rule: rights.induct) auto

lemma set_rank [simp]: "set (rank cs) = set cs"
  by (simp add: rank_def)

lemma rank_sorted: "sorted_wrt (\<lambda>a b. rc_route_score b \<le> rc_route_score a) (rank cs)"
proof -
  have "sorted (map (\<lambda>c. - rc_route_score c) (rank cs))"
    by (simp add: rank_def)
  then show ?thesis by (simp add: sorted_wrt_map)
qed

text \<open>The chain tries every candidate once: the primary, then the others by falling score.\<close>

lemma choose_primary_mem: "choose_primary preferred cs = Some p \<Longrightarrow> p \<in> set cs"
  by (auto simp: choose_primary_def first_row_def find_Some_iff split: option.splits list.splits bind_splits)

lemma choose_primary_None: "choose_primary preferred cs = None \<longleftrightarrow> cs = []"
  by (cases "Option.bind preferred (\<lambda>p. find (\<lambda>c. ba_id (rc_broker c) = p) cs)"; cases cs)
     (auto simp: choose_primary_def first_row_def find_Some_iff bind_eq_Some_conv)

lemma build_chain_mset:
  assumes "distinct (map (\<lambda>c. ba_id (rc_broker c)) cs)" "choose_primary preferred cs = Some p"
  shows "mset (build_chain (choose_primary preferred cs) cs) = mset cs"
proof -
  let ?id = "\<lambda>c. ba_id (rc_broker c)"
  have p: "p \<in> set cs" by (rule choose_primary_mem [OF assms(2)])
  have "filter (\<lambda>c. ?id c = ?id p) cs = [p]" if "distinct (map ?id cs)" "p \<in> set cs" for cs
    using that
  proof (induction cs)
    case (Cons c cs)
    show ?case
    proof (cases "c = p")
      case True
      with Cons.prems(1) have "filter (\<lambda>c. ?id c = ?id p) cs = []"
        by (auto simp: filter_empty_conv) (metis image_eqI)
      with True show ?thesis by simp
    next
      case False
      with Cons.prems have "p \<in> set cs" "?id c \<noteq> ?id p" by auto
      with Cons show ?thesis by simp
    qed
  qed simp
  from this [OF assms(1) p] have "mset (filter (\<lambda>c. ?id c = ?id p) cs) = {#p#}" by simp
  then have "mset cs = {#p#} + mset (filter (\<lambda>c. ?id c \<noteq> ?id p) cs)"
    using multiset_partition [of "mset cs" "\<lambda>c. ?id c = ?id p"] by simp
  with assms(2) show ?thesis by (simp add: build_chain_def)
qed

lemma build_chain_mem:
  "c \<in> set (build_chain (choose_primary preferred cs) cs) \<Longrightarrow> c \<in> set cs"
  by (auto simp: build_chain_def choose_primary_mem split: option.splits)

lemma choose_primary_preferred:
  assumes "c \<in> set cs" "preferred = Some (ba_id (rc_broker c))"
  shows "\<exists>p. choose_primary preferred cs = Some p \<and> ba_id (rc_broker p) = ba_id (rc_broker c)"
proof -
  obtain p where p: "find (\<lambda>d. ba_id (rc_broker d) = ba_id (rc_broker c)) cs = Some p"
    using assms(1) by (metis (mono_tags, lifting) find_None_iff not_None_eq)
  then have "ba_id (rc_broker p) = ba_id (rc_broker c)" by (auto simp: find_Some_iff)
  with p assms(2) show ?thesis by (simp add: choose_primary_def)
qed

lemma choose_primary_best:
  assumes "\<And>c. c \<in> set cs \<Longrightarrow> preferred \<noteq> Some (ba_id (rc_broker c))"
    and "choose_primary preferred (rank cs) = Some p" "c \<in> set cs"
  shows "rc_route_score c \<le> rc_route_score p"
proof -
  have "find (\<lambda>d. ba_id (rc_broker d) = q) (rank cs) = None" if "preferred = Some q" for q
    using assms(1) that by (auto simp: find_None_iff)
  then have "Option.bind preferred (\<lambda>q. find (\<lambda>d. ba_id (rc_broker d) = q) (rank cs)) = None"
    by (cases preferred) auto
  then obtain cs' where "rank cs = p # cs'"
    using assms(2) by (auto simp: choose_primary_def first_row_def split: list.splits)
  with rank_sorted [of cs] assms(3) show ?thesis
    by (metis set_rank set_ConsD sorted_wrt.simps(2) order_refl)
qed

lemma chain_tail_sorted:
  "sorted_wrt (\<lambda>a b. rc_route_score b \<le> rc_route_score a) (tl (build_chain p (rank cs)))"
  by (cases p) (simp_all add: build_chain_def rank_sorted sorted_wrt_filter)

text \<open>What makes a broker a candidate.\<close>

definition routable ::
  "bool \<Rightarrow> rat \<Rightarrow> string \<Rightarrow> string option \<Rightarrow> database \<Rightarrow> broker_account \<Rightarrow> route_candidate \<Rightarrow> bool" where
  "routable require_ip degraded_min policy region d b c \<longleftrightarrow>
     rc_broker c = b \<and>
     rc_static_ip c = map_option (\<lambda>(a, ip). as_ip a) (first_row (active_ips (ba_id b) d)) \<and>
     (require_ip \<longrightarrow> rc_static_ip c \<noteq> None) \<and>
     (case given_region region of
        None \<Rightarrow> True
      | Some r \<Rightarrow> (ba_allowed_regions b = [] \<or> r \<in> set (ba_allowed_regions b)) \<and>
          (case first_row (active_ips (ba_id b) d) of Some (a, ip) \<Rightarrow> ip_region ip = r | None \<Rightarrow> True)) \<and>
     rc_health_status c \<noteq> ''unhealthy'' \<and> degraded_min \<le> rc_health_score c \<and>
     (policy = ''REJECT'' \<longrightarrow> ''rate_limited'' \<notin> set (rc_reasons c))"

definition exclusion_reasons :: "string list" where
  "exclusion_reasons = [''NO_ASSIGNED_IP'', ''REGION_MISMATCH'', ''REGION_IP_MISMATCH'', ''UNHEALTHY'',
     ''RATE_LIMITED'']"

lemma static_exclusion_Some:
  "static_exclusion dm rq rg health b asg = Some ex \<Longrightarrow>
   ex_broker ex = ba_id b \<and> ex_reason ex \<in> set exclusion_reasons"
  by (auto simp: static_exclusion_def region_exclusion_def exclude_def exclusion_reasons_def
      bind_eq_Some_conv split: if_splits option.splits)

lemma static_exclusion_None:
  assumes "static_exclusion dm rq rg health b asg = None"
  shows "rq \<longrightarrow> asg \<noteq> None" "snd health \<noteq> ''unhealthy''" "dm \<le> fst health"
    and "given_region rg = Some r \<Longrightarrow> (ba_allowed_regions b = [] \<or> r \<in> set (ba_allowed_regions b)) \<and>
           (case asg of Some (a, ip) \<Rightarrow> ip_region ip = r | None \<Rightarrow> True)"
  using assms
  by (auto simp: static_exclusion_def region_exclusion_def split: if_splits option.splits)

lemma candidate_of_simps [simp]:
  "rc_broker (candidate_of b asg h pf rm rl) = b"
  "rc_static_ip (candidate_of b asg h pf rm rl) = map_option (\<lambda>(a, ip). as_ip a) asg"
  "rc_health_score (candidate_of b asg h pf rm rl) = fst h"
  "rc_health_status (candidate_of b asg h pf rm rl) = snd h"
  "''rate_limited'' \<in> set (rc_reasons (candidate_of b asg h pf rm rl)) \<longleftrightarrow> \<not> rs_allowed rl"
  by (auto simp: candidate_of_def Let_def)

lemma judge_cases:
  assumes "judge_broker E dm rq po rows pf rg cn b w = (Inr r, w')"
  defines "asg \<equiv> first_row (active_ips (ba_id b) (db w))" and "h \<equiv> health_of rows (ba_id b)"
  obtains (static) ex where "static_exclusion dm rq rg h b asg = Some ex" "r = Inl ex" "w' = w"
    | (limited) rl :: rl_snapshot where "static_exclusion dm rq rg h b asg = None" "\<not> rs_allowed rl" "po = ''REJECT''"
        "r = Inl (exclude b ''RATE_LIMITED'')"
    | (candidate) rl :: rl_snapshot where "static_exclusion dm rq rg h b asg = None" "rs_allowed rl \<or> po \<noteq> ''REJECT''"
        "r = Inr (candidate_of b asg h pf (given_region rg \<noteq> None) rl)"
proof (cases "static_exclusion dm rq rg h b asg")
  case (Some ex)
  then show thesis using assms(1)
    by (intro static [of ex])
       (simp_all add: judge_broker_def active_assignment_def run_simps asg_def h_def)
next
  case None
  then have "bindA (if cn then rl_consume E (ba_id b) (Some (broker_limit b))
                    else rl_check E (ba_id b) (Some (broker_limit b))) (\<lambda>rl.
      if \<not> rs_allowed rl \<and> po = ''REJECT'' then ret (Inl (exclude b ''RATE_LIMITED''))
      else ret (Inr (candidate_of b asg h pf (given_region rg \<noteq> None) rl))) w = (Inr r, w')"
    using assms(1) unfolding judge_broker_def active_assignment_def bind_run [of "ask_db _"] ask_db_run
      asg_def h_def
    by (simp add: Let_def)
  then obtain rl w1 where "(if \<not> rs_allowed rl \<and> po = ''REJECT''
             then ret (Inl (exclude b ''RATE_LIMITED''))
             else ret (Inr (candidate_of b asg h pf (given_region rg \<noteq> None) rl))) w1 = (Inr r :: exn + _, w')"
    unfolding bindA_Inr by blast
  then show thesis using None limited [of rl] candidate [of rl] by (auto split: if_splits)
qed

lemma judge_Inl:
  "judge_broker E dm rq po rows pf rg cn b w = (Inr (Inl ex), w') \<Longrightarrow>
   ex_broker ex = ba_id b \<and> ex_reason ex \<in> set exclusion_reasons"
  by (erule judge_cases) (auto dest: static_exclusion_Some simp: exclude_def exclusion_reasons_def)

lemma judge_Inr:
  "judge_broker E dm rq po rows pf rg cn b w = (Inr (Inr c), w') \<Longrightarrow>
   routable rq dm po rg (db w) b c"
  by (erule judge_cases)
     (auto simp: routable_def static_exclusion_None split: option.splits dest: static_exclusion_None)

lemma judge_frames [frames_intros]:
  assumes "\<And>w H. f (w\<lparr>mem_hits := H\<rparr>) = f w" "\<And>w x. f (w\<lparr>ext := x\<rparr>) = f w"
  shows "frames f (judge_broker E dm rq po rows pf rg cn b)"
  unfolding judge_broker_def active_assignment_def
  by (intro frames_intros assms)

text \<open>The whole decision: every enabled broker of the client is either a candidate or excluded with
  a reason, and the chain is what \<open>choose_primary\<close> and \<open>build_chain\<close> make of the candidates.\<close>

definition judged_ok ::
  "bool \<Rightarrow> rat \<Rightarrow> string \<Rightarrow> string option \<Rightarrow> database \<Rightarrow> broker_account \<Rightarrow>
   route_exclusion + route_candidate \<Rightarrow> bool" where
  "judged_ok require_ip degraded_min policy region d b j \<longleftrightarrow>
     (case j of
        Inl ex \<Rightarrow> ex_broker ex = ba_id b \<and> ex_reason ex \<in> set exclusion_reasons
      | Inr c \<Rightarrow> routable require_ip degraded_min policy region d b c)"

definition decision_ok ::
  "bool \<Rightarrow> rat \<Rightarrow> string \<Rightarrow> string option \<Rightarrow> uuid option \<Rightarrow> broker_account list \<Rightarrow> database \<Rightarrow>
   route_decision \<Rightarrow> bool" where
  "decision_ok require_ip degraded_min policy region preferred bs d D \<longleftrightarrow>
     (\<exists>judged.
        list_all2 (judged_ok require_ip degraded_min policy region d) bs judged \<and>
        dc_primary D = choose_primary preferred (rank (rights judged)) \<and>
        dc_chain D = build_chain (dc_primary D) (rank (rights judged)) \<and>
        dc_excluded D = lefts judged \<and> dc_require_ip D = require_ip)"

lemma routable_but_snapshots [simp]:
  "routable rq dm po rg (d\<lparr>snapshots := s\<rparr>) b c = routable rq dm po rg d b c"
proof -
  have "active_ips i (d\<lparr>snapshots := s\<rparr>) = active_ips i d" for i
    by (simp add: active_ips_def active_assignments_def)
  then show ?thesis unfolding routable_def by (simp only:)
qed

text \<open>The settings the decision reads: the least score of a degraded broker and the policy for
  brokers over their rate limit.\<close>

definition route_settings :: "'x env \<Rightarrow> 'x world \<Rightarrow> rat \<Rightarrow> string \<Rightarrow> bool" where
  "route_settings E w degraded_min policy \<longleftrightarrow>
     (\<exists>th. config_get_value ''routing.health_thresholds'' thresholds_default w = (Inr th, w) \<and>
        liftA (float_at E th ''degraded_min'' 50) w = (Inr degraded_min, w)) \<and>
     exceed_policy E w = (Inr policy, w)"

lemma select_route_settings:
  assumes "select_route E client pf rg cn w = (Inr D, w')"
  obtains dm po where "decision_ok (dc_require_ip D) dm po rg pf (client_brokers client (db w)) (db w) D"
    "require_assigned_ip w = (Inr (dc_require_ip D), w)" "route_settings E w dm po"
proof -
  obtain th dm rq po rows w1 judged where
    rq: "require_assigned_ip w = (Inr rq, w)" and settings: "route_settings E w dm po"
    and rows: "latest_for_brokers E True w = (Inr rows, w1)"
    and judged: "mapA (judge_broker E dm rq po rows pf rg cn) (client_brokers client (db w)) w1 = (Inr judged, w')"
    and D: "D = (let candidates = rank (rights judged); primary = choose_primary pf candidates
       in \<lparr>dc_primary = primary, dc_chain = build_chain primary candidates,
           dc_excluded = lefts judged, dc_require_ip = rq\<rparr>)"
    using assms
    by (auto simp: select_route_def bindA_Inr seqA_Inr config_get_value_def require_assigned_ip_def
        exceed_policy_def one_of_run ask_db_run Let_def route_settings_def)
  have w1: "but_snapshots w1 = but_snapshots w"
    by (rule framesD [OF frames_latest rows]) (simp_all add: but_snapshots_def)
  have "list_all2 (judged_ok rq dm po rg (db w1)) (client_brokers client (db w)) judged \<and> db w' = db w1"
  proof (rule mapA_all2 [where I = "\<lambda>v. db v = db w1", OF judged], rule refl)
    fix b v y v'
    assume v: "db v = db w1" and run: "judge_broker E dm rq po rows pf rg cn b v = (Inr y, v')"
    have "db v' = db v" by (rule framesD [OF judge_frames run]) simp_all
    with v judge_Inl [of E dm rq po rows pf rg cn b v _ v'] judge_Inr [of E dm rq po rows pf rg cn b v _ v'] run
    show "judged_ok rq dm po rg (db w1) b y \<and> db v' = db w1"
      by (auto simp: judged_ok_def split: sum.split)
  qed
  moreover have "routable rq dm po rg (db w1) = routable rq dm po rg (db w)"
    by (intro ext) (metis w1 but_snapshots_def routable_but_snapshots)
  then have "judged_ok rq dm po rg (db w1) = judged_ok rq dm po rg (db w)"
    by (intro ext) (simp add: judged_ok_def split: sum.split)
  ultimately have "decision_ok rq dm po rg pf (client_brokers client (db w)) (db w) D"
    unfolding decision_ok_def D by (intro exI [of _ judged]) (simp add: Let_def)
  then show thesis using rq settings by (intro that) (simp_all add: D Let_def)
qed

lemma select_route_ok:
  assumes "select_route E client pf rg cn w = (Inr D, w')"
  obtains dm po where "decision_ok (dc_require_ip D) dm po rg pf (client_brokers client (db w)) (db w) D"
    "require_assigned_ip w = (Inr (dc_require_ip D), w)"
  by (rule select_route_settings [OF assms]) (rule that)

text \<open>What a decision says of every broker of the client.\<close>

lemma decision_chain_routable:
  assumes "decision_ok rq dm po rg pf bs d D" "c \<in> set (dc_chain D)"
  shows "rc_broker c \<in> set bs \<and> routable rq dm po rg d (rc_broker c) c"
proof -
  obtain judged where j: "list_all2 (judged_ok rq dm po rg d) bs judged"
      "dc_primary D = choose_primary pf (rank (rights judged))"
      "dc_chain D = build_chain (dc_primary D) (rank (rights judged))"
    using assms(1) unfolding decision_ok_def by blast
  then have "Inr c \<in> set judged"
    using assms(2) build_chain_mem [of c pf "rank (rights judged)"] by (simp add: set_rights)
  then obtain k where k: "k < length judged" "judged ! k = Inr c" by (auto simp: in_set_conv_nth)
  then have "k < length bs" "routable rq dm po rg d (bs ! k) c"
    using j(1) by (auto simp: list_all2_conv_all_nth judged_ok_def dest!: spec [of _ k])
  moreover from this have "rc_broker c = bs ! k" by (simp add: routable_def)
  ultimately show ?thesis by (metis nth_mem)
qed

lemma build_chain_ids:
  "(\<lambda>c. ba_id (rc_broker c)) ` set (build_chain (choose_primary pf cs) cs) = (\<lambda>c. ba_id (rc_broker c)) ` set cs"
proof (cases "choose_primary pf cs")
  case None
  then have "cs = []" by (rule choose_primary_None [THEN iffD1])
  with None show ?thesis by (simp add: build_chain_def)
next
  case (Some p)
  then show ?thesis using choose_primary_mem [OF Some] by (auto simp: build_chain_def image_iff)
qed

lemma decision_covers:
  assumes "decision_ok rq dm po rg pf bs d D"
  shows "(\<lambda>c. ba_id (rc_broker c)) ` set (dc_chain D) \<union> ex_broker ` set (dc_excluded D) = ba_id ` set bs"
    "\<forall>ex \<in> set (dc_excluded D). ex_reason ex \<in> set exclusion_reasons"
proof -
  obtain judged where j: "list_all2 (judged_ok rq dm po rg d) bs judged"
      "dc_primary D = choose_primary pf (rank (rights judged))"
      "dc_chain D = build_chain (dc_primary D) (rank (rights judged))" "dc_excluded D = lefts judged"
    using assms(1) unfolding decision_ok_def by blast
  have ids: "(\<lambda>c. ba_id (rc_broker c)) ` set (dc_chain D) = (\<lambda>c. ba_id (rc_broker c)) ` set (rights judged)"
    using build_chain_ids [of pf "rank (rights judged)"] j(2,3) by simp
  have "(\<lambda>c. ba_id (rc_broker c)) ` set (rights judged) \<union> ex_broker ` set (lefts judged) = ba_id ` set bs"
    using j(1)
  proof (induction rule: list_all2_induct)
    case (Cons b bs x xs)
    then show ?case by (cases x) (auto simp: judged_ok_def routable_def)
  qed simp
  with ids j(4) show "(\<lambda>c. ba_id (rc_broker c)) ` set (dc_chain D) \<union> ex_broker ` set (dc_excluded D) = ba_id ` set bs"
    by simp
  show "\<forall>ex \<in> set (dc_excluded D). ex_reason ex \<in> set exclusion_reasons"
    using j(1) unfolding j(4)
  proof (induction rule: list_all2_induct)
    case (Cons b bs x xs)
    then show ?case by (cases x) (auto simp: judged_ok_def)
  qed simp
qed

lemma decision_primary:
  assumes "decision_ok rq dm po rg pf bs d D" "c \<in> set (dc_chain D)"
  obtains p where "dc_primary D = Some p" "hd (dc_chain D) = p" "dc_chain D \<noteq> []"
    "pf = Some (ba_id (rc_broker c)) \<Longrightarrow> ba_id (rc_broker p) = ba_id (rc_broker c)"
    "(\<And>c'. c' \<in> set (dc_chain D) \<Longrightarrow> pf \<noteq> Some (ba_id (rc_broker c'))) \<Longrightarrow> rc_route_score c \<le> rc_route_score p"
proof -
  obtain judged where j: "list_all2 (judged_ok rq dm po rg d) bs judged"
      "dc_primary D = choose_primary pf (rank (rights judged))"
      "dc_chain D = build_chain (dc_primary D) (rank (rights judged))"
    using assms(1) unfolding decision_ok_def by blast
  let ?cs = "rank (rights judged)"
  have c: "c \<in> set ?cs" using build_chain_mem assms(2) j(2,3) by metis
  have "choose_primary pf ?cs \<noteq> None"
  proof
    assume "choose_primary pf ?cs = None"
    then have "?cs = []" by (rule choose_primary_None [THEN iffD1])
    with c show False by (simp only: list.set empty_iff)
  qed
  then obtain p where p: "choose_primary pf ?cs = Some p" by blast
  have ids: "pf \<noteq> Some (ba_id (rc_broker x))" if "\<And>c'. c' \<in> set (dc_chain D) \<Longrightarrow> pf \<noteq> Some (ba_id (rc_broker c'))"
    "x \<in> set (rights judged)" for x
  proof -
    have "ba_id (rc_broker x) \<in> (\<lambda>c. ba_id (rc_broker c)) ` set (dc_chain D)"
      using that(2) build_chain_ids [of pf ?cs] j(2,3) by simp
    then show ?thesis using that(1) by auto
  qed
  show thesis
  proof (rule that [of p])
    show "dc_primary D = Some p" "hd (dc_chain D) = p" "dc_chain D \<noteq> []"
      using p j(2,3) by (simp_all add: build_chain_def)
    show "ba_id (rc_broker p) = ba_id (rc_broker c)" if "pf = Some (ba_id (rc_broker c))"
      using choose_primary_preferred [OF c that] p by simp
    show "rc_route_score c \<le> rc_route_score p"
      if "\<And>c'. c' \<in> set (dc_chain D) \<Longrightarrow> pf \<noteq> Some (ba_id (rc_broker c'))"
      by (rule choose_primary_best [OF _ p]) (use ids [OF that] c in auto)
  qed
qed

lemma decision_tail_sorted:
  "decision_ok rq dm po rg pf bs d D \<Longrightarrow>
   sorted_wrt (\<lambda>a b. rc_route_score b \<le> rc_route_score a) (tl (dc_chain D))"
  by (auto simp: decision_ok_def chain_tail_sorted)

text \<open>No broker is tried twice.\<close>

lemma rank_mset: "mset (rank cs) = mset cs"
  by (simp add: rank_def)

lemma build_chain_distinct:
  "distinct (map (\<lambda>c. ba_id (rc_broker c)) cs) \<Longrightarrow>
   distinct (map (\<lambda>c. ba_id (rc_broker c)) (build_chain p cs))"
  by (cases p) (auto simp: build_chain_def distinct_map intro: inj_on_subset)

lemma decision_distinct:
  assumes "decision_ok rq dm po rg pf bs d D" "distinct (map ba_id bs)"
  shows "distinct (map (\<lambda>c. ba_id (rc_broker c)) (dc_chain D))"
proof -
  obtain judged where j: "list_all2 (judged_ok rq dm po rg d) bs judged"
      "dc_chain D = build_chain (dc_primary D) (rank (rights judged))"
    using assms(1) unfolding decision_ok_def by blast
  have "distinct (map (\<lambda>c. ba_id (rc_broker c)) (rights judged)) \<and>
    (\<lambda>c. ba_id (rc_broker c)) ` set (rights judged) \<subseteq> ba_id ` set bs"
    using j(1) assms(2)
  proof (induction rule: list_all2_induct)
    case (Cons b bs x xs)
    then show ?case by (cases x) (auto simp: judged_ok_def routable_def)
  qed simp
  moreover have "distinct (map f (rank cs)) \<longleftrightarrow> distinct (map f cs)" for f :: "route_candidate \<Rightarrow> uuid" and cs
    by (metis mset_eq_imp_distinct_iff mset_map rank_mset)
  ultimately show ?thesis unfolding j(2) by (intro build_chain_distinct) simp
qed

end
