(* ===== verification/Orders.thy ===== *)
theory Orders
  imports Routing Subscriptions Sessions Simulator
begin

text \<open>
  The order engine (\<^verbatim>\<open>app/orders/service.py\<close>): placing an order once per client and client
  order id, submitting it along the chain of the routing engine with failover, cancelling it, and
  the semaphore that bounds the orders in flight. The free-text \<^verbatim>\<open>details\<close> of failover events are
  left out.
\<close>

subsection \<open>The engine's semaphore and counter\<close>

text \<open>\<^verbatim>\<open>get_inflight_semaphore\<close> makes the semaphore once, with the limit of its first caller.\<close>

definition get_inflight_semaphore :: "int \<Rightarrow> ('x, unit) op" where
  "get_inflight_semaphore max_inflight =
     bindA (askA permits) (\<lambda>p. case p of
         Some n \<Rightarrow> ret ()
       | None \<Rightarrow> if max_inflight < 0 then raise (PyError ''ValueError'')
                  else modifyA (\<lambda>w. w\<lparr>permits := Some max_inflight\<rparr>))"

definition reset_inflight_for_tests :: "('x, unit) op" where
  "reset_inflight_for_tests = modifyA (\<lambda>w. w\<lparr>permits := None, inflight := 0\<rparr>)"

definition queue_full :: exn where
  "queue_full = AppError ''QUEUE_FULL'' 503"

text \<open>\<^verbatim>\<open>wait_for(sem.acquire(), timeout=0.05)\<close>: \<open>others\<close> is what the other tasks of the process
  do while this one waits; with no permit left after that the wait times out.\<close>

definition acquire_permit :: "('x world \<Rightarrow> 'x world) \<Rightarrow> ('x, unit) op" where
  "acquire_permit others =
     seqA (modifyA others)
       (bindA (askA permits) (\<lambda>p. case p of
           Some n \<Rightarrow> if n > 0 then modifyA (\<lambda>w. w\<lparr>permits := Some (n - 1)\<rparr>) else raise queue_full
         | None \<Rightarrow> raise queue_full))"

definition release_permit :: "('x, unit) op" where
  "release_permit = modifyA (\<lambda>w. w\<lparr>permits := map_option (\<lambda>n. n + 1) (permits w)\<rparr>)"

definition enter_inflight :: "('x, unit) op" where
  "enter_inflight = modifyA (\<lambda>w. w\<lparr>inflight := inflight w + 1\<rparr>)"

definition leave_inflight :: "('x, unit) op" where
  "leave_inflight = modifyA (\<lambda>w. w\<lparr>inflight := max 0 (inflight w - 1)\<rparr>)"

subsection \<open>Reading orders\<close>

definition execution_mode :: "'x env \<Rightarrow> ('x, string) op" where
  "execution_mode E =
     bindA (config_get_value ''orders.execution_mode'' [(''mode'', JStr ''inline'')]) (\<lambda>v.
       ret (py_lower (py_str (str_of E) (dict_get v ''mode'' (JStr ''inline'')))))"

definition idem_key :: "'x env \<Rightarrow> uuid \<Rightarrow> string \<Rightarrow> uuid \<Rightarrow> string" where
  "idem_key E client_id client_order_id broker_id =
     take 64 (sha256 E (uuid_text client_id @ '':'' @ client_order_id @ '':'' @ uuid_text broker_id))"

definition get_order :: "uuid \<Rightarrow> ('x, order) op" where
  "get_order i = bindA (one_of (\<lambda>d. filter (\<lambda>r. o_id r = i) (orders d))) found"

definition order_filter :: "uuid option \<Rightarrow> string option \<Rightarrow> string option \<Rightarrow> order \<Rightarrow> bool" where
  "order_filter client_id status symbol r \<longleftrightarrow>
     (case client_id of Some c \<Rightarrow> o_client_id r = c | None \<Rightarrow> True) \<and>
     (case status of Some (c # t) \<Rightarrow> o_status r = c # t | _ \<Rightarrow> True) \<and>
     (case symbol of Some (c # t) \<Rightarrow> o_symbol r = c # t | _ \<Rightarrow> True)"

definition list_orders ::
  "uuid option \<Rightarrow> string option \<Rightarrow> string option \<Rightarrow> int \<Rightarrow> int \<Rightarrow> ('x, order list \<times> nat) op" where
  "list_orders client_id status symbol lmt off =
     ask_db (\<lambda>d.
       let rows = filter (order_filter client_id status symbol) (orders d) in
       (page_of lmt off (order_desc o_created_at rows), length rows))"

record engine_report =
  er_inflight :: int
  er_max_inflight :: int
  er_by_status :: "(string \<times> nat) list"
  er_execution_mode :: string

definition engine_stats :: "'x env \<Rightarrow> ('x, engine_report) op" where
  "engine_stats E =
     bindA (ask_db (\<lambda>d. count_by (map o_status (orders d)))) (\<lambda>by_status.
     bindA (askA inflight) (\<lambda>n.
     bindA (execution_mode E) (\<lambda>mode.
       ret \<lparr>er_inflight = n, er_max_inflight = max_inflight_orders (cfg E), er_by_status = by_status,
            er_execution_mode = mode\<rparr>)))"

definition list_failovers :: "int \<Rightarrow> int \<Rightarrow> ('x, failover_event list \<times> nat) op" where
  "list_failovers lmt off =
     ask_db (\<lambda>d. (page_of lmt off (order_desc fo_created_at (failovers d)), length (failovers d)))"

subsection \<open>Submitting along the chain\<close>

text \<open>Assigning attributes of the order, with the column's \<^verbatim>\<open>onupdate\<close>.\<close>

definition upd_order :: "uuid \<Rightarrow> (order \<Rightarrow> order) \<Rightarrow> ('x, unit) op" where
  "upd_order i f =
     bindA now_utc (\<lambda>now.
       upd_db (\<lambda>d. d\<lparr>orders := upd_rows (\<lambda>r. o_id r = i) (\<lambda>r. (f r)\<lparr>o_updated_at := now\<rparr>) (orders d)\<rparr>))"

definition upd_attempt :: "uuid \<Rightarrow> (order_attempt \<Rightarrow> order_attempt) \<Rightarrow> ('x, unit) op" where
  "upd_attempt i f = upd_db (\<lambda>d. d\<lparr>attempts := upd_rows (\<lambda>r. oa_id r = i) f (attempts d)\<rparr>)"

definition fail_order :: "uuid \<Rightarrow> string \<Rightarrow> ('x, unit) op" where
  "fail_order i code =
     seqA (upd_order i (\<lambda>r. r\<lparr>o_status := ''FAILED'', o_error_code := Some code\<rparr>)) commit"

definition opt_text :: "uuid option \<Rightarrow> json" where
  "opt_text u = (case u of Some x \<Rightarrow> JStr (uuid_text x) | None \<Rightarrow> JNull)"

definition order_payload :: "'x env \<Rightarrow> order \<Rightarrow> route_candidate \<Rightarrow> dict" where
  "order_payload E ord c =
     [(''client_order_id'', JStr (o_client_order_id ord)), (''side'', JStr (o_side ord)),
      (''symbol'', JStr (o_symbol ord)), (''quantity'', JStr (str_of E (JFloat (o_quantity ord)))),
      (''order_type'', JStr (o_order_type ord)), (''time_in_force'', JStr (o_time_in_force ord)),
      (''broker_account_id'', JStr (uuid_text (ba_id (rc_broker c)))),
      (''static_ip_id'', opt_text (rc_static_ip c))]"

definition submitted_event :: "'x env \<Rightarrow> order \<Rightarrow> route_candidate \<Rightarrow> json \<Rightarrow> dict" where
  "submitted_event E ord c broker_order_id =
     [(''order_id'', JStr (uuid_text (o_id ord))), (''client_id'', JStr (uuid_text (o_client_id ord))),
      (''client_order_id'', JStr (o_client_order_id ord)),
      (''broker_account_id'', JStr (uuid_text (ba_id (rc_broker c)))),
      (''static_ip_id'', opt_text (rc_static_ip c)), (''side'', JStr (o_side ord)),
      (''symbol'', JStr (o_symbol ord)), (''quantity'', JStr (str_of E (JFloat (o_quantity ord)))),
      (''broker_order_id'', broker_order_id)]"

text \<open>The failover row from this candidate to the next, when there is one.\<close>

definition record_failover ::
  "'x env \<Rightarrow> order \<Rightarrow> route_candidate \<Rightarrow> route_candidate list \<Rightarrow> string \<Rightarrow> ('x, unit) op" where
  "record_failover E ord c rest reason =
     (case rest of
        [] \<Rightarrow> ret ()
      | nxt # _ \<Rightarrow>
          bindA (fresh_uuid E) (\<lambda>u. bindA now_utc (\<lambda>now.
            seqA (upd_db (\<lambda>d. d\<lparr>failovers := failovers d @
              [\<lparr>fo_id = u, fo_order = Some (o_id ord), fo_from = ba_id (rc_broker c),
                fo_to = ba_id (rc_broker nxt), fo_reason = reason, fo_created_at = now\<rparr>]\<rparr>)) commit)))"

text \<open>The attempt row, staged with the order in SUBMITTING and committed before the broker is asked.\<close>

definition start_attempt :: "'x env \<Rightarrow> order \<Rightarrow> nat \<Rightarrow> route_candidate \<Rightarrow> ('x, uuid) op" where
  "start_attempt E ord idx c =
     bindA (fresh_uuid E) (\<lambda>u.
     seqA (upd_db (\<lambda>d. d\<lparr>attempts := attempts d @
       [\<lparr>oa_id = u, oa_order = o_id ord, oa_attempt_no = int idx + 1, oa_broker = ba_id (rc_broker c),
         oa_static_ip = rc_static_ip c, oa_status = ''submitting'', oa_broker_order_id = None,
         oa_request = order_payload E ord c, oa_response = None, oa_error = None,
         oa_idempotency_key =
           Some (idem_key E (o_client_id ord) (o_client_order_id ord) (ba_id (rc_broker c)))\<rparr>]\<rparr>))
     (seqA (upd_order (o_id ord) (\<lambda>r. r\<lparr>o_status := ''SUBMITTING'', o_broker := Some (ba_id (rc_broker c)),
                                     o_static_ip := rc_static_ip c\<rparr>))
     (seqA commit (ret u))))"

definition json_text :: "json \<Rightarrow> string option" where
  "json_text j = (case j of JStr s \<Rightarrow> Some s | _ \<Rightarrow> None)"

definition book_success :: "'x env \<Rightarrow> order \<Rightarrow> route_candidate \<Rightarrow> uuid \<Rightarrow> dict \<Rightarrow> ('x, unit) op" where
  "book_success E ord c a result =
     (let boid = json_text (dict_get result ''broker_order_id'' JNull) in
      seqA (upd_attempt a (\<lambda>r. r\<lparr>oa_status := ''submitted'', oa_response := Some result,
                                 oa_broker_order_id := boid\<rparr>))
      (seqA (upd_order (o_id ord) (\<lambda>r. r\<lparr>o_status := ''SUBMITTED'', o_broker_order_id := boid,
                                       o_error_code := None\<rparr>))
      (seqA (enqueue_outbox E ''order.submitted'' ''orders''
               (submitted_event E ord c (case boid of Some s \<Rightarrow> JStr s | None \<Rightarrow> JNull)))
        commit)))"

text \<open>The two \<^verbatim>\<open>except\<close> clauses: the code to fail over with, unless the order is given up.\<close>

definition broker_failed ::
  "'x env \<Rightarrow> order \<Rightarrow> route_candidate \<Rightarrow> route_candidate list \<Rightarrow> uuid \<Rightarrow> exn \<Rightarrow> ('x, string option) op" where
  "broker_failed E ord c rest a e =
     (case e of
        MockBrokerError code status retryable \<Rightarrow>
          seqA (upd_attempt a (\<lambda>r. r\<lparr>oa_status := ''failed'', oa_error := Some (exn_text E e),
                  oa_response := Some [(''code'', JStr code), (''status'', JInt status)]\<rparr>))
          (seqA commit
          (if \<not> retryable
           then seqA (fail_order (o_id ord) code) (raise (AppError code 400))
           else seqA (record_failover E ord c rest code) (ret (Some code))))
      | _ \<Rightarrow>
          seqA (upd_attempt a (\<lambda>r. r\<lparr>oa_status := ''failed'', oa_error := Some (exn_text E e)\<rparr>))
          (seqA commit
          (seqA (record_failover E ord c rest ''BROKER_ERROR'') (ret (Some ''BROKER_ERROR'')))))"

text \<open>One call of the broker: None when it took the order.\<close>

definition ask_broker ::
  "'x env \<Rightarrow> order \<Rightarrow> route_candidate \<Rightarrow> route_candidate list \<Rightarrow> uuid \<Rightarrow> ('x, string option) op" where
  "ask_broker E ord c rest a =
     tryA
       (bindA (place_order_at_broker E (order_payload E ord c)) (\<lambda>result.
          seqA (book_success E ord c a result) (ret None)))
       (broker_failed E ord c rest a)"

definition failover_exhausted :: exn where
  "failover_exhausted = AppError ''FAILOVER_EXHAUSTED'' 502"

definition rate_limited :: exn where
  "rate_limited = AppError ''RATE_LIMITED'' 429"

fun submit_chain ::
  "'x env \<Rightarrow> order \<Rightarrow> nat \<Rightarrow> route_candidate list \<Rightarrow> string option \<Rightarrow> ('x, unit) op" where
  "submit_chain E ord idx [] last_code =
     seqA (fail_order (o_id ord)
             (case last_code of Some (c # t) \<Rightarrow> c # t | _ \<Rightarrow> ''FAILOVER_EXHAUSTED''))
       (raise failover_exhausted)"
| "submit_chain E ord idx (c # rest) last_code =
     bindA (rl_consume E (ba_id (rc_broker c)) (Some (broker_limit (rc_broker c)))) (\<lambda>rl.
       if \<not> rs_allowed rl
       then bindA (exceed_policy E) (\<lambda>policy.
              if policy = ''REJECT''
              then seqA (fail_order (o_id ord) ''RATE_LIMITED'') (raise rate_limited)
              else seqA (record_failover E ord c rest ''RATE_LIMITED'')
                     (submit_chain E ord (Suc idx) rest (Some ''RATE_LIMITED'')))
       else bindA (ensure_session E (ba_id (rc_broker c)) False) (\<lambda>_.
              bindA (start_attempt E ord idx c) (\<lambda>a.
              bindA (ask_broker E ord c rest a) (\<lambda>outcome.
                case outcome of
                  None \<Rightarrow> ret ()
                | Some code \<Rightarrow> submit_chain E ord (Suc idx) rest (Some code)))))"

definition submit_inline :: "'x env \<Rightarrow> order \<Rightarrow> route_candidate list \<Rightarrow> ('x, unit) op" where
  "submit_inline E ord chain = seqA apply_faults_to_providers (submit_chain E ord 0 chain None)"

subsection \<open>Placing\<close>

record order_request =
  rq_client :: uuid
  rq_client_order_id :: string
  rq_side :: string
  rq_symbol :: string
  rq_quantity :: rat
  rq_order_type :: string
  rq_time_in_force :: string
  rq_preferred :: "uuid option"
  rq_region :: "string option"

definition orders_with_key :: "uuid \<Rightarrow> string \<Rightarrow> database \<Rightarrow> order list" where
  "orders_with_key client_id client_order_id d =
     filter (\<lambda>r. o_client_id r = client_id \<and> o_client_order_id r = client_order_id) (orders d)"

definition new_order :: "uuid \<Rightarrow> instant \<Rightarrow> order_request \<Rightarrow> order" where
  "new_order u now rq =
     \<lparr>o_id = u, o_client_id = rq_client rq, o_client_order_id = rq_client_order_id rq,
      o_side = py_upper (rq_side rq), o_symbol = py_upper (rq_symbol rq),
      o_quantity = rq_quantity rq, o_order_type = py_upper (rq_order_type rq),
      o_time_in_force = py_upper (rq_time_in_force rq), o_status = ''CREATED'',
      o_broker = None, o_static_ip = None, o_preferred_broker = rq_preferred rq,
      o_region_preference = rq_region rq, o_error_code = None, o_broker_order_id = None,
      o_created_at = now, o_updated_at = now\<rparr>"

text \<open>The insert and its commit: the unique constraint on client and client order id raises.\<close>

definition insert_order :: "'x env \<Rightarrow> order_request \<Rightarrow> ('x, order) op" where
  "insert_order E rq =
     bindA (fresh_uuid E) (\<lambda>u. bindA now_utc (\<lambda>now.
     bindA (ask_db (orders_with_key (rq_client rq) (rq_client_order_id rq))) (\<lambda>clash.
       if clash \<noteq> [] then raise IntegrityError
       else seqA (upd_db (\<lambda>d. d\<lparr>orders := orders d @ [new_order u now rq]\<rparr>))
              (seqA commit (ret (new_order u now rq))))))"

text \<open>Inl: the order another request inserted first; Inr: the new row.\<close>

definition create_or_prior :: "'x env \<Rightarrow> order_request \<Rightarrow> ('x, order + order) op" where
  "create_or_prior E rq =
     tryA (bindA (insert_order E rq) (\<lambda>o'. ret (Inr o')))
       (\<lambda>e. if e = IntegrityError
            then seqA rollback
              (bindA (one_of (orders_with_key (rq_client rq) (rq_client_order_id rq))) (\<lambda>prior.
                 case prior of Some o' \<Rightarrow> ret (Inl o') | None \<Rightarrow> raise e))
            else raise e)"

definition refresh_order :: "uuid \<Rightarrow> ('x, order) op" where
  "refresh_order i =
     bindA (ask_db (\<lambda>d. row_by o_id i (orders d))) (\<lambda>r.
       case r of Some o' \<Rightarrow> ret o' | None \<Rightarrow> raise (PyError ''InvalidRequestError''))"

definition place_inside :: "'x env \<Rightarrow> order_request \<Rightarrow> ('x, order \<times> bool) op" where
  "place_inside E rq =
     bindA (create_or_prior E rq) (\<lambda>r. case r of
         Inl prior \<Rightarrow> ret (prior, False)
       | Inr o' \<Rightarrow>
           bindA (select_or_raise E (rq_client rq) (rq_preferred rq) (rq_region rq) False) (\<lambda>decision.
           seqA (submit_inline E o' (dc_chain decision))
             (bindA (refresh_order (o_id o')) (\<lambda>o''. ret (o'', True)))))"

text \<open>The two nested \<^verbatim>\<open>try ... finally\<close> around the body of \<^verbatim>\<open>place\<close>.\<close>

definition with_permit :: "('x world \<Rightarrow> 'x world) \<Rightarrow> ('x, 'a) op \<Rightarrow> ('x, 'a) op" where
  "with_permit others body =
     seqA (acquire_permit others)
       (finallyA (seqA enter_inflight (finallyA body leave_inflight)) release_permit)"

definition place_order ::
  "'x env \<Rightarrow> ('x world \<Rightarrow> 'x world) \<Rightarrow> order_request \<Rightarrow> ('x, order \<times> bool) op" where
  "place_order E others rq =
     seqA (assert_trading_allowed (rq_client rq))
     (bindA (one_of (orders_with_key (rq_client rq) (rq_client_order_id rq))) (\<lambda>prior.
        case prior of
          Some o' \<Rightarrow> ret (o', False)
        | None \<Rightarrow>
            bindA (execution_mode E) (\<lambda>mode.
              if mode \<noteq> ''inline'' then raise (AppError ''UNSUPPORTED_MODE'' 501)
              else
                seqA (get_inflight_semaphore (max_inflight_orders (cfg E)))
                  (with_permit others (place_inside E rq)))))"

subsection \<open>Cancelling\<close>

definition not_cancelable :: exn where
  "not_cancelable = AppError ''ORDER_NOT_CANCELABLE'' 409"

definition cancelled_event :: "order \<Rightarrow> dict" where
  "cancelled_event ord =
     [(''order_id'', JStr (uuid_text (o_id ord))), (''client_id'', JStr (uuid_text (o_client_id ord))),
      (''client_order_id'', JStr (o_client_order_id ord)),
      (''broker_order_id'', case o_broker_order_id ord of Some (c # t) \<Rightarrow> JStr (c # t) | _ \<Rightarrow> JNull)]"

definition cancel_row :: "'x env \<Rightarrow> order \<Rightarrow> ('x, order) op" where
  "cancel_row E ord =
     seqA (upd_order (o_id ord) (\<lambda>r. r\<lparr>o_status := ''CANCELLED''\<rparr>))
     (seqA (enqueue_outbox E ''order.cancelled'' ''orders'' (cancelled_event ord))
     (seqA commit (refresh_order (o_id ord))))"

definition cancel_order :: "'x env \<Rightarrow> uuid \<Rightarrow> ('x, order) op" where
  "cancel_order E i =
     bindA (get_order i) (\<lambda>ord.
       if o_status ord \<in> {''CANCELLED'', ''FAILED''} then raise not_cancelable
       else if o_status ord \<notin> {''SUBMITTED'', ''SUBMITTING'', ''CREATED''} then raise not_cancelable
       else
         case o_broker_order_id ord of
           Some (c # t) \<Rightarrow>
             seqA (tryA (bindA (on_broker (broker_cancel_order (c # t)
                       (Some [(''order_id'', JStr (uuid_text (o_id ord))),
                              (''client_order_id'', JStr (o_client_order_id ord))]))) (\<lambda>_. ret ()))
                     (\<lambda>e. case e of MockBrokerError _ _ _ \<Rightarrow> raise not_cancelable | _ \<Rightarrow> raise e))
               (cancel_row E ord)
         | _ \<Rightarrow> cancel_row E ord)"

subsection \<open>One order per client and client order id\<close>

definition order_key :: "order \<Rightarrow> uuid \<times> string" where
  "order_key r = (o_client_id r, o_client_order_id r)"

definition orders_unique :: "database \<Rightarrow> bool" where
  "orders_unique d \<longleftrightarrow> distinct (map order_key (orders d))"

lemma orders_unique_cong [simp]:
  "orders_unique (d\<lparr>broker_sessions := s\<rparr>) = orders_unique d"
  "orders_unique (d\<lparr>snapshots := s'\<rparr>) = orders_unique d"
  "orders_unique (d\<lparr>clients := c\<rparr>) = orders_unique d"
  "orders_unique (d\<lparr>outbox := b\<rparr>) = orders_unique d"
  "orders_unique (d\<lparr>failovers := f\<rparr>) = orders_unique d"
  "orders_unique (d\<lparr>attempts := a\<rparr>) = orders_unique d"
  by (simp_all add: orders_unique_def)

lemma keeps_unique_upd_order [keeps_intros]:
  assumes "\<And>r. order_key (f r) = order_key r"
  shows "keeps (both orders_unique) (upd_order i f)"
proof -
  have same: "order_key ((f r)\<lparr>o_updated_at := t\<rparr>) = order_key r" for r t
    using assms [of r] by (simp add: order_key_def)
  show ?thesis
    unfolding upd_order_def
    by (intro keeps_intros keeps_both_upd) (simp add: orders_unique_def map_upd_rows same)
qed

lemma keeps_unique_steps [keeps_intros]:
  "keeps (both orders_unique) (fail_order i c)"
  "keeps (both orders_unique) (upd_attempt i f')"
  "keeps (both orders_unique) (record_failover E ord c' rest reason)"
  "keeps (both orders_unique) (start_attempt E ord idx c')"
  unfolding fail_order_def upd_attempt_def record_failover_def start_attempt_def
  by (intro keeps_intros keeps_both_upd; simp add: order_key_def)+

lemma keeps_unique_ask [keeps_intros]: "keeps (both orders_unique) (ask_broker E ord c rest a)"
  unfolding ask_broker_def broker_failed_def book_success_def Let_def
  by (intro keeps_intros; simp add: order_key_def)

lemma keeps_unique_submit [keeps_intros]: "keeps (both orders_unique) (submit_chain E ord idx chain lc)"
proof (induction chain arbitrary: idx lc)
  case Nil
  show ?case by (simp add: keeps_intros)
next
  case (Cons c rest)
  show ?case
    unfolding submit_chain.simps by (intro keeps_intros keeps_both_ensure Cons; simp)
qed

lemma insert_order_run:
  "insert_order E rq w =
     (if orders_with_key (rq_client rq) (rq_client_order_id rq) (db w) = []
      then let row = new_order (uuid_at E (drawn w)) (clock w) rq; d = (db w)\<lparr>orders := orders (db w) @ [row]\<rparr>
           in (Inr row, w\<lparr>drawn := Suc (drawn w), db := d, saved := d\<rparr>)
      else (Inl IntegrityError, w\<lparr>drawn := Suc (drawn w)\<rparr>))"
  by (simp add: insert_order_def run_simps Let_def)

lemma new_order_simps [simp]:
  "order_key (new_order u t rq) = (rq_client rq, rq_client_order_id rq)"
  "o_id (new_order u t rq) = u" "o_status (new_order u t rq) = ''CREATED''"
  "o_broker_order_id (new_order u t rq) = None"
  by (simp_all add: order_key_def new_order_def)

lemma orders_with_key_Nil:
  "orders_with_key c k d = [] \<longleftrightarrow> (c, k) \<notin> order_key ` set (orders d)"
  by (auto simp: orders_with_key_def order_key_def filter_empty_conv)

lemma keeps_unique_insert [keeps_intros]: "keeps (both orders_unique) (insert_order E rq)"
proof (rule keepsI)
  fix w r w' assume "both orders_unique w" "insert_order E rq w = (r, w')"
  then show "both orders_unique w'"
    by (auto simp: insert_order_run Let_def both_def orders_unique_def orders_with_key_Nil split: if_splits)
qed

lemma keeps_unique_place_inside: "keeps (both orders_unique) (place_inside E rq)"
proof -
  have "keeps (both orders_unique) (select_or_raise E c p r b)" for c p r b
    unfolding select_or_raise_def select_route_def require_assigned_ip_def judge_broker_def
      active_assignment_def
    by (intro keeps_intros keeps_both_probe; simp)
  moreover have "keeps (both orders_unique) apply_faults_to_providers"
    by (rule keeps_both_frames) (intro frames_intros; simp)
  ultimately show ?thesis
    unfolding place_inside_def create_or_prior_def submit_inline_def refresh_order_def
    by (intro keeps_intros)
qed

lemma keeps_unique_place:
  assumes "\<And>w. both orders_unique w \<Longrightarrow> both orders_unique (others w)"
  shows "keeps (both orders_unique) (place_order E others rq)"
proof -
  have quiet: "keeps (both orders_unique) (modifyA (\<lambda>w. w\<lparr>permits := p w\<rparr>))"
    "keeps (both orders_unique) (modifyA (\<lambda>w. w\<lparr>inflight := n w\<rparr>))" for p n
    by (rule keeps_modify, simp add: both_def)+
  show ?thesis
    unfolding place_order_def with_permit_def get_inflight_semaphore_def acquire_permit_def release_permit_def
      enter_inflight_def leave_inflight_def execution_mode_def
    by (intro keeps_intros keeps_unique_place_inside quiet keeps_both_trading keeps_modify assms; simp)
qed

lemma keeps_unique_cancel: "keeps (both orders_unique) (cancel_order E i)"
  unfolding cancel_order_def cancel_row_def get_order_def refresh_order_def
  by (intro keeps_intros; simp add: order_key_def)

subsection \<open>What each step does\<close>

lemma upd_order_run [run_simps]:
  "upd_order i f w = (Inr (), w\<lparr>db := (db w)\<lparr>orders :=
     upd_rows (\<lambda>r. o_id r = i) (\<lambda>r. (f r)\<lparr>o_updated_at := clock w\<rparr>) (orders (db w))\<rparr>\<rparr>)"
  by (simp add: upd_order_def run_simps)

lemma upd_attempt_run [run_simps]:
  "upd_attempt i f w = (Inr (), w\<lparr>db := (db w)\<lparr>attempts := upd_rows (\<lambda>r. oa_id r = i) f (attempts (db w))\<rparr>\<rparr>)"
  by (simp add: upd_attempt_def run_simps)

lemma place_order_at_broker_Inr:
  assumes "place_order_at_broker E p w = (Inr res, w')"
  obtains boid B where "dict_get res ''broker_order_id'' JNull = JStr boid"
    "w' = w\<lparr>the_broker := B, drawn := Suc (drawn w)\<rparr>" "map_of (mk_orders B) boid = Some res"
    "broker_active_fault (sim_flags w) (the_broker w) = None"
proof -
  obtain B n where run: "broker_place_order (uuid_at E) (sim_flags w) p (the_broker w, drawn w) = (Inr res, (B, n))"
    and w': "w' = w\<lparr>the_broker := B, drawn := n\<rparr>"
    using assms by (auto simp: place_order_at_broker_def run_simps on_broker_def zoomA_def split: prod.splits)
  show thesis
    using broker_place_order_accepted [OF run] w'
    by (intro that [of "''mock-'' @ take 8 (uuid_hex (uuid_at E (drawn w)))" B]) (auto simp: dict_get_def)
qed

text \<open>The state after a submission: order, attempt, broker book and outbox agree, and all of it
  is committed.\<close>

definition submitted_to :: "'x env \<Rightarrow> order \<Rightarrow> route_candidate \<Rightarrow> 'x world \<Rightarrow> bool" where
  "submitted_to E ord c w \<longleftrightarrow>
     (\<exists>boid r a.
        row_by o_id (o_id ord) (orders (db w)) = Some r \<and>
        o_status r = ''SUBMITTED'' \<and> o_error_code r = None \<and> o_broker_order_id r = Some boid \<and>
        o_broker r = Some (ba_id (rc_broker c)) \<and> o_static_ip r = rc_static_ip c \<and>
        a \<in> set (attempts (db w)) \<and> oa_order a = o_id ord \<and> oa_broker a = ba_id (rc_broker c) \<and>
        oa_status a = ''submitted'' \<and> oa_broker_order_id a = Some boid \<and>
        boid \<in> dom (map_of (mk_orders (the_broker w))) \<and>
        (\<exists>ev \<in> set (outbox (db w)). ob_event_type ev = ''order.submitted'' \<and> ob_status ev = ''pending'' \<and>
           ob_payload ev = submitted_event E ord c (JStr boid)) \<and>
        saved w = db w)"

lemma broker_failed_Inr: "broker_failed E ord c rest a e w = (Inr x, w') \<Longrightarrow> x \<noteq> None"
  by (cases e) (auto simp: broker_failed_def seqA_Inr split: if_splits)

definition order_ids :: "'x world \<Rightarrow> uuid list" where
  "order_ids w = map o_id (orders (db w))"

lemma ask_broker_success:
  assumes "start_attempt E ord idx c v = (Inr a, v1)" "ask_broker E ord c rest a v1 = (Inr None, w')"
    and "o_id ord \<in> set (order_ids v)"
  shows "submitted_to E ord c w'"
proof -
  obtain res v2 where res: "place_order_at_broker E (order_payload E ord c) v1 = (Inr res, v2)"
    and book: "book_success E ord c a res v2 = (Inr (), w')"
    using assms(2) by (auto simp: ask_broker_def tryA_Inr bindA_Inr seqA_Inr dest: broker_failed_Inr)
  obtain boid B where broker: "dict_get res ''broker_order_id'' JNull = JStr boid"
    "v2 = v1\<lparr>the_broker := B, drawn := Suc (drawn v1)\<rparr>" "map_of (mk_orders B) boid = Some res"
    by (rule place_order_at_broker_Inr [OF res])
  obtain r0 where r0: "row_by o_id (o_id ord) (orders (db v)) = Some r0"
    using assms(3) by (cases "row_by o_id (o_id ord) (orders (db v))") (auto simp: order_ids_def row_by_None_iff)
  define row where "row =
       \<lparr>oa_id = uuid_at E (drawn v), oa_order = o_id ord, oa_attempt_no = int idx + 1,
         oa_broker = ba_id (rc_broker c), oa_static_ip = rc_static_ip c, oa_status = ''submitting'',
         oa_broker_order_id = None, oa_request = order_payload E ord c, oa_response = None, oa_error = None,
         oa_idempotency_key =
           Some (idem_key E (o_client_id ord) (o_client_order_id ord) (ba_id (rc_broker c)))\<rparr>"
  have v1: "a = oa_id row" "attempts (db v1) = attempts (db v) @ [row]" "clock v1 = clock v"
    "orders (db v1) = upd_rows (\<lambda>r. o_id r = o_id ord) (\<lambda>r. r\<lparr>o_status := ''SUBMITTING'',
       o_broker := Some (ba_id (rc_broker c)), o_static_ip := rc_static_ip c, o_updated_at := clock v\<rparr>) (orders (db v))"
    using assms(1) by (auto simp: start_attempt_def run_simps row_def)
  define r1 where "r1 = r0\<lparr>o_status := ''SUBMITTED'', o_broker := Some (ba_id (rc_broker c)),
       o_static_ip := rc_static_ip c, o_updated_at := clock v, o_broker_order_id := Some boid, o_error_code := None\<rparr>"
  define a1 where "a1 = row\<lparr>oa_status := ''submitted'', oa_response := Some res, oa_broker_order_id := Some boid\<rparr>"
  have w': "the_broker w' = B" "saved w' = db w'"
    "row_by o_id (o_id ord) (orders (db w')) = Some r1" "a1 \<in> set (attempts (db w'))"
    "\<exists>ev \<in> set (outbox (db w')). ob_event_type ev = ''order.submitted'' \<and> ob_status ev = ''pending'' \<and>
       ob_payload ev = submitted_event E ord c (JStr boid)"
    using book row_by_SomeD [OF r0]
    by (auto simp: book_success_def run_simps Let_def broker json_text_def v1 row_by_upd r0 r1_def a1_def)
  then show ?thesis
    using broker(3) unfolding submitted_to_def
    by (intro exI [of _ boid] exI [of _ r1] exI [of _ a1]) (auto simp: r1_def a1_def row_def)
qed

subsection \<open>The chain is tried in order\<close>

lemma frames_order_steps:
  assumes "\<And>w n. f (w\<lparr>drawn := n\<rparr>) = f w" "\<And>w d. f (w\<lparr>saved := d\<rparr>) = f w"
    "\<And>w a. f (w\<lparr>db := (db w)\<lparr>attempts := a\<rparr>\<rparr>) = f w"
    "\<And>w x. f (w\<lparr>db := (db w)\<lparr>failovers := x\<rparr>\<rparr>) = f w"
    "\<And>w b. f (w\<lparr>db := (db w)\<lparr>outbox := b\<rparr>\<rparr>) = f w"
    "\<And>w B n. f (w\<lparr>the_broker := B, drawn := n\<rparr>) = f w"
    and upd: "\<And>i g. (\<And>r. o_id (g r) = o_id r) \<Longrightarrow> frames f (upd_order i g)"
  shows "frames f (start_attempt E ord idx c)" "frames f (ask_broker E ord c rest a)"
    "frames f (fail_order i code)" "frames f (record_failover E ord c rest reason)"
proof -
  have att: "frames f (upd_db (\<lambda>d. d\<lparr>attempts := g d\<rparr>))" for g
    using assms(3) by (simp add: upd_db_def frames_modify)
  have fo: "frames f (upd_db (\<lambda>d. d\<lparr>failovers := g d\<rparr>))" for g
    using assms(4) by (simp add: upd_db_def frames_modify)
  have ob: "frames f (enqueue_outbox E ty t p)" for ty t p
    unfolding enqueue_outbox_def using assms(5)
    by (intro frames_intros assms(1)) (simp add: upd_db_def frames_modify)
  show "frames f (start_attempt E ord idx c)"
    unfolding start_attempt_def by (intro frames_intros frames_commit att upd assms(1,2)) simp_all
  show fail: "frames f (fail_order i code)" for i code
    unfolding fail_order_def by (intro frames_intros frames_commit upd assms(1,2)) simp_all
  show fo': "frames f (record_failover E ord c rest reason)" for reason
    unfolding record_failover_def by (intro frames_intros frames_commit fo assms(1,2))
  show "frames f (ask_broker E ord c rest a)"
    unfolding ask_broker_def broker_failed_def book_success_def upd_attempt_def Let_def
    by (intro frames_intros frames_commit att upd ob fail fo' assms(1,2,6)) simp_all
qed

lemma order_ids_upd [simp]:
  "(\<And>r. o_id (g r) = o_id r) \<Longrightarrow> frames order_ids (upd_order i g)"
  by (simp add: frames_def run_simps order_ids_def map_upd_rows)

lemma order_ids_simps [simp]:
  "order_ids (w\<lparr>drawn := n\<rparr>) = order_ids w" "order_ids (w\<lparr>saved := d\<rparr>) = order_ids w"
  "order_ids (w\<lparr>mem_locks := L\<rparr>) = order_ids w" "order_ids (w\<lparr>ext := x\<rparr>) = order_ids w"
  "order_ids (w\<lparr>mem_sessions := S\<rparr>) = order_ids w" "order_ids (w\<lparr>mem_hits := H\<rparr>) = order_ids w"
  "order_ids (w\<lparr>the_broker := B\<rparr>) = order_ids w"
  "order_ids (w\<lparr>db := (db w)\<lparr>broker_sessions := s\<rparr>\<rparr>) = order_ids w"
  "order_ids (w\<lparr>db := (db w)\<lparr>attempts := a\<rparr>\<rparr>) = order_ids w"
  "order_ids (w\<lparr>db := (db w)\<lparr>failovers := f\<rparr>\<rparr>) = order_ids w"
  "order_ids (w\<lparr>db := (db w)\<lparr>outbox := b\<rparr>\<rparr>) = order_ids w"
  by (simp_all add: order_ids_def)

lemmas frames_order_ids = frames_order_steps [where f = order_ids, simplified]

lemma submit_chain_success:
  "submit_chain E ord idx chain lc w = (Inr (), w') \<Longrightarrow> o_id ord \<in> set (order_ids w) \<Longrightarrow>
   \<exists>c \<in> set chain. submitted_to E ord c w'"
proof (induction chain arbitrary: idx lc w)
  case Nil
  then show ?case by (simp add: seqA_Inr)
next
  case (Cons c rest)
  obtain rl w1 where rl: "rl_consume E (ba_id (rc_broker c)) (Some (broker_limit (rc_broker c))) w = (Inr rl, w1)"
    using Cons.prems(1) by (auto simp: bindA_Inr)
  have ids1: "order_ids w1 = order_ids w" by (rule framesD [OF frames_rl(2) rl]) simp_all
  show ?case
  proof (cases "rs_allowed rl")
    case False
    then obtain w2 w3 po where "exceed_policy E w1 = (Inr po, w2)"
      "record_failover E ord c rest ''RATE_LIMITED'' w2 = (Inr (), w3)"
      "submit_chain E ord (Suc idx) rest (Some ''RATE_LIMITED'') w3 = (Inr (), w')"
      using Cons.prems(1) rl by (auto simp: bindA_Inr seqA_Inr split: if_splits)
    then show ?thesis
      using Cons.IH Cons.prems(2) ids1 framesD [OF frames_exceed_policy [of order_ids]]
        framesD [OF frames_order_ids(4)] by fastforce
  next
    case True
    then obtain s w2 a w3 out w4 where ens: "ensure_session E (ba_id (rc_broker c)) False w1 = (Inr s, w2)"
      and start: "start_attempt E ord idx c w2 = (Inr a, w3)"
      and ask: "ask_broker E ord c rest a w3 = (Inr out, w4)"
      and rest: "(case out of None \<Rightarrow> ret () | Some code \<Rightarrow> submit_chain E ord (Suc idx) rest (Some code)) w4 = (Inr (), w')"
      using Cons.prems(1) rl by (auto simp: bindA_Inr)
    have ids2: "order_ids w2 = order_ids w"
      using framesD [OF frames_ensure_session [of order_ids] ens] ids1 by simp
    have ids4: "order_ids w4 = order_ids w"
      using framesD [OF frames_order_ids(1) start] framesD [OF frames_order_ids(2) ask] ids2 by simp
    show ?thesis
    proof (cases out)
      case None
      then show ?thesis using ask_broker_success [OF start] ask rest Cons.prems(2) ids2 by auto
    next
      case (Some code)
      then show ?thesis using Cons.IH [of "Suc idx" "Some code" w4] rest Cons.prems(2) ids4 by auto
    qed
  qed
qed

text \<open>The failover rows an order leaves link the candidates of its chain one by one, from the
  first, without gaps, whatever the outcome.\<close>

definition links :: "route_candidate list \<Rightarrow> (uuid \<times> uuid) list" where
  "links chain = (let ids = map (\<lambda>c. ba_id (rc_broker c)) chain in zip ids (tl ids))"

definition linked :: "order \<Rightarrow> failover_event list \<Rightarrow> (uuid \<times> uuid) list \<Rightarrow> bool" where
  "linked ord fs ls \<longleftrightarrow>
     (\<forall>f \<in> set fs. fo_order f = Some (o_id ord)) \<and> map (\<lambda>f. (fo_from f, fo_to f)) fs = ls"

definition failover_rows :: "'x world \<Rightarrow> failover_event list" where
  "failover_rows w = failovers (db w)"

lemma failover_rows_simps [simp]:
  "failover_rows (w\<lparr>drawn := n\<rparr>) = failover_rows w" "failover_rows (w\<lparr>saved := d\<rparr>) = failover_rows w"
  "failover_rows (w\<lparr>mem_locks := L\<rparr>) = failover_rows w" "failover_rows (w\<lparr>ext := x\<rparr>) = failover_rows w"
  "failover_rows (w\<lparr>mem_sessions := S\<rparr>) = failover_rows w" "failover_rows (w\<lparr>mem_hits := H\<rparr>) = failover_rows w"
  "failover_rows (w\<lparr>the_broker := B\<rparr>) = failover_rows w"
  "failover_rows (w\<lparr>db := (db w)\<lparr>broker_sessions := s\<rparr>\<rparr>) = failover_rows w"
  by (simp_all add: failover_rows_def)

lemma record_failover_run [run_simps]:
  "record_failover E ord c rest reason w =
     (case rest of [] \<Rightarrow> (Inr (), w)
      | nxt # _ \<Rightarrow> let d = (db w)\<lparr>failovers := failovers (db w) @
           [\<lparr>fo_id = uuid_at E (drawn w), fo_order = Some (o_id ord), fo_from = ba_id (rc_broker c),
             fo_to = ba_id (rc_broker nxt), fo_reason = reason, fo_created_at = clock w\<rparr>]\<rparr>
         in (Inr (), w\<lparr>drawn := Suc (drawn w), db := d, saved := d\<rparr>))"
  by (cases rest) (simp_all add: record_failover_def run_simps Let_def)

definition first_link :: "route_candidate \<Rightarrow> route_candidate list \<Rightarrow> (uuid \<times> uuid) list" where
  "first_link c rest = (case rest of [] \<Rightarrow> [] | nxt # _ \<Rightarrow> [(ba_id (rc_broker c), ba_id (rc_broker nxt))])"

lemma record_failover_trail:
  "record_failover E ord c rest reason w = (r, w') \<Longrightarrow>
   \<exists>fs. failover_rows w' = failover_rows w @ fs \<and> linked ord fs (first_link c rest)"
  by (cases rest) (auto simp: record_failover_run Let_def failover_rows_def linked_def first_link_def)

lemma record_failover_Inr: "record_failover E ord c rest reason w = (r, w') \<Longrightarrow> r = Inr ()"
  by (cases rest) (simp_all add: record_failover_run Let_def)

lemma links_Cons: "links (c # rest) = first_link c rest @ links rest"
  by (cases rest) (simp_all add: links_def first_link_def)

lemma fail_order_run [run_simps]:
  "fail_order i code w = (let d = (db w)\<lparr>orders := upd_rows (\<lambda>r. o_id r = i)
      (\<lambda>r. r\<lparr>o_status := ''FAILED'', o_error_code := Some code, o_updated_at := clock w\<rparr>) (orders (db w))\<rparr>
     in (Inr (), w\<lparr>db := d, saved := d\<rparr>))"
  by (simp add: fail_order_def run_simps Let_def)

lemma frames_failover_fail [frames_intros]:
  "frames failover_rows (fail_order i code)" "frames failover_rows (upd_attempt a f)"
  "frames failover_rows (upd_order i g)" "frames failover_rows commit"
  "frames failover_rows (enqueue_outbox E ty t p)" "frames failover_rows (start_attempt E ord idx c)"
  by (simp_all add: frames_def run_simps failover_rows_def Let_def start_attempt_def)

text \<open>The broker's answer: no row when it takes or rejects the order, one link otherwise.\<close>

lemma broker_failed_trail:
  assumes "broker_failed E ord c rest a e w = (r, w')"
  shows "(\<exists>e'. r = Inl e') \<and> failover_rows w' = failover_rows w \<or>
    (\<exists>code fs. r = Inr (Some code) \<and> failover_rows w' = failover_rows w @ fs \<and> linked ord fs (first_link c rest))"
proof -
  have "(\<exists>e'. r = Inl e') \<and> failover_rows w' = failover_rows w \<or>
    (\<exists>code reason v. r = Inr (Some code) \<and> failover_rows v = failover_rows w \<and>
       record_failover E ord c rest reason v = (Inr (), w'))"
    using assms
    by (cases e)
       (auto simp: broker_failed_def seq_run upd_attempt_run commit_run ret_run raise_run fail_order_run Let_def
         failover_rows_def split: if_splits prod.splits sum.splits dest: record_failover_Inr)
  then show ?thesis using record_failover_trail by fastforce
qed

lemma ask_broker_trail:
  assumes "ask_broker E ord c rest a w = (r, w')"
  shows "(r = Inr None \<or> (\<exists>e. r = Inl e)) \<and> failover_rows w' = failover_rows w \<or>
    (\<exists>code fs. r = Inr (Some code) \<and> failover_rows w' = failover_rows w @ fs \<and> linked ord fs (first_link c rest))"
proof -
  have book: "frames failover_rows (bindA (place_order_at_broker E p) (\<lambda>res. seqA (book_success E ord c a res) (ret None)))" for p
    unfolding book_success_def Let_def by (intro frames_intros) simp
  obtain r1 :: "exn + string option" and w1 where first: "bindA (place_order_at_broker E (order_payload E ord c))
      (\<lambda>res. seqA (book_success E ord c a res) (ret None)) w = (r1, w1)" by fastforce
  have w1: "failover_rows w1 = failover_rows w" by (rule framesD [OF book first])
  show ?thesis
  proof (cases r1)
    case (Inr x)
    then have "x = None" using first by (auto simp: bindA_Inr seqA_Inr)
    with Inr first assms w1 show ?thesis by (auto simp: ask_broker_def try_run)
  next
    case (Inl e)
    then have "broker_failed E ord c rest a e w1 = (r, w')"
      using assms first by (simp add: ask_broker_def try_run)
    from broker_failed_trail [OF this] w1 show ?thesis by auto
  qed
qed

lemma linked_append: "linked ord fs ls \<Longrightarrow> linked ord fs' ls' \<Longrightarrow> linked ord (fs @ fs') (ls @ ls')"
  by (auto simp: linked_def)

lemma submit_chain_trail:
  "submit_chain E ord idx chain lc w = (r, w') \<Longrightarrow>
   \<exists>n fs. failover_rows w' = failover_rows w @ fs \<and> linked ord fs (take n (links chain))"
proof (induction chain arbitrary: idx lc w)
  case Nil
  then show ?case
    by (intro exI [of _ 0] exI [of _ "[]"]) (auto simp: run_simps Let_def failover_rows_def linked_def)
next
  case (Cons c rest)
  have stop: ?case if "failover_rows w' = failover_rows w"
    using that by (intro exI [of _ 0] exI [of _ "[]"]) (simp add: linked_def)
  have go: ?case if fs: "failover_rows v = failover_rows w @ fs" "linked ord fs (first_link c rest)"
      and run: "submit_chain E ord (Suc idx) rest lc' v = (r, w')" for v fs lc'
  proof -
    obtain n fs' where "failover_rows w' = failover_rows v @ fs'" "linked ord fs' (take n (links rest))"
      using Cons.IH [OF run] by blast
    with fs have "failover_rows w' = failover_rows w @ (fs @ fs')"
      "linked ord (fs @ fs') (take (length (first_link c rest) + n) (links (c # rest)))"
      by (simp_all add: linked_append links_Cons)
    then show ?thesis by blast
  qed
  let ?cons = "rl_consume E (ba_id (rc_broker c)) (Some (broker_limit (rc_broker c)))"
  obtain r1 w1 where rl: "?cons w = (r1, w1)" by fastforce
  have 1: "failover_rows w1 = failover_rows w" by (rule framesD [OF frames_rl(2) rl]) simp_all
  show ?case
  proof (cases r1)
    case (Inl e)
    with rl Cons.prems 1 show ?thesis by (intro stop) (simp add: bind_run)
  next
    case (Inr snap)
    show ?thesis
    proof (cases "rs_allowed snap")
      case False
      obtain r2 w2 where po: "exceed_policy E w1 = (r2, w2)" by fastforce
      have 2: "failover_rows w2 = failover_rows w1" by (rule framesD [OF frames_exceed_policy po])
      obtain r3 w3 where rec: "record_failover E ord c rest ''RATE_LIMITED'' w2 = (r3, w3)" by fastforce
      from record_failover_trail [OF rec] obtain fs where fs: "failover_rows w3 = failover_rows w @ fs"
        "linked ord fs (first_link c rest)" using 1 2 by auto
      have "failover_rows w' = failover_rows w \<or>
          submit_chain E ord (Suc idx) rest (Some ''RATE_LIMITED'') w3 = (r, w')"
        using Cons.prems rl Inr False po rec record_failover_Inr [OF rec] 1 2
        by (auto simp: bind_run seq_run raise_run fail_order_run Let_def failover_rows_def split: sum.splits if_splits)
      then show ?thesis using stop go [OF fs] by blast
    next
      case True
      obtain r2 w2 where ens: "ensure_session E (ba_id (rc_broker c)) False w1 = (r2, w2)" by fastforce
      have 2: "failover_rows w2 = failover_rows w"
        using framesD [OF frames_ensure_session [of failover_rows] ens] 1 by simp
      show ?thesis
      proof (cases r2)
        case (Inl e)
        with Cons.prems rl Inr True ens 2 show ?thesis by (intro stop) (simp add: bind_run)
      next
        case (Inr s)
        obtain a w3 where start: "start_attempt E ord idx c w2 = (Inr a, w3)"
          by (auto simp: start_attempt_def run_simps)
        have 3: "failover_rows w3 = failover_rows w"
          using framesD [OF frames_failover_fail(6) start] 2 by simp
        obtain r4 w4 where ask: "ask_broker E ord c rest a w3 = (r4, w4)" by fastforce
        have rest: "(case r4 of Inl e \<Rightarrow> (Inl e, w4)
            | Inr out \<Rightarrow> (case out of None \<Rightarrow> ret () | Some code \<Rightarrow> submit_chain E ord (Suc idx) rest (Some code)) w4) = (r, w')"
          using Cons.prems rl \<open>r1 = Inr snap\<close> True ens Inr start ask by (simp add: bind_run split: sum.splits)
        from ask_broker_trail [OF ask] show ?thesis
        proof (elim disjE exE conjE)
          assume "r4 = Inr None" "failover_rows w4 = failover_rows w3"
          with rest 3 show ?thesis by (intro stop) (simp add: ret_run)
        next
          fix e assume "r4 = Inl e" "failover_rows w4 = failover_rows w3"
          with rest 3 show ?thesis by (intro stop) simp
        next
          fix code fs assume "r4 = Inr (Some code)" "failover_rows w4 = failover_rows w3 @ fs"
            "linked ord fs (first_link c rest)"
          with rest 3 show ?thesis by (intro go [of w4 fs "Some code"]) simp_all
        qed
      qed
    qed
  qed
qed

subsection \<open>Rejections, permits, and what placing returns\<close>

text \<open>A fault the broker marks as not retryable ends the order at once: the row says so, no
  candidate after it is tried and no failover is recorded.\<close>

lemma ask_broker_rejected:
  assumes "broker_active_fault (sim_flags w) (the_broker w) = Some f" "\<not> bf_retryable f"
    and "row_by o_id (o_id ord) (orders (db w)) = Some r0"
  obtains w' r where "ask_broker E ord c rest a w = (Inl (AppError (bf_code f) 400), w')"
    "row_by o_id (o_id ord) (orders (db w')) = Some r" "o_status r = ''FAILED''" "o_error_code r = Some (bf_code f)"
    "failovers (db w') = failovers (db w)" "saved w' = db w'" "the_broker w' = the_broker w"
proof -
  have call: "place_order_at_broker E p w = (Inl (MockBrokerError (bf_code f) (bf_status f) (bf_retryable f)), w)" for p
    using broker_refuses [OF assms(1)] by (simp add: place_order_at_broker_def run_simps on_broker_def zoomA_def)
  have id: "o_id r0 = o_id ord" using row_by_SomeD [OF assms(3)] by simp
  obtain r' w' where run: "ask_broker E ord c rest a w = (r', w')" by fastforce
  have fin: "r' = Inl (AppError (bf_code f) 400)" "saved w' = db w'" "the_broker w' = the_broker w"
    "failovers (db w') = failovers (db w)"
    "row_by o_id (o_id ord) (orders (db w')) =
       Some (r0\<lparr>o_status := ''FAILED'', o_error_code := Some (bf_code f), o_updated_at := clock w\<rparr>)"
    using run by (auto simp: ask_broker_def broker_failed_def run_simps call assms(2,3) Let_def row_by_upd id)
  show thesis
    by (rule that [of w' "r0\<lparr>o_status := ''FAILED'', o_error_code := Some (bf_code f),
          o_updated_at := clock w\<rparr>"]) (simp_all add: run fin)
qed

text \<open>Whatever happens, no permit is lost and the counter comes back.\<close>

definition engine_load :: "'x world \<Rightarrow> int option \<times> int" where
  "engine_load w = (permits w, inflight w)"

lemma engine_load_simps [simp]:
  "engine_load (w\<lparr>drawn := n\<rparr>) = engine_load w" "engine_load (w\<lparr>saved := d\<rparr>) = engine_load w"
  "engine_load (w\<lparr>mem_locks := L\<rparr>) = engine_load w" "engine_load (w\<lparr>ext := x\<rparr>) = engine_load w"
  "engine_load (w\<lparr>mem_sessions := S\<rparr>) = engine_load w" "engine_load (w\<lparr>mem_hits := H\<rparr>) = engine_load w"
  "engine_load (w\<lparr>the_broker := B\<rparr>) = engine_load w" "engine_load (w\<lparr>the_infra := M\<rparr>) = engine_load w"
  "engine_load (w\<lparr>db := d\<rparr>) = engine_load w"
  by (simp_all add: engine_load_def)

lemma frames_load_upd [frames_intros]: "frames engine_load (upd_db g)" "frames engine_load (upd_order i f)"
  "frames engine_load (upd_attempt i f')" "frames engine_load commit" "frames engine_load rollback"
  by (simp_all add: frames_def run_simps)

lemma frames_select:
  assumes "\<And>w n. f (w\<lparr>drawn := n\<rparr>) = f w" "\<And>w s. f (w\<lparr>db := (db w)\<lparr>snapshots := s\<rparr>\<rparr>) = f w"
    "\<And>w d. f (w\<lparr>saved := d\<rparr>) = f w" "\<And>w H. f (w\<lparr>mem_hits := H\<rparr>) = f w" "\<And>w x. f (w\<lparr>ext := x\<rparr>) = f w"
  shows "frames f (select_or_raise E c p r b)"
  unfolding select_or_raise_def select_route_def require_assigned_ip_def Let_def
  by (intro frames_intros assms)

lemma frames_load_submit: "frames engine_load (submit_chain E ord idx chain lc)"
proof (induction chain arbitrary: idx lc)
  case Nil
  show ?case unfolding submit_chain.simps fail_order_def by (intro frames_intros)
next
  case (Cons c rest)
  note steps = frames_order_steps [where f = engine_load, simplified]
  show ?case
    unfolding submit_chain.simps by (intro frames_intros steps Cons) simp_all
qed

lemma frames_load_inside: "frames engine_load (place_inside E rq)"
  unfolding place_inside_def create_or_prior_def insert_order_def submit_inline_def refresh_order_def
  by (intro frames_intros frames_select frames_load_submit) simp_all

lemma permit_section:
  assumes others: "\<And>v. engine_load (others v) = engine_load v" and "0 \<le> m"
  shows "keeps (\<lambda>w. engine_load w = (Some n, m)) (with_permit others (place_inside E rq))"
proof (rule keepsI)
  fix w r w'
  assume load: "engine_load w = (Some n, m)"
    and run: "with_permit others (place_inside E rq) w = (r, w')"
  have p: "permits (others w) = Some n" "inflight (others w) = m"
    using others [of w] load by (simp_all add: engine_load_def)
  show "engine_load w' = (Some n, m)"
  proof (cases "n > 0")
    case True
    let ?v = "(others w)\<lparr>permits := Some (n - 1), inflight := m + 1\<rparr>"
    obtain r1 v' where body: "place_inside E rq ?v = (r1, v')" by fastforce
    have "engine_load v' = (Some (n - 1), m + 1)"
      using framesD [OF frames_load_inside body] by (simp add: engine_load_def)
    with run True p body \<open>0 \<le> m\<close> show ?thesis
      by (auto simp: with_permit_def acquire_permit_def enter_inflight_def leave_inflight_def release_permit_def
          run_simps modifyA_def finallyA_def engine_load_def split: prod.splits sum.splits)
  next
    case False
    with run p show ?thesis by (auto simp: with_permit_def acquire_permit_def run_simps modifyA_def engine_load_def)
  qed
qed

lemma place_order_load:
  assumes others: "\<And>v. engine_load (others v) = engine_load v"
    and run: "place_order E others rq w = (r, w')" and load: "permits w = Some n" "0 \<le> inflight w"
  shows "engine_load w' = engine_load w"
proof -
  define P where "P v \<longleftrightarrow> engine_load v = (Some n, inflight w)" for v :: "'a world"
  have quiet: "frames engine_load m \<Longrightarrow> keeps P m" for m :: "('a, unit) op"
    by (erule keeps_of_frames) (simp add: P_def)
  have trading: "keeps P (assert_trading_allowed c)" for c
    unfolding assert_trading_allowed_def client_trading_allowed_def set_client_status_def
    by (intro quiet frames_intros)
  have lookup: "keeps P (one_of (orders_with_key c k))" for c k
    by (rule keeps_of_frames [of engine_load]) (auto simp: P_def intro: frames_intros)
  have mode: "keeps P (execution_mode E)"
    unfolding execution_mode_def
    by (rule keeps_of_frames [of engine_load]) (auto simp: P_def intro!: frames_intros)
  have sem: "keeps P (get_inflight_semaphore k)" for k
    by (auto simp: get_inflight_semaphore_def keeps_def P_def run_simps engine_load_def split: option.split)
  have inside: "keeps P (with_permit others (place_inside E rq))"
    unfolding P_def by (rule permit_section [OF others load(2)])
  have "keeps P (place_order E others rq)"
    unfolding place_order_def
    by (rule keeps_seq [OF trading], rule keeps_bind [OF lookup], rule keeps_option, rule keeps_bind [OF mode],
        rule keeps_if, rule keeps_raise, rule keeps_seq [OF sem inside], rule keeps_ret)
  from keepsD [OF this _ run] have "P w'" by (simp add: P_def engine_load_def load)
  then show ?thesis by (simp add: P_def engine_load_def load)
qed

text \<open>The same key again: the first row, without touching anything but the client's status.\<close>

lemma place_order_replay:
  assumes "may_trade (clock w) (rq_client rq) (db w)"
    and "orders_with_key (rq_client rq) (rq_client_order_id rq) (db w) = [ord]"
  shows "\<exists>w'. place_order E others rq w = (Inr (ord, False), w') \<and>
    orders (db w') = orders (db w) \<and> attempts (db w') = attempts (db w) \<and> outbox (db w') = outbox (db w) \<and>
    the_broker w' = the_broker w"
proof -
  have key: "orders_with_key c k (d\<lparr>clients := cs\<rparr>) = orders_with_key c k d" for c k d cs
    by (simp add: orders_with_key_def)
  show ?thesis
    using assms
    by (cases rule: assert_trading_allowed_cases [of w "rq_client rq"])
       (auto simp: place_order_def run_simps key)
qed

text \<open>What a submitted order says about its broker and address.\<close>

definition net_view :: "'x world \<Rightarrow> broker_account list \<times> ip_assignment list \<times> static_ip list \<times> config_item list" where
  "net_view w = (brokers (db w), assignments (db w), static_ips (db w), config_items (db w))"

lemma routable_net:
  assumes "assignments d = assignments d'" "static_ips d = static_ips d'"
  shows "routable rq dm po rg d = routable rq dm po rg d'"
proof -
  have "active_ips i d = active_ips i d'" for i
    using assms by (simp add: active_ips_def active_assignments_def)
  then show ?thesis by (intro ext) (simp only: routable_def)
qed

lemma select_or_raise_Inr:
  "select_or_raise E c p r b w = (Inr D, w') \<Longrightarrow> select_route E c p r b w = (Inr D, w')"
  by (auto simp: select_or_raise_def bindA_Inr split: if_splits)

lemma with_permit_Inr:
  assumes "with_permit others m u = (Inr x, w')"
  obtains v w0 where "m v = (Inr x, w0)" "db v = db (others u)" "db w' = db w0" "saved w' = saved w0"
    "the_broker w' = the_broker w0"
proof -
  obtain u2 w1 where acq: "acquire_permit others u = (Inr (), u2)"
    and body: "seqA enter_inflight (finallyA m leave_inflight) u2 = (Inr x, w1)"
    and rel: "release_permit w1 = (Inr (), w')"
    using assms unfolding with_permit_def seqA_Inr finallyA_Inr by blast
  obtain v w0 where enter: "enter_inflight u2 = (Inr (), v)"
    and inside: "m v = (Inr x, w0)" and leave: "leave_inflight w0 = (Inr (), w1)"
    using body unfolding seqA_Inr finallyA_Inr by blast
  have "db u2 = db (others u)"
    using acq by (simp add: acquire_permit_def run_simps modifyA_def split: option.splits if_splits) auto
  then have "db v = db (others u)"
    using enter by (simp add: enter_inflight_def)
  moreover have "db w' = db w0" "saved w' = saved w0" "the_broker w' = the_broker w0"
    using rel leave by (simp_all add: release_permit_def leave_inflight_def)
  ultimately show thesis using inside that by blast
qed

lemma get_semaphore_db: "get_inflight_semaphore k u = (r, v) \<Longrightarrow> db v = db u"
  by (cases "permits u")
     (auto simp: get_inflight_semaphore_def run_simps modifyA_def split: if_splits)

lemma execution_mode_state: "execution_mode E u = (r, v) \<Longrightarrow> v = u"
  by (auto simp: execution_mode_def config_get_value_def run_simps split: sum.splits)

lemma place_order_inside:
  assumes "place_order E others rq w = (Inr (ord, True), w')"
  obtains u v w0 where "place_inside E rq v = (Inr (ord, True), w0)"
    "net_view u = net_view w" "db v = db (others u)"
    "db w' = db w0" "saved w' = saved w0" "the_broker w' = the_broker w0"
proof -
  obtain u where trade: "assert_trading_allowed (rq_client rq) w = (Inr (), u)"
    and rest: "bindA (one_of (orders_with_key (rq_client rq) (rq_client_order_id rq))) (\<lambda>prior.
        case prior of
          Some o' \<Rightarrow> ret (o', False)
        | None \<Rightarrow>
            bindA (execution_mode E) (\<lambda>mode.
              if mode \<noteq> ''inline'' then raise (AppError ''UNSUPPORTED_MODE'' 501)
              else
                seqA (get_inflight_semaphore (max_inflight_orders (cfg E)))
                  (with_permit others (place_inside E rq)))) u = (Inr (ord, True), w')"
    using assms unfolding place_order_def seqA_Inr by blast
  have u: "net_view u = net_view w"
    using trade by (cases rule: assert_trading_allowed_cases [of w "rq_client rq"]) (auto simp: net_view_def)
  obtain prior p1 where look: "one_of (orders_with_key (rq_client rq) (rq_client_order_id rq)) u = (Inr prior, p1)"
    and found: "(case prior of
          Some o' \<Rightarrow> ret (o', False)
        | None \<Rightarrow>
            bindA (execution_mode E) (\<lambda>mode.
              if mode \<noteq> ''inline'' then raise (AppError ''UNSUPPORTED_MODE'' 501)
              else
                seqA (get_inflight_semaphore (max_inflight_orders (cfg E)))
                  (with_permit others (place_inside E rq)))) p1 = (Inr (ord, True), w')"
    using rest unfolding bindA_Inr by blast
  have p1: "p1 = u" using look by (simp add: one_of_run)
  have None: "prior = None" using found by (cases prior) simp_all
  obtain mode m1 where mode: "execution_mode E u = (Inr mode, m1)"
    and go: "(if mode \<noteq> ''inline'' then raise (AppError ''UNSUPPORTED_MODE'' 501)
              else
                seqA (get_inflight_semaphore (max_inflight_orders (cfg E)))
                  (with_permit others (place_inside E rq))) m1 = (Inr (ord, True), w')"
    using found unfolding None p1 option.case bindA_Inr by blast
  have "mode = ''inline''" using go by (cases "mode = ''inline''") simp_all
  with go execution_mode_state [OF mode]
  have "seqA (get_inflight_semaphore (max_inflight_orders (cfg E)))
                  (with_permit others (place_inside E rq)) u = (Inr (ord, True), w')"
    by (simp only: simp_thms if_False)
  then obtain u1 where sem: "get_inflight_semaphore (max_inflight_orders (cfg E)) u = (Inr (), u1)"
    and locked: "with_permit others (place_inside E rq) u1 = (Inr (ord, True), w')"
    unfolding seqA_Inr by blast
  have u1: "net_view u1 = net_view w"
    using get_semaphore_db [OF sem] u by (simp add: net_view_def)
  obtain v w0 where "place_inside E rq v = (Inr (ord, True), w0)" "db v = db (others u1)" "db w' = db w0"
      "saved w' = saved w0" "the_broker w' = the_broker w0"
    by (rule with_permit_Inr [OF locked])
  with u1 show thesis by (intro that)
qed

lemma place_inside_created:
  assumes "place_inside E rq v = (Inr (ord, True), w0)"
  obtains row v1 D v2 c where "insert_order E rq v = (Inr row, v1)"
    "select_route E (rq_client rq) (rq_preferred rq) (rq_region rq) False v1 = (Inr D, v2)"
    "c \<in> set (dc_chain D)" "submitted_to E row c w0" "row_by o_id (o_id row) (orders (db w0)) = Some ord"
proof -
  obtain r v1 where cp: "create_or_prior E rq v = (Inr r, v1)"
    and rest: "(case r of Inl prior \<Rightarrow> ret (prior, False)
       | Inr o' \<Rightarrow>
           bindA (select_or_raise E (rq_client rq) (rq_preferred rq) (rq_region rq) False) (\<lambda>decision.
           seqA (submit_inline E o' (dc_chain decision))
             (bindA (refresh_order (o_id o')) (\<lambda>o''. ret (o'', True))))) v1 = (Inr (ord, True), w0)"
    using assms unfolding place_inside_def bindA_Inr by blast
  then obtain row where r: "r = Inr row" by (cases r) auto
  have ins: "insert_order E rq v = (Inr row, v1)"
    using cp r by (auto simp: create_or_prior_def tryA_Inr bindA_Inr seqA_Inr split: option.splits if_splits)
  obtain D v2 v3 where
    sel: "select_or_raise E (rq_client rq) (rq_preferred rq) (rq_region rq) False v1 = (Inr D, v2)"
    and sub: "submit_inline E row (dc_chain D) v2 = (Inr (), v3)"
    and ref: "refresh_order (o_id row) v3 = (Inr ord, w0)"
    using rest r by (auto simp: bindA_Inr seqA_Inr)
  have "order_ids v2 = order_ids v1" by (rule framesD [OF frames_select sel]) (simp_all add: order_ids_def)
  moreover have "o_id row \<in> set (order_ids v1)"
    using ins by (auto simp: insert_order_run Let_def order_ids_def split: if_splits)
  ultimately obtain c where c: "c \<in> set (dc_chain D)" "submitted_to E row c v3"
    using submit_chain_success sub
    by (fastforce simp: submit_inline_def seqA_Inr apply_faults_run order_ids_def)
  have "w0 = v3" "row_by o_id (o_id row) (orders (db w0)) = Some ord"
    using ref by (auto simp: refresh_order_def bindA_Inr ask_db_run split: option.splits)
  with ins select_or_raise_Inr [OF sel] c that show thesis by blast
qed

lemma place_order_submits:
  assumes "place_order E others rq w = (Inr (ord, True), w')"
    and others: "\<And>v. net_view (others v) = net_view v"
  shows "\<exists>b c row. b \<in> set (client_brokers (rq_client rq) (db w)) \<and> rc_broker c = b \<and>
    rc_static_ip c = map_option (\<lambda>(a, ip). as_ip a) (first_row (active_ips (ba_id b) (db w))) \<and>
    (require_assigned_ip w = (Inr True, w) \<longrightarrow> rc_static_ip c \<noteq> None) \<and>
    order_key row = (rq_client rq, rq_client_order_id rq) \<and> submitted_to E row c w' \<and>
    row_by o_id (o_id row) (orders (db w')) = Some ord"
proof -
  obtain u v w0 where inside: "place_inside E rq v = (Inr (ord, True), w0)"
    and net: "net_view u = net_view w" "db v = db (others u)"
    and w': "db w' = db w0" "saved w' = saved w0" "the_broker w' = the_broker w0"
    by (rule place_order_inside [OF assms(1)])
  obtain row v1 D v2 c where ins: "insert_order E rq v = (Inr row, v1)"
    and sel: "select_route E (rq_client rq) (rq_preferred rq) (rq_region rq) False v1 = (Inr D, v2)"
    and c: "c \<in> set (dc_chain D)" "submitted_to E row c w0" "row_by o_id (o_id row) (orders (db w0)) = Some ord"
    by (rule place_inside_created [OF inside])
  have row: "order_key row = (rq_client rq, rq_client_order_id rq)" and v1: "net_view v1 = net_view v"
    using ins by (auto simp: insert_order_run Let_def net_view_def split: if_splits)
  then have net1: "brokers (db v1) = brokers (db w)" "assignments (db v1) = assignments (db w)"
      "static_ips (db v1) = static_ips (db w)" "config_items (db v1) = config_items (db w)"
    using net others [of u] by (simp_all add: net_view_def)
  obtain dm po where D: "decision_ok (dc_require_ip D) dm po (rq_region rq) (rq_preferred rq)
        (client_brokers (rq_client rq) (db v1)) (db v1) D" "require_assigned_ip v1 = (Inr (dc_require_ip D), v1)"
    by (rule select_route_ok [OF sel])
  obtain b where b: "b \<in> set (client_brokers (rq_client rq) (db w))"
    "routable (dc_require_ip D) dm po (rq_region rq) (db w) b c"
    using decision_chain_routable [OF D(1) c(1)] net1 routable_net [of "db v1" "db w"] by (auto simp: client_brokers_def)
  have "dc_require_ip D" if "require_assigned_ip w = (Inr True, w)"
    using that D(2) net1(4)
    by (auto simp: require_assigned_ip_def config_get_value_def run_simps config_rows_def split: sum.splits)
  then have "require_assigned_ip w = (Inr True, w) \<longrightarrow> rc_static_ip c \<noteq> None"
    using b(2) unfolding routable_def by blast
  moreover have "submitted_to E row c w'"
    using c(2) w' by (simp add: submitted_to_def)
  ultimately show ?thesis
    using b c(3) row w' unfolding routable_def
    by (intro exI [of _ b] exI [of _ c] exI [of _ row]) simp
qed

subsection \<open>Cancelling, facts\<close>

lemma get_order_Inr: "get_order i w = (Inr ord, w') \<Longrightarrow> w' = w \<and> o_id ord = i \<and> row_by o_id i (orders (db w)) \<noteq> None"
  by (auto simp: get_order_def run_simps found_def scalar_one_or_none_Inr row_by_None_iff filter_eq_Cons_iff
      split: sum.splits option.splits)

lemma cancel_order_refused:
  assumes "get_order i w = (Inr ord, w)" "o_status ord \<notin> {''SUBMITTED'', ''SUBMITTING'', ''CREATED''}"
  shows "cancel_order E i w = (Inl not_cancelable, w)"
  using assms by (auto simp: cancel_order_def run_simps)

lemma cancel_row_Inr:
  assumes "cancel_row E ord w = (Inr r, w')"
  shows "row_by o_id (o_id ord) (orders (db w')) = Some r \<and> saved w' = db w' \<and>
    (\<exists>r0. row_by o_id (o_id ord) (orders (db w)) = Some r0 \<and> r = r0\<lparr>o_status := ''CANCELLED'', o_updated_at := clock w\<rparr>) \<and>
    (\<exists>ev \<in> set (outbox (db w')). ob_event_type ev = ''order.cancelled'' \<and> ob_status ev = ''pending'' \<and>
       ob_payload ev = cancelled_event ord)"
  using assms row_by_SomeD [of o_id "o_id ord" "orders (db w)"]
  by (auto simp: cancel_row_def refresh_order_def run_simps row_by_upd split: option.splits if_splits)

lemma cancel_order_Inr:
  assumes "cancel_order E i w = (Inr r, w')"
  shows "row_by o_id i (orders (db w')) = Some r \<and> o_status r = ''CANCELLED'' \<and> saved w' = db w' \<and>
    (\<exists>ev \<in> set (outbox (db w')). ob_event_type ev = ''order.cancelled'' \<and> ob_status ev = ''pending'' \<and>
       dict_get (ob_payload ev) ''order_id'' JNull = JStr (uuid_text i))"
proof -
  obtain ord where ord: "get_order i w = (Inr ord, w)"
    using assms get_order_Inr [of i w] unfolding cancel_order_def bindA_Inr by blast
  then have i: "o_id ord = i" using get_order_Inr by blast
  obtain v where "cancel_row E ord v = (Inr r, w')"
    using assms ord unfolding cancel_order_def bind_run by (auto simp: seqA_Inr split: if_splits option.splits list.splits)
  from cancel_row_Inr [OF this] show ?thesis
    by (auto simp: i cancelled_event_def dict_get_def)
qed

end
