(* ===== verification/Whitelist.thy ===== *)
theory Whitelist
  imports Health
begin

text \<open>
  Broker whitelists (\<^verbatim>\<open>app/whitelist/service.py\<close>): the document the broker reports is normalised
  to a list of addresses, and compared with the addresses assigned to the broker.
\<close>

subsection \<open>Normalising\<close>

text \<open>\<^verbatim>\<open>sorted({ip for ip in ips if ip})\<close>: falsy values are dropped; a value that is no string
  cannot be hashed, ordered with the strings, or stored in the address column.\<close>

fun texts :: "json list \<Rightarrow> exn + string list" where
  "texts [] = Inr []"
| "texts (j # js) =
     (if \<not> truthy j then texts js
      else case j of
          JStr s \<Rightarrow> (case texts js of Inl e \<Rightarrow> Inl e | Inr ss \<Rightarrow> Inr (s # ss))
        | _ \<Rightarrow> Inl (PyError ''TypeError''))"

definition unique_sorted :: "string list \<Rightarrow> string list" where
  "unique_sorted xs = sort (remdups xs)"

text \<open>\<^verbatim>\<open>tag.split('}')[-1].lower()\<close>\<close>

definition local_tag :: "string \<Rightarrow> string" where
  "local_tag tag = py_lower (rev (takeWhile (\<lambda>c. c \<noteq> CHR ''}'') (rev tag)))"

definition xml_texts :: "(string \<times> string option) list \<Rightarrow> string list" where
  "xml_texts nodes =
     concat (map (\<lambda>(tag, text).
        if local_tag tag \<in> {''ip'', ''address'', ''ipv4''}
        then (case text of Some (c # t) \<Rightarrow> [py_strip (c # t)] | _ \<Rightarrow> []) else []) nodes)"

definition validation_error :: exn where
  "validation_error = AppError ''VALIDATION_ERROR'' 422"

definition normalize_whitelist :: "'x env \<Rightarrow> string \<Rightarrow> string \<Rightarrow> exn + string list" where
  "normalize_whitelist E raw_format raw_payload =
     (let fmt = py_lower raw_format in
      if fmt = ''json'' then
        (case json_loads E raw_payload of
           Inl e \<Rightarrow> Inl e
         | Inr data \<Rightarrow>
             (case (case data of
                      JObj d \<Rightarrow> py_list (py_or (dict_get d ''ips'' JNull)
                                         (py_or (dict_get d ''addresses'' JNull) (JList [])))
                    | JList xs \<Rightarrow> Inr xs
                    | _ \<Rightarrow> Inr []) of
                Inl e \<Rightarrow> Inl e
              | Inr ips \<Rightarrow> (case texts ips of Inl e \<Rightarrow> Inl e | Inr ss \<Rightarrow> Inr (unique_sorted ss))))
      else if fmt = ''xml'' then
        (case xml_nodes E raw_payload of
           Inl e \<Rightarrow> Inl e
         | Inr nodes \<Rightarrow> Inr (unique_sorted (filter (\<lambda>s. s \<noteq> []) (xml_texts nodes))))
      else Inl validation_error)"

subsection \<open>Comparing\<close>

record verdict =
  vd_address :: string
  vd_type :: string
  vd_expected :: bool
  vd_on_whitelist :: bool

text \<open>The rows for the set differences and the intersection, in the order they are added.\<close>

definition compare_whitelist :: "string list \<Rightarrow> string list \<Rightarrow> verdict list" where
  "compare_whitelist expected actual =
     map (\<lambda>ip. \<lparr>vd_address = ip, vd_type = ''missing'', vd_expected = True, vd_on_whitelist = False\<rparr>)
       (unique_sorted (filter (\<lambda>ip. ip \<notin> set actual) expected)) @
     map (\<lambda>ip. \<lparr>vd_address = ip, vd_type = (if expected \<noteq> [] then ''unauthorized'' else ''ok''),
                vd_expected = False, vd_on_whitelist = True\<rparr>)
       (unique_sorted (filter (\<lambda>ip. ip \<notin> set expected) actual)) @
     map (\<lambda>ip. \<lparr>vd_address = ip, vd_type = ''ok'', vd_expected = True, vd_on_whitelist = True\<rparr>)
       (unique_sorted (filter (\<lambda>ip. ip \<in> set actual) expected))"

definition whitelist_hint :: "string option \<Rightarrow> dict \<Rightarrow> exn + string option" where
  "whitelist_hint format_hint capabilities =
     (case format_hint of
        Some h \<Rightarrow> Inr (Some h)
      | None \<Rightarrow>
          (let v = dict_get capabilities ''whitelist_format'' JNull in
           if truthy v then (case text_value v of Inl e \<Rightarrow> Inl e | Inr h \<Rightarrow> Inr (Some h)) else Inr None))"

definition finding_row :: "'x env \<Rightarrow> uuid \<Rightarrow> verdict \<Rightarrow> ('x, whitelist_finding) op" where
  "finding_row E b v =
     bindA (fresh_uuid E) (\<lambda>u. bindA now_utc (\<lambda>now.
       ret \<lparr>wf_id = u, wf_broker = b, wf_ip_address = vd_address v, wf_finding_type = vd_type v,
            wf_expected = vd_expected v, wf_on_whitelist = vd_on_whitelist v, wf_detected_at = now\<rparr>))"

definition sync_whitelist ::
  "'x env \<Rightarrow> uuid \<Rightarrow> string option \<Rightarrow> ('x, whitelist_snapshot \<times> whitelist_finding list) op" where
  "sync_whitelist E b format_hint =
     bindA (one_of (broker_by_id b)) (\<lambda>r. bindA (found r) (\<lambda>broker.
     bindA (liftA (whitelist_hint format_hint (ba_capabilities broker))) (\<lambda>hint.
     bindA now_utc (\<lambda>now.
       let raw = fetch_whitelist_raw (json_dumps E) (isotext E) now hint in
       bindA (liftA (text_item raw ''format'')) (\<lambda>raw_format.
       bindA (liftA (text_item raw ''payload'')) (\<lambda>raw_payload.
       bindA (liftA (normalize_whitelist E raw_format raw_payload)) (\<lambda>ips.
       bindA (fresh_uuid E) (\<lambda>u.
         let snap = \<lparr>ws_id = u, ws_broker = b, ws_raw_format = raw_format, ws_raw_payload = raw_payload,
                     ws_ips = ips, ws_fetched_at = now\<rparr>
         in seqA (upd_db (\<lambda>d. d\<lparr>whitelists := whitelists d @ [snap]\<rparr>))
         (bindA (ask_db (\<lambda>d. map (\<lambda>(a, ip). ip_address ip) (active_ips b d))) (\<lambda>expected.
          bindA (mapA (finding_row E b) (compare_whitelist expected ips)) (\<lambda>rows.
          seqA (upd_db (\<lambda>d. d\<lparr>findings := findings d @ rows\<rparr>))
          (seqA commit (ret (snap, rows))))))))))))))"

definition latest_findings :: "uuid \<Rightarrow> ('x, whitelist_finding list) op" where
  "latest_findings b =
     ask_db (\<lambda>d. take 50 (order_desc wf_detected_at (filter (\<lambda>f. wf_broker f = b) (findings d))))"

subsection \<open>Facts\<close>

lemma unique_sorted_simps [simp]:
  "set (unique_sorted xs) = set xs" "distinct (unique_sorted xs)" "sorted (unique_sorted xs)"
  by (simp_all add: unique_sorted_def)

lemma texts_nonempty: "texts js = Inr ss \<Longrightarrow> [] \<notin> set ss"
  by (induction js arbitrary: ss) (auto split: if_splits json.splits sum.splits)

text \<open>A normalised whitelist is sorted, without repetitions and without empty entries.\<close>

lemma normalize_whitelist_ok:
  assumes "normalize_whitelist E f p = Inr ips"
  shows "sorted ips" "distinct ips" "[] \<notin> set ips"
  using assms
  by (auto simp: normalize_whitelist_def Let_def dest: texts_nonempty split: if_splits sum.splits)

text \<open>Every expected or reported address gets exactly one verdict, the one the sets say.\<close>

lemma compare_whitelist_addresses:
  "distinct (map vd_address (compare_whitelist expected actual)) \<and>
   set (map vd_address (compare_whitelist expected actual)) = set expected \<union> set actual"
  by (auto simp: compare_whitelist_def comp_def)

lemma compare_whitelist_verdict:
  "v \<in> set (compare_whitelist expected actual) \<Longrightarrow>
   vd_expected v = (vd_address v \<in> set expected) \<and> vd_on_whitelist v = (vd_address v \<in> set actual) \<and>
   vd_type v = (if vd_on_whitelist v then if vd_expected v \<or> expected = [] then ''ok'' else ''unauthorized''
                else ''missing'')"
  by (auto simp: compare_whitelist_def split: if_splits)

lemma frames_sync_whitelist:
  assumes "\<And>w n. f (w\<lparr>drawn := n\<rparr>) = f w" "\<And>w d. f (w\<lparr>saved := d\<rparr>) = f w"
    "\<And>w x. f (w\<lparr>db := (db w)\<lparr>whitelists := x\<rparr>\<rparr>) = f w" "\<And>w x. f (w\<lparr>db := (db w)\<lparr>findings := x\<rparr>\<rparr>) = f w"
  shows "frames f (sync_whitelist E b h)"
proof -
  have 1: "frames f (upd_db (\<lambda>d. d\<lparr>whitelists := g d\<rparr>))" "frames f (upd_db (\<lambda>d. d\<lparr>findings := g' d\<rparr>))" for g g'
    using assms by (simp_all add: upd_db_def frames_modify)
  show ?thesis
    unfolding sync_whitelist_def finding_row_def by (intro frames_intros frames_commit 1 assms)
qed

lemma keeps_both_sync:
  assumes "\<And>d x. Q d \<Longrightarrow> Q (d\<lparr>whitelists := x\<rparr>)" "\<And>d x. Q d \<Longrightarrow> Q (d\<lparr>findings := x\<rparr>)"
  shows "keeps (both Q) (sync_whitelist E b h)"
  unfolding sync_whitelist_def finding_row_def by (intro keeps_intros keeps_both_upd assms)

end
