(* ===== verification/Replay.thy ===== *)
theory Replay
  imports Orders
begin

text \<open>
  Recovery of stuck orders (\<^verbatim>\<open>app/replay/service.py\<close>): an order that some broker already took is
  adopted, any other one is routed and submitted again.
\<close>

definition STUCK_STATUSES :: "string list" where
  "STUCK_STATUSES = [''CREATED'', ''SUBMITTING'', ''INDOUBT'']"

definition TERMINAL :: "string list" where
  "TERMINAL = [''SUBMITTED'', ''FAILED'', ''CANCELLED'']"

definition get_last_replay_status :: "('x, replay_status) op" where
  "get_last_replay_status = askA last_run"

definition list_stuck :: "int \<Rightarrow> ('x, order list) op" where
  "list_stuck lmt =
     ask_db (\<lambda>d. take (nat lmt) (order_asc o_updated_at
       (filter (\<lambda>r. o_status r \<in> set STUCK_STATUSES) (orders d))))"

record replay_outcome =
  ro_result :: string
  ro_reason :: string
  ro_status :: string
  ro_broker_order_id :: "string option"
  ro_error_code :: "string option"

text \<open>The attempt to adopt: the last one the broker took.\<close>

definition adoptable :: "order_attempt \<Rightarrow> bool" where
  "adoptable a \<longleftrightarrow> (case oa_broker_order_id a of Some (c # t) \<Rightarrow> True | _ \<Rightarrow> False) \<and> oa_status a = ''submitted''"

definition adoption_of :: "uuid \<Rightarrow> database \<Rightarrow> order_attempt option" where
  "adoption_of i d = find adoptable (order_desc oa_attempt_no (filter (\<lambda>a. oa_order a = i) (attempts d)))"

definition adopt :: "uuid \<Rightarrow> order_attempt \<Rightarrow> ('x, replay_outcome) op" where
  "adopt i a =
     seqA (upd_order i (\<lambda>r. r\<lparr>o_status := ''SUBMITTED'', o_broker_order_id := oa_broker_order_id a,
             o_broker := Some (oa_broker a), o_static_ip := oa_static_ip a, o_error_code := None\<rparr>))
     (seqA commit
       (ret \<lparr>ro_result = ''recovered'', ro_reason = ''adopt_existing_broker_order'', ro_status = ''SUBMITTED'',
            ro_broker_order_id = oa_broker_order_id a, ro_error_code = None\<rparr>))"

definition resubmit :: "'x env \<Rightarrow> order \<Rightarrow> ('x, replay_outcome) op" where
  "resubmit E ord =
     seqA (if o_status ord = ''INDOUBT''
           then seqA (upd_order (o_id ord) (\<lambda>r. r\<lparr>o_status := ''CREATED''\<rparr>)) commit else ret ())
     (bindA (select_or_raise E (o_client_id ord) (o_preferred_broker ord) (o_region_preference ord) False) (\<lambda>decision.
        tryA
          (seqA (submit_inline E ord (dc_chain decision))
            (bindA (refresh_order (o_id ord)) (\<lambda>r.
               ret \<lparr>ro_result = (if o_status r = ''SUBMITTED'' then ''recovered'' else ''failed''),
                    ro_reason = (if o_status r = ''SUBMITTED'' then ''resubmit'' else ''resubmit_non_terminal''),
                    ro_status = o_status r,
                    ro_broker_order_id = (if o_status r = ''SUBMITTED'' then o_broker_order_id r else None),
                    ro_error_code = None\<rparr>)))
          (\<lambda>e. bindA (refresh_order (o_id ord)) (\<lambda>r.
             ret \<lparr>ro_result = ''failed'', ro_reason = take 300 (exn_text E e), ro_status = o_status r,
                  ro_broker_order_id = None, ro_error_code = o_error_code r\<rparr>))))"

definition recover_one :: "'x env \<Rightarrow> uuid \<Rightarrow> ('x, replay_outcome) op" where
  "recover_one E i =
     bindA (refresh_order i) (\<lambda>ord.
       if o_status ord \<in> set TERMINAL
       then ret \<lparr>ro_result = ''skipped'', ro_reason = ''already_terminal'', ro_status = o_status ord,
                  ro_broker_order_id = None, ro_error_code = None\<rparr>
       else
         bindA (ask_db (adoption_of i)) (\<lambda>a.
           case a of Some a' \<Rightarrow> adopt i a' | None \<Rightarrow> resubmit E ord))"

text \<open>One order of the scan; Inl is the text of an exception.\<close>

definition replay_row :: "'x env \<Rightarrow> order \<Rightarrow> ('x, uuid \<times> (string + replay_outcome)) op" where
  "replay_row E ord =
     tryA (bindA (recover_one E (o_id ord)) (\<lambda>o'. ret (o_id ord, Inr o')))
       (\<lambda>e. ret (o_id ord, Inl (take 500 (exn_text E e))))"

definition tally :: "replay_status \<Rightarrow> (uuid \<times> (string + replay_outcome)) \<Rightarrow> replay_status" where
  "tally s x =
     (case snd x of
        Inl _ \<Rightarrow> s\<lparr>ls_failed := Suc (ls_failed s)\<rparr>
      | Inr o' \<Rightarrow>
          (if ro_result o' = ''recovered''
           then s\<lparr>ls_recovered := Suc (ls_recovered s), ls_retried := Suc (ls_retried s)\<rparr>
           else if ro_result o' = ''skipped'' then s\<lparr>ls_skipped := Suc (ls_skipped s)\<rparr>
           else if ro_result o' = ''failed''
           then s\<lparr>ls_failed := Suc (ls_failed s), ls_retried := Suc (ls_retried s)\<rparr>
           else s\<lparr>ls_skipped := Suc (ls_skipped s)\<rparr>))"

definition run_replay :: "'x env \<Rightarrow> int \<Rightarrow> ('x, replay_status \<times> (uuid \<times> (string + replay_outcome)) list) op" where
  "run_replay E lmt =
     bindA (list_stuck lmt) (\<lambda>stuck.
     bindA (mapA (replay_row E) stuck) (\<lambda>details.
     bindA now_utc (\<lambda>now.
       let s = foldl tally \<lparr>ls_ran_at = Some now, ls_scanned = length stuck, ls_retried = 0, ls_recovered = 0,
                 ls_skipped = 0, ls_failed = 0, ls_detail_count = Some (length details)\<rparr> details
       in seqA (modifyA (\<lambda>w. w\<lparr>last_run := s\<rparr>)) (ret (s, details)))))"

subsection \<open>Facts\<close>

lemma tally_total:
  "ls_recovered (foldl tally s xs) + ls_skipped (foldl tally s xs) + ls_failed (foldl tally s xs) =
   ls_recovered s + ls_skipped s + ls_failed s + length xs \<and> ls_scanned (foldl tally s xs) = ls_scanned s \<and>
   ls_ran_at (foldl tally s xs) = ls_ran_at s"
  by (induction xs arbitrary: s) (auto simp: tally_def split: sum.splits)

lemma replay_row_total: "\<exists>x w'. replay_row E ord w = (Inr x, w') \<and> fst x = o_id ord"
  by (auto simp: replay_row_def run_simps split: prod.splits sum.splits)

lemma mapA_total:
  assumes "\<And>x w. \<exists>y w'. f x w = (Inr y, w')"
  shows "\<exists>ys w'. mapA f xs w = (Inr ys, w') \<and> length ys = length xs"
proof (induction xs arbitrary: w)
  case (Cons x xs)
  obtain y w1 where "f x w = (Inr y, w1)" using assms by blast
  moreover obtain ys w2 where "mapA f xs w1 = (Inr ys, w2)" "length ys = length xs" using Cons by blast
  ultimately show ?case by (simp add: run_simps)
qed (simp add: run_simps)

text \<open>A run always returns, counts every stuck order once, and records what it returned.\<close>

lemma run_replay_total:
  obtains s details w' where "run_replay E lmt w = (Inr (s, details), w')" "last_run w' = s"
    "ls_recovered s + ls_skipped s + ls_failed s = ls_scanned s" "ls_scanned s = length details"
    "map fst details = map o_id (take (nat lmt) (order_asc o_updated_at
       (filter (\<lambda>r. o_status r \<in> set STUCK_STATUSES) (orders (db w)))))"
proof -
  define stuck where "stuck = take (nat lmt) (order_asc o_updated_at
       (filter (\<lambda>r. o_status r \<in> set STUCK_STATUSES) (orders (db w))))"
  have "\<And>x v. \<exists>y v'. replay_row E x v = (Inr y, v')" using replay_row_total by blast
  then obtain details w1 where run: "mapA (replay_row E) stuck w = (Inr details, w1)" "length details = length stuck"
    using mapA_total [of "replay_row E" stuck w] by blast
  have "list_all2 (\<lambda>x y. fst y = o_id x) stuck details \<and> True"
    by (rule mapA_all2 [where I = "\<lambda>_. True", OF run(1)])
       (use replay_row_total in \<open>metis Pair_inject sum.inject(2)\<close>)+
  then have ids: "map fst details = map o_id stuck"
    by (auto simp: list_all2_conv_all_nth intro: nth_equalityI)
  define s where "s = foldl tally \<lparr>ls_ran_at = Some (clock w1), ls_scanned = length stuck, ls_retried = 0,
    ls_recovered = 0, ls_skipped = 0, ls_failed = 0, ls_detail_count = Some (length details)\<rparr> details"
  have "run_replay E lmt w = (Inr (s, details), w1\<lparr>last_run := s\<rparr>)"
    using run(1) by (simp add: run_replay_def list_stuck_def run_simps modifyA_def s_def Let_def flip: stuck_def)
  moreover have "ls_recovered s + ls_skipped s + ls_failed s = ls_scanned s" "ls_scanned s = length details"
    using tally_total [of _ details] run(2) by (simp_all add: s_def)
  ultimately show thesis
    using ids by (intro that [of s details "w1\<lparr>last_run := s\<rparr>"]) (simp_all add: stuck_def)
qed

text \<open>Adopting: the broker is not asked again, no attempt is added, and the order takes the id the
  broker gave.\<close>

lemma recover_one_adopts:
  assumes "row_by o_id i (orders (db w)) = Some ord" "o_status ord \<notin> set TERMINAL"
    and "adoption_of i (db w) = Some a"
  obtains w' r where "recover_one E i w =
      (Inr \<lparr>ro_result = ''recovered'', ro_reason = ''adopt_existing_broker_order'', ro_status = ''SUBMITTED'',
         ro_broker_order_id = oa_broker_order_id a, ro_error_code = None\<rparr>, w')"
    "row_by o_id i (orders (db w')) = Some r" "o_status r = ''SUBMITTED''"
    "o_broker_order_id r = oa_broker_order_id a" "o_broker r = Some (oa_broker a)"
    "the_broker w' = the_broker w" "attempts (db w') = attempts (db w)" "saved w' = db w'"
proof -
  let ?r = "ord\<lparr>o_status := ''SUBMITTED'', o_broker_order_id := oa_broker_order_id a,
             o_broker := Some (oa_broker a), o_static_ip := oa_static_ip a, o_error_code := None,
             o_updated_at := clock w\<rparr>"
  obtain r' w' where run: "recover_one E i w = (r', w')" by fastforce
  have "r' = Inr \<lparr>ro_result = ''recovered'', ro_reason = ''adopt_existing_broker_order'', ro_status = ''SUBMITTED'',
         ro_broker_order_id = oa_broker_order_id a, ro_error_code = None\<rparr>
      \<and> row_by o_id i (orders (db w')) = Some ?r \<and> the_broker w' = the_broker w \<and>
      attempts (db w') = attempts (db w) \<and> saved w' = db w'"
    using run assms row_by_SomeD [OF assms(1)]
    by (auto simp: recover_one_def adopt_def refresh_order_def run_simps row_by_upd)
  then show thesis using run by (intro that [of w' ?r]) simp_all
qed

end
