(* ===== verification/Rotation.thy ===== *)
theory Rotation
  imports IpManager Whitelist
begin

text \<open>
  Rotating the address of a broker (\<^verbatim>\<open>app/ip_manager/rotation.py\<close>): allocate a new address, stop
  routing over the old one, wait for its orders to finish, then switch, or give up and put the old
  assignment back.

  The wait polls the database and sleeps between polls. \<open>others\<close> is what the other tasks do
  during one sleep; a sleep moves the clock by the polling interval, so the loop ends.
\<close>

definition TERMINAL_ORDER_STATUSES :: "string list" where
  "TERMINAL_ORDER_STATUSES = [''CANCELLED'', ''FAILED'', ''FILLED'', ''REJECTED'', ''EXPIRED'']"

subsection \<open>Settings of the rotation\<close>

definition config_int :: "string \<Rightarrow> int \<Rightarrow> ('x, int) op" where
  "config_int key dflt =
     bindA (one_of (config_rows key)) (\<lambda>item.
       case item of
         None \<Rightarrow> ret dflt
       | Some c \<Rightarrow>
           (case map_of (ci_value c) ''seconds'' of
              Some v \<Rightarrow> liftA (py_int v)
            | None \<Rightarrow>
                (case map_of (ci_value c) ''value'' of
                   Some v \<Rightarrow> liftA (py_int v)
                 | None \<Rightarrow> ret dflt)))"

definition on_timeout_policy :: "'x env \<Rightarrow> ('x, string) op" where
  "on_timeout_policy E =
     bindA (one_of (config_rows ''ip.rotation.on_timeout'')) (\<lambda>item.
       case item of
         None \<Rightarrow> ret ''ABORT''
       | Some c \<Rightarrow> ret (py_upper (py_str (str_of E) (dict_get (ci_value c) ''policy'' (JStr ''ABORT'')))))"

text \<open>The two private copies of the manager's checks.\<close>

definition rotation_cooldown_hours :: "'x env \<Rightarrow> ('x, int) op" where
  "rotation_cooldown_hours E = cooldown_hours E"

definition rotation_reuse_allowed :: "uuid \<Rightarrow> uuid \<Rightarrow> ('x, unit) op" where
  "rotation_reuse_allowed b i = assert_reuse_allowed b i"

subsection \<open>Waiting for the orders of an address\<close>

definition count_inflight :: "uuid \<Rightarrow> database \<Rightarrow> nat" where
  "count_inflight i d =
     length (filter (\<lambda>r. o_static_ip r = Some i \<and> o_status r \<notin> set TERMINAL_ORDER_STATUSES) (orders d))"

definition nap :: "('x world \<Rightarrow> 'x world) \<Rightarrow> int \<Rightarrow> 'x world \<Rightarrow> 'x world" where
  "nap others poll w = (others w)\<lparr>clock := clock w + max 1 poll\<rparr>"

function drain_loop ::
  "('x world \<Rightarrow> 'x world) \<Rightarrow> int \<Rightarrow> instant \<Rightarrow> uuid \<Rightarrow> 'x world \<Rightarrow> bool \<times> 'x world" where
  "drain_loop others poll deadline i w =
     (if count_inflight i (db w) = 0 then (True, w)
      else if clock w \<ge> deadline then (False, w)
      else drain_loop others poll deadline i (nap others poll w))"
  by pat_completeness auto

termination
  by (relation "measure (\<lambda>(others, poll, deadline, i, w). nat (deadline - clock w))") (auto simp: nap_def)

declare drain_loop.simps [simp del]

definition wait_drained :: "('x world \<Rightarrow> 'x world) \<Rightarrow> int \<Rightarrow> instant \<Rightarrow> uuid \<Rightarrow> ('x, bool) op" where
  "wait_drained others poll deadline i w =
     (case drain_loop others poll deadline i w of (b, w') \<Rightarrow> (Inr b, w'))"

subsection \<open>Giving up the new address\<close>

definition cleanup_new_ip :: "'x env \<Rightarrow> static_ip \<Rightarrow> ('x, unit) op" where
  "cleanup_new_ip E ip =
     seqA
       (tryA
          (seqA (if ip_instance_id ip \<noteq> None
                 then seqA (io_detach_ip (infra E) (ip_external_id ip))
                        (upd_ip (ip_id ip) (\<lambda>r. r\<lparr>ip_instance_id := None\<rparr>))
                 else ret ())
             (io_delete_ip (infra E) (ip_external_id ip)))
          (\<lambda>_. ret ()))
       (upd_ip (ip_id ip) (\<lambda>r. r\<lparr>ip_status := ''released''\<rparr>))"

text \<open>The \<^verbatim>\<open>finally\<close> clause when the new address was not activated.\<close>

definition final_cleanup :: "'x env \<Rightarrow> uuid \<Rightarrow> ('x, unit) op" where
  "final_cleanup E i =
     tryA
       (bindA (one_of (\<lambda>d. filter (\<lambda>a. as_ip a = i \<and> as_status a = ''active'') (assignments d))) (\<lambda>active.
          if active \<noteq> None then ret ()
          else
            bindA (one_of (ip_by_id i)) (\<lambda>r. case r of
                None \<Rightarrow> ret ()
              | Some ip \<Rightarrow>
                  if ip_status ip \<noteq> ''released'' then seqA (cleanup_new_ip E ip) commit else ret ())))
       (\<lambda>_. ret ())"

definition unless_activated :: "('x, 'a) op \<Rightarrow> ('x, unit) op \<Rightarrow> ('x, 'a) op" where
  "unless_activated m cleanup = tryA m (\<lambda>e. seqA cleanup (raise e))"

subsection \<open>The switch\<close>

record rotation_result =
  rr_broker :: uuid
  rr_old_ip_id :: uuid
  rr_new_ip_id :: uuid
  rr_old_ip :: string
  rr_new_ip :: string
  rr_old_assignment :: uuid
  rr_new_assignment :: uuid
  rr_force :: bool
  rr_drained :: bool
  rr_whitelist_ok :: bool

definition upd_assignment :: "uuid \<Rightarrow> (ip_assignment \<Rightarrow> ip_assignment) \<Rightarrow> ('x, unit) op" where
  "upd_assignment a f = upd_db (\<lambda>d. d\<lparr>assignments := upd_rows (\<lambda>r. as_id r = a) f (assignments d)\<rparr>)"

definition drain_timeout_error :: exn where
  "drain_timeout_error = AppError ''ROTATION_DRAIN_TIMEOUT'' 409"

definition refresh_ip :: "uuid \<Rightarrow> ('x, static_ip) op" where
  "refresh_ip i =
     bindA (ask_db (\<lambda>d. row_by ip_id i (static_ips d))) (\<lambda>r.
       case r of Some ip \<Rightarrow> ret ip | None \<Rightarrow> raise (PyError ''InvalidRequestError''))"

definition abort_rotation :: "'x env \<Rightarrow> static_ip \<Rightarrow> uuid \<Rightarrow> ('x, 'a) op" where
  "abort_rotation E new_ip a =
     seqA (cleanup_new_ip E new_ip)
     (seqA (upd_assignment a (\<lambda>r. r\<lparr>as_status := ''active''\<rparr>))
     (seqA commit (raise drain_timeout_error)))"

definition detach_old :: "'x env \<Rightarrow> static_ip \<Rightarrow> ('x, unit) op" where
  "detach_old E old_ip =
     seqA (if ip_status old_ip = ''attached''
           then seqA (tryA (io_detach_ip (infra E) (ip_external_id old_ip)) (\<lambda>_. ret ()))
                  (upd_ip (ip_id old_ip) (\<lambda>r. r\<lparr>ip_instance_id := None\<rparr>))
           else ret ())
       (upd_ip (ip_id old_ip) (\<lambda>r. r\<lparr>ip_status := ''released''\<rparr>))"

definition rotated_event :: "uuid \<Rightarrow> ip_assignment \<Rightarrow> static_ip \<Rightarrow> static_ip \<Rightarrow> bool \<Rightarrow> bool \<Rightarrow> bool \<Rightarrow> dict" where
  "rotated_event b a old_ip new_ip force drained whitelist_ok =
     [(''client_id'', JStr (uuid_text (as_client_id a))), (''broker_account_id'', JStr (uuid_text b)),
      (''old_ip_id'', JStr (uuid_text (ip_id old_ip))), (''new_ip_id'', JStr (uuid_text (ip_id new_ip))),
      (''old_ip'', JStr (ip_address old_ip)), (''new_ip'', JStr (ip_address new_ip)),
      (''force'', JBool force), (''drained'', JBool drained), (''whitelist_ok'', JBool whitelist_ok)]"

definition switch_over ::
  "'x env \<Rightarrow> uuid \<Rightarrow> ip_assignment \<Rightarrow> static_ip \<Rightarrow> static_ip \<Rightarrow> bool \<Rightarrow> bool \<Rightarrow> bool \<Rightarrow> ('x, rotation_result) op" where
  "switch_over E b a old_ip new_ip force drained whitelist_ok =
     bindA now_utc (\<lambda>now. bindA (rotation_cooldown_hours E) (\<lambda>cooldown.
     seqA (upd_assignment (as_id a) (\<lambda>r. r\<lparr>as_status := ''released'', as_released_at := Some now\<rparr>))
     (seqA (upd_db (close_usages b (ip_id old_ip) now (now + hours cooldown)))
     (bindA (refresh_ip (ip_id old_ip)) (\<lambda>old.
     seqA (detach_old E old)
     (bindA (add_assignment E (as_client_id a) b (ip_id new_ip)) (\<lambda>new_assignment.
     seqA (add_usage E b (ip_id new_ip))
     (seqA (enqueue_outbox E ''ip.rotated'' ''ip''
              (rotated_event b a old_ip new_ip force drained whitelist_ok))
     (seqA commit
       (ret \<lparr>rr_broker = b, rr_old_ip_id = ip_id old_ip, rr_new_ip_id = ip_id new_ip,
             rr_old_ip = ip_address old_ip, rr_new_ip = ip_address new_ip, rr_old_assignment = as_id a,
             rr_new_assignment = as_id new_assignment, rr_force = force, rr_drained = drained,
             rr_whitelist_ok = whitelist_ok\<rparr>))))))))))"

subsection \<open>Rotating\<close>

text \<open>The new address on the instance of the old one, when that still exists.\<close>

definition attach_like_old :: "'x env \<Rightarrow> uuid option \<Rightarrow> static_ip \<Rightarrow> ('x, static_ip) op" where
  "attach_like_old E old_instance new_ip =
     (case old_instance of
        None \<Rightarrow> ret new_ip
      | Some i \<Rightarrow>
          bindA (one_of (instance_by_id i)) (\<lambda>r. case r of
              Some inst \<Rightarrow> if in_status inst \<noteq> ''destroyed'' then attach E (ip_id new_ip) (in_id inst) else ret new_ip
            | None \<Rightarrow> ret new_ip))"

text \<open>From the reuse check to the reload of the old assignment: the new address, whether the whitelist
  was read, and the old assignment.\<close>

definition prepare_new ::
  "'x env \<Rightarrow> uuid \<Rightarrow> ip_assignment \<Rightarrow> static_ip \<Rightarrow> static_ip \<Rightarrow> ('x, static_ip \<times> bool \<times> ip_assignment) op" where
  "prepare_new E b a old_ip new_ip0 =
     seqA (rotation_reuse_allowed b (ip_id new_ip0))
     (bindA (attach_like_old E (ip_instance_id old_ip) new_ip0) (\<lambda>new_ip.
      bindA (tryA (bindA (sync_whitelist E b None) (\<lambda>_. ret True)) (\<lambda>_. ret False)) (\<lambda>whitelist_ok.
      bindA (one_of (\<lambda>d. filter (\<lambda>r. as_id r = as_id a) (assignments d))) (\<lambda>again.
        case again of
          None \<Rightarrow> raise (PyError ''NoResultFound'')
        | Some old \<Rightarrow> ret (new_ip, whitelist_ok, old)))))"

text \<open>The old assignment stops taking orders; then the wait, and the switch or the retreat.\<close>

definition drain_and_switch ::
  "'x env \<Rightarrow> ('x world \<Rightarrow> 'x world) \<Rightarrow> int \<Rightarrow> uuid \<Rightarrow> bool \<Rightarrow> static_ip \<Rightarrow> static_ip \<Rightarrow> bool \<Rightarrow> ip_assignment \<Rightarrow>
   ('x, rotation_result) op" where
  "drain_and_switch E others poll b force old_ip new_ip whitelist_ok old =
     seqA (upd_assignment (as_id old) (\<lambda>r. r\<lparr>as_status := ''draining''\<rparr>))
     (seqA commit
     (bindA (config_int ''ip.rotation.drain_timeout_seconds'' 30) (\<lambda>drain_timeout.
      bindA (on_timeout_policy E) (\<lambda>on_timeout.
      bindA now_utc (\<lambda>now.
      bindA (wait_drained others poll (now + max 0 drain_timeout * 1000000) (ip_id old_ip)) (\<lambda>drained.
        if \<not> drained \<and> \<not> force \<and> on_timeout \<noteq> ''FORCE''
        then abort_rotation E new_ip (as_id old)
        else switch_over E b old old_ip new_ip force drained whitelist_ok))))))"

definition after_allocation ::
  "'x env \<Rightarrow> ('x world \<Rightarrow> 'x world) \<Rightarrow> int \<Rightarrow> uuid \<Rightarrow> bool \<Rightarrow> ip_assignment \<Rightarrow> static_ip \<Rightarrow> static_ip \<Rightarrow>
   ('x, rotation_result) op" where
  "after_allocation E others poll b force a old_ip new_ip0 =
     bindA (prepare_new E b a old_ip new_ip0) (\<lambda>(new_ip, whitelist_ok, old).
       drain_and_switch E others poll b force old_ip new_ip whitelist_ok old)"

definition rotate_body ::
  "'x env \<Rightarrow> ('x world \<Rightarrow> 'x world) \<Rightarrow> int \<Rightarrow> uuid \<Rightarrow> bool \<Rightarrow> ('x, rotation_result) op" where
  "rotate_body E others poll b force =
     bindA (one_of (broker_by_id b)) (\<lambda>r. bindA (found r) (\<lambda>broker.
     bindA (ask_db (\<lambda>d. first_row (active_ips b d))) (\<lambda>row. case row of
         None \<Rightarrow> raise (AppError ''NO_ACTIVE_ASSIGNMENT'' 409)
       | Some (a, old_ip) \<Rightarrow>
           bindA (allocate_ip E (ip_region old_ip)) (\<lambda>new_ip.
             unless_activated (after_allocation E others poll b force a old_ip new_ip)
               (final_cleanup E (ip_id new_ip))))))"

definition rotate ::
  "'x env \<Rightarrow> ('x world \<Rightarrow> 'x world) \<Rightarrow> int \<Rightarrow> uuid \<Rightarrow> bool \<Rightarrow> ('x, rotation_result) op" where
  "rotate E others poll b force = with_lock E (broker_ip_lock b) 60 (rotate_body E others poll b force)"

subsection \<open>The wait\<close>

lemma drain_loop_result:
  assumes "drain_loop others poll deadline i w = (b, w')"
  shows "if b then count_inflight i (db w') = 0 else count_inflight i (db w') \<noteq> 0 \<and> deadline \<le> clock w'"
  using assms
proof (induction others poll deadline i w arbitrary: b w' rule: drain_loop.induct)
  case (1 others poll deadline i w)
  show ?case
  proof (cases "count_inflight i (db w) = 0 \<or> clock w \<ge> deadline")
    case True
    then show ?thesis using 1(2) by (subst (asm) drain_loop.simps) (auto split: if_splits)
  next
    case False
    then have "drain_loop others poll deadline i (nap others poll w) = (b, w')"
      using 1(2) by (subst (asm) drain_loop.simps) auto
    from 1(1) [OF _ _ this] False show ?thesis by simp
  qed
qed

lemma drain_loop_invariant:
  assumes "drain_loop others poll deadline i w = (b, w')" "P w" "\<And>v. P v \<Longrightarrow> P (nap others poll v)"
  shows "P w'"
  using assms
proof (induction others poll deadline i w arbitrary: b w' rule: drain_loop.induct)
  case (1 others poll deadline i w)
  show ?case
  proof (cases "count_inflight i (db w) = 0 \<or> clock w \<ge> deadline")
    case True
    then show ?thesis using 1(2,3) by (subst (asm) drain_loop.simps) (auto split: if_splits)
  next
    case False
    then have "drain_loop others poll deadline i (nap others poll w) = (b, w')"
      using 1(2) by (subst (asm) drain_loop.simps) auto
    from 1(1) [OF _ _ this 1(4) [OF 1(3)] 1(4)] False show ?thesis by simp
  qed
qed

text \<open>The wait overshoots its deadline by less than one polling interval.\<close>

lemma drain_loop_bound:
  assumes "drain_loop others poll deadline i w = (b, w')"
  shows "clock w \<le> clock w' \<and> clock w' < max (clock w + 1) (deadline + max 1 poll)"
  using assms
proof (induction others poll deadline i w arbitrary: b w' rule: drain_loop.induct)
  case (1 others poll deadline i w)
  show ?case
  proof (cases "count_inflight i (db w) = 0 \<or> clock w \<ge> deadline")
    case True
    then show ?thesis using 1(2) by (subst (asm) drain_loop.simps) (auto split: if_splits)
  next
    case False
    then have "drain_loop others poll deadline i (nap others poll w) = (b, w')"
      using 1(2) by (subst (asm) drain_loop.simps) auto
    from 1(1) [OF _ _ this] False show ?thesis by (auto simp: nap_def)
  qed
qed

lemma wait_drained_run:
  "wait_drained others poll deadline i w = (r, w') \<longleftrightarrow>
   (\<exists>b. r = Inr b \<and> drain_loop others poll deadline i w = (b, w'))"
  by (auto simp: wait_drained_def split: prod.splits)

subsection \<open>The switch, facts\<close>

lemma upd_assignment_run [run_simps]:
  "upd_assignment a f w = (Inr (), w\<lparr>db := (db w)\<lparr>assignments := upd_rows (\<lambda>r. as_id r = a) f (assignments (db w))\<rparr>\<rparr>)"
  by (simp add: upd_assignment_def run_simps)

lemma row_by_upd_self:
  assumes "\<And>r. key r = k \<Longrightarrow> key (f r) = k"
  shows "row_by key k (upd_rows (\<lambda>r. key r = k) f rows) = map_option f (row_by key k rows)"
  using assms by (induction rows) auto

context infra_env begin

lemma detach_old_run:
  "\<exists>v. detach_old E old w = (Inr (), v) \<and> assignments (db v) = assignments (db w) \<and> orders (db v) = orders (db w) \<and>
     outbox (db v) = outbox (db w) \<and> usages (db v) = usages (db w) \<and> clock v = clock w \<and>
     (\<forall>r. row_by ip_id (ip_id old) (static_ips (db w)) = Some r \<longrightarrow>
        (\<exists>r'. row_by ip_id (ip_id old) (static_ips (db v)) = Some r' \<and> ip_status r' = ''released''))"
proof -
  obtain r1 v1 where det: "io_detach_ip (infra E) (ip_external_id old) w = (r1, v1)" by fastforce
  have v1: "db v1 = db w" "clock v1 = clock w"
    using framesD [OF detach_ip_core det] by (simp_all add: core_def)
  show ?thesis
    by (cases "ip_status old = ''attached''"; cases r1)
       (auto simp: detach_old_def run_simps det v1 row_by_upd_self)
qed

lemma switch_over_Inr:
  assumes "switch_over E b a old_ip new_ip force drained wl v = (Inr res, w')"
  obtains n now where "assignments (db w') = upd_rows (\<lambda>r. as_id r = as_id a)
        (\<lambda>r. r\<lparr>as_status := ''released'', as_released_at := Some now\<rparr>) (assignments (db v)) @ [n]"
    "as_broker n = b" "as_ip n = ip_id new_ip" "as_status n = ''active''" "as_id n = rr_new_assignment res"
    "rr_new_ip_id res = ip_id new_ip" "rr_old_ip_id res = ip_id old_ip" "rr_drained res = drained"
    "orders (db w') = orders (db v)" "saved w' = db w'"
    "\<exists>r. row_by ip_id (ip_id old_ip) (static_ips (db w')) = Some r \<and> ip_status r = ''released''"
    "\<exists>ev \<in> set (outbox (db w')). ob_event_type ev = ''ip.rotated'' \<and> ob_status ev = ''pending'' \<and>
       ob_payload ev = rotated_event b a old_ip new_ip force drained wl"
proof -
  obtain cd where cd: "rotation_cooldown_hours E v = (Inr cd, v)"
    using assms unfolding switch_over_def rotation_cooldown_hours_def
    by (auto simp: bindA_Inr now_run dest: cooldown_state)
  define v1 where "v1 = v\<lparr>db := close_usages b (ip_id old_ip) (clock v) (clock v + hours cd)
     ((db v)\<lparr>assignments := upd_rows (\<lambda>r. as_id r = as_id a)
        (\<lambda>r. r\<lparr>as_status := ''released'', as_released_at := Some (clock v)\<rparr>) (assignments (db v))\<rparr>)\<rparr>"
  obtain old where old: "row_by ip_id (ip_id old_ip) (static_ips (db v)) = Some old"
    using assms by (auto simp: switch_over_def run_simps cd refresh_ip_def close_usages_def split: option.splits)
  have id: "ip_id old = ip_id old_ip" using row_by_SomeD [OF old] by simp
  obtain v2 where v2: "detach_old E old v1 = (Inr (), v2)" "assignments (db v2) = assignments (db v1)"
      "orders (db v2) = orders (db v1)" "outbox (db v2) = outbox (db v1)"
      "\<exists>r'. row_by ip_id (ip_id old_ip) (static_ips (db v2)) = Some r' \<and> ip_status r' = ''released''"
    using detach_old_run [of old v1] old id by (auto simp: v1_def close_usages_def)
  have run: "switch_over E b a old_ip new_ip force drained wl v =
    bindA (add_assignment E (as_client_id a) b (ip_id new_ip)) (\<lambda>new_assignment.
     seqA (add_usage E b (ip_id new_ip))
     (seqA (enqueue_outbox E ''ip.rotated'' ''ip''
              (rotated_event b a old_ip new_ip force drained wl))
     (seqA commit
       (ret \<lparr>rr_broker = b, rr_old_ip_id = ip_id old_ip, rr_new_ip_id = ip_id new_ip,
             rr_old_ip = ip_address old_ip, rr_new_ip = ip_address new_ip, rr_old_assignment = as_id a,
             rr_new_assignment = as_id new_assignment, rr_force = force, rr_drained = drained,
             rr_whitelist_ok = wl\<rparr>)))) v2"
    using v2(1) old
    by (simp add: switch_over_def run_simps cd refresh_ip_def close_usages_def v1_def)
  show thesis
    by (rule that [of "clock v" "new_assignment E v2 (as_client_id a) b (ip_id new_ip)"])
       (use assms v2 in \<open>auto simp: run run_simps new_assignment_def v1_def close_usages_def\<close>)
qed

end

subsection \<open>A rotation that returns\<close>

definition rotation_view :: "database \<Rightarrow> ip_assignment list \<times> config_item list" where
  "rotation_view d = (assignments d, config_items d)"

lemma rotation_view_simps [simp]:
  "rotation_view (d\<lparr>static_ips := x\<rparr>) = rotation_view d" "rotation_view (d\<lparr>outbox := y\<rparr>) = rotation_view d"
  "rotation_view (d\<lparr>whitelists := z\<rparr>) = rotation_view d" "rotation_view (d\<lparr>findings := t\<rparr>) = rotation_view d"
  by (simp_all add: rotation_view_def)

lemma active_assignments_upd:
  assumes "set (active_assignments b d) \<subseteq> {r. p r}" "\<And>r. as_status (f r) \<noteq> ''active''"
  shows "active_assignments b (d\<lparr>assignments := upd_rows p f (assignments d)\<rparr>) = []"
  using assms by (auto simp: active_assignments_def upd_rows_def filter_empty_conv split: if_splits)

lemma config_int_state: "config_int k n w = (r, w') \<Longrightarrow> w' = w"
  by (auto simp: config_int_def run_simps split: sum.splits option.splits)

lemma policy_state: "on_timeout_policy E w = (r, w') \<Longrightarrow> w' = w"
  by (auto simp: on_timeout_policy_def run_simps split: sum.splits option.splits)

lemma abort_not_Inr: "abort_rotation E ip a w \<noteq> (Inr r, w')"
  by (auto simp: abort_rotation_def seqA_Inr)

lemma with_lock_Inr:
  assumes "with_lock E k ttl body w = (Inr x, w')"
  obtains w1 w2 where "body w1 = (Inr x, w2)" "store w1 = store w" "store w' = store w2"
proof -
  obtain t w0 u w1 w2 v where f: "fresh_uuid E w = (Inr t, w0)"
    and acq: "acquire_lock E k ttl (uuid_hex t) w0 = (Inr u, w1)"
    and body: "body w1 = (Inr x, w2)" and rel: "release_lock E k (uuid_hex t) w2 = (Inr v, w')"
    using assms by (auto simp: with_lock_def bindA_Inr Let_def finallyA_Inr split: if_splits)
  have "store w1 = store w"
    using framesD [OF frames_fresh_uuid f, of store] framesD [OF frames_acquire_lock acq, of store] by (simp add: store_def)
  moreover have "store w' = store w2" using framesD [OF frames_release_lock rel, of store] by (simp add: store_def)
  ultimately show thesis using body that by blast
qed

text \<open>The state in which the wait starts.\<close>

definition draining :: "uuid \<Rightarrow> 'x world \<Rightarrow> 'x world" where
  "draining a v =
     (let d = (db v)\<lparr>assignments := upd_rows (\<lambda>r. as_id r = a) (\<lambda>r. r\<lparr>as_status := ''draining''\<rparr>) (assignments (db v))\<rparr>
      in v\<lparr>db := d, saved := d\<rparr>)"

lemma draining_run:
  "seqA (upd_assignment a (\<lambda>r. r\<lparr>as_status := ''draining''\<rparr>)) (seqA commit k) v = k (draining a v)"
  by (simp add: run_simps draining_def Let_def)

lemma drain_and_switch_Inr:
  assumes "drain_and_switch E others poll b force old_ip new_ip wl old v = (Inr res, w')"
  obtains pol deadline drained u where
    "on_timeout_policy E (draining (as_id old) v) = (Inr pol, draining (as_id old) v)"
    "drain_loop others poll deadline (ip_id old_ip) (draining (as_id old) v) = (drained, u)"
    "drained \<or> force \<or> pol = ''FORCE''" "switch_over E b old old_ip new_ip force drained wl u = (Inr res, w')"
proof -
  let ?v = "draining (as_id old) v"
  obtain n v1 pol v2 t v3 drained u where n: "config_int ''ip.rotation.drain_timeout_seconds'' 30 ?v = (Inr n, v1)"
    and pol: "on_timeout_policy E v1 = (Inr pol, v2)" and t: "now_utc v2 = (Inr t, v3)"
    and wait: "wait_drained others poll (t + max 0 n * 1000000) (ip_id old_ip) v3 = (Inr drained, u)"
    and r3: "(if \<not> drained \<and> \<not> force \<and> pol \<noteq> ''FORCE''
        then abort_rotation E new_ip (as_id old)
        else switch_over E b old old_ip new_ip force drained wl) u = (Inr res, w')"
    using assms unfolding drain_and_switch_def draining_run bindA_Inr by (elim exE conjE) (rule that)
  have [simp]: "v1 = ?v" "v2 = ?v" "v3 = ?v"
    using config_int_state [OF n] policy_state [OF pol] t by (simp_all add: now_run)
  have "drained \<or> force \<or> pol = ''FORCE''" using r3 by (cases "drained \<or> force \<or> pol = ''FORCE''") (auto simp: abort_not_Inr)
  with pol wait r3 show thesis
    by (intro that [of pol "t + max 0 n * 1000000" drained u]) (auto simp: wait_drained_run)
qed

context infra_env begin

lemma keeps_view_allocate: "keeps (both (\<lambda>d. rotation_view d = V)) (allocate_ip E region)"
proof -
  have "keeps (both (\<lambda>d. rotation_view d = V)) (allocate_rounds E region n)" for n
  proof (induction n)
    case 0
    show ?case by (simp add: keeps_raise)
  next
    case (Suc n)
    have infra: "keeps (both (\<lambda>d. rotation_view d = V)) (map_infra_error (io_create_ip (infra E) region))"
      by (intro keeps_both_frames frames_map_infra infra_store create_ip_core)
    show ?case
      unfolding allocate_rounds.simps by (intro keeps_intros infra Suc keeps_both_upd; simp)
  qed
  then show ?thesis by (simp add: allocate_ip_def)
qed

lemma keeps_view_attach: "keeps (both (\<lambda>d. rotation_view d = V)) (attach E i j)"
proof -
  have infra: "keeps (both (\<lambda>d. rotation_view d = V)) (io_attach_ip (infra E) e f)" for e f
    by (intro keeps_infra attach_ip_core)
  show ?thesis
    unfolding attach_def get_ip_def get_instance_def upd_ip_def
    by (intro keeps_intros infra keeps_both_upd; simp)
qed

lemma keeps_view_prepare: "keeps (both (\<lambda>d. rotation_view d = V)) (prepare_new E b a old_ip new_ip0)"
  unfolding prepare_new_def attach_like_old_def rotation_reuse_allowed_def assert_reuse_allowed_def
  by (intro keeps_intros keeps_view_attach keeps_both_sync; simp)

lemma prepare_new_old:
  "prepare_new E b a old_ip new_ip0 w = (Inr (new_ip, wl, old), w') \<Longrightarrow> as_id old = as_id a \<and> old \<in> set (assignments (db w'))"
  by (auto simp: prepare_new_def bindA_Inr seqA_Inr one_of_run scalar_one_or_none_Inr filter_eq_Cons_iff
      split: option.splits)

text \<open>After a rotation that returns the broker has one active assignment, of the new address.\<close>

lemma rotate_success:
  assumes run: "rotate E others poll b force w = (Inr res, w')"
    and one: "length (active_assignments b (db w)) \<le> 1" and saved: "assignments (saved w) = assignments (db w)"
      "config_items (saved w) = config_items (db w)"
    and others: "\<And>v. filter (\<lambda>a. as_broker a = b) (assignments (db (others v))) = filter (\<lambda>a. as_broker a = b) (assignments (db v))"
  shows "(\<exists>n. active_assignments b (db w') = [n] \<and> as_ip n = rr_new_ip_id res \<and> as_id n = rr_new_assignment res) \<and>
    saved w' = db w' \<and> (rr_drained res \<longrightarrow> count_inflight (rr_old_ip_id res) (db w') = 0) \<and>
    (\<exists>r. row_by ip_id (rr_old_ip_id res) (static_ips (db w')) = Some r \<and> ip_status r = ''released'') \<and>
    (rr_drained res \<or> force \<or> (\<exists>v. config_items (db v) = config_items (db w) \<and> on_timeout_policy E v = (Inr ''FORCE'', v)))"
proof -
  let ?V = "rotation_view (db w)"
  let ?I = "both (\<lambda>d. rotation_view d = ?V)"
  obtain w1 w2 where body: "rotate_body E others poll b force w1 = (Inr res, w2)"
    and st: "store w1 = store w" "store w' = store w2"
    by (rule with_lock_Inr [OF run [unfolded rotate_def]])
  have i1: "?I w1" using st saved by (simp add: both_def store_def rotation_view_def)
  obtain a old_ip new_ip0 w3 where first: "first_row (active_ips b (db w1)) = Some (a, old_ip)"
    and alloc: "allocate_ip E (ip_region old_ip) w1 = (Inr new_ip0, w3)"
    and rest: "after_allocation E others poll b force a old_ip new_ip0 w3 = (Inr res, w2)"
    using body
    by (auto simp: rotate_body_def bindA_Inr one_of_run found_def ask_db_run unless_activated_def tryA_Inr seqA_Inr
        split: option.splits)
  have i3: "?I w3" by (rule keepsD [OF keeps_view_allocate i1 alloc])
  obtain new_ip wl old w4 where prep: "prepare_new E b a old_ip new_ip0 w3 = (Inr (new_ip, wl, old), w4)"
    and go: "drain_and_switch E others poll b force old_ip new_ip wl old w4 = (Inr res, w2)"
    using rest unfolding after_allocation_def bindA_Inr by auto
  have i4: "?I w4" by (rule keepsD [OF keeps_view_prepare i3 prep])
  have old: "as_id old = as_id a" using prepare_new_old [OF prep] by simp
  obtain pol deadline drained u where
    pol: "on_timeout_policy E (draining (as_id old) w4) = (Inr pol, draining (as_id old) w4)"
    and wait: "drain_loop others poll deadline (ip_id old_ip) (draining (as_id old) w4) = (drained, u)"
    and forced: "drained \<or> force \<or> pol = ''FORCE''"
    and switch: "switch_over E b old old_ip new_ip force drained wl u = (Inr res, w2)"
    by (rule drain_and_switch_Inr [OF go])
  have view: "assignments (db w4) = assignments (db w)" "config_items (db w4) = config_items (db w)"
    using bothD(1) [OF i4] by (simp_all add: rotation_view_def)
  have "(a, old_ip) \<in> set (active_ips b (db w1))" using first by (simp add: first_row_def split: list.splits)
  then have "a \<in> set (active_assignments b (db w))"
    using st(1) by (auto simp: active_ips_def store_def active_assignments_def)
  then have "active_assignments b (db w) = [a]"
    using one by (cases "active_assignments b (db w)") auto
  then have "set (active_assignments b (db w4)) \<subseteq> {r. as_id r = as_id old}"
    using view old by (simp add: active_assignments_def)
  then have "active_assignments b (db (draining (as_id old) w4)) = []"
    by (simp add: draining_def Let_def active_assignments_upd)
  moreover have nap: "active_assignments b (db (nap others poll v)) = active_assignments b (db v)" for v
    using arg_cong [OF others [of v], of "filter (\<lambda>a. as_status a = ''active'')"]
    by (simp add: active_assignments_def nap_def conj_commute)
  ultimately have idle: "active_assignments b (db u) = []"
    by (intro drain_loop_invariant [OF wait, of "\<lambda>v. active_assignments b (db v) = []"]) simp_all
  obtain n now where sw: "assignments (db w2) = upd_rows (\<lambda>r. as_id r = as_id old)
        (\<lambda>r. r\<lparr>as_status := ''released'', as_released_at := Some now\<rparr>) (assignments (db u)) @ [n]"
    "as_broker n = b" "as_ip n = ip_id new_ip" "as_status n = ''active''" "as_id n = rr_new_assignment res"
    "rr_new_ip_id res = ip_id new_ip" "rr_old_ip_id res = ip_id old_ip" "rr_drained res = drained"
    "orders (db w2) = orders (db u)" "saved w2 = db w2"
    "\<exists>r. row_by ip_id (ip_id old_ip) (static_ips (db w2)) = Some r \<and> ip_status r = ''released''"
    by (rule switch_over_Inr [OF switch])
  have "active_assignments b (db w2) = [n]"
    using idle sw(1,2,4) by (auto simp: active_assignments_def upd_rows_def filter_empty_conv)
  moreover have "drained \<longrightarrow> count_inflight (ip_id old_ip) (db w2) = 0"
    using drain_loop_result [OF wait] sw(9) by (auto simp: count_inflight_def)
  moreover have "db w' = db w2" "saved w' = saved w2" using st(2) by (simp_all add: store_def)
  moreover have "config_items (db (draining (as_id old) w4)) = config_items (db w)"
    using view(2) by (simp add: draining_def Let_def)
  ultimately show ?thesis
    using sw forced pol by (intro conjI) auto
qed

end

text \<open>Giving up: the new address ends released, and the old assignment is active again.\<close>

context infra_env begin

lemma cleanup_new_ip_run:
  obtains v' where "cleanup_new_ip E ip v = (Inr (), v')" "assignments (db v') = assignments (db v)"
    "orders (db v') = orders (db v)" "clock v' = clock v"
    "\<forall>r \<in> set (static_ips (db v')). ip_id r = ip_id ip \<longrightarrow> ip_status r = ''released''"
proof -
  obtain r1 v1 where det: "io_detach_ip (infra E) (ip_external_id ip) v = (r1, v1)" by fastforce
  have v1: "db v1 = db v" "clock v1 = clock v"
    using framesD [OF detach_ip_core det] by (simp_all add: core_def)
  define u where "u = (if ip_instance_id ip = None then v else if isl r1 then v1 else
     v1\<lparr>db := (db v1)\<lparr>static_ips := upd_rows (\<lambda>r. ip_id r = ip_id ip) (\<lambda>r. r\<lparr>ip_instance_id := None\<rparr>) (static_ips (db v1))\<rparr>\<rparr>)"
  obtain r2 v2 where del: "io_delete_ip (infra E) (ip_external_id ip) u = (r2, v2)" by fastforce
  have v2: "db v2 = db u" "clock v2 = clock u"
    using framesD [OF delete_ip_core del] by (simp_all add: core_def)
  define x where "x = (if ip_instance_id ip \<noteq> None \<and> isl r1 then v1 else v2)"
  have run: "cleanup_new_ip E ip v = (Inr (), x\<lparr>db := (db x)\<lparr>static_ips :=
      upd_rows (\<lambda>r. ip_id r = ip_id ip) (\<lambda>r. r\<lparr>ip_status := ''released''\<rparr>) (static_ips (db x))\<rparr>\<rparr>)"
    using det del by (cases r1; cases r2) (auto simp: cleanup_new_ip_def run_simps u_def x_def)
  show thesis
    by (rule that [OF run]) (auto simp: x_def v1 v2 u_def set_upd_rows)
qed

lemma abort_rotation_run:
  obtains v' where "abort_rotation E ip a v = (Inl drain_timeout_error, v')" "saved v' = db v'"
    "assignments (db v') = upd_rows (\<lambda>r. as_id r = a) (\<lambda>r. r\<lparr>as_status := ''active''\<rparr>) (assignments (db v))"
    "\<forall>r \<in> set (static_ips (db v')). ip_id r = ip_id ip \<longrightarrow> ip_status r = ''released''"
proof -
  obtain v1 where v1: "cleanup_new_ip E ip v = (Inr (), v1)" "assignments (db v1) = assignments (db v)"
    "\<forall>r \<in> set (static_ips (db v1)). ip_id r = ip_id ip \<longrightarrow> ip_status r = ''released''"
    by (rule cleanup_new_ip_run [of ip v])
  show thesis
    by (rule that [of "v1\<lparr>db := (db v1)\<lparr>assignments := upd_rows (\<lambda>r. as_id r = a) (\<lambda>r. r\<lparr>as_status := ''active''\<rparr>) (assignments (db v1))\<rparr>,
          saved := (db v1)\<lparr>assignments := upd_rows (\<lambda>r. as_id r = a) (\<lambda>r. r\<lparr>as_status := ''active''\<rparr>) (assignments (db v1))\<rparr>\<rparr>"])
       (simp_all add: abort_rotation_def run_simps v1)
qed

end

text \<open>An active assignment that was drained and put back is what it was.\<close>

lemma drained_and_back:
  assumes "\<forall>r \<in> set rows. as_id r = a \<longrightarrow> as_status r = ''active''"
  shows "upd_rows (\<lambda>r. as_id r = a) (\<lambda>r. r\<lparr>as_status := ''active''\<rparr>)
     (upd_rows (\<lambda>r. as_id r = a) (\<lambda>r. r\<lparr>as_status := ''draining''\<rparr>) rows) = rows"
  using assms by (induction rows) auto

text \<open>Only an unforced wait that failed raises the timeout, and it leaves the assignments as they were.\<close>

lemma py_int_Inl: "py_int j = Inl e \<Longrightarrow> \<exists>s. e = PyError s"
  by (cases j) (auto split: option.splits)

lemma config_int_Inl: "config_int k n w = (Inl e, w') \<Longrightarrow> e \<noteq> drain_timeout_error"
  by (auto simp: config_int_def run_simps drain_timeout_error_def scalar_one_or_none_Inl
      split: sum.splits option.splits dest!: py_int_Inl sym [of "Inl _"])

lemma policy_Inl: "on_timeout_policy E w = (Inl e, w') \<Longrightarrow> e \<noteq> drain_timeout_error"
  by (auto simp: on_timeout_policy_def run_simps drain_timeout_error_def scalar_one_or_none_Inl
      split: sum.splits option.splits)

lemma cooldown_Inl: "cooldown_hours E w = (Inl e, w') \<Longrightarrow> e \<noteq> drain_timeout_error"
  by (auto simp: cooldown_hours_def run_simps drain_timeout_error_def scalar_one_or_none_Inl
      split: sum.splits option.splits dest!: py_int_Inl sym [of "Inl _"])

context infra_env begin

lemma switch_over_Inl: "switch_over E b a old_ip new_ip force drained wl v = (Inl e, w') \<Longrightarrow> e \<noteq> drain_timeout_error"
proof -
  assume run: "switch_over E b a old_ip new_ip force drained wl v = (Inl e, w')"
  obtain r v0 where cd: "rotation_cooldown_hours E v = (r, v0)" by fastforce
  then have v0: "v0 = v" by (simp add: rotation_cooldown_hours_def cooldown_state)
  show ?thesis
  proof (cases r)
    case (Inl e')
    then have "e = e'" using run cd by (simp add: switch_over_def run_simps)
    then show ?thesis using cd Inl cooldown_Inl by (simp add: rotation_cooldown_hours_def)
  next
    case (Inr n)
    let ?v1 = "v\<lparr>db := close_usages b (ip_id old_ip) (clock v) (clock v + hours n)
     ((db v)\<lparr>assignments := upd_rows (\<lambda>r. as_id r = as_id a)
        (\<lambda>r. r\<lparr>as_status := ''released'', as_released_at := Some (clock v)\<rparr>) (assignments (db v))\<rparr>)\<rparr>"
    show ?thesis
    proof (cases "row_by ip_id (ip_id old_ip) (static_ips (db v))")
      case None
      then show ?thesis using run cd v0 Inr
        by (auto simp: switch_over_def run_simps refresh_ip_def close_usages_def drain_timeout_error_def)
    next
      case (Some old)
      obtain v2 where "detach_old E old ?v1 = (Inr (), v2)" using detach_old_run [of old ?v1] by blast
      then show ?thesis using run cd v0 Inr Some
        by (simp add: switch_over_def run_simps refresh_ip_def close_usages_def)
    qed
  qed
qed

lemma timeout_restores:
  assumes run: "drain_and_switch E others poll b force old_ip new_ip wl old v = (Inl drain_timeout_error, w')"
    and others: "\<And>v. assignments (db (others v)) = assignments (db v)"
    and act: "\<forall>r \<in> set (assignments (db v)). as_id r = as_id old \<longrightarrow> as_status r = ''active''"
  shows "\<not> force \<and> assignments (db w') = assignments (db v) \<and> saved w' = db w' \<and>
    (\<forall>r \<in> set (static_ips (db w')). ip_id r = ip_id new_ip \<longrightarrow> ip_status r = ''released'')"
proof -
  let ?v = "draining (as_id old) v"
  have run1: "bindA (config_int ''ip.rotation.drain_timeout_seconds'' 30) (\<lambda>n.
      bindA (on_timeout_policy E) (\<lambda>pol. bindA now_utc (\<lambda>t.
      bindA (wait_drained others poll (t + max 0 n * 1000000) (ip_id old_ip)) (\<lambda>drained.
        if \<not> drained \<and> \<not> force \<and> pol \<noteq> ''FORCE'' then abort_rotation E new_ip (as_id old)
        else switch_over E b old old_ip new_ip force drained wl)))) ?v = (Inl drain_timeout_error, w')"
    using run unfolding drain_and_switch_def draining_run .
  obtain rn vn where n: "config_int ''ip.rotation.drain_timeout_seconds'' 30 ?v = (rn, vn)" by fastforce
  with run1 config_int_state [OF n] obtain n where n': "config_int ''ip.rotation.drain_timeout_seconds'' 30 ?v = (Inr n, ?v)"
    by (cases rn) (auto simp: bind_run dest: config_int_Inl)
  obtain rp vp where p: "on_timeout_policy E ?v = (rp, vp)" by fastforce
  with run1 n' policy_state [OF p] obtain pol where p': "on_timeout_policy E ?v = (Inr pol, ?v)"
    by (cases rp) (auto simp: bind_run dest: policy_Inl)
  obtain drained u where wait: "drain_loop others poll (clock ?v + max 0 n * 1000000) (ip_id old_ip) ?v = (drained, u)"
    by fastforce
  have last: "(if \<not> drained \<and> \<not> force \<and> pol \<noteq> ''FORCE'' then abort_rotation E new_ip (as_id old)
        else switch_over E b old old_ip new_ip force drained wl) u = (Inl drain_timeout_error, w')"
    using run1 n' p' wait by (simp add: bindA_run_Inr now_run wait_drained_def)
  have no_switch: "switch_over E b old old_ip new_ip force drained wl u \<noteq> (Inl drain_timeout_error, w')"
    using switch_over_Inl by blast
  have abort: "\<not> drained \<and> \<not> force \<and> pol \<noteq> ''FORCE''"
  proof (rule ccontr)
    assume "\<not> (\<not> drained \<and> \<not> force \<and> pol \<noteq> ''FORCE'')"
    with last no_switch show False by (simp only: if_False simp_thms)
  qed
  with last have aborted: "abort_rotation E new_ip (as_id old) u = (Inl drain_timeout_error :: exn + rotation_result, w')"
    by (simp only: if_True simp_thms)
  have keep: "assignments (db u) = assignments (db ?v)"
    by (intro drain_loop_invariant [OF wait, of "\<lambda>x. assignments (db x) = assignments (db ?v)"])
       (simp_all add: nap_def others)
  obtain u' where u': "abort_rotation E new_ip (as_id old) u = (Inl drain_timeout_error :: exn + rotation_result, u')" "saved u' = db u'"
    "assignments (db u') = upd_rows (\<lambda>r. as_id r = as_id old) (\<lambda>r. r\<lparr>as_status := ''active''\<rparr>) (assignments (db u))"
    "\<forall>r \<in> set (static_ips (db u')). ip_id r = ip_id new_ip \<longrightarrow> ip_status r = ''released''"
    by (rule abort_rotation_run)
  moreover have "u' = w'" using u'(1) aborted by simp
  moreover have "assignments (db ?v) = upd_rows (\<lambda>r. as_id r = as_id old) (\<lambda>r. r\<lparr>as_status := ''draining''\<rparr>) (assignments (db v))"
    by (simp add: draining_def Let_def)
  ultimately show ?thesis
    using abort keep drained_and_back [OF act] by simp
qed

end

end
