(* ===== verification/Scenario.thy ===== *)
theory Scenario
  imports Demo Orders Replay Rotation
begin

text \<open>
  A database in which the demonstration broker can trade (a fresh health snapshot, a valid
  session), and one order placed on it from beginning to end.
\<close>

definition demo_snapshot :: health_snapshot where
  "demo_snapshot = \<lparr>hs_id = 6, hs_broker = 2, hs_latency_ms = 50, hs_success_rate = 1, hs_timeout_rate = 0,
     hs_connectivity = True, hs_ip_health = 100, hs_score = 95, hs_status = ''healthy'', hs_measured_at = 0\<rparr>"

definition demo_session :: broker_session where
  "demo_session = \<lparr>bs_id = 7, bs_broker = 2, bs_access_token = Some ''enc:a'', bs_refresh_token = Some ''enc:r'',
     bs_expires_at = Some 1000000000, bs_status = ''valid'', bs_updated_at = 0\<rparr>"

definition trade_db :: database where
  "trade_db = demo_db\<lparr>snapshots := [demo_snapshot], broker_sessions := [demo_session]\<rparr>"

lemmas trade_defs = trade_db_def demo_snapshot_def demo_session_def

definition demo_request :: order_request where
  "demo_request = \<lparr>rq_client = 1, rq_client_order_id = ''o-1'', rq_side = ''buy'', rq_symbol = ''acme'',
     rq_quantity = 1, rq_order_type = ''market'', rq_time_in_force = ''day'', rq_preferred = None, rq_region = None\<rparr>"

definition demo_order :: order where
  "demo_order = new_order 1000 0 demo_request"

definition stuck_db :: database where
  "stuck_db = trade_db\<lparr>orders := [demo_order]\<rparr>"

lemmas stuck_defs = stuck_db_def trade_defs demo_defs demo_order_def new_order_def demo_request_def

lemmas select_eval = select_route_def require_assigned_ip_def config_get_value_def exceed_policy_def 
      client_brokers_def latest_for_brokers_def latest_for_broker_def order_asc_def order_desc_def sort_key_def
      latest_snapshot_def first_row_def health_row_of_def judge_broker_def active_assignment_def active_ips_def
      active_assignments_def health_of_def static_exclusion_def given_region_def rl_check_def limit_or_lookup_def
      limiter_check_def broker_limit_def memory_check_def rank_def choose_primary_def build_chain_def 
      candidate_of_def float_at_def thresholds_default_def dict_get_def default_settings_def prune_def rl_snap_def rl_pressure_def fun_upd_idem

lemmas place_eval = place_order_def may_trade_def assert_trading_allowed_def orders_with_key_def execution_mode_def
     demo_request_def client_row_def subs_of_def get_inflight_semaphore_def with_permit_def acquire_permit_def
     enter_inflight_def leave_inflight_def release_permit_def place_inside_def create_or_prior_def insert_order_def
     new_order_def select_or_raise_def submit_inline_def refresh_order_def fail_order_def rl_consume_def limiter_consume_def
     memory_consume_def ensure_session_def sessions_of_def get_for_broker_def session_usable_def session_lock_def
     start_attempt_def ask_broker_def place_order_at_broker_def broker_place_order_def broker_active_fault_def
     book_success_def json_text_def new_mock_broker_def new_uuid_def apply_faults_def active_broker_fault_def
     clear_persistent_fault_def set_probe_fail_def

lemma demo_texts [simp]: "py_lower ''inline'' = ''inline''"
  by code_simp

lemma demo_place:
  "\<exists>ord w'. place_order demo_env (\<lambda>w. w) demo_request (world_of trade_db) = (Inr (ord, True), w') \<and>
    o_status ord = ''SUBMITTED''"
  by (simp add: run_simps demo_eval trade_defs select_eval place_eval apply_faults_to_providers_def
      is_enabled_def
      initial_flags_def initial_faults_def)

end
