(* ===== verification/Guarantees.thy ===== *)
theory Guarantees
  imports Scenario
begin

text \<open>The properties of orders, routing, rotation, replay and address assignment, each with an
  instance on the demonstration world where it has hypotheses.\<close>

text \<open>C1: the cooldown of BR-G04. Once the release of an address has returned, every broker that
  had it assigned is refused it until the configured cooldown is over: whatever else happened to
  the database meanwhile, as long as the usage history is kept, \<^verbatim>\<open>assign\<close> of that address to
  that broker does not return.\<close>

theorem cooldown_blocks_reassignment:
  assumes "infra_env E" "open_usage (db w)" "release_ip E i w = (Inr r, w1)"
    and "a \<in> set (assignments (db w))" "as_status a = ''active''" "as_ip a = i"
    and "cooldown_hours E w = (Inr n, w)"
    and "set (usages (db w1)) \<subseteq> set (usages (db v))" "clock v < clock w + hours n"
  shows "\<exists>e v'. assign E i (as_broker a) c v = (Inl e, v')"
proof (rule ccontr)
  assume no: "\<nexists>e v'. assign E i (as_broker a) c v = (Inl e, v')"
  obtain res v' where "assign E i (as_broker a) c v = (res, v')" by fastforce
  with no obtain x where x: "assign E i (as_broker a) c v = (Inr x, v')" by (cases res) auto
  from x have cool: "\<forall>h \<in> set (usages_of (as_broker a) i (db v)). \<not> cooling (clock v) h"
    by (rule assign_success) simp
  obtain m os where m: "store w1 = (let d = (released_db i (clock w) (clock w + hours m) (active_on i (db w)) (db w))
        \<lparr>static_ips := upd_rows (\<lambda>r. ip_id r = i) (\<lambda>r. r\<lparr>ip_status := ''released''\<rparr>) (static_ips (db w)),
         outbox := os\<rparr> in (d, d))" "\<exists>v. cooldown_hours E v = (Inr m, v) \<and> store v = store w"
    using infra_env.release_success [OF assms(1,3)] by metis
  then have "m = n"
    using cooldown_db assms(7) by (fastforce simp: store_def)
  then have "\<exists>h \<in> set (usages_of (as_broker a) i (db w1)). cooling (clock v) h"
    using cooling_after_release [OF assms(2,4,5,6,9)] m(1)
    by (auto simp: store_def Let_def usages_of_def)
  with cool assms(8) show False by (auto simp: usages_of_def)
qed

lemma cooldown_blocks_reassignment_witness:
  "\<exists>e v'. assign demo_env 3 2 None (snd (release_ip demo_env 3 (world_of demo_db))) = (Inl e, v')"
proof -
  let ?w = "world_of demo_db"
  obtain r w1 where run: "release_ip demo_env 3 ?w = (Inr r, w1)" "clock w1 = 0"
    by (simp add: release_ip_def release_body_def cooldown_hours_def default_settings_def released_db_def demo_eval)
  have "\<exists>e v'. assign demo_env 3 (as_broker demo_assignment) None w1 = (Inl e, v')"
  proof (rule cooldown_blocks_reassignment [OF demo_infra_env _ run(1)])
    show "cooldown_hours demo_env ?w = (Inr 24, ?w)"
      by (simp add: cooldown_hours_def demo_eval default_settings_def)
  qed (use demo_ip_inv run(2) in \<open>simp_all add: ip_inv_def demo_defs world_of_def hours_def hour_def\<close>)
  then show ?thesis using run(1) by (simp add: demo_assignment_def)
qed

text \<open>C2: what \<^verbatim>\<open>place\<close> promises when it returns a new order. A broker of the client that
  was enabled took it: order, attempt, the broker's own book and the outbox name the same broker
  order, all of it committed, and the address it was sent over is the one actively assigned to that
  broker, which exists whenever the configuration requires one. The other tasks that run while the
  engine waits for a permit may do anything but change brokers, assignments, addresses and
  configuration.\<close>

theorem placed_order_is_submitted:
  assumes "place_order E others rq w = (Inr (ord, True), w')"
    and "\<And>v. net_view (others v) = net_view v"
  shows "\<exists>b c row. b \<in> set (client_brokers (rq_client rq) (db w)) \<and> rc_broker c = b \<and>
    rc_static_ip c = map_option (\<lambda>(a, ip). as_ip a) (first_row (active_ips (ba_id b) (db w))) \<and>
    (require_assigned_ip w = (Inr True, w) \<longrightarrow> rc_static_ip c \<noteq> None) \<and>
    order_key row = (rq_client rq, rq_client_order_id rq) \<and> submitted_to E row c w' \<and>
    row_by o_id (o_id row) (orders (db w')) = Some ord"
  by (rule place_order_submits [OF assms])

lemma placed_order_is_submitted_witness:
  "\<exists>ord w' c row. place_order demo_env (\<lambda>w. w) demo_request (world_of trade_db) = (Inr (ord, True), w') \<and>
     rc_broker c = demo_broker \<and> rc_static_ip c = Some 3 \<and> submitted_to demo_env row c w'"
proof -
  obtain ord w' where run: "place_order demo_env (\<lambda>w. w) demo_request (world_of trade_db) = (Inr (ord, True), w')"
    using demo_place by blast
  obtain b c row where c: "b \<in> set (client_brokers (rq_client demo_request) (db (world_of trade_db)))" "rc_broker c = b"
      "rc_static_ip c = map_option (\<lambda>(a, ip). as_ip a) (first_row (active_ips (ba_id b) (db (world_of trade_db))))"
      "submitted_to demo_env row c w'"
    using placed_order_is_submitted [OF run refl] by blast
  have "b = demo_broker"
    using c(1) by (simp add: client_brokers_def world_of_def trade_defs demo_defs demo_request_def)
  moreover from this have "rc_static_ip c = Some 3"
    using c(3) by (simp add: active_ips_def active_assignments_def first_row_def world_of_def trade_defs demo_defs)
  ultimately show ?thesis using run c by blast
qed

text \<open>C3: one order per client and client order id. Placing and cancelling keep the pair unique in
  the table and in what is committed, on every path, provided the tasks running in between do.\<close>

theorem one_order_per_key:
  assumes "\<And>v. both orders_unique v \<Longrightarrow> both orders_unique (others v)" "both orders_unique w"
  shows "both orders_unique (snd (place_order E others rq w)) \<and> both orders_unique (snd (cancel_order E i w))"
  using keeps_snd [OF keeps_unique_place assms(2)] keeps_snd [OF keeps_unique_cancel assms(2)] assms(1) by blast

lemma one_order_per_key_witness:
  "both orders_unique (snd (place_order demo_env (\<lambda>w. w) demo_request (world_of trade_db)))"
  by (rule conjunct1 [OF one_order_per_key]) (simp_all add: both_def orders_unique_def world_of_def trade_defs demo_defs)

text \<open>C4: placing is idempotent. With an order of this client and client order id in the table,
  \<^verbatim>\<open>place\<close> returns that row and touches neither orders, attempts, outbox nor the broker.\<close>

theorem same_key_returns_first:
  assumes "may_trade (clock w) (rq_client rq) (db w)"
    and "orders_with_key (rq_client rq) (rq_client_order_id rq) (db w) = [ord]"
  shows "\<exists>w'. place_order E others rq w = (Inr (ord, False), w') \<and>
    orders (db w') = orders (db w) \<and> attempts (db w') = attempts (db w) \<and> outbox (db w') = outbox (db w) \<and>
    the_broker w' = the_broker w"
  by (rule place_order_replay [OF assms])

lemma same_key_returns_first_witness:
  "\<exists>w'. place_order demo_env (\<lambda>w. w) demo_request (world_of stuck_db) = (Inr (demo_order, False), w')"
  using same_key_returns_first [of "world_of stuck_db" demo_request demo_order demo_env "\<lambda>w. w"]
  by (auto simp: may_trade_def client_row_def subs_of_def orders_with_key_def world_of_def stuck_defs)


text \<open>C6: a refusal of the broker that is not retryable ends the order: it is FAILED with the
  broker's code, committed, the caller gets that code with status 400, and no failover happens.\<close>

theorem final_rejection_ends_the_order:
  assumes "broker_active_fault (sim_flags w) (the_broker w) = Some f" "\<not> bf_retryable f"
    and "row_by o_id (o_id ord) (orders (db w)) = Some r0"
  shows "\<exists>w' r. ask_broker E ord c rest a w = (Inl (AppError (bf_code f) 400), w') \<and>
    row_by o_id (o_id ord) (orders (db w')) = Some r \<and> o_status r = ''FAILED'' \<and> o_error_code r = Some (bf_code f) \<and>
    failovers (db w') = failovers (db w) \<and> saved w' = db w' \<and> the_broker w' = the_broker w"
  by (rule ask_broker_rejected [OF assms]) blast

definition rejecting_world :: "table world" where
  "rejecting_world = (world_of stuck_db)\<lparr>sim_flags := snd (set_enabled 0 ''broker_reject'' True initial_flags)\<rparr>"

lemma rejecting_fault:
  "broker_active_fault (sim_flags rejecting_world) (the_broker rejecting_world) =
     Some \<lparr>bf_code = ''BROKER_REJECT'', bf_status = 400, bf_retryable = False\<rparr>"
  by code_simp

lemma final_rejection_ends_the_order_witness:
  "\<forall>c. \<exists>w' r. ask_broker demo_env demo_order c [] 0 rejecting_world = (Inl (AppError ''BROKER_REJECT'' 400), w') \<and>
    row_by o_id 1000 (orders (db w')) = Some r \<and> o_status r = ''FAILED''"
proof
  fix c :: route_candidate
  show "\<exists>w' r. ask_broker demo_env demo_order c [] 0 rejecting_world = (Inl (AppError ''BROKER_REJECT'' 400), w') \<and>
    row_by o_id 1000 (orders (db w')) = Some r \<and> o_status r = ''FAILED''"
    using final_rejection_ends_the_order [OF rejecting_fault, of demo_order demo_order demo_env c "[]" 0]
    by (auto simp: rejecting_world_def world_of_def stuck_defs)
qed

text \<open>C7: the engine gives back what it takes. However a call of \<^verbatim>\<open>place\<close> ends, the permits of
  the semaphore and the counter of orders in flight are what they were, when the tasks running in
  between leave them so.\<close>

theorem permits_are_given_back:
  assumes "\<And>v. engine_load (others v) = engine_load v"
    and "place_order E others rq w = (r, w')" "permits w = Some n" "0 \<le> inflight w"
  shows "permits w' = Some n \<and> inflight w' = inflight w"
  using place_order_load [OF assms] assms(3) by (simp add: engine_load_def)

lemma permits_are_given_back_witness:
  "permits (snd (place_order demo_env (\<lambda>w. w) demo_request ((world_of trade_db)\<lparr>permits := Some 1\<rparr>))) = Some 1"
proof -
  obtain r w' where "place_order demo_env (\<lambda>w. w) demo_request ((world_of trade_db)\<lparr>permits := Some 1\<rparr>) = (r, w')"
    by fastforce
  with permits_are_given_back [OF refl this] show ?thesis by (simp add: world_of_def)
qed

text \<open>C8: a cancellation that returns leaves the order CANCELLED, committed together with its
  pending event.\<close>

theorem cancelled_order_is_recorded:
  assumes "cancel_order E i w = (Inr r, w')"
  shows "row_by o_id i (orders (db w')) = Some r \<and> o_status r = ''CANCELLED'' \<and> saved w' = db w' \<and>
    (\<exists>ev \<in> set (outbox (db w')). ob_event_type ev = ''order.cancelled'' \<and> ob_status ev = ''pending'' \<and>
       dict_get (ob_payload ev) ''order_id'' JNull = JStr (uuid_text i))"
  by (rule cancel_order_Inr [OF assms])

lemma cancelled_order_is_recorded_witness:
  "\<exists>r w'. cancel_order demo_env 1000 (world_of stuck_db) = (Inr r, w') \<and>
     row_by o_id 1000 (orders (db w')) = Some r \<and> o_status r = ''CANCELLED''"
proof -
  obtain r w' where "cancel_order demo_env 1000 (world_of stuck_db) = (Inr r, w')"
    by (simp add: cancel_order_def get_order_def cancel_row_def refresh_order_def run_simps demo_eval stuck_defs)
  with cancelled_order_is_recorded [OF this] show ?thesis by blast
qed

text \<open>C9: a routing decision accounts for every enabled broker of the client. Each is in the chain
  or excluded with a reason; those in the chain meet what the configuration asks for (address,
  region, health, rate limit); with distinct broker ids no broker is tried twice; and after the
  first the chain goes down in score.\<close>

theorem route_decision_accounts_for_brokers:
  assumes "select_route E client pf rg cn w = (Inr D, w')"
  shows "\<exists>dm po. route_settings E w dm po \<and> require_assigned_ip w = (Inr (dc_require_ip D), w) \<and>
    (\<forall>c \<in> set (dc_chain D). rc_broker c \<in> set (client_brokers client (db w)) \<and>
       routable (dc_require_ip D) dm po rg (db w) (rc_broker c) c) \<and>
    (\<forall>ex \<in> set (dc_excluded D). ex_reason ex \<in> set exclusion_reasons) \<and>
    (\<lambda>c. ba_id (rc_broker c)) ` set (dc_chain D) \<union> ex_broker ` set (dc_excluded D) =
      ba_id ` set (client_brokers client (db w)) \<and>
    (distinct (map ba_id (client_brokers client (db w))) \<longrightarrow>
      distinct (map (\<lambda>c. ba_id (rc_broker c)) (dc_chain D))) \<and>
    sorted_wrt (\<lambda>a b. rc_route_score b \<le> rc_route_score a) (tl (dc_chain D))"
proof -
  obtain dm po where D: "decision_ok (dc_require_ip D) dm po rg pf (client_brokers client (db w)) (db w) D"
      "require_assigned_ip w = (Inr (dc_require_ip D), w)" "route_settings E w dm po"
    by (rule select_route_settings [OF assms])
  then show ?thesis
    using decision_chain_routable [OF D(1)] decision_covers [OF D(1)] decision_distinct [OF D(1)]
      decision_tail_sorted [OF D(1)]
    by (intro exI [of _ dm] exI [of _ po]) blast
qed

lemma demo_route_run:
  "\<exists>D w'. select_route demo_env 1 None None False (world_of trade_db) = (Inr D, w') \<and> map rc_broker (dc_chain D) = [demo_broker]"
  by (simp add: demo_eval trade_defs select_eval)

lemma route_decision_accounts_for_brokers_witness:
  "\<exists>D w'. select_route demo_env 1 None None False (world_of trade_db) = (Inr D, w') \<and>
     (\<lambda>c. ba_id (rc_broker c)) ` set (dc_chain D) \<union> ex_broker ` set (dc_excluded D) = {2}"
proof -
  obtain D w' where run: "select_route demo_env 1 None None False (world_of trade_db) = (Inr D, w')"
    using demo_route_run by blast
  have "ba_id ` set (client_brokers 1 (db (world_of trade_db))) = {2}"
    by (simp add: client_brokers_def world_of_def trade_defs demo_defs)
  with route_decision_accounts_for_brokers [OF run] run show ?thesis by metis
qed



text \<open>C11: after a rotation that returns, the broker has exactly one active assignment, the new
  one; everything is committed; the old address is released; and either no order of the old address
  was left in flight, or the caller or the configured policy forced the switch.\<close>

theorem rotation_leaves_one_address:
  assumes "infra_env E" "rotate E others poll b force w = (Inr res, w')"
    and "length (active_assignments b (db w)) \<le> 1"
    and "assignments (saved w) = assignments (db w)" "config_items (saved w) = config_items (db w)"
    and "\<And>v. filter (\<lambda>a. as_broker a = b) (assignments (db (others v))) =
               filter (\<lambda>a. as_broker a = b) (assignments (db v))"
  shows "(\<exists>n. active_assignments b (db w') = [n] \<and> as_ip n = rr_new_ip_id res \<and> as_id n = rr_new_assignment res) \<and>
    saved w' = db w' \<and> (rr_drained res \<longrightarrow> count_inflight (rr_old_ip_id res) (db w') = 0) \<and>
    (\<exists>r. row_by ip_id (rr_old_ip_id res) (static_ips (db w')) = Some r \<and> ip_status r = ''released'') \<and>
    (rr_drained res \<or> force \<or>
      (\<exists>v. config_items (db v) = config_items (db w) \<and> on_timeout_policy E v = (Inr ''FORCE'', v)))"
  by (rule infra_env.rotate_success [OF assms])

lemma Suc_7: "Suc 7 = (8 :: nat)"
  by simp

lemmas allocate_first = allocate_rounds.simps(2) [of _ _ 7, unfolded Suc_7]

lemma next_address_free:
  assumes "candidate_address c (salt_of (U d)) \<notin> set used"
  shows "next_address U used (c, d) = (candidate_address c (salt_of (U d)), Suc c, Suc d)"
proof -
  have "next_address_loop U used (Suc 63) (c, d) = (candidate_address c (salt_of (U d)), Suc c, Suc d)"
    using assms by (simp only: next_address_loop.simps Let_def if_True not_False_eq_True)
  then show ?thesis by (simp add: next_address_def)
qed

lemma demo_address: "candidate_address (Suc 0) (salt_of 1002) = ''198.51.100.2''"
proof -
  have "show_nat (Suc (Suc 0)) = ''2''" by code_simp
  then show ?thesis by (simp add: candidate_address_def salt_of_def)
qed

lemma demo_texts2 [simp]: "py_lower ''json'' = ''json''" "py_upper ''ABORT'' = ''ABORT''"
  by code_simp+

lemmas rotate_eval = sync_whitelist_def whitelist_hint_def fetch_whitelist_raw_def normalize_whitelist_def compare_whitelist_def
  unique_sorted_def finding_row_def py_or_def close_usages_def allocate_first next_address_free demo_address mi_create_ip_def new_mock_infra_def infra_fault_active_def
  infra_fault_enabled_def is_enabled_def initial_flags_def initial_faults_def used_addresses_def addresses_in_def text_item_def text_value_def
  dict_get_def str_or_def rotate_def rotate_body_def allocate_ip_def active_ips_def active_assignments_def first_row_def
  unless_activated_def after_allocation_def prepare_new_def rotation_reuse_allowed_def usages_of_def attach_like_old_def
  drain_and_switch_def config_int_def on_timeout_policy_def wait_drained_def drain_loop.simps count_inflight_def
  switch_over_def rotation_cooldown_hours_def cooldown_hours_def refresh_ip_def detach_old_def close_usages_def

lemma demo_rotate:
  "\<exists>res w'. rotate demo_env (\<lambda>w. w) 1 2 False (world_of demo_db) = (Inr res, w')"
  by (simp add: run_simps demo_eval rotate_eval)

lemma rotation_leaves_one_address_witness:
  "\<exists>res w' n. rotate demo_env (\<lambda>w. w) 1 2 False (world_of demo_db) = (Inr res, w') \<and>
     active_assignments 2 (db w') = [n] \<and> as_ip n = rr_new_ip_id res"
proof -
  obtain res w' where run: "rotate demo_env (\<lambda>w. w) 1 2 False (world_of demo_db) = (Inr res, w')"
    using demo_rotate by blast
  have "length (active_assignments 2 (db (world_of demo_db))) \<le> 1"
    by (simp add: active_assignments_def world_of_def demo_defs)
  from rotation_leaves_one_address [OF demo_infra_env run this] run show ?thesis
    by (auto simp: world_of_def)
qed

text \<open>C12: a rotation that times out gives the old address back. When the wait for its orders ends
  in the timeout error, the switch was not forced, the assignments are committed exactly as they
  were before the draining started, and the new address is released.\<close>

theorem rotation_timeout_restores:
  assumes "infra_env E"
    and "drain_and_switch E others poll b force old_ip new_ip wl old v = (Inl drain_timeout_error, w')"
    and "\<And>v. assignments (db (others v)) = assignments (db v)"
    and "\<forall>r \<in> set (assignments (db v)). as_id r = as_id old \<longrightarrow> as_status r = ''active''"
  shows "\<not> force \<and> assignments (db w') = assignments (db v) \<and> saved w' = db w' \<and>
    (\<forall>r \<in> set (static_ips (db w')). ip_id r = ip_id new_ip \<longrightarrow> ip_status r = ''released'')"
  by (rule infra_env.timeout_restores [OF assms])

definition busy_db :: database where
  "busy_db = demo_db\<lparr>orders := [demo_order\<lparr>o_status := ''SUBMITTED'', o_static_ip := Some 3\<rparr>],
     static_ips := [demo_ip, demo_ip\<lparr>ip_id := 30, ip_address := ''203.0.113.10''\<rparr>]\<rparr>"

lemma demo_timeout:
  "\<exists>w'. drain_and_switch demo_env (\<lambda>w. w) 30000000 2 False demo_ip (demo_ip\<lparr>ip_id := 30\<rparr>) True
     demo_assignment (world_of busy_db) = (Inl drain_timeout_error, w')"
  by (simp add: run_simps demo_eval rotate_eval busy_db_def demo_order_def new_order_def demo_request_def
      nap_def TERMINAL_ORDER_STATUSES_def abort_rotation_def cleanup_new_ip_def)

lemma rotation_timeout_restores_witness:
  "\<exists>w'. drain_and_switch demo_env (\<lambda>w. w) 30000000 2 False demo_ip (demo_ip\<lparr>ip_id := 30\<rparr>) True
     demo_assignment (world_of busy_db) = (Inl drain_timeout_error, w') \<and> assignments (db w') = [demo_assignment]"
proof -
  obtain w' where run: "drain_and_switch demo_env (\<lambda>w. w) 30000000 2 False demo_ip (demo_ip\<lparr>ip_id := 30\<rparr>) True
     demo_assignment (world_of busy_db) = (Inl drain_timeout_error, w')"
    using demo_timeout by blast
  have "\<forall>r \<in> set (assignments (db (world_of busy_db))). as_id r = as_id demo_assignment \<longrightarrow> as_status r = ''active''"
    by (simp add: world_of_def busy_db_def demo_defs)
  from rotation_timeout_restores [OF demo_infra_env run refl this] run show ?thesis
    by (simp add: world_of_def busy_db_def demo_db_def)
qed


text \<open>C14: a replay never fails as a whole. It returns, every stuck order in its page is handled
  exactly once in the order of the scan, each is counted once as recovered, skipped or failed, and
  the status it leaves for the monitoring page is the one it returns.\<close>

theorem replay_accounts_for_every_order:
  "\<exists>s details w'. run_replay E lmt w = (Inr (s, details), w') \<and> last_run w' = s \<and>
    ls_recovered s + ls_skipped s + ls_failed s = ls_scanned s \<and> ls_scanned s = length details \<and>
    map fst details = map o_id (take (nat lmt) (order_asc o_updated_at
       (filter (\<lambda>r. o_status r \<in> set STUCK_STATUSES) (orders (db w)))))"
  by (rule run_replay_total [of E lmt w]) blast

text \<open>C15: recovering an order that a broker already took adopts that order and asks no broker
  again: the order becomes SUBMITTED with the broker order id of the attempt.\<close>

theorem replay_adopts_taken_order:
  assumes "row_by o_id i (orders (db w)) = Some ord" "o_status ord \<notin> set TERMINAL"
    and "adoption_of i (db w) = Some a"
  shows "\<exists>res w' r. recover_one E i w = (Inr res, w') \<and> ro_result res = ''recovered'' \<and>
    row_by o_id i (orders (db w')) = Some r \<and> o_status r = ''SUBMITTED'' \<and>
    o_broker_order_id r = oa_broker_order_id a \<and> o_broker r = Some (oa_broker a) \<and>
    the_broker w' = the_broker w \<and> attempts (db w') = attempts (db w) \<and> saved w' = db w'"
  by (rule recover_one_adopts [OF assms]) (intro exI conjI, assumption, simp_all)

definition taken_attempt :: order_attempt where
  "taken_attempt = \<lparr>oa_id = 8, oa_order = 1000, oa_attempt_no = 1, oa_broker = 2, oa_static_ip = Some 3,
     oa_status = ''submitted'', oa_broker_order_id = Some ''mock-1'', oa_request = [], oa_response = None,
     oa_error = None, oa_idempotency_key = None\<rparr>"

lemma replay_adopts_taken_order_witness:
  "\<exists>res w' r. recover_one demo_env 1000 (world_of (stuck_db\<lparr>attempts := [taken_attempt]\<rparr>)) = (Inr res, w') \<and>
     row_by o_id 1000 (orders (db w')) = Some r \<and> o_broker_order_id r = Some ''mock-1''"
proof -
  let ?w = "world_of (stuck_db\<lparr>attempts := [taken_attempt]\<rparr>)"
  have "row_by o_id 1000 (orders (db ?w)) = Some demo_order" "o_status demo_order \<notin> set TERMINAL"
      "adoption_of 1000 (db ?w) = Some taken_attempt"
    by (simp_all add: world_of_def stuck_defs TERMINAL_def adoption_of_def adoptable_def taken_attempt_def
        order_desc_def)
  from replay_adopts_taken_order [OF this, of demo_env] show ?thesis
    by (auto simp: taken_attempt_def)
qed



text \<open>C17: with the in-process locks, an assignment that fails leaves the database and what is
  committed as they were, and a release that fails commits nothing.\<close>

theorem failed_change_commits_nothing:
  assumes "infra_env E" "uses_memory_locks E"
  shows "(case assign E i b c w of (Inl e, w') \<Rightarrow> db w' = db w \<and> saved w' = saved w | (Inr a, w') \<Rightarrow> saved w' = db w') \<and>
    (case release_ip E i w of (Inl e, w') \<Rightarrow> saved w' = saved w | (Inr r, w') \<Rightarrow> saved w' = db w')"
proof -
  obtain r w' where a: "assign E i b c w = (r, w')" by fastforce
  obtain r2 w2 where rel: "release_ip E i w = (r2, w2)" by fastforce
  have "saved w' = db w'" if "r = Inr x" for x
    using assign_success [OF a [unfolded that]] by (metis fst_conv snd_conv store_def)
  moreover have "saved w2 = db w2" if "r2 = Inr x" for x
    using infra_env.release_success [OF assms(1) rel [unfolded that]] by (metis fst_conv snd_conv store_def)
  ultimately show ?thesis
    using assign_failed [OF assms(2), of i b c w] infra_env.release_failed [OF assms, of i w] a rel
    by (auto simp: store_def split: sum.split)
qed

lemma failed_change_commits_nothing_witness:
  "saved (snd (assign demo_env 99 2 None (world_of demo_db))) = demo_db"
proof -
  obtain e w' where run: "assign demo_env 99 2 None (world_of demo_db) = (Inl e, w')"
    by (simp add: assign_def assign_body_def demo_eval)
  with failed_change_commits_nothing [OF demo_infra_env demo_memory_locks, where w = "world_of demo_db" and i = 99 and b = 2 and c = None]
  show ?thesis by (simp add: world_of_def)
qed

text \<open>C18: what a successful assignment means. The address was neither quarantined nor attached,
  the broker had no active assignment and now has exactly the one returned, and its usage is open.\<close>

theorem assignment_takes_effect:
  assumes "assign E i b c w = (Inr a, w')"
  shows "active_assignments b (db w) = [] \<and> active_assignments b (db w') = [a] \<and> as_ip a = i \<and> as_broker a = b \<and>
    (\<exists>ip. ip_by_id i (db w) = [ip] \<and> ip_status ip \<notin> {''quarantined'', ''attached''}) \<and>
    (\<exists>h \<in> set (usages (db w')). us_broker h = b \<and> us_ip h = i \<and> us_released_at h = None)"
proof -
  obtain ip cid h d w1 where ok: "ip_by_id i (db w) = [ip]" "ip_status ip \<notin> {''quarantined'', ''attached''}"
    "active_assignments b (db w) = []" "\<forall>h \<in> set (usages_of b i (db w)). \<not> cooling (clock w) h"
    "us_broker h = b" "us_ip h = i" "us_released_at h = None" "a = new_assignment E w1 cid b i"
    "d = assigned_db a h i (ip_status ip = ''released'') (db w)" "store w' = (d, d)" "clock w' = clock w"
    by (rule assign_success [OF assms])
  have a: "as_broker a = b" "as_ip a = i" "as_status a = ''active''" using ok(8) by (simp_all add: new_assignment_def)
  have "db w' = d" using ok(10) by (simp add: store_def)
  moreover have "active_assignments b d = [a]" "h \<in> set (usages d)"
    using ok(3) a by (auto simp: ok(9) assigned_db_def active_assignments_def)
  ultimately show ?thesis using ok a by auto
qed

definition free_db :: database where
  "free_db = demo_db\<lparr>assignments := [], usages := []\<rparr>"

lemma assignment_takes_effect_witness:
  "\<exists>a w'. assign demo_env 3 2 None (world_of free_db) = (Inr a, w') \<and> active_assignments 2 (db w') = [a]"
proof -
  obtain a w' where run: "assign demo_env 3 2 None (world_of free_db) = (Inr a, w')"
    by (simp add: assign_def assign_body_def assert_reuse_allowed_def usages_of_def active_assignments_def
        demo_eval free_db_def add_assignment_def add_usage_def)
  with assignment_takes_effect [OF run] show ?thesis by blast
qed

end
