(* ===== verification/Contracts.thy ===== *)
theory Contracts
  imports Scenario
begin

text \<open>The properties of the components below the order flow: locks, rate limits, sessions, health,
  subscriptions, whitelists and paging.\<close>

text \<open>C19: the in-process lock excludes. After a granted acquire, and as long as its token does not
  release the key, no sequence of calls of other clients is granted that key under another token.\<close>

theorem memory_lock_excludes:
  assumes "memory_acquire k ttl t L = (Inr True, L1)" "Release k t \<notin> set cs" "t' \<noteq> t"
  shows "(Acquire k ttl' t', Inr True) \<notin> set (fst (lock_run memory_acquire memory_release cs L1))"
  by (rule memory.mutual_exclusion [OF assms])

lemma memory_lock_excludes_witness:
  "(Acquire ''k'' 30 ''b'', Inr True) \<notin> set (fst (lock_run memory_acquire memory_release
     [Acquire ''k'' 30 ''b'', Release ''k'' ''b'', Acquire ''k'' 30 ''b''] (Map.empty(''k'' \<mapsto> ''a''))))"
  by (rule memory_lock_excludes [of "''k''" 30 "''a''" Map.empty]) (simp_all add: memory_acquire_def)





text \<open>C22: the in-process rate limiter keeps its promise over every window. Of any calls on a key,
  made at times in order, those it admits in any one second are at most the limit, rounded up.\<close>

theorem memory_window_bound:
  assumes "sorted (rev ts)"
  shows "int (length (in_window 1 T (fst (admissions (\<lambda>now. memory_consume k limit 1 now) H ts)))) \<le> max 0 \<lceil>limit\<rceil>"
proof -
  have ok: "calls_ok (\<lambda>s now. True) (memory_consume k limit 1) H ts" by (induction ts) simp_all
  show ?thesis using memory_limiter.window_bound [OF assms ok] by simp
qed

lemma memory_window_bound_witness:
  "length (in_window 1 3 (fst (admissions (\<lambda>now. memory_consume ''k'' 2 1 now) (\<lambda>_. []) [3, 3, 3]))) \<le> 2"
  using memory_window_bound [of "[3, 3, 3]" 3 "''k''" 2 "\<lambda>_. []"] by simp



text \<open>C24: a session that \<^verbatim>\<open>ensure\<close> returns is of the broker asked for, valid, and expires later
  than now, whether it was found, refreshed or newly made. Relies on times printed by the program
  being read back.\<close>

theorem ensured_session_is_usable:
  assumes "iso_readable E" "ensure_session E b force_refresh w = (Inr s, w')"
  shows "session_usable (clock w) s \<and> bs_broker s = b"
  by (rule ensure_session_usable [OF assms])

lemma ensured_session_is_usable_witness:
  "\<exists>s w'. ensure_session demo_env 2 False (world_of trade_db) = (Inr s, w') \<and> session_usable 0 s"
proof -
  obtain s w' where run: "ensure_session demo_env 2 False (world_of trade_db) = (Inr s, w')"
    by (simp add: ensure_session_def get_for_broker_def sessions_of_def session_usable_def demo_eval trade_defs)
  with ensured_session_is_usable [OF demo_iso_readable run] show ?thesis by (auto simp: world_of_def)
qed

text \<open>C26: the trading gate. It lets a client pass exactly when a subscription covers the present
  moment, or, for a client without subscriptions, when it is not suspended; a client that passes is
  not suspended afterwards; one that does not is refused and nothing changes.\<close>

theorem trading_gate:
  "if may_trade (clock w) c (db w)
   then fst (assert_trading_allowed c w) = Inr () \<and>
     map_option cl_status (client_row c (db (snd (assert_trading_allowed c w)))) \<noteq> Some ''suspended''
   else assert_trading_allowed c w = (Inl subscription_expired, w)"
proof (cases rule: assert_trading_allowed_cases [of w c])
  case (cleared client d)
  then show ?thesis by (simp add: client_row_def client_row_after_status)
qed auto

text \<open>C27: the expiry sweep. It always returns, with the number of subscriptions that were due; none
  is due afterwards; the client of each is suspended; and all of it is committed. An instance whose
  teardown fails does not stop it.\<close>

theorem expiry_sweep_leaves_none_due:
  assumes "infra_env E"
  shows "let now = (case at_time of Some t \<Rightarrow> t | None \<Rightarrow> clock w); due = due_subscriptions now (db w) in
    \<exists>n w'. enforce_expiry E at_time w = (Inr (length due, n), w') \<and> due_subscriptions now (db w') = [] \<and>
      (\<forall>i c. row_by cl_id i (clients (db w')) = Some c \<longrightarrow> i \<in> su_client_id ` set due \<longrightarrow> cl_status c = ''suspended'') \<and>
      (due \<noteq> [] \<longrightarrow> saved w' = db w')"
proof -
  let ?now = "case at_time of Some t \<Rightarrow> t | None \<Rightarrow> clock w"
  let ?due = "due_subscriptions ?now (db w)"
  obtain n w' where run: "enforce_expiry E at_time w = (Inr (length ?due, n), w')"
     "subscriptions (db w') = expired_subs ?now ?due (subscriptions (db w))"
     "clients (db w') = suspended_clients ?due (clients (db w))"
     "if ?due = [] then n = 0 \<and> w' = w else saved w' = db w'"
    using infra_env.enforce_expiry_run [OF assms refl, of at_time w] by blast
  have "due_subscriptions ?now (db w') = []" by (rule due_expired [OF run(2)])
  moreover have "cl_status c = ''suspended''"
    if "row_by cl_id i (clients (db w')) = Some c" "i \<in> su_client_id ` set ?due" for i c
    using that by (auto simp: run(3) client_row_suspended)
  ultimately show ?thesis
    using run(1,4) unfolding Let_def by (intro exI [of _ n] exI [of _ w']) auto
qed

definition due_db :: database where
  "due_db = demo_db\<lparr>subscriptions := [\<lparr>su_id = 9, su_client_id = 1, su_status = ''active'',
     su_starts_at = -10, su_ends_at = -5, su_teardown_mode = ''suspend'', su_teardown_completed_at = None\<rparr>]\<rparr>"

lemma expiry_sweep_leaves_none_due_witness:
  "\<exists>n w'. enforce_expiry demo_env None (world_of due_db) = (Inr (1, n), w') \<and> saved w' = db w'"
proof -
  have "due_subscriptions 0 due_db = subscriptions due_db"
    by (simp add: due_subscriptions_def due_db_def)
  moreover have "length (subscriptions due_db) = 1" "subscriptions due_db \<noteq> []"
    by (simp_all add: due_db_def)
  ultimately show ?thesis
    using expiry_sweep_leaves_none_due [OF demo_infra_env, where at_time = None and w = "world_of due_db"]
    by (auto simp: world_of_def Let_def)
qed



text \<open>The comparison of a whitelist with the assigned addresses has one finding for every
  address on either side, missing when the broker does not list it, and unauthorized when it is
  listed, not assigned, and something is assigned.\<close>

theorem whitelist_findings_are_complete:
  "distinct (map vd_address (compare_whitelist expected actual)) \<and>
   set (map vd_address (compare_whitelist expected actual)) = set expected \<union> set actual \<and>
   (\<forall>v \<in> set (compare_whitelist expected actual).
     vd_expected v = (vd_address v \<in> set expected) \<and> vd_on_whitelist v = (vd_address v \<in> set actual) \<and>
     vd_type v = (if vd_on_whitelist v then if vd_expected v \<or> expected = [] then ''ok'' else ''unauthorized''
                  else ''missing''))"
  using compare_whitelist_addresses [of expected actual] compare_whitelist_verdict by blast

text \<open>C35: paging reaches everything. A client that starts at offset 0 and follows next_offset until
  it is null receives every row exactly once, in order, whatever page size it asked for.\<close>

theorem paging_visits_every_row:
  "walk_pages (Suc (length rows)) lmt 0 rows = Some rows"
  using walk_pages_from [of 0 rows "Suc (length rows)" lmt] by simp

subsection \<open>Configuration items\<close>

lemma filter_upd_one:
  assumes "distinct (map key rows)" "c \<in> set rows" "\<And>k. p k row = p k c"
  shows "filter (p k) (upd_rows (\<lambda>r. key r = key c) (\<lambda>_. row) rows) =
    map (\<lambda>r. if r = c then row else r) (filter (p k) rows)"
proof -
  have "upd_rows (\<lambda>r. key r = key c) (\<lambda>_. row) rows = map (\<lambda>r. if r = c then row else r) rows"
    using assms(1,2) by (auto simp: upd_rows_def distinct_map inj_on_def)
  moreover have "p k \<circ> (\<lambda>r. if r = c then row else r) = p k"
    using assms(3) by (auto simp: fun_eq_iff)
  ultimately show ?thesis by (simp add: filter_map)
qed

lemma config_put_rows:
  assumes "config_put E k v u w = (Inr row, w')" "distinct (map ci_id (config_items (db w)))"
  shows "config_rows k (db w') = [row] \<and> ci_value row = v \<and> saved w' = db w' \<and>
    (k' \<noteq> k \<longrightarrow> config_rows k' (db w') = config_rows k' (db w)) \<and>
    (case config_rows k (db w) of [] \<Rightarrow> ci_version row = 1 | c # _ \<Rightarrow>
       ci_version c \<noteq> 0 \<longrightarrow> ci_version row = ci_version c + 1)"
proof (cases "config_rows k (db w)")
  case Nil
  then show ?thesis using assms(1)
    by (auto simp: config_put_def run_simps config_rows_def Let_def split: if_splits)
next
  case (Cons c cs)
  then have cs: "cs = []"
    using assms(1) by (cases cs) (auto simp: config_put_def run_simps)
  define new where "new = c\<lparr>ci_value := v, ci_version := (if ci_version c = 0 then 1 else ci_version c) + 1,
    ci_updated_by := u\<rparr>"
  have c: "c \<in> set (config_items (db w))" "ci_key c = k"
    using arg_cong [OF Cons, of set] by (auto simp: config_rows_def)
  have run: "row = new" "db w' = (db w)\<lparr>config_items := upd_rows (\<lambda>r. ci_id r = ci_id c) (\<lambda>_. new) (config_items (db w))\<rparr>"
      "saved w' = db w'"
    using assms(1) Cons cs by (auto simp: config_put_def run_simps Let_def new_def)
  have "config_rows k'' (db w') = map (\<lambda>r. if r = c then new else r) (config_rows k'' (db w))" for k''
    using filter_upd_one [OF assms(2) c(1), of "\<lambda>k r. ci_key r = k" new k''] c(2)
    by (simp add: run(2) config_rows_def new_def)
  moreover have "map (\<lambda>r. if r = c then new else r) (config_rows k' (db w)) = config_rows k' (db w)" if "k' \<noteq> k"
    using that c(2) by (intro map_idI) (auto simp: config_rows_def)
  ultimately show ?thesis using Cons cs run by (auto simp: new_def)
qed

text \<open>A configuration value that was put is the one read back, and the other keys keep theirs.\<close>

lemma config_put_get:
  assumes "config_put E k v u w = (Inr row, w')" "distinct (map ci_id (config_items (db w)))"
  shows "config_get_value k dflt w' = (Inr v, w')"
    "k' \<noteq> k \<Longrightarrow> fst (config_get_value k' dflt w') = fst (config_get_value k' dflt w)"
  using config_put_rows [OF assms, of k'] by (auto simp: config_get_value_def run_simps split: sum.split)

end
