(* ===== verification/Auth.thy ===== *)
theory Auth
  imports World
begin

text \<open>
  Who is calling: access tokens (\<^verbatim>\<open>app/auth/jwt.py\<close>), the login route
  (\<^verbatim>\<open>app/api/routes/auth.py\<close>), the dependencies \<^verbatim>\<open>get_current_user\<close> and
  \<^verbatim>\<open>require_roles\<close> (\<^verbatim>\<open>app/auth/deps.py\<close>) and the check of the event socket
  (\<^verbatim>\<open>app/api/routes/ws_events.py\<close>). PyJWT and bcrypt are parameters (\<open>auth_lib\<close>).
\<close>

subsection \<open>\<^verbatim>\<open>UUID(s)\<close> of the standard library\<close>

text \<open>\<^verbatim>\<open>s.replace(sub, '')\<close> for a non-empty \<open>sub\<close>: occurrences from the left.\<close>

function remove_sub :: "string \<Rightarrow> string \<Rightarrow> string" where
  "remove_sub sub [] = []"
| "remove_sub sub (c # cs) =
     (if sub \<noteq> [] \<and> prefix sub (c # cs) then remove_sub sub (drop (length sub) (c # cs))
      else c # remove_sub sub cs)"
  by pat_completeness auto
termination
  by (relation "measure (\<lambda>(sub, s). length s)") auto

definition hex_value :: "char \<Rightarrow> nat option" where
  "hex_value c =
     (let n = (of_char c :: nat) in
      if 48 \<le> n \<and> n \<le> 57 then Some (n - 48)
      else if 97 \<le> n \<and> n \<le> 102 then Some (n - 87)
      else if 65 \<le> n \<and> n \<le> 70 then Some (n - 55)
      else None)"

text \<open>\<^verbatim>\<open>int(s, 16)\<close>: digits with single underscores between them, after blanks, a sign and
  \<^verbatim>\<open>0x\<close>.\<close>

fun parse_hex_digits :: "nat \<Rightarrow> string \<Rightarrow> nat option" where
  "parse_hex_digits acc [] = Some acc"
| "parse_hex_digits acc (c # cs) =
     (case hex_value c of
        Some d \<Rightarrow> parse_hex_digits (16 * acc + d) cs
      | None \<Rightarrow>
          (case cs of
             d # ds \<Rightarrow>
               (if c = CHR ''_'' then
                  (case hex_value d of Some k \<Rightarrow> parse_hex_digits (16 * acc + k) ds | None \<Rightarrow> None)
                else None)
           | [] \<Rightarrow> None))"

definition drop_0x :: "string \<Rightarrow> string" where
  "drop_0x s =
     (if 2 \<le> length s \<and> s ! 0 = CHR ''0'' \<and> s ! 1 \<in> {CHR ''x'', CHR ''X''} then
        (if 3 \<le> length s \<and> s ! 2 = CHR ''_'' then drop 3 s else drop 2 s)
      else s)"

definition parse_hex_nat :: "string \<Rightarrow> nat option" where
  "parse_hex_nat s =
     (case drop_0x s of
        [] \<Rightarrow> None
      | c # cs \<Rightarrow> (case hex_value c of Some d \<Rightarrow> parse_hex_digits d cs | None \<Rightarrow> None))"

definition parse_hex :: "string \<Rightarrow> int option" where
  "parse_hex s =
     (let t = py_strip s in
      case t of
        [] \<Rightarrow> None
      | c # cs \<Rightarrow>
          (if c = CHR ''-'' then map_option (\<lambda>n. - int n) (parse_hex_nat cs)
           else if c = CHR ''+'' then map_option int (parse_hex_nat cs)
           else map_option int (parse_hex_nat t)))"

definition parse_uuid :: "string \<Rightarrow> exn + uuid" where
  "parse_uuid s =
     (let hex = filter (\<lambda>c. c \<noteq> CHR ''-'')
                  (strip_by (\<lambda>c. c = CHR 0x7B \<or> c = CHR 0x7D)
                    (remove_sub ''uuid:'' (remove_sub ''urn:'' s)))
      in if length hex \<noteq> 32 then Inl (PyError ''ValueError'')
         else case parse_hex hex of
                Some n \<Rightarrow> if 0 \<le> n \<and> n < 2 ^ 128 then Inr (nat n) else Inl (PyError ''ValueError'')
              | None \<Rightarrow> Inl (PyError ''ValueError''))"

subsection \<open>Access tokens (app/auth/jwt.py)\<close>

text \<open>A claim is a JSON value or a time, which PyJWT writes as whole seconds.\<close>

datatype claim = ClaimJson json | ClaimTime instant

fun wire :: "claim \<Rightarrow> json" where
  "wire (ClaimJson j) = j"
| "wire (ClaimTime t) = JInt (t div 1000000)"

text \<open>\<open>jwt_encode payload secret algorithm\<close>, \<open>jwt_decode now token secret algorithm\<close> and
  \<open>check_password plain hashed\<close>.\<close>

record auth_lib =
  jwt_encode :: "(string \<times> claim) list \<Rightarrow> string \<Rightarrow> string \<Rightarrow> string"
  jwt_decode :: "instant \<Rightarrow> string \<Rightarrow> string \<Rightarrow> string \<Rightarrow> exn + dict"
  check_password :: "string \<Rightarrow> string \<Rightarrow> exn + bool"

definition token_payload ::
  "instant \<Rightarrow> int \<Rightarrow> string \<Rightarrow> string \<Rightarrow> dict \<Rightarrow> (string \<times> claim) list" where
  "token_payload now minutes subject role extra =
     dict_update
       [(''sub'', ClaimJson (JStr subject)), (''role'', ClaimJson (JStr role)),
        (''iat'', ClaimTime now), (''exp'', ClaimTime (now + minutes * 60 * 1000000))]
       (map (\<lambda>(k, v). (k, ClaimJson v)) extra)"

definition create_access_token ::
  "auth_lib \<Rightarrow> 'x env \<Rightarrow> string \<Rightarrow> string \<Rightarrow> dict option \<Rightarrow> ('x, string) op" where
  "create_access_token A E subject role extra =
     bindA now_utc (\<lambda>now.
       ret (jwt_encode A
              (token_payload now (jwt_expire_minutes (cfg E)) subject role
                (case extra of Some x \<Rightarrow> x | None \<Rightarrow> []))
              (jwt_secret (cfg E)) (jwt_algorithm (cfg E))))"

definition decode_access_token :: "auth_lib \<Rightarrow> 'x env \<Rightarrow> string \<Rightarrow> ('x, dict) op" where
  "decode_access_token A E token =
     bindA now_utc (\<lambda>now.
       liftA (jwt_decode A now token (jwt_secret (cfg E)) (jwt_algorithm (cfg E))))"

definition user_id_from_payload :: "'x env \<Rightarrow> dict \<Rightarrow> exn + uuid" where
  "user_id_from_payload E payload =
     (case map_of payload ''sub'' of
        None \<Rightarrow> Inl (PyError ''KeyError'')
      | Some j \<Rightarrow> parse_uuid (py_str (str_of E) j))"

subsection \<open>The dependencies (app/auth/deps.py)\<close>

definition unauthorized :: exn where
  "unauthorized = AppError ''UNAUTHORIZED'' 401"

definition forbidden :: exn where
  "forbidden = AppError ''FORBIDDEN'' 403"

definition users_with_id :: "uuid \<Rightarrow> database \<Rightarrow> user list" where
  "users_with_id i d = filter (\<lambda>u. u_id u = i) (users d)"

definition get_current_user :: "auth_lib \<Rightarrow> 'x env \<Rightarrow> string option \<Rightarrow> ('x, user) op" where
  "get_current_user A E token =
     (case token of
        None \<Rightarrow> raise unauthorized
      | Some t \<Rightarrow>
          if t = [] then raise unauthorized
          else bindA (tryA (bindA (decode_access_token A E t) (\<lambda>payload.
                              liftA (user_id_from_payload E payload)))
                           (\<lambda>_. raise unauthorized)) (\<lambda>user_id.
               bindA (one_of (users_with_id user_id)) (\<lambda>user.
                 case user of
                   None \<Rightarrow> raise unauthorized
                 | Some u \<Rightarrow> if u_is_active u then ret u else raise unauthorized)))"

definition require_roles ::
  "auth_lib \<Rightarrow> 'x env \<Rightarrow> user_role list \<Rightarrow> string option \<Rightarrow> ('x, user) op" where
  "require_roles A E allowed token =
     bindA (get_current_user A E token) (\<lambda>u.
       if u_role u \<notin> set allowed then raise forbidden else ret u)"

text \<open>The values of \<^verbatim>\<open>UserRole\<close> (app/models/user.py).\<close>

fun role_value :: "user_role \<Rightarrow> string" where
  "role_value RoleClient = ''client''"
| "role_value RoleAdmin = ''admin''"
| "role_value RoleOps = ''ops''"
| "role_value RoleReadonly = ''readonly''"

subsection \<open>What guards a route\<close>

text \<open>\<^verbatim>\<open>Depends(get_db)\<close>, \<^verbatim>\<open>Depends(require_roles(...))\<close>, then the handler's body.\<close>

definition guarded ::
  "auth_lib \<Rightarrow> 'x env \<Rightarrow> user_role list \<Rightarrow> string option \<Rightarrow> (user \<Rightarrow> ('x, 'a) op) \<Rightarrow> ('x, 'a) op" where
  "guarded A E roles token body = request (bindA (require_roles A E roles token) body)"

definition admin_only :: "user_role list" where
  "admin_only = [RoleAdmin]"

definition operators :: "user_role list" where
  "operators = [RoleAdmin, RoleOps]"

definition viewers :: "user_role list" where
  "viewers = [RoleAdmin, RoleOps, RoleReadonly]"

definition traders :: "user_role list" where
  "traders = [RoleAdmin, RoleOps, RoleClient]"

definition everyone :: "user_role list" where
  "everyone = [RoleAdmin, RoleOps, RoleClient, RoleReadonly]"

text \<open>A parameter or body that its declaration rejects: \<^verbatim>\<open>RequestValidationError\<close>, a 422.\<close>

definition invalid_request :: exn where
  "invalid_request = PyError ''RequestValidationError''"

definition checked :: "bool \<Rightarrow> ('x, 'a) op \<Rightarrow> ('x, 'a) op" where
  "checked ok m = (if ok then m else raise invalid_request)"

subsection \<open>Login (app/api/routes/auth.py)\<close>

record token_response =
  tr_access_token :: string
  tr_role :: string
  tr_email :: string

definition login :: "auth_lib \<Rightarrow> 'x env \<Rightarrow> string \<Rightarrow> string \<Rightarrow> ('x, token_response) op" where
  "login A E username password =
     bindA (one_of (\<lambda>d. filter (\<lambda>u. u_email u = username) (users d))) (\<lambda>user.
       case user of
         None \<Rightarrow> raise unauthorized
       | Some u \<Rightarrow>
           (case u_password_hash u of
              None \<Rightarrow> raise unauthorized
            | Some h \<Rightarrow>
                if h = [] then raise unauthorized
                else bindA (liftA (check_password A password h)) (\<lambda>ok.
                  if \<not> ok then raise unauthorized
                  else if \<not> u_is_active u then raise unauthorized
                  else bindA (create_access_token A E (uuid_text (u_id u)) (role_value (u_role u)) None)
                    (\<lambda>t. ret \<lparr>tr_access_token = t, tr_role = role_value (u_role u),
                              tr_email = u_email u\<rparr>))))"

subsection \<open>The event socket (\<^verbatim>\<open>_authenticate_ws\<close>)\<close>

definition ws_allowed :: "user_role list" where
  "ws_allowed = [RoleAdmin, RoleOps, RoleReadonly]"

definition authenticate_ws :: "auth_lib \<Rightarrow> 'x env \<Rightarrow> string option \<Rightarrow> ('x, user option) op" where
  "authenticate_ws A E token =
     (case token of
        None \<Rightarrow> ret None
      | Some t \<Rightarrow>
          if t = [] then ret None
          else bindA (tryA (bindA (decode_access_token A E t) (\<lambda>payload.
                              bindA (liftA (user_id_from_payload E payload)) (\<lambda>i. ret (Some i))))
                           (\<lambda>_. ret None)) (\<lambda>user_id.
               case user_id of
                 None \<Rightarrow> ret None
               | Some i \<Rightarrow>
                   bindA (one_of (users_with_id i)) (\<lambda>user.
                     ret (case user of
                            None \<Rightarrow> None
                          | Some u \<Rightarrow> if \<not> u_is_active u \<or> u_role u \<notin> set ws_allowed then None
                                      else Some u))))"


subsection \<open>A uuid is read back from its text\<close>

lemma remove_sub_absent: "sub \<noteq> [] \<Longrightarrow> hd sub \<notin> set s \<Longrightarrow> remove_sub sub s = s"
  by (induction sub s rule: remove_sub.induct) (auto simp: neq_Nil_conv)

definition hex_chars :: string where
  "hex_chars = ''0123456789abcdef''"

lemma hex_digit_cases:
  assumes "d < 16"
  shows "hex_digit d \<in> set hex_chars" "hex_value (hex_digit d) = Some d"
proof -
  have "d \<in> set [0..<16]" using assms by simp
  moreover have "list_all (\<lambda>d. hex_digit d \<in> set hex_chars \<and> hex_value (hex_digit d) = Some d) [0..<16]"
    by code_simp
  ultimately show "hex_digit d \<in> set hex_chars" "hex_value (hex_digit d) = Some d"
    by (simp_all add: list_all_iff)
qed

lemma hex_chars_plain:
  assumes "c \<in> set hex_chars"
  shows "\<not> is_space c" "c \<noteq> CHR ''-''" "c \<noteq> CHR ''+''" "c \<noteq> CHR ''x''" "c \<noteq> CHR ''X''"
    "c \<noteq> CHR ''u''" "c \<noteq> CHR 0x7B" "c \<noteq> CHR 0x7D"
proof -
  have "list_all (\<lambda>c. \<not> is_space c \<and> c \<noteq> CHR ''-'' \<and> c \<noteq> CHR ''+'' \<and> c \<noteq> CHR ''x'' \<and>
      c \<noteq> CHR ''X'' \<and> c \<noteq> CHR ''u'' \<and> c \<noteq> CHR 0x7B \<and> c \<noteq> CHR 0x7D) hex_chars"
    by code_simp
  with assms show "\<not> is_space c" "c \<noteq> CHR ''-''" "c \<noteq> CHR ''+''" "c \<noteq> CHR ''x''" "c \<noteq> CHR ''X''"
    "c \<noteq> CHR ''u''" "c \<noteq> CHR 0x7B" "c \<noteq> CHR 0x7D"
    by (auto simp: list_all_iff)
qed

definition digits16 :: "nat \<Rightarrow> nat \<Rightarrow> nat list" where
  "digits16 u n = map (\<lambda>i. u div 16 ^ (n - 1 - i) mod 16) [0..<n]"

lemma digits16_Suc: "digits16 u (Suc n) = digits16 (u div 16) n @ [u mod 16]"
proof -
  have "u div 16 ^ (n - i) mod 16 = u div 16 div 16 ^ (n - 1 - i) mod 16" if "i < n" for i
  proof -
    have "(16::nat) ^ (n - i) = 16 * 16 ^ (n - 1 - i)"
      using that by (metis Suc_diff_Suc diff_Suc_eq_diff_pred power_Suc)
    then show ?thesis by (simp add: div_mult2_eq)
  qed
  then show ?thesis by (simp add: digits16_def)
qed

lemma foldl_digits16: "foldl (\<lambda>a d. 16 * a + d) 0 (digits16 u n) = u mod 16 ^ n"
  by (induction n arbitrary: u) (simp_all add: digits16_def [of _ 0] digits16_Suc mod_mult2_eq)

lemma digits16_small: "d \<in> set (digits16 u n) \<Longrightarrow> d < 16"
  by (auto simp: digits16_def)

lemma length_digits16 [simp]: "length (digits16 u n) = n"
  by (simp add: digits16_def)

lemma uuid_hex_digits: "uuid_hex u = map hex_digit (digits16 u 32)"
  by (simp add: uuid_hex_def digits16_def)

lemma parse_hex_digits_map:
  "(\<And>d. d \<in> set ds \<Longrightarrow> d < 16) \<Longrightarrow>
   parse_hex_digits acc (map hex_digit ds) = Some (foldl (\<lambda>a d. 16 * a + d) acc ds)"
  by (induction ds arbitrary: acc) (simp_all add: hex_digit_cases)

lemma drop_0x_plain: "set s \<subseteq> set hex_chars \<Longrightarrow> drop_0x s = s"
proof -
  assume hex: "set s \<subseteq> set hex_chars"
  have "s ! 1 \<notin> {CHR ''x'', CHR ''X''}" if "2 \<le> length s"
  proof -
    have "s ! 1 \<in> set hex_chars" using hex that nth_mem [of 1 s] by auto
    from hex_chars_plain(4,5) [OF this] show ?thesis by simp
  qed
  then show ?thesis unfolding drop_0x_def by meson
qed

lemma parse_hex_map:
  assumes "\<And>d. d \<in> set ds \<Longrightarrow> d < 16" "ds \<noteq> []"
  shows "parse_hex (map hex_digit ds) = Some (int (foldl (\<lambda>a d. 16 * a + d) 0 ds))"
proof -
  obtain d es where ds: "ds = d # es" using assms(2) by (cases ds) auto
  have hex: "set (map hex_digit ds) \<subseteq> set hex_chars"
    using assms(1) hex_digit_cases(1) by auto
  have strip: "py_strip (map hex_digit ds) = map hex_digit ds"
    unfolding py_strip_def using hex hex_chars_plain(1) by (intro strip_by_none) blast
  have sign: "hex_digit d \<noteq> CHR ''-''" "hex_digit d \<noteq> CHR ''+''"
    using hex hex_chars_plain(2,3) by (auto simp: ds)
  have "parse_hex_nat (map hex_digit ds) = Some (foldl (\<lambda>a d. 16 * a + d) 0 ds)"
    unfolding parse_hex_nat_def drop_0x_plain [OF hex]
    using assms(1) by (simp add: ds hex_digit_cases parse_hex_digits_map)
  with strip sign show ?thesis
    by (simp add: parse_hex_def ds)
qed

lemma split_concat: "take 8 h @ take 4 (drop 8 h) @ take 4 (drop 12 h) @ take 4 (drop 16 h) @ drop 20 h = h"
proof -
  have "take 4 (drop 16 h) @ drop 20 h = drop 16 h"
    using append_take_drop_id [of 4 "drop 16 h"] by simp
  moreover have "take 4 (drop 12 h) @ drop 16 h = drop 12 h"
    using append_take_drop_id [of 4 "drop 12 h"] by simp
  moreover have "take 4 (drop 8 h) @ drop 12 h = drop 8 h"
    using append_take_drop_id [of 4 "drop 8 h"] by simp
  ultimately show ?thesis by simp
qed

lemma parse_uuid_text: "u < 2 ^ 128 \<Longrightarrow> parse_uuid (uuid_text u) = Inr u"
proof -
  assume u: "u < 2 ^ 128"
  let ?h = "uuid_hex u"
  have hex: "set ?h \<subseteq> set hex_chars"
    using digits16_small [of _ u 32] hex_digit_cases(1) by (auto simp: uuid_hex_digits)
  have parts: "set (uuid_text u) \<subseteq> insert (CHR ''-'') (set hex_chars)"
    using hex by (auto simp: uuid_text_def Let_def dest!: in_set_takeD in_set_dropD)
  have absent: "CHR ''u'' \<notin> set (uuid_text u)" "CHR 0x7B \<notin> set (uuid_text u)" "CHR 0x7D \<notin> set (uuid_text u)"
    using parts hex_chars_plain(6,7,8) by auto
  have keep: "filter (\<lambda>c. c \<noteq> CHR ''-'') x = x" if "set x \<subseteq> set ?h" for x
    using that hex hex_chars_plain(2) by (intro filter_True) blast
  have "set (take n ?h) \<subseteq> set ?h" "set (take n (drop m ?h)) \<subseteq> set ?h" "set (drop m ?h) \<subseteq> set ?h" for n m
    by (auto dest: in_set_takeD in_set_dropD)
  then have "filter (\<lambda>c. c \<noteq> CHR ''-'') (uuid_text u) = ?h"
    by (simp add: uuid_text_def Let_def keep split_concat)
  moreover have "remove_sub ''uuid:'' (remove_sub ''urn:'' (uuid_text u)) = uuid_text u"
    using absent(1) by (simp add: remove_sub_absent)
  moreover have "strip_by (\<lambda>c. c = CHR 0x7B \<or> c = CHR 0x7D) (uuid_text u) = uuid_text u"
    using absent(2,3) by (intro strip_by_none) auto
  moreover have "parse_hex ?h = Some (int u)"
  proof -
    have "digits16 u 32 \<noteq> []" using length_digits16 [of u 32] by fastforce
    then have "parse_hex ?h = Some (int (u mod 16 ^ 32))"
      using parse_hex_map [of "digits16 u 32", OF digits16_small] by (simp add: uuid_hex_digits foldl_digits16)
    moreover have "u mod 16 ^ 32 = u" using u by simp
    ultimately show ?thesis by simp
  qed
  moreover have "length ?h = 32" by (simp add: uuid_hex_digits)
  ultimately show ?thesis
    using u by (simp add: parse_uuid_def Let_def)
qed

end
