(* ===== verification/Manager.thy ===== *)
theory Manager
  imports World "HOL-Library.AList" "HOL-Library.Multiset"
begin

text \<open>
  \<^verbatim>\<open>ProviderManager\<close> (\<^verbatim>\<open>app/providers/manager.py\<close>): which adapter serves a kind, built from the
  active stored configuration or from the settings, cached until it is invalidated or its
  version is superseded. An adapter object is a number (its identity) with what it was built
  from. Whether a Docker engine answers is a parameter; the Redis client object is left out.
\<close>

subsection \<open>Adapters\<close>

text \<open>The fields of \<^verbatim>\<open>KafkaEventProvider\<close> that its constructor sets from its arguments.\<close>

record kafka_config =
  kf_brokers :: string
  kf_security_protocol :: string
  kf_sasl_mechanism :: json
  kf_username :: json
  kf_password :: json
  kf_ssl :: bool
  kf_topic_prefix :: json
  kf_topic_map :: dict
  kf_provider_type :: string
  kf_consumer_group :: string

datatype adapter =
    MockInfra string "string option"  \<comment> \<open>backend, Docker host\<close>
  | VultrInfra string string  \<comment> \<open>api key, default region\<close>
  | MemoryEvents string json "dict option"  \<comment> \<open>consumer group, topic prefix, topic map\<close>
  | KafkaEvents kafka_config
  | MockBrokerAdapter
  | MemoryCacheAdapter
  | LockAdapter bool  \<comment> \<open>on Redis\<close>
  | SessionAdapter bool
  | RateLimitAdapter bool

fun is_event_adapter :: "adapter \<Rightarrow> bool" where
  "is_event_adapter (MemoryEvents g p m) = True"
| "is_event_adapter (KafkaEvents k) = True"
| "is_event_adapter _ = False"

type_synonym handle = "nat \<times> adapter"

text \<open>The attributes of the manager. \<open>mg_made\<close> lists the adapters built so far, oldest first, and
  \<open>mg_closed\<close> those whose \<^verbatim>\<open>aclose\<close> was awaited, in that order.\<close>

record manager =
  mg_cache :: "(string \<times> handle) list"
  mg_event_version :: "int option"
  mg_infra_version :: "int option"
  mg_stale :: "handle list"
  mg_degraded :: "string option"
  mg_made :: "adapter list"
  mg_closed :: "handle list"

definition new_manager :: manager where
  "new_manager = \<lparr>mg_cache = [], mg_event_version = None, mg_infra_version = None, mg_stale = [],
     mg_degraded = None, mg_made = [], mg_closed = []\<rparr>"

text \<open>The operations see the session's database and the manager.\<close>

type_synonym ('x, 'a) mop = "('x world \<times> manager, exn, 'a) act"

definition on_world :: "('x, 'a) op \<Rightarrow> ('x, 'a) mop" where
  "on_world = zoomA fst (\<lambda>w s. (w, snd s))"

definition upd_manager :: "(manager \<Rightarrow> manager) \<Rightarrow> ('x, unit) mop" where
  "upd_manager f = modifyA (apsnd f)"

definition cached :: "string \<Rightarrow> manager \<Rightarrow> handle option" where
  "cached key M = map_of (mg_cache M) key"

definition uncache :: "string \<Rightarrow> manager \<Rightarrow> manager" where
  "uncache key M = M\<lparr>mg_cache := AList.delete key (mg_cache M)\<rparr>"

definition to_stale :: "string \<Rightarrow> manager \<Rightarrow> manager" where
  "to_stale key M =
     (case cached key M of
        None \<Rightarrow> M
      | Some h \<Rightarrow> uncache key (M\<lparr>mg_stale := mg_stale M @ [h]\<rparr>))"

text \<open>The world holds the state of the in-process adapter in use: a new object starts afresh.
  A topic prefix that is no string is not modelled.\<close>

definition fresh_instance :: "adapter \<Rightarrow> 'x world \<Rightarrow> 'x world" where
  "fresh_instance a w =
     (case a of
        MockInfra backend h \<Rightarrow> if backend = ''docker'' then w else w\<lparr>the_infra := new_mock_infra\<rparr>
      | MemoryEvents g p m \<Rightarrow>
          w\<lparr>the_bus := (the_bus w)\<lparr>ev_bus := (new_memory_bus (Some g))
             \<lparr>mb_topic_prefix := (case p of JStr s \<Rightarrow> Some s | _ \<Rightarrow> None), mb_topic_map := m\<rparr>\<rparr>\<rparr>
      | MockBrokerAdapter \<Rightarrow> w\<lparr>the_broker := new_mock_broker\<rparr>
      | LockAdapter on_redis \<Rightarrow> if on_redis then w else w\<lparr>mem_locks := Map.empty\<rparr>
      | SessionAdapter on_redis \<Rightarrow> if on_redis then w else w\<lparr>mem_sessions := Map.empty\<rparr>
      | RateLimitAdapter on_redis \<Rightarrow> if on_redis then w else w\<lparr>mem_hits := (\<lambda>_. [])\<rparr>
      | _ \<Rightarrow> w)"

text \<open>Building an adapter and putting it into the cache.\<close>

definition install :: "string \<Rightarrow> adapter \<Rightarrow> ('x, handle) mop" where
  "install key a =
     bindA (askA (\<lambda>s. (length (mg_made (snd s)), a))) (\<lambda>h.
       seqA (modifyA (apfst (fresh_instance a)))
       (seqA (upd_manager (\<lambda>M. M\<lparr>mg_made := mg_made M @ [a], mg_cache := dict_set (mg_cache M) key h\<rparr>))
         (ret h)))"

subsection \<open>Invalidation\<close>

definition invalidate :: "string option \<Rightarrow> manager \<Rightarrow> manager" where
  "invalidate kind M =
     (case kind of
        None \<Rightarrow>
          M\<lparr>mg_stale := mg_stale M @ map snd (filter (\<lambda>kv. fst kv = ''event'') (mg_cache M)),
            mg_cache := [], mg_event_version := None, mg_infra_version := None, mg_degraded := None\<rparr>
      | Some k \<Rightarrow>
          if k = ''event'' then (to_stale ''event'' M)\<lparr>mg_event_version := None\<rparr>
          else
            let cache_key = (if k = ''broker_default'' then ''broker'' else k);
                M1 = uncache cache_key M;
                M2 = (if k \<noteq> cache_key then uncache k M1 else M1)
            in if cache_key = ''infrastructure'' \<or> k = ''infrastructure''
               then M2\<lparr>mg_infra_version := None, mg_degraded := None\<rparr> else M2)"

text \<open>\<^verbatim>\<open>while self._stale: provider = self._stale.pop(); ... await close()\<close>: an exception of
  \<^verbatim>\<open>aclose\<close> is swallowed, so every stale adapter is closed, the newest first.\<close>

definition close_stale :: "manager \<Rightarrow> manager" where
  "close_stale M = M\<lparr>mg_closed := mg_closed M @ rev (mg_stale M), mg_stale := []\<rparr>"

subsection \<open>The stored configuration\<close>

definition active_rows :: "provider_kind \<Rightarrow> database \<Rightarrow> provider_config list" where
  "active_rows kind d =
     filter (\<lambda>r. pc_client_id r = None \<and> pc_scope_type r = ScopeGlobal)
       (filter (\<lambda>r. pc_kind r = kind \<and> pc_status r = PsActive) (provider_configs d))"

text \<open>\<open>with_db\<close> tells whether a session was passed.\<close>

definition active_row :: "bool \<Rightarrow> provider_kind \<Rightarrow> ('x, provider_config option) mop" where
  "active_row with_db kind =
     (if \<not> with_db then ret None else on_world (ask_db (\<lambda>d. first_row (active_rows kind d))))"

definition active_type :: "bool \<Rightarrow> provider_kind \<Rightarrow> ('x, string option) mop" where
  "active_type with_db kind =
     bindA (active_row with_db kind) (\<lambda>row. ret (map_option pc_provider_type row))"

definition merged_secrets :: "'x env \<Rightarrow> provider_config \<Rightarrow> exn + dict" where
  "merged_secrets E row =
     (case pc_config_encrypted row of
        None \<Rightarrow> Inr (pc_config_non_secret row)
      | Some token \<Rightarrow>
          if token = [] then Inr (pc_config_non_secret row)
          else case decrypt E token of
                 Inl e \<Rightarrow> Inl e
               | Inr raw \<Rightarrow>
                   (case (if raw = [] then Inr (JObj []) else json_loads E raw) of
                      Inl e \<Rightarrow> Inl e
                    | Inr (JObj secrets) \<Rightarrow> Inr (dict_update (pc_config_non_secret row) secrets)
                    | Inr _ \<Rightarrow> Inr (pc_config_non_secret row)))"

text \<open>A secret that cannot be read is skipped.\<close>

definition load_infra_secrets :: "'x env \<Rightarrow> provider_config \<Rightarrow> dict" where
  "load_infra_secrets E row =
     (case merged_secrets E row of Inl _ \<Rightarrow> pc_config_non_secret row | Inr d \<Rightarrow> d)"

definition load_event_secrets :: "'x env \<Rightarrow> provider_config \<Rightarrow> dict" where
  "load_event_secrets E row =
     (case merged_secrets E row of Inl _ \<Rightarrow> pc_config_non_secret row | Inr d \<Rightarrow> d)"

subsection \<open>Infrastructure\<close>

text \<open>\<^verbatim>\<open>x or y or z\<close> on strings: the first that is not empty, else the last.\<close>

fun first_text :: "string list \<Rightarrow> string" where
  "first_text [] = []"
| "first_text [s] = s"
| "first_text (s # ss) = (if s \<noteq> [] then s else first_text ss)"

fun first_truthy :: "json list \<Rightarrow> json" where
  "first_truthy [] = JNull"
| "first_truthy [j] = j"
| "first_truthy (j # js) = (if truthy j then j else first_truthy js)"

definition backends :: "string list" where
  "backends = [''database'', ''docker'']"

definition resolve_mock_backend :: "'x env \<Rightarrow> dict \<Rightarrow> string" where
  "resolve_mock_backend E config =
     (let backend = first_text
            [py_lower (py_strip (py_str (str_of E) (first_truthy [dict_get config ''mock_backend'' JNull, JStr []]))),
             py_lower (py_strip (mock_infra_backend (cfg E))), ''database'']
      in if backend \<in> set backends then backend else ''database'')"

definition docker_socket_hint :: string where
  "docker_socket_hint = ''Docker socket not mounted or Docker Engine unavailable; use mock_backend=database, or ensure /var/run/docker.sock is mounted (Local Lab: docker compose up)''"

definition given_host :: "string \<Rightarrow> string option" where
  "given_host s = (if py_strip s = [] then None else Some (py_strip s))"

text \<open>The answer of \<^verbatim>\<open>docker_engine_available(host)\<close>: \<open>Inr\<close> when the engine answers, else
  the message.\<close>

type_synonym 'x engine = "'x world \<Rightarrow> string option \<Rightarrow> string option + unit"

definition build_mock_infra ::
  "'x env \<Rightarrow> 'x engine \<Rightarrow> string \<Rightarrow> ('x, adapter) mop" where
  "build_mock_infra E engine backend =
     (let docker_host = given_host (World.docker_host (cfg E)) in
      seqA (upd_manager (\<lambda>M. M\<lparr>mg_degraded := None\<rparr>))
        (bindA (askA (\<lambda>s. if backend = ''docker'' then engine (fst s) docker_host else Inr ())) (\<lambda>answer.
           case answer of
             Inr _ \<Rightarrow> ret (MockInfra backend docker_host)
           | Inl err \<Rightarrow>
               let msg = (case err of Some m \<Rightarrow> first_text [m, docker_socket_hint]
                          | None \<Rightarrow> docker_socket_hint)
               in seqA (upd_manager (\<lambda>M. M\<lparr>mg_degraded := Some msg\<rparr>))
                    (ret (MockInfra ''database'' docker_host)))))"

text \<open>The last \<^verbatim>\<open>or "ewr"\<close> is the constructor's.\<close>

definition build_vultr :: "'x env \<Rightarrow> dict \<Rightarrow> adapter" where
  "build_vultr E config =
     VultrInfra
       (py_strip (py_str (str_of E) (first_truthy
          [dict_get config ''api_key'' JNull, JStr (vultr_api_key (cfg E)), JStr []])))
       (first_text
         [py_strip (py_str (str_of E) (first_truthy
            [dict_get config ''default_region'' JNull, dict_get config ''region'' JNull,
             JStr (vultr_default_region (cfg E)), JStr ''ewr''])), ''ewr''])"

definition lowered_type :: "string \<Rightarrow> string" where
  "lowered_type t = py_lower (py_strip (first_text [t, ''mock'']))"

definition get_infrastructure_provider ::
  "'x env \<Rightarrow> 'x engine \<Rightarrow> bool \<Rightarrow> ('x, handle) mop" where
  "get_infrastructure_provider E engine with_db =
     bindA (active_row with_db PkInfrastructure) (\<lambda>row.
     bindA (askA snd) (\<lambda>M.
       case row of
         Some r \<Rightarrow>
           (case (if mg_infra_version M = Some (pc_version r) then cached ''infrastructure'' M else None) of
              Some h \<Rightarrow> ret h
            | None \<Rightarrow>
                let config = load_infra_secrets E r in
                bindA (if lowered_type (pc_provider_type r) = ''vultr'' then ret (build_vultr E config)
                       else build_mock_infra E engine (resolve_mock_backend E config)) (\<lambda>a.
                bindA (install ''infrastructure'' a) (\<lambda>h.
                  seqA (upd_manager (\<lambda>M. M\<lparr>mg_infra_version := Some (pc_version r)\<rparr>)) (ret h))))
       | None \<Rightarrow>
           (case (if mg_infra_version M = Some (- 1) then cached ''infrastructure'' M else None) of
              Some h \<Rightarrow> ret h
            | None \<Rightarrow>
                bindA (if lowered_type (infra_provider (cfg E)) = ''vultr''
                       then ret (build_vultr E [(''api_key'', JStr (vultr_api_key (cfg E))),
                                                (''default_region'', JStr (vultr_default_region (cfg E)))])
                       else build_mock_infra E engine (resolve_mock_backend E [])) (\<lambda>a.
                bindA (install ''infrastructure'' a) (\<lambda>h.
                  seqA (upd_manager (\<lambda>M. M\<lparr>mg_infra_version := Some (- 1)\<rparr>)) (ret h))))))"

record infra_description =
  ds_provider_type :: string
  ds_version :: "int option"
  ds_configured_backend :: "string option"
  ds_effective_backend :: "string option"  \<comment> \<open>also \<^verbatim>\<open>backend\<close>\<close>
  ds_degraded :: bool
  ds_degrade_message :: "string option"
  ds_label :: string

fun backend_name :: "adapter \<Rightarrow> string option" where
  "backend_name (MockInfra b h) = Some b"
| "backend_name (VultrInfra k r) = Some ''vultr''"
| "backend_name _ = None"

definition describe_infrastructure ::
  "'x env \<Rightarrow> 'x engine \<Rightarrow> bool \<Rightarrow> ('x, infra_description) mop" where
  "describe_infrastructure E engine with_db =
     bindA (active_row with_db PkInfrastructure) (\<lambda>row.
     bindA (get_infrastructure_provider E engine with_db) (\<lambda>h.
     bindA (askA (\<lambda>s. mg_degraded (snd s))) (\<lambda>degraded.
       let ptype = (case row of Some r \<Rightarrow> pc_provider_type r | None \<Rightarrow> first_text [infra_provider (cfg E), ''mock'']);
           effective = backend_name (snd h);
           is_mock = (py_lower ptype = ''mock'');
           configured =
             (if is_mock then
                Some (resolve_mock_backend E (case row of Some r \<Rightarrow> pc_config_non_secret r | None \<Rightarrow> []))
              else effective)
       in ret \<lparr>ds_provider_type = ptype, ds_version = map_option pc_version row,
               ds_configured_backend = configured, ds_effective_backend = effective,
               ds_degraded = (degraded \<noteq> None), ds_degrade_message = degraded,
               ds_label = (case effective of
                  Some (c # b) \<Rightarrow> if is_mock then ''mock ('' @ (c # b) @ '')'' else ptype
                | _ \<Rightarrow> ptype)\<rparr>)))"

subsection \<open>The default broker and the Redis-backed adapters\<close>

text \<open>\<^verbatim>\<open>MockBrokerProvider() if ptype == "mock" else MockBrokerProvider()\<close>: the type is
  looked up and then makes no difference.\<close>

definition get_broker_provider :: "bool \<Rightarrow> ('x, handle) mop" where
  "get_broker_provider with_db =
     bindA (askA (\<lambda>s. cached ''broker'' (snd s))) (\<lambda>c.
       case c of
         Some h \<Rightarrow> ret h
       | None \<Rightarrow> bindA (active_type with_db PkBrokerDefault) (\<lambda>_. install ''broker'' MockBrokerAdapter))"

definition get_or_install :: "string \<Rightarrow> adapter \<Rightarrow> ('x, handle) mop" where
  "get_or_install key a =
     bindA (askA (\<lambda>s. cached key (snd s))) (\<lambda>c. case c of Some h \<Rightarrow> ret h | None \<Rightarrow> install key a)"

definition get_cache_provider :: "('x, handle) mop" where
  "get_cache_provider = get_or_install ''cache'' MemoryCacheAdapter"

definition get_lock_provider :: "'x env \<Rightarrow> ('x, handle) mop" where
  "get_lock_provider E = get_or_install ''lock'' (LockAdapter (lock_provider_name (cfg E) = ''redis''))"

definition get_session_provider :: "'x env \<Rightarrow> ('x, handle) mop" where
  "get_session_provider E =
     get_or_install ''session'' (SessionAdapter (session_provider_name (cfg E) = ''redis''))"

definition get_rate_limit_provider :: "'x env \<Rightarrow> ('x, handle) mop" where
  "get_rate_limit_provider E =
     get_or_install ''rate_limit'' (RateLimitAdapter (rate_limit_provider_name (cfg E) = ''redis''))"

subsection \<open>Events\<close>

definition text_or_null :: "string \<Rightarrow> json" where
  "text_or_null s = (if s \<noteq> [] then JStr s else JNull)"

definition env_event_config :: "'x env \<Rightarrow> string \<times> dict" where
  "env_event_config E =
     (let C = cfg E;
          ptype = py_lower (py_strip (first_text [event_provider_name C, ''memory'']));
          servers = first_text [py_strip (kafka_bootstrap_servers C), py_strip (redpanda_brokers C)];
          config =
            [(''brokers'', JStr servers),
             (''security_protocol'', JStr (first_text [World.kafka_security_protocol C, ''PLAINTEXT''])),
             (''sasl_mechanism'', text_or_null (World.kafka_sasl_mechanism C)),
             (''ssl'', JBool (kafka_ssl C)),
             (''topic_prefix'', JStr (first_text [kafka_topic_prefix C, ''brokerbridge''])),
             (''username'', text_or_null (kafka_username C)),
             (''password'', text_or_null (kafka_password C)),
             (''consumer_group'', text_or_null (kafka_consumer_group C))]
      in if ptype \<in> {'''', ''memory''} then (''memory'', config) else (ptype, config))"

text \<open>\<^verbatim>\<open>",".join(str(b) for b in brokers) if isinstance(brokers, list)\<close>, then
  \<^verbatim>\<open>str(brokers).strip()\<close>.\<close>

fun join_commas :: "string list \<Rightarrow> string" where
  "join_commas [] = []"
| "join_commas [s] = s"
| "join_commas (s # ss) = s @ '','' @ join_commas ss"

definition brokers_text :: "'x env \<Rightarrow> json \<Rightarrow> string" where
  "brokers_text E j =
     py_strip (case j of JList bs \<Rightarrow> join_commas (map (py_str (str_of E)) bs) | _ \<Rightarrow> py_str (str_of E) j)"

definition dict_at :: "dict \<Rightarrow> string \<Rightarrow> dict option" where
  "dict_at d k = (case dict_get d k JNull of JObj m \<Rightarrow> Some m | _ \<Rightarrow> None)"

text \<open>\<^verbatim>\<open>x or None\<close>\<close>

definition or_null :: "json \<Rightarrow> json" where
  "or_null j = (if truthy j then j else JNull)"

text \<open>The constructor of \<^verbatim>\<open>KafkaEventProvider\<close>; \<^verbatim>\<open>consumer_group=None\<close> is its default.\<close>

definition kafka_provider ::
  "string \<Rightarrow> string \<Rightarrow> json \<Rightarrow> json \<Rightarrow> json \<Rightarrow> bool \<Rightarrow> json \<Rightarrow> dict option \<Rightarrow> string \<Rightarrow>
   string option \<Rightarrow> kafka_config" where
  "kafka_provider servers protocol mechanism username password ssl topic_prefix topic_map ptype grp =
     \<lparr>kf_brokers = servers, kf_security_protocol = py_upper (first_text [protocol, ''PLAINTEXT'']),
      kf_sasl_mechanism = mechanism, kf_username = username, kf_password = password, kf_ssl = ssl,
      kf_topic_prefix = topic_prefix,
      kf_topic_map = (case topic_map of Some m \<Rightarrow> m | None \<Rightarrow> []),
      kf_provider_type = ptype,
      kf_consumer_group = (case grp of Some g \<Rightarrow> first_text [g, ''brokerbridge-lab'']
                           | None \<Rightarrow> ''brokerbridge-lab'')\<rparr>"

definition build_event_provider :: "'x env \<Rightarrow> string \<Rightarrow> dict \<Rightarrow> adapter" where
  "build_event_provider E provider_type config =
     (let get = (\<lambda>k. dict_get config k JNull);
          ptype = py_lower (first_text [provider_type, ''memory'']);
          consumer_group = py_str (str_of E) (first_truthy
            [get ''consumer_group'', JStr (kafka_consumer_group (cfg E)), JStr ''brokerbridge-lab'']);
          prefix0 = JStr (kafka_topic_prefix (cfg E))
      in if ptype = ''memory'' then
           MemoryEvents (first_text [consumer_group, ''brokerbridge-lab''])
             (py_or (get ''topic_prefix'') prefix0) (dict_at config ''topic_map'')
         else
           let servers = brokers_text E (first_truthy
                 [get ''brokers'', get ''bootstrap_servers'', JStr (redpanda_brokers (cfg E)), JStr []])
           in if servers = [] then MemoryEvents (first_text [consumer_group, ''brokerbridge-lab'']) JNull None
              else KafkaEvents (kafka_provider servers
                     (py_str (str_of E) (py_or (get ''security_protocol'') (JStr ''PLAINTEXT'')))
                     (or_null (get ''sasl_mechanism'')) (or_null (get ''username''))
                     (or_null (get ''password'')) (truthy (dict_get config ''ssl'' (JBool False)))
                     (first_truthy [get ''topic_prefix'', prefix0, JStr ''brokerbridge''])
                     (dict_at config ''topic_map'') ptype (Some consumer_group)))"

text \<open>Replacing the cached event adapter: the old one goes stale and is closed at once.\<close>

definition retire_event :: "('x, unit) mop" where
  "retire_event =
     bindA (askA (\<lambda>s. cached ''event'' (snd s))) (\<lambda>c.
       if c = None then ret ()
       else seqA (upd_manager (to_stale ''event'')) (upd_manager close_stale))"

definition get_event_provider :: "'x env \<Rightarrow> bool \<Rightarrow> ('x, handle) mop" where
  "get_event_provider E with_db =
     seqA (upd_manager close_stale)
       (bindA (active_row with_db PkEvent) (\<lambda>row.
        bindA (askA snd) (\<lambda>M.
          case row of
            Some r \<Rightarrow>
              (case (if mg_event_version M = Some (pc_version r) then cached ''event'' M else None) of
                 Some h \<Rightarrow> ret h
               | None \<Rightarrow>
                   seqA retire_event
                     (bindA (install ''event''
                        (build_event_provider E (pc_provider_type r) (load_event_secrets E r))) (\<lambda>h.
                      seqA (upd_manager (\<lambda>M. M\<lparr>mg_event_version := Some (pc_version r)\<rparr>)) (ret h))))
          | None \<Rightarrow>
              (case (if mg_event_version M = Some (- 1) then cached ''event'' M else None) of
                 Some h \<Rightarrow> ret h
               | None \<Rightarrow>
                   seqA retire_event
                     (bindA (install ''event''
                        (build_event_provider E (fst (env_event_config E)) (snd (env_event_config E)))) (\<lambda>h.
                      seqA (upd_manager (\<lambda>M. M\<lparr>mg_event_version := Some (- 1)\<rparr>)) (ret h)))))))"

definition active_event_version :: "bool \<Rightarrow> ('x, int option) mop" where
  "active_event_version with_db =
     bindA (active_row with_db PkEvent) (\<lambda>row. ret (map_option pc_version row))"

subsection \<open>Histories of calls\<close>

text \<open>What the rest of the program asks of the manager, in any order; \<open>Elsewhere\<close> is whatever else
  happens to the world between two calls.\<close>

datatype 'x manager_call =
    Invalidate "string option"
  | GetInfra bool
  | Describe bool
  | GetBroker bool
  | GetCache
  | GetLock
  | GetSession
  | GetRateLimit
  | GetEvent bool
  | Elsewhere "'x world"

fun do_call :: "'x env \<Rightarrow> 'x engine \<Rightarrow> 'x manager_call \<Rightarrow> ('x, unit) mop" where
  "do_call E engine (Invalidate k) = upd_manager (invalidate k)"
| "do_call E engine (GetInfra d) = discard (get_infrastructure_provider E engine d)"
| "do_call E engine (Describe d) = discard (describe_infrastructure E engine d)"
| "do_call E engine (GetBroker d) = discard (get_broker_provider d)"
| "do_call E engine GetCache = discard get_cache_provider"
| "do_call E engine GetLock = discard (get_lock_provider E)"
| "do_call E engine GetSession = discard (get_session_provider E)"
| "do_call E engine GetRateLimit = discard (get_rate_limit_provider E)"
| "do_call E engine (GetEvent d) = discard (get_event_provider E d)"
| "do_call E engine (Elsewhere w) = modifyA (apfst (\<lambda>_. w))"

definition manager_run ::
  "'x env \<Rightarrow> 'x engine \<Rightarrow> 'x manager_call list \<Rightarrow> ('x, unit) mop" where
  "manager_run E engine calls = forA calls (do_call E engine)"

subsection \<open>Every event adapter is open, waiting to be closed, or closed\<close>

definition event_handles :: "manager \<Rightarrow> handle set" where
  "event_handles M = {(i, a). i < length (mg_made M) \<and> mg_made M ! i = a \<and> is_event_adapter a}"

definition open_event :: "manager \<Rightarrow> handle list" where
  "open_event M = (case cached ''event'' M of None \<Rightarrow> [] | Some h \<Rightarrow> [h])"

definition events_accounted :: "manager \<Rightarrow> bool" where
  "events_accounted M \<longleftrightarrow>
     distinct (map fst (mg_cache M)) \<and>
     distinct (mg_closed M @ mg_stale M @ open_event M) \<and>
     set (mg_closed M @ mg_stale M @ open_event M) = event_handles M"

lemma events_accounted_new: "events_accounted new_manager"
  by (simp add: events_accounted_def new_manager_def open_event_def cached_def event_handles_def)

lemma cached_uncache [simp]: "cached k (uncache k' M) = (if k = k' then None else cached k M)"
  by (simp add: cached_def uncache_def delete_conv')

lemma open_event_uncache: "k \<noteq> ''event'' \<Longrightarrow> open_event (uncache k M) = open_event M"
  by (simp add: open_event_def)

lemma accounted_uncache: "k \<noteq> ''event'' \<Longrightarrow> events_accounted M \<Longrightarrow> events_accounted (uncache k M)"
  by (simp add: events_accounted_def open_event_uncache event_handles_def)
     (simp add: uncache_def distinct_delete)

text \<open>The invariant as a fact on the lists alone.\<close>

lemma events_accountedI:
  assumes "events_accounted M" "distinct (map fst (mg_cache M'))" "mg_made M' = mg_made M"
    and "mset (mg_closed M' @ mg_stale M' @ open_event M') = mset (mg_closed M @ mg_stale M @ open_event M)"
  shows "events_accounted M'"
proof -
  have "event_handles M' = event_handles M" using assms(3) by (simp add: event_handles_def)
  moreover have "set (mg_closed M' @ mg_stale M' @ open_event M') = set (mg_closed M @ mg_stale M @ open_event M)"
    using assms(4) by (rule mset_eq_setD)
  moreover have "distinct (mg_closed M' @ mg_stale M' @ open_event M') =
      distinct (mg_closed M @ mg_stale M @ open_event M)"
    using assms(4) by (rule mset_eq_imp_distinct_iff)
  ultimately show ?thesis
    using assms(1,2) unfolding events_accounted_def by simp
qed

lemma accounted_keys: "events_accounted M \<Longrightarrow> distinct (map fst (mg_cache M))"
  by (simp add: events_accounted_def)

lemma open_event_cong: "mg_cache M' = mg_cache M \<Longrightarrow> open_event M' = open_event M"
  by (simp add: open_event_def cached_def)

lemma accounted_cong:
  assumes "events_accounted M" "mg_cache M' = mg_cache M" "mg_stale M' = mg_stale M"
    "mg_closed M' = mg_closed M" "mg_made M' = mg_made M"
  shows "events_accounted M'"
  using assms(1)
proof (rule events_accountedI)
  show "distinct (map fst (mg_cache M'))" using assms(1,2) by (simp add: accounted_keys)
  have "open_event M' = open_event M" using assms(2) by (rule open_event_cong)
  then show "mset (mg_closed M' @ mg_stale M' @ open_event M') = mset (mg_closed M @ mg_stale M @ open_event M)"
    by (simp only: assms(3,4))
qed (rule assms(5))

lemma accounted_close_stale:
  assumes "events_accounted M"
  shows "events_accounted (close_stale M)"
  using assms
proof (rule events_accountedI)
  show "distinct (map fst (mg_cache (close_stale M)))"
    using assms by (simp add: close_stale_def accounted_keys)
  have "open_event (close_stale M) = open_event M"
    by (rule open_event_cong) (simp add: close_stale_def)
  then show "mset (mg_closed (close_stale M) @ mg_stale (close_stale M) @ open_event (close_stale M)) =
      mset (mg_closed M @ mg_stale M @ open_event M)"
    by (simp add: close_stale_def)
qed (simp add: close_stale_def)

lemma accounted_to_stale:
  assumes "events_accounted M"
  shows "events_accounted (to_stale ''event'' M)"
proof (cases "cached ''event'' M")
  case None
  then show ?thesis using assms by (simp add: to_stale_def)
next
  case (Some h)
  let ?M = "uncache ''event'' (M\<lparr>mg_stale := mg_stale M @ [h]\<rparr>)"
  have parts: "mg_closed ?M = mg_closed M" "mg_stale ?M = mg_stale M @ [h]" "mg_made ?M = mg_made M"
    "mg_cache ?M = AList.delete ''event'' (mg_cache M)"
    by (simp_all add: uncache_def)
  have "events_accounted ?M"
    using assms
  proof (rule events_accountedI)
    show "distinct (map fst (mg_cache ?M))"
      unfolding parts using accounted_keys [OF assms] by (rule distinct_delete)
    have "open_event ?M = []" "open_event M = [h]" using Some by (simp_all add: open_event_def)
    then show "mset (mg_closed ?M @ mg_stale ?M @ open_event ?M) =
        mset (mg_closed M @ mg_stale M @ open_event M)"
      by (simp only: parts) simp
  qed (rule parts)
  then show ?thesis using Some by (simp add: to_stale_def)
qed

lemma filter_key:
  "distinct (map fst kvs) \<Longrightarrow>
   map snd (filter (\<lambda>kv. fst kv = k) kvs) = (case map_of kvs k of None \<Rightarrow> [] | Some v \<Rightarrow> [v])"
proof (induction kvs)
  case Nil
  then show ?case by simp
next
  case (Cons kv kvs)
  have "filter (\<lambda>x. fst x = fst kv) kvs = []"
    using Cons.prems by (intro filter_False ballI) (auto simp: rev_image_eqI)
  with Cons show ?case by (cases kv) auto
qed

lemma invalidate_all:
  assumes "distinct (map fst (mg_cache M))"
  shows "mg_stale (invalidate None M) = mg_stale M @ open_event M"
    "mg_closed (invalidate None M) = mg_closed M" "mg_made (invalidate None M) = mg_made M"
    "mg_cache (invalidate None M) = []"
  by (simp_all add: invalidate_def open_event_def cached_def filter_key [OF assms])

lemma accounted_invalidate_all:
  assumes "events_accounted M"
  shows "events_accounted (invalidate None M)"
  using assms
proof (rule events_accountedI)
  note parts = invalidate_all [OF accounted_keys [OF assms]]
  show "distinct (map fst (mg_cache (invalidate None M)))" by (simp only: parts) simp
  have "open_event (invalidate None M) = []" by (simp only: open_event_def cached_def parts) simp
  then show "mset (mg_closed (invalidate None M) @ mg_stale (invalidate None M) @ open_event (invalidate None M)) =
      mset (mg_closed M @ mg_stale M @ open_event M)"
    by (simp only: parts) simp
  show "mg_made (invalidate None M) = mg_made M" by (rule parts)
qed

lemma accounted_uncaching:
  "events_accounted M \<Longrightarrow> k \<noteq> ''event'' \<Longrightarrow>
   events_accounted (uncache k M\<lparr>mg_infra_version := v, mg_degraded := g\<rparr>)"
  by (rule accounted_cong [OF accounted_uncache]) simp_all

lemma accounted_invalidate:
  assumes "events_accounted M"
  shows "events_accounted (invalidate k M)"
proof (cases k)
  case None
  then show ?thesis using assms by (simp only: accounted_invalidate_all)
next
  case (Some s)
  let ?key = "if s = ''broker_default'' then ''broker'' else s"
  consider (event) "s = ''event''" | (broker) "s = ''broker_default''" | (infra) "s = ''infrastructure''"
    | (plain) "s \<noteq> ''event''" "s \<noteq> ''broker_default''" "s \<noteq> ''infrastructure''" by blast
  then show ?thesis
  proof cases
    case event
    have "events_accounted ((to_stale ''event'' M)\<lparr>mg_event_version := None\<rparr>)"
      by (rule accounted_cong [OF accounted_to_stale [OF assms]]) simp_all
    with Some event show ?thesis by (simp add: invalidate_def)
  next
    case broker
    have "events_accounted (uncache ''broker_default'' (uncache ''broker'' M))"
      by (intro accounted_uncache assms) simp_all
    with Some broker show ?thesis by (simp add: invalidate_def Let_def)
  next
    case infra
    with Some show ?thesis
      using accounted_uncaching [OF assms, of s] by (simp add: invalidate_def Let_def)
  next
    case plain
    with Some show ?thesis
      using accounted_uncache [OF _ assms, of s] by (simp add: invalidate_def Let_def)
  qed
qed

lemma event_handles_snoc:
  assumes "mg_made M' = mg_made M @ [a]"
  shows "event_handles M' = event_handles M \<union> (if is_event_adapter a then {(length (mg_made M), a)} else {})"
  using assms by (auto simp: event_handles_def nth_append less_Suc_eq)

lemma fresh_handle: "(length (mg_made M), a) \<notin> event_handles M"
  by (simp add: event_handles_def)

definition installed :: "string \<Rightarrow> adapter \<Rightarrow> manager \<Rightarrow> manager" where
  "installed key a M =
     M\<lparr>mg_made := mg_made M @ [a], mg_cache := dict_set (mg_cache M) key (length (mg_made M), a)\<rparr>"

lemma install_run: "install key a (w, M) = (Inr (length (mg_made M), a), (fresh_instance a w, installed key a M))"
  by (simp add: install_def installed_def upd_manager_def bindA_def seqA_def askA_def modifyA_def ret_def)

lemma accounted_install_other:
  assumes "events_accounted M" "key \<noteq> ''event''" "\<not> is_event_adapter a"
  shows "events_accounted (installed key a M)"
proof -
  let ?M = "installed key a M"
  have "event_handles ?M = event_handles M"
    using event_handles_snoc [of ?M M a] assms(3) by (simp add: installed_def)
  moreover have "open_event ?M = open_event M"
    using assms(2) by (simp add: open_event_def cached_def installed_def)
  moreover have "mg_closed ?M = mg_closed M" "mg_stale ?M = mg_stale M"
    "distinct (map fst (mg_cache ?M))"
    using assms(1) by (simp_all add: installed_def accounted_keys)
  ultimately show ?thesis using assms(1) unfolding events_accounted_def by simp
qed

lemma accounted_install_event:
  assumes "events_accounted M" "cached ''event'' M = None" "is_event_adapter a"
  shows "events_accounted (installed ''event'' a M)"
proof -
  let ?M = "installed ''event'' a M" and ?h = "(length (mg_made M), a)"
  have "open_event ?M = [?h]" "open_event M = []"
    using assms(2) by (simp_all add: open_event_def cached_def installed_def)
  moreover have "event_handles ?M = insert ?h (event_handles M)"
    using event_handles_snoc [of ?M M a] assms(3) by (simp add: installed_def)
  moreover have "mg_closed ?M = mg_closed M" "mg_stale ?M = mg_stale M"
    "distinct (map fst (mg_cache ?M))"
    using assms(1) by (simp_all add: installed_def accounted_keys)
  ultimately show ?thesis
    using assms(1) fresh_handle [of M a] unfolding events_accounted_def by auto
qed

abbreviation accounted :: "'x world \<times> manager \<Rightarrow> bool" where
  "accounted s \<equiv> events_accounted (snd s)"

lemma keeps_on_world [keeps_intros]: "keeps accounted (on_world m)"
  unfolding on_world_def by (rule keeps_zoom) simp

lemma keeps_upd_manager: "(\<And>M. events_accounted M \<Longrightarrow> events_accounted (f M)) \<Longrightarrow> keeps accounted (upd_manager f)"
  unfolding upd_manager_def by (rule keeps_modify) simp

lemma keeps_set_infra [keeps_intros]:
  "keeps accounted (upd_manager (\<lambda>M. M\<lparr>mg_infra_version := v\<rparr>))"
  "keeps accounted (upd_manager (\<lambda>M. M\<lparr>mg_degraded := g\<rparr>))"
  by (rule keeps_upd_manager, erule accounted_cong; simp)+

lemma keeps_install: "key \<noteq> ''event'' \<Longrightarrow> \<not> is_event_adapter a \<Longrightarrow> keeps accounted (install key a)"
  by (rule keepsI) (auto simp: install_run accounted_install_other)

lemma keeps_active_row [keeps_intros]: "keeps accounted (active_row d kind)"
  by (auto simp: active_row_def intro!: keeps_intros)

text \<open>An operation with a result of which something is known.\<close>

lemma keeps_bind_res:
  assumes "keeps P m" "\<And>s x s'. m s = (Inr x, s') \<Longrightarrow> Q x" "\<And>x. Q x \<Longrightarrow> keeps P (k x)"
  shows "keeps P (bindA m k)"
proof (rule keepsI)
  fix s r s' assume "P s" "bindA m k s = (r, s')"
  then show "P s'"
    using assms by (cases r) (auto simp: bindA_Inr bindA_Inl; blast dest: keepsD)+
qed

lemma build_mock_infra_keeps: "keeps accounted (build_mock_infra E engine b)"
  by (auto simp: build_mock_infra_def Let_def intro!: keeps_intros)

lemma case_sum_run:
  "(case x of Inl e \<Rightarrow> m e | Inr y \<Rightarrow> n y) s = z \<longleftrightarrow>
   (\<exists>e. x = Inl e \<and> m e s = z) \<or> (\<exists>y. x = Inr y \<and> n y s = z)"
  by (cases x) auto

lemma build_mock_infra_kind: "build_mock_infra E engine b s = (Inr a, s') \<Longrightarrow> \<not> is_event_adapter a"
  by (auto simp: build_mock_infra_def Let_def bindA_Inr seqA_Inr case_sum_run)

lemma keeps_get_infra: "keeps accounted (get_infrastructure_provider E engine d)"
  unfolding get_infrastructure_provider_def Let_def
  by (intro keeps_intros keeps_bind_res [where Q = "\<lambda>a. \<not> is_event_adapter a"] keeps_install build_mock_infra_keeps)
     (auto simp: build_vultr_def build_mock_infra_kind intro!: keeps_intros build_mock_infra_keeps split: if_splits)

lemma keeps_describe: "keeps accounted (describe_infrastructure E engine d)"
  unfolding describe_infrastructure_def Let_def by (intro keeps_intros keeps_get_infra)

lemma keeps_broker: "keeps accounted (get_broker_provider d)"
  unfolding get_broker_provider_def active_type_def by (intro keeps_intros keeps_install) simp_all

lemma keeps_get_or_install:
  "key \<noteq> ''event'' \<Longrightarrow> \<not> is_event_adapter a \<Longrightarrow> keeps accounted (get_or_install key a)"
  unfolding get_or_install_def by (intro keeps_intros keeps_install)

text \<open>What \<open>get_event_provider\<close> does, as a function of the session's view and the manager.\<close>

definition event_source :: "'x env \<Rightarrow> bool \<Rightarrow> database \<Rightarrow> int \<times> adapter" where
  "event_source E with_db d =
     (case (if with_db then first_row (active_rows PkEvent d) else None) of
        Some r \<Rightarrow> (pc_version r, build_event_provider E (pc_provider_type r) (load_event_secrets E r))
      | None \<Rightarrow> (- 1, build_event_provider E (fst (env_event_config E)) (snd (env_event_config E))))"

definition serve_event :: "int \<times> adapter \<Rightarrow> manager \<Rightarrow> handle \<times> manager" where
  "serve_event src M0 =
     (let M = close_stale M0 in
      case (if mg_event_version M = Some (fst src) then cached ''event'' M else None) of
        Some h \<Rightarrow> (h, M)
      | None \<Rightarrow>
          let M1 = close_stale (to_stale ''event'' M) in
          ((length (mg_made M1), snd src),
           (installed ''event'' (snd src) M1)\<lparr>mg_event_version := Some (fst src)\<rparr>))"

lemma active_row_run:
  "active_row d kind (w, M) =
   (Inr (if d then first_row (active_rows kind (db w)) else None), (w, M))"
  by (simp add: active_row_def on_world_def zoomA_def ask_db_run ret_def)

lemma close_stale_idle: "mg_stale M = [] \<Longrightarrow> close_stale M = M"
  by (simp add: close_stale_def)

lemma store_fresh_instance [simp]: "store (fresh_instance a w) = store w"
  by (cases a) (auto simp: fresh_instance_def store_def)

lemma retire_event_run:
  "mg_stale M = [] \<Longrightarrow> retire_event (w, M) = (Inr (), (w, close_stale (to_stale ''event'' M)))"
  by (auto simp: retire_event_def bindA_def seqA_def askA_def upd_manager_def modifyA_def ret_def
      to_stale_def close_stale_idle split: option.splits)

lemma upd_manager_run: "upd_manager f (w, M) = (Inr (), (w, f M))"
  by (simp add: upd_manager_def modifyA_def)

lemma stale_closed [simp]: "mg_stale (close_stale M) = []"
  by (simp add: close_stale_def)

lemma get_event_run:
  "get_event_provider E d (w, M) =
   (let src = event_source E d (db w); (h, M') = serve_event src M in
    (Inr h, (if length (mg_made M') = length (mg_made M) then w else fresh_instance (snd src) w, M')))"
  by (auto simp: get_event_provider_def serve_event_def event_source_def Let_def bindA_def seqA_def askA_def
      ret_def upd_manager_run active_row_run retire_event_run install_run installed_def close_stale_def
      to_stale_def uncache_def split: option.splits if_splits)

lemma build_event_kind: "is_event_adapter (build_event_provider E t c)"
  by (simp add: build_event_provider_def Let_def)

lemma source_kind: "is_event_adapter (snd (event_source E d D))"
  by (simp add: event_source_def build_event_kind split: option.splits)

lemma cached_retired: "cached ''event'' (close_stale (to_stale ''event'' M)) = None"
proof -
  have "cached ''event'' (to_stale ''event'' M) = None"
    by (auto simp: to_stale_def split: option.splits)
  then show ?thesis by (simp add: cached_def close_stale_def)
qed

lemma serve_event_accounted:
  assumes "events_accounted M" "is_event_adapter (snd src)" "serve_event src M = (h, M')"
  shows "events_accounted M'"
proof -
  let ?M1 = "close_stale (to_stale ''event'' (close_stale M))"
  have "events_accounted (installed ''event'' (snd src) ?M1)"
    using assms(1,2) cached_retired
    by (intro accounted_install_event accounted_close_stale accounted_to_stale) auto
  then have "events_accounted ((installed ''event'' (snd src) ?M1)\<lparr>mg_event_version := Some (fst src)\<rparr>)"
    by (rule accounted_cong) simp_all
  with assms accounted_close_stale [OF assms(1)] show ?thesis
    by (auto simp: serve_event_def Let_def split: option.splits if_splits)
qed

lemma keeps_get_event: "keeps accounted (get_event_provider E d)"
proof (rule keepsI)
  fix s r s' assume acc: "accounted s" and run: "get_event_provider E d s = (r, s')"
  obtain h M' where serve: "serve_event (event_source E d (db (fst s))) (snd s) = (h, M')" by fastforce
  then have "snd s' = M'" using run get_event_run [of E d "fst s" "snd s"] by (simp add: Let_def)
  with serve_event_accounted [OF acc source_kind serve] show "accounted s'" by simp
qed

lemma keeps_call: "keeps accounted (do_call E engine c)"
proof (cases c)
  case (Elsewhere w)
  then show ?thesis by (simp add: keeps_modify)
qed (auto intro!: keeps_discard keeps_upd_manager accounted_invalidate keeps_get_infra keeps_describe
      keeps_broker keeps_get_event keeps_get_or_install
      simp: get_cache_provider_def get_lock_provider_def get_session_provider_def get_rate_limit_provider_def)

lemma run_accounted:
  assumes "manager_run E engine calls (w, new_manager) = (r, (w', M))"
  shows "events_accounted M"
proof -
  have "keeps accounted (manager_run E engine calls)"
    unfolding manager_run_def by (intro keeps_intros keeps_call)
  from keepsD [OF this _ assms] show ?thesis by (simp add: events_accounted_new)
qed

lemma serve_event_settles:
  assumes "events_accounted M" "is_event_adapter (snd src)" "serve_event src M = (h, M')"
  shows "cached ''event'' M' = Some h" "mg_event_version M' = Some (fst src)" "distinct (mg_closed M')"
    "set (mg_closed M') = event_handles M' - {h}" "h \<in> event_handles M'"
proof -
  have acc: "events_accounted M'" by (rule serve_event_accounted [OF assms])
  show c: "cached ''event'' M' = Some h" and "mg_event_version M' = Some (fst src)"
    using assms(3)
    by (auto simp: serve_event_def Let_def installed_def cached_def split: option.splits if_splits)
  have "mg_stale M' = []"
    using assms(3) by (auto simp: serve_event_def Let_def installed_def split: option.splits if_splits)
  moreover have "open_event M' = [h]" using c by (simp add: open_event_def)
  ultimately show "distinct (mg_closed M')" "set (mg_closed M') = event_handles M' - {h}"
    "h \<in> event_handles M'"
    using acc by (auto simp: events_accounted_def)
qed

text \<open>While the version stands, the same adapter is handed out and nothing is built.\<close>

lemma serve_event_again:
  "serve_event src M = (h, M') \<Longrightarrow> fst src' = fst src \<Longrightarrow> serve_event src' M' = (h, M')"
  by (auto simp: serve_event_def Let_def installed_def cached_def close_stale_def split: option.splits if_splits)

end
