(* ===== verification/Vultr.thy ===== *)
theory Vultr
  imports World
begin

text \<open>
  The Vultr adapter (\<^verbatim>\<open>app/providers/infrastructure/vultr.py\<close>) over an HTTP client, which is a
  parameter: \<open>http method path body\<close> sends one request under the adapter's base URL with its
  key in the header, and raises what httpx raises.
\<close>

text \<open>The parts of a response the adapter reads: \<^verbatim>\<open>status_code\<close>, whether there is \<^verbatim>\<open>content\<close>, and
  \<^verbatim>\<open>json()\<close>.\<close>

record http_response =
  rs_status :: int
  rs_has_content :: bool
  rs_json :: "exn + json"

record vultr =
  vu_api_key :: string
  vu_default_region :: string

text \<open>The constructor.\<close>

definition new_vultr :: "string \<Rightarrow> string \<Rightarrow> vultr" where
  "new_vultr api_key default_region =
     \<lparr>vu_api_key = py_strip api_key,
      vu_default_region = (if default_region \<noteq> [] then default_region else ''ewr'')\<rparr>"

type_synonym 'w http = "string \<Rightarrow> string \<Rightarrow> dict option \<Rightarrow> ('w, exn, http_response) act"

definition vultr_request ::
  "'w http \<Rightarrow> vultr \<Rightarrow> string \<Rightarrow> string \<Rightarrow> dict option \<Rightarrow> ('w, exn, json) act" where
  "vultr_request http V verb path body =
     (if vu_api_key V = [] then raise (VultrProviderError ''VULTR_API_KEY_MISSING'' 422)
      else bindA (http verb path body) (\<lambda>resp.
        if 400 \<le> rs_status resp
        then raise (VultrProviderError ''VULTR_API_ERROR'' (if 500 \<le> rs_status resp then 502 else 422))
        else if rs_status resp = 204 \<or> \<not> rs_has_content resp then ret (JObj [])
        else liftA (rs_json resp)))"

text \<open>\<^verbatim>\<open>x.get(k)\<close> on a value that may be no dict.\<close>

definition get_of :: "json \<Rightarrow> string \<Rightarrow> exn + json" where
  "get_of j k = (case j of JObj d \<Rightarrow> Inr (dict_get d k JNull) | _ \<Rightarrow> Inl (PyError ''AttributeError''))"

definition vultr_probe :: "(exn \<Rightarrow> string) \<Rightarrow> 'w http \<Rightarrow> vultr \<Rightarrow> ('w, exn, dict) act" where
  "vultr_probe message http V =
     (if vu_api_key V = []
      then ret [(''ok'', JBool False), (''provider'', JStr ''vultr''), (''error'', JStr ''api_key required'')]
      else tryA
        (bindA (vultr_request http V ''GET'' ''/account'' None) (\<lambda>data.
           let account = (case data of JObj d \<Rightarrow> dict_get d ''account'' JNull | _ \<Rightarrow> JNull) in
           bindA (if truthy account
                  then bindA (liftA (get_of account ''email'')) (\<lambda>e. ret (JObj [(''email'', e)]))
                  else ret JNull) (\<lambda>a.
             ret [(''ok'', JBool True), (''provider'', JStr ''vultr''), (''account'', a)])))
        (\<lambda>e. case e of
           VultrProviderError code st \<Rightarrow>
             ret [(''ok'', JBool False), (''provider'', JStr ''vultr''), (''error'', JStr code),
                  (''message'', JStr (message e))]
         | _ \<Rightarrow>
             ret [(''ok'', JBool False), (''provider'', JStr ''vultr''),
                  (''error'', JStr ''VULTR_PROBE_FAILED''), (''message'', JStr (message e))]))"

text \<open>\<^verbatim>\<open>data.get(k) or data\<close>\<close>

definition unwrap :: "string \<Rightarrow> json \<Rightarrow> exn + json" where
  "unwrap k data = (case get_of data k of Inl e \<Rightarrow> Inl e | Inr j \<Rightarrow> Inr (py_or j data))"

text \<open>\<^verbatim>\<open>x.get(a) or x.get(b) or ...\<close>\<close>

fun get_any :: "json \<Rightarrow> string list \<Rightarrow> exn + json" where
  "get_any j [] = Inr JNull"
| "get_any j [k] = get_of j k"
| "get_any j (k # ks) =
     (case get_of j k of Inl e \<Rightarrow> Inl e | Inr v \<Rightarrow> if truthy v then Inr v else get_any j ks)"

definition vultr_create_ip :: "(json \<Rightarrow> string) \<Rightarrow> 'w http \<Rightarrow> vultr \<Rightarrow> string \<Rightarrow> ('w, exn, dict) act" where
  "vultr_create_ip text http V region =
     bindA (vultr_request http V ''POST'' ''/reserved-ips''
       (Some [(''region'', JStr (if region \<noteq> [] then region else vu_default_region V)),
              (''type'', JStr ''v4'')])) (\<lambda>data.
     bindA (liftA (unwrap ''reserved_ip'' data)) (\<lambda>rip.
     bindA (liftA (get_any rip [''id'', ''reserved_ip''])) (\<lambda>i.
     bindA (liftA (get_any rip [''subnet'', ''ip'', ''address''])) (\<lambda>address.
     bindA (liftA (get_of rip ''region'')) (\<lambda>rgn.
       let external_id = py_str text i in
       ret [(''id'', JStr external_id), (''external_id'', JStr external_id),
            (''ip_address'', address), (''region'', py_or rgn (JStr region)),
            (''status'', JStr ''allocated''), (''provider'', JStr ''vultr'')])))))"

definition vultr_do :: "'w http \<Rightarrow> vultr \<Rightarrow> string \<Rightarrow> string \<Rightarrow> dict option \<Rightarrow> ('w, exn, unit) act" where
  "vultr_do http V verb path body = bindA (vultr_request http V verb path body) (\<lambda>_. ret ())"

definition vultr_delete_ip :: "'w http \<Rightarrow> vultr \<Rightarrow> string \<Rightarrow> ('w, exn, unit) act" where
  "vultr_delete_ip http V e = vultr_do http V ''DELETE'' (''/reserved-ips/'' @ e) None"

definition vultr_attach_ip :: "'w http \<Rightarrow> vultr \<Rightarrow> string \<Rightarrow> string \<Rightarrow> ('w, exn, unit) act" where
  "vultr_attach_ip http V e i =
     vultr_do http V ''POST'' (''/reserved-ips/'' @ e @ ''/attach'') (Some [(''instance_id'', JStr i)])"

definition vultr_detach_ip :: "'w http \<Rightarrow> vultr \<Rightarrow> string \<Rightarrow> ('w, exn, unit) act" where
  "vultr_detach_ip http V e = vultr_do http V ''POST'' (''/reserved-ips/'' @ e @ ''/detach'') None"

text \<open>\<^verbatim>\<open>label.replace(" ", "-")[:60]\<close>; no caller passes a plan, an image or a host name.\<close>

definition host_name :: "string \<Rightarrow> string" where
  "host_name label = take 60 (map (\<lambda>c. if c = CHR '' '' then CHR ''-'' else c) label)"

definition vultr_create_instance ::
  "(json \<Rightarrow> string) \<Rightarrow> 'w http \<Rightarrow> vultr \<Rightarrow> string \<Rightarrow> string option \<Rightarrow> ('w, exn, dict) act" where
  "vultr_create_instance text http V region label0 =
     (let label = (case label0 of
            Some (c # s) \<Rightarrow> c # s
          | _ \<Rightarrow> ''brokerbridge-'' @ region)
      in bindA (vultr_request http V ''POST'' ''/instances''
           (Some [(''region'', JStr (if region \<noteq> [] then region else vu_default_region V)),
                  (''plan'', JStr ''vc2-1c-1gb''), (''os_id'', JInt 2284), (''label'', JStr label),
                  (''hostname'', JStr (host_name label))])) (\<lambda>data.
         bindA (liftA (unwrap ''instance'' data)) (\<lambda>inst.
         bindA (liftA (get_of inst ''id'')) (\<lambda>i.
         bindA (liftA (get_of inst ''region'')) (\<lambda>rgn.
         bindA (liftA (get_of inst ''status'')) (\<lambda>st.
           let external_id = py_str text i in
           ret [(''id'', JStr external_id), (''external_id'', JStr external_id),
                (''region'', py_or rgn (JStr region)), (''status'', py_or st (JStr ''pending'')),
                (''provider'', JStr ''vultr''), (''label'', JStr label)]))))))"

definition vultr_destroy_instance :: "'w http \<Rightarrow> vultr \<Rightarrow> string \<Rightarrow> ('w, exn, unit) act" where
  "vultr_destroy_instance http V e = vultr_do http V ''DELETE'' (''/instances/'' @ e) None"

definition vultr_suspend_instance :: "'w http \<Rightarrow> vultr \<Rightarrow> string \<Rightarrow> ('w, exn, unit) act" where
  "vultr_suspend_instance http V e = vultr_do http V ''POST'' (''/instances/'' @ e @ ''/halt'') None"

definition vultr_start_instance :: "'w http \<Rightarrow> vultr \<Rightarrow> string \<Rightarrow> ('w, exn, unit) act" where
  "vultr_start_instance http V e = vultr_do http V ''POST'' (''/instances/'' @ e @ ''/start'') None"

definition vultr_set_auto_renew :: "'w http \<Rightarrow> vultr \<Rightarrow> string \<Rightarrow> bool \<Rightarrow> ('w, exn, unit) act" where
  "vultr_set_auto_renew http V e enabled =
     tryA (vultr_do http V ''PATCH'' (''/instances/'' @ e)
             (Some [(''tags'', JList [JStr (''auto_renew:'' @ (if enabled then ''true'' else ''false''))])]))
       (\<lambda>x. case x of VultrProviderError c st \<Rightarrow> ret () | _ \<Rightarrow> raise x)"

definition vultr_ip_row :: "(json \<Rightarrow> string) \<Rightarrow> json \<Rightarrow> json \<Rightarrow> json \<Rightarrow> exn + dict" where
  "vultr_ip_row text external_id rgn rip =
     (case get_any rip [''subnet'', ''ip''] of
        Inl e \<Rightarrow> Inl e
      | Inr address \<Rightarrow>
          (case get_of rip ''status'' of
             Inl e \<Rightarrow> Inl e
           | Inr st \<Rightarrow>
               Inr [(''external_id'', JStr (py_str text external_id)), (''ip_address'', address),
                    (''region'', rgn), (''status'', py_or st (JStr ''allocated'')),
                    (''provider'', JStr ''vultr'')]))"

definition vultr_list_ips ::
  "(json \<Rightarrow> string) \<Rightarrow> 'w http \<Rightarrow> vultr \<Rightarrow> string option \<Rightarrow> ('w, exn, dict list) act" where
  "vultr_list_ips text http V region =
     bindA (vultr_request http V ''GET'' ''/reserved-ips'' None) (\<lambda>data.
     bindA (liftA (get_of data ''reserved_ips'')) (\<lambda>rows0.
     bindA (liftA (py_list (py_or rows0 (JList [])))) (\<lambda>rows.
     bindA (mapA (\<lambda>rip.
       bindA (liftA (get_of rip ''region'')) (\<lambda>rgn.
         if region \<noteq> None \<and> region \<noteq> Some [] \<and> rgn \<noteq> JStr (the region) then ret []
         else bindA (liftA (get_of rip ''id'')) (\<lambda>i.
           bindA (liftA (vultr_ip_row text i rgn rip)) (\<lambda>r. ret [r])))) rows) (\<lambda>out.
       ret (concat out)))))"

definition vultr_get_ip ::
  "(json \<Rightarrow> string) \<Rightarrow> 'w http \<Rightarrow> vultr \<Rightarrow> string \<Rightarrow> ('w, exn, dict option) act" where
  "vultr_get_ip text http V e =
     bindA (tryA (bindA (vultr_request http V ''GET'' (''/reserved-ips/'' @ e) None) (\<lambda>data. ret (Some data)))
              (\<lambda>x. case x of VultrProviderError c st \<Rightarrow> ret None | _ \<Rightarrow> raise x)) (\<lambda>data.
       case data of
         None \<Rightarrow> ret None
       | Some d \<Rightarrow>
           bindA (liftA (unwrap ''reserved_ip'' d)) (\<lambda>rip.
           bindA (liftA (get_of rip ''id'')) (\<lambda>i.
           bindA (liftA (get_of rip ''region'')) (\<lambda>rgn.
           bindA (liftA (vultr_ip_row text (py_or i (JStr e)) rgn rip)) (\<lambda>r. ret (Some r))))))"

subsection \<open>As an infrastructure provider\<close>

definition vultr_infra_ops ::
  "(json \<Rightarrow> string) \<Rightarrow> (exn \<Rightarrow> string) \<Rightarrow> 'w http \<Rightarrow> vultr \<Rightarrow> 'w infra_ops" where
  "vultr_infra_ops text message http V =
     \<lparr>io_probe = vultr_probe message http V,
      io_create_ip = vultr_create_ip text http V,
      io_delete_ip = vultr_delete_ip http V,
      io_attach_ip = vultr_attach_ip http V,
      io_detach_ip = vultr_detach_ip http V,
      io_create_instance = vultr_create_instance text http V,
      io_destroy_instance = vultr_destroy_instance http V,
      io_suspend_instance = vultr_suspend_instance http V,
      io_start_instance = vultr_start_instance http V,
      io_set_auto_renew = vultr_set_auto_renew http V,
      io_list_ips = vultr_list_ips text http V,
      io_get_ip = vultr_get_ip text http V\<rparr>"

text \<open>A client that leaves a part of the state alone gives an adapter that does.\<close>

lemma frames_exn_case [frames_intros]:
  "(\<And>c st. frames f (m c st)) \<Longrightarrow> frames f n \<Longrightarrow>
   frames f (case e of VultrProviderError c st \<Rightarrow> m c st | _ \<Rightarrow> n)"
  by (cases e) auto

lemma frames_vultr_request:
  "(\<And>v p b. frames f (http v p b)) \<Longrightarrow> frames f (vultr_request http V verb path body)"
  by (auto simp: vultr_request_def intro!: frames_intros)

lemma frames_vultr_do: "(\<And>v p b. frames f (http v p b)) \<Longrightarrow> frames f (vultr_do http V verb path body)"
  by (auto simp: vultr_do_def intro!: frames_intros frames_vultr_request)

lemmas vultr_calls = vultr_delete_ip_def vultr_attach_ip_def vultr_detach_ip_def
  vultr_destroy_instance_def vultr_suspend_instance_def vultr_start_instance_def

lemma frames_vultr:
  assumes "\<And>v p b. frames f (http v p b)"
  shows "frames f (vultr_probe message http V)" "frames f (vultr_create_ip text http V r)"
    "frames f (vultr_create_instance text http V r l)" "frames f (vultr_set_auto_renew http V e x)"
    "frames f (vultr_list_ips text http V r')" "frames f (vultr_get_ip text http V e)"
    "frames f (vultr_delete_ip http V e)" "frames f (vultr_attach_ip http V e i)"
    "frames f (vultr_detach_ip http V e)" "frames f (vultr_destroy_instance http V e)"
    "frames f (vultr_suspend_instance http V e)" "frames f (vultr_start_instance http V e)"
  using assms
  by (auto simp: vultr_probe_def vultr_create_ip_def vultr_create_instance_def vultr_set_auto_renew_def
      vultr_list_ips_def vultr_get_ip_def vultr_calls Let_def
      intro!: frames_intros frames_vultr_request frames_vultr_do)

definition with_vultr :: "'x world http \<Rightarrow> vultr \<Rightarrow> 'x env \<Rightarrow> 'x env" where
  "with_vultr http V E = E\<lparr>infra := vultr_infra_ops (str_of E) (exn_text E) http V\<rparr>"

lemma vultr_is_provider: "(\<And>v p b. frames core (http v p b)) \<Longrightarrow> infra_env (with_vultr http V E)"
  by unfold_locales (simp_all add: with_vultr_def vultr_infra_ops_def frames_vultr)

end
