(* ===== verification/AdminProviders.thy ===== *)
theory AdminProviders
  imports Auth Manager Vultr
begin

text \<open>
  The routes that list, show and activate provider configurations
  (\<^verbatim>\<open>app/api/routes/admin_providers.py\<close>), without the check of the caller, which the route table
  adds. Secrets are encrypted, the rest is stored in clear. What the libraries find when a
  configuration is probed (Docker, httpx, aiokafka) is a parameter.
\<close>

subsection \<open>Requests, secrets, regions\<close>

record activate_request =
  aq_provider_type :: string
  aq_scope :: string  \<comment> \<open>accepted and never read\<close>
  aq_client_id :: "uuid option"
  aq_validate_first :: bool
  aq_activate :: bool
  aq_config :: dict

definition kind_names :: "(string \<times> provider_kind) list" where
  "kind_names = [(''infrastructure'', PkInfrastructure), (''broker_default'', PkBrokerDefault),
     (''event'', PkEvent), (''cache'', PkCache), (''lock'', PkLock), (''session'', PkSession)]"

definition parse_kind :: "string \<Rightarrow> provider_kind option" where
  "parse_kind k = map_of kind_names k"

fun kind_value :: "provider_kind \<Rightarrow> string" where
  "kind_value PkInfrastructure = ''infrastructure''"
| "kind_value PkBrokerDefault = ''broker_default''"
| "kind_value PkEvent = ''event''"
| "kind_value PkCache = ''cache''"
| "kind_value PkLock = ''lock''"
| "kind_value PkSession = ''session''"

fun status_value :: "provider_status \<Rightarrow> string" where
  "status_value PsPending = ''pending''"
| "status_value PsActive = ''active''"
| "status_value PsRetired = ''retired''"
| "status_value PsFailedValidation = ''failed_validation''"

definition SECRET_KEYS :: "string list" where
  "SECRET_KEYS = [''api_key'', ''password'', ''token'', ''secret'', ''username'']"

definition EVENT_TYPES :: "string list" where
  "EVENT_TYPES = [''memory'', ''redpanda_local'', ''kafka'', ''redpanda_cloud'']"

text \<open>The test of \<^verbatim>\<open>_mask_config\<close> and the narrower one of \<^verbatim>\<open>_split_config\<close>.\<close>

definition masked_key :: "string \<Rightarrow> bool" where
  "masked_key k \<longleftrightarrow>
     (let l = py_lower k in
      l \<in> set SECRET_KEYS \<or> contains l ''secret'' \<or> contains l ''key'' \<or> contains l ''password'')"

definition secret_key :: "string \<Rightarrow> bool" where
  "secret_key k \<longleftrightarrow>
     (let l = py_lower k in
      l \<in> set SECRET_KEYS \<or> contains l ''secret'' \<or> ends_with l ''_key'' \<or> contains l ''password'')"

definition stars :: json where
  "stars = JStr ''***''"

definition mask_config :: "dict \<Rightarrow> dict" where
  "mask_config config = map (\<lambda>(k, v). (k, if masked_key k then stars else v)) config"

definition split_config :: "dict \<Rightarrow> dict \<times> dict" where
  "split_config config = (filter (\<lambda>kv. secret_key (fst kv)) config, filter (\<lambda>kv. \<not> secret_key (fst kv)) config)"

definition validation_failed :: exn where
  "validation_failed = AppError ''PROVIDER_VALIDATION_FAILED'' 422"

definition blank :: "'x env \<Rightarrow> json \<Rightarrow> bool" where
  "blank E j \<longleftrightarrow> j = JNull \<or> py_strip (py_str (str_of E) j) = []"

definition apply_region_config :: "'x env \<Rightarrow> dict \<Rightarrow> exn + dict" where
  "apply_region_config E config =
     (let raw0 = dict_get config ''default_region'' JNull;
          raw = (if blank E raw0 then dict_get config ''region'' JNull else raw0)
      in if blank E raw then Inr config
         else case normalize_region (Some (py_str (str_of E) raw)) of
                UnknownRegion \<Rightarrow> Inl validation_failed
              | NoRegion \<Rightarrow> Inl (PyError ''AssertionError'')
              | Region r \<Rightarrow>
                  let out = dict_set config ''default_region'' (JStr r) in
                  Inr (if ''region'' \<in> fst ` set out then dict_set out ''region'' (JStr r) else out))"

subsection \<open>Probing a configuration\<close>

text \<open>What the libraries answer: Docker's availability, a ping of its client (\<open>None\<close> when it
  answers, else error code and message), the HTTP client per adapter, and the probe of a Kafka
  client.\<close>

record 'x probes =
  pb_engine :: "'x engine"
  pb_ping :: "'x world \<Rightarrow> string option \<Rightarrow> (string \<times> string) option"
  pb_http :: "vultr \<Rightarrow> 'x world http"
  pb_kafka :: "kafka_config \<Rightarrow> ('x, dict) op"

definition probe_event_config :: "'x env \<Rightarrow> 'x probes \<Rightarrow> string \<Rightarrow> dict \<Rightarrow> ('x, dict) op" where
  "probe_event_config E P provider_type config =
     (let get = (\<lambda>k. dict_get config k JNull);
          ptype = py_lower provider_type;
          servers = brokers_text E (first_truthy [get ''brokers'', get ''bootstrap_servers'', JStr []])
      in if ptype = ''memory'' then ret (memory_bus_probe (new_memory_bus None))
         else if servers = [] then
           ret [(''ok'', JBool False),
                (''error'', JStr ''brokers required for Kafka/Redpanda event providers'')]
         else pb_kafka P
           (kafka_provider servers (py_str (str_of E) (py_or (get ''security_protocol'') (JStr ''PLAINTEXT'')))
             (or_null (get ''sasl_mechanism'')) (or_null (get ''username'')) (or_null (get ''password''))
             (truthy (dict_get config ''ssl'' (JBool False)))
             (py_or (get ''topic_prefix'') (JStr ''brokerbridge'')) (dict_at config ''topic_map'') ptype None))"

text \<open>\<^verbatim>\<open>MockInfrastructureProvider(backend=..., docker_host=settings.docker_host or None).probe()\<close>:
  a new object, so only the fault switch can make the database mode fail.\<close>

definition docker_probe :: "flags \<Rightarrow> (string \<times> string) option \<Rightarrow> dict" where
  "docker_probe F ping =
     (let base = (\<lambda>ok. [(''ok'', JBool ok), (''provider'', JStr ''mock''), (''backend'', JStr ''docker'')]) in
      if infra_fault_enabled F then base False @ [(''error'', JStr ''INFRA_UNAVAILABLE'')]
      else case ping of
             None \<Rightarrow> base True
           | Some (code, message) \<Rightarrow>
               base False @ [(''error'', JStr code), (''message'', JStr message),
                             (''hint'', JStr docker_socket_hint)])"

definition probe_mock_infra :: "'x env \<Rightarrow> 'x probes \<Rightarrow> string \<Rightarrow> ('x, dict) op" where
  "probe_mock_infra E P backend =
     (let host = (if World.docker_host (cfg E) = [] then None else Some (World.docker_host (cfg E))) in
      if backend = ''docker'' then askA (\<lambda>w. docker_probe (sim_flags w) (pb_ping P w host))
      else askA (\<lambda>w. mi_probe (sim_flags w) new_mock_infra))"

text \<open>The validation step: the exception, or the configuration to store and whether it was
  validated. \<open>_probe_error_message\<close> only words the exception.\<close>

definition probed :: "dict \<Rightarrow> 'a \<Rightarrow> ('x, 'a) mop" where
  "probed probe x = (if truthy (dict_get probe ''ok'' JNull) then ret x else raise validation_failed)"

definition validate_event :: "'x env \<Rightarrow> 'x probes \<Rightarrow> string \<Rightarrow> dict \<Rightarrow> ('x, dict) mop" where
  "validate_event E P ptype config =
     (if ptype \<notin> set EVENT_TYPES then raise validation_failed
      else bindA (on_world (probe_event_config E P ptype config)) (\<lambda>probe. probed probe config))"

definition validate_infrastructure :: "'x env \<Rightarrow> 'x probes \<Rightarrow> string \<Rightarrow> dict \<Rightarrow> ('x, dict) mop" where
  "validate_infrastructure E P provider_type config =
     (let ptype = py_lower provider_type in
      if ptype = ''mock'' then
        let backend = py_lower (py_strip (py_str (str_of E) (first_truthy
              [dict_get config ''mock_backend'' JNull, JStr (mock_infra_backend (cfg E)), JStr ''database''])))
        in if backend \<notin> set backends then raise validation_failed
           else bindA (on_world (probe_mock_infra E P backend)) (\<lambda>probe.
             probed probe (dict_set config ''mock_backend'' (JStr backend)))
      else if ptype = ''vultr'' then
        let key = dict_get config ''api_key'' JNull in
        if \<not> truthy key then raise validation_failed
        else
          let V = new_vultr (py_str (str_of E) key) (py_str (str_of E) (first_truthy
                    [dict_get config ''default_region'' JNull, dict_get config ''region'' JNull,
                     JStr (vultr_default_region (cfg E)), JStr ''ewr'']))
          in bindA (on_world (vultr_probe (exn_text E) (pb_http P V) V)) (\<lambda>probe. probed probe config)
      else raise validation_failed)"

definition validate_other :: "string \<Rightarrow> dict \<Rightarrow> ('x, dict) mop" where
  "validate_other ptype config =
     (if ptype = ''mock'' then
        bindA (get_broker_provider True) (\<lambda>_.
        bindA (on_world (bindA (askA sim_flags) (\<lambda>F. on_broker (askA (\<lambda>s. broker_probe F (fst s)))))) (\<lambda>probe.
          probed probe config))
      else raise validation_failed)"

subsection \<open>Responses\<close>

record provider_response =
  pv_kind :: string
  pv_provider_type :: string
  pv_version :: int
  pv_status :: string
  pv_config :: dict
  pv_validated :: "bool option"
  pv_activated_at :: "instant option"
  pv_effective_backend :: "string option"
  pv_degraded :: bool
  pv_degrade_message :: "string option"

text \<open>\<^verbatim>\<open>{**cfg_public, **{k: "***" for k in secrets}}\<close>, or the mask when there is no secret.\<close>

definition shown_config :: "dict \<Rightarrow> dict option \<Rightarrow> dict" where
  "shown_config public secrets =
     (case secrets of
        Some (kv # kvs) \<Rightarrow> dict_update public (map (\<lambda>kv. (fst kv, stars)) (kv # kvs))
      | _ \<Rightarrow> mask_config public)"

definition provider_response ::
  "'x env \<Rightarrow> 'x probes \<Rightarrow> provider_config \<Rightarrow> bool option \<Rightarrow> dict option \<Rightarrow> dict option \<Rightarrow>
   ('x, provider_response) mop" where
  "provider_response E P row validated secrets public =
     bindA (if pc_kind row = PkInfrastructure
            then bindA (describe_infrastructure E (pb_engine P) True) (\<lambda>d. ret (Some d)) else ret None) (\<lambda>desc.
       ret \<lparr>pv_kind = kind_value (pc_kind row), pv_provider_type = pc_provider_type row,
            pv_version = pc_version row, pv_status = status_value (pc_status row),
            pv_config = shown_config (case public of Some p \<Rightarrow> p | None \<Rightarrow> pc_config_non_secret row) secrets,
            pv_validated = (case validated of Some v \<Rightarrow> Some v
              | None \<Rightarrow> if pc_last_validation_status row = Some ''ok'' then Some True else None),
            pv_activated_at = pc_activated_at row,
            pv_effective_backend = (case desc of Some d \<Rightarrow> ds_effective_backend d | None \<Rightarrow> None),
            pv_degraded = (case desc of Some d \<Rightarrow> ds_degraded d | None \<Rightarrow> False),
            pv_degrade_message = (case desc of Some d \<Rightarrow> ds_degrade_message d | None \<Rightarrow> None)\<rparr>)"

definition list_providers :: "('x, provider_response list) mop" where
  "list_providers =
     on_world (ask_db (\<lambda>d.
       map (\<lambda>r. \<lparr>pv_kind = kind_value (pc_kind r), pv_provider_type = pc_provider_type r,
                 pv_version = pc_version r, pv_status = status_value (pc_status r),
                 pv_config = mask_config (pc_config_non_secret r), pv_validated = None,
                 pv_activated_at = pc_activated_at r, pv_effective_backend = None,
                 pv_degraded = False, pv_degrade_message = None\<rparr>)
         (filter (\<lambda>r. pc_status r = PsActive) (provider_configs d))))"

definition get_provider :: "'x env \<Rightarrow> 'x probes \<Rightarrow> string \<Rightarrow> ('x, provider_response) mop" where
  "get_provider E P kind =
     (case parse_kind kind of
        None \<Rightarrow> raise not_found
      | Some pkind \<Rightarrow>
          bindA (on_world (ask_db (\<lambda>d. first_row (filter (\<lambda>r. pc_client_id r = None)
                   (filter (\<lambda>r. pc_kind r = pkind \<and> pc_status r = PsActive) (provider_configs d)))))) (\<lambda>row.
            case row of
              None \<Rightarrow> raise not_found
            | Some r \<Rightarrow> provider_response E P r None None None))"

subsection \<open>Activation\<close>

definition validate_config ::
  "'x env \<Rightarrow> 'x probes \<Rightarrow> provider_kind \<Rightarrow> activate_request \<Rightarrow> dict \<Rightarrow> ('x, dict) mop" where
  "validate_config E P pkind body config =
     (if \<not> aq_validate_first body then ret config
      else if pkind = PkEvent then validate_event E P (aq_provider_type body) config
      else if pkind = PkInfrastructure then validate_infrastructure E P (aq_provider_type body) config
      else validate_other (aq_provider_type body) config)"

definition versions_of :: "provider_kind \<Rightarrow> database \<Rightarrow> int list" where
  "versions_of kind d = map pc_version (filter (\<lambda>r. pc_kind r = kind) (provider_configs d))"

definition next_version :: "provider_kind \<Rightarrow> database \<Rightarrow> int" where
  "next_version kind d = (if versions_of kind d = [] then 1 else Max (set (versions_of kind d)) + 1)"

definition retire_active :: "provider_kind \<Rightarrow> provider_config list \<Rightarrow> provider_config list" where
  "retire_active kind =
     upd_rows (\<lambda>r. pc_kind r = kind \<and> pc_status r = PsActive) (\<lambda>r. r\<lparr>pc_status := PsRetired\<rparr>)"

definition config_row ::
  "'x env \<Rightarrow> uuid \<Rightarrow> instant \<Rightarrow> provider_kind \<Rightarrow> activate_request \<Rightarrow> uuid \<Rightarrow> int \<Rightarrow> dict \<Rightarrow> provider_config" where
  "config_row E u now pkind body admin version config =
     (let (secrets, public) = split_config config; validated = aq_validate_first body in
      \<lparr>pc_id = u, pc_kind = pkind, pc_provider_type = aq_provider_type body,
       pc_scope_type = ScopeGlobal, pc_client_id = aq_client_id body,
       pc_status = (if aq_activate body then PsActive else PsPending), pc_version = version,
       pc_config_encrypted =
         (if secrets \<noteq> [] then Some (encrypt E (json_dumps E (JObj secrets))) else None),
       pc_config_non_secret = public,
       pc_last_validation_status = (if validated then Some ''ok'' else None),
       pc_last_validation_at = (if validated then Some now else None),
       pc_activated_at = (if aq_activate body then Some now else None),
       pc_created_by = Some admin\<rparr>)"

definition store_config ::
  "'x env \<Rightarrow> provider_kind \<Rightarrow> activate_request \<Rightarrow> uuid \<Rightarrow> dict \<Rightarrow> ('x, provider_config) op" where
  "store_config E pkind body admin config =
     bindA (ask_db (next_version pkind)) (\<lambda>version.
     bindA (fresh_uuid E) (\<lambda>u.
     bindA now_utc (\<lambda>now.
       let row = config_row E u now pkind body admin version config in
       seqA (upd_db (\<lambda>d. d\<lparr>provider_configs := retire_active pkind (provider_configs d) @ [row]\<rparr>))
       (seqA (if aq_activate body \<and> pkind = PkEvent
              then enqueue_outbox E ''provider.activated'' ''config''
                [(''kind'', JStr ''event''), (''provider_type'', JStr (aq_provider_type body)),
                 (''version'', JInt version)]
              else ret ())
       (seqA commit (ret row))))))"

definition activate_provider ::
  "'x env \<Rightarrow> 'x probes \<Rightarrow> string \<Rightarrow> activate_request \<Rightarrow> uuid \<Rightarrow> ('x, provider_response) mop" where
  "activate_provider E P kind body admin =
     (case parse_kind kind of
        None \<Rightarrow> raise not_found
      | Some pkind \<Rightarrow>
          bindA (liftA (apply_region_config E (aq_config body))) (\<lambda>config0.
          bindA (validate_config E P pkind body config0) (\<lambda>config.
          bindA (on_world (store_config E pkind body admin config)) (\<lambda>row.
            seqA (upd_manager (invalidate (Some kind)))
              (provider_response E P row (Some (aq_validate_first body))
                 (Some (fst (split_config config))) (Some (snd (split_config config))))))))"

subsection \<open>The routes\<close>

definition guarded_m ::
  "auth_lib \<Rightarrow> 'x env \<Rightarrow> user_role list \<Rightarrow> string option \<Rightarrow> (user \<Rightarrow> ('x, 'a) mop) \<Rightarrow> ('x, 'a) mop" where
  "guarded_m A E roles token body =
     finallyA (bindA (on_world (require_roles A E roles token)) body) (on_world rollback)"

definition list_providers_route :: "auth_lib \<Rightarrow> 'x env \<Rightarrow> string option \<Rightarrow> ('x, provider_response list) mop" where
  "list_providers_route A E token = guarded_m A E operators token (\<lambda>_. list_providers)"

definition get_provider_route ::
  "auth_lib \<Rightarrow> 'x env \<Rightarrow> 'x probes \<Rightarrow> string option \<Rightarrow> string \<Rightarrow> ('x, provider_response) mop" where
  "get_provider_route A E P token kind = guarded_m A E operators token (\<lambda>_. get_provider E P kind)"

definition activate_provider_route ::
  "auth_lib \<Rightarrow> 'x env \<Rightarrow> 'x probes \<Rightarrow> string option \<Rightarrow> string \<Rightarrow> activate_request \<Rightarrow>
   ('x, provider_response) mop" where
  "activate_provider_route A E P token kind body =
     guarded_m A E admin_only token (\<lambda>user. activate_provider E P kind body (u_id user))"

subsection \<open>Splitting and merging\<close>

lemma map_of_filter_keys: "map_of (filter (\<lambda>kv. p (fst kv)) kvs) k = (if p k then map_of kvs k else None)"
  by (induction kvs) auto

lemma distinct_filter_keys: "distinct (map fst kvs) \<Longrightarrow> distinct (map fst (filter p kvs))"
  by (induction kvs) auto

text \<open>Encryption and JSON as the code relies on them: the dumped secrets, encrypted, decrypted and
  loaded, are the secrets.\<close>

definition secrets_readable :: "'x env \<Rightarrow> dict \<Rightarrow> bool" where
  "secrets_readable E d \<longleftrightarrow>
     (let t = json_dumps E (JObj d) in
      t \<noteq> [] \<and> encrypt E t \<noteq> [] \<and> decrypt E (encrypt E t) = Inr t \<and> json_loads E t = Inr (JObj d))"

lemma merged_config_row:
  assumes "secrets_readable E (fst (split_config config))" "distinct (map fst config)"
  shows "\<exists>d. merged_secrets E (config_row E u now k body admin v config) = Inr d \<and> map_of d = map_of config"
proof -
  obtain secrets public where split: "split_config config = (secrets, public)" by fastforce
  have sec: "map_of secrets x = (if secret_key x then map_of config x else None)" for x
    using split map_of_filter_keys [of secret_key config x] by (simp add: split_config_def)
  have pub: "map_of public x = (if \<not> secret_key x then map_of config x else None)" for x
    using split map_of_filter_keys [of "\<lambda>x. \<not> secret_key x" config x] by (simp add: split_config_def)
  have dist: "distinct (map fst secrets)"
    using split assms(2) by (auto simp: split_config_def distinct_filter_keys)
  show ?thesis
  proof (cases "secrets = []")
    case True
    then have "map_of public = map_of config"
      using pub sec by (fastforce simp: fun_eq_iff split: if_splits)
    with True split show ?thesis
      by (simp add: merged_secrets_def config_row_def Let_def)
  next
    case False
    have "map_of (dict_update public secrets) = map_of config"
      using pub sec by (fastforce simp: map_of_dict_update [OF dist] fun_eq_iff map_add_def split: option.splits if_splits)
    with False split assms(1) show ?thesis
      by (simp add: merged_secrets_def config_row_def Let_def secrets_readable_def)
  qed
qed

lemma load_config_row:
  assumes "secrets_readable E (fst (split_config config))" "distinct (map fst config)"
  shows "map_of (load_event_secrets E (config_row E u now k body admin v config)) = map_of config"
    "map_of (load_infra_secrets E (config_row E u now k body admin v config)) = map_of config"
  using merged_config_row [OF assms, of u now k body admin v]
  by (auto simp: load_event_secrets_def load_infra_secrets_def)

lemma region_config_keys:
  "apply_region_config E config = Inr config' \<Longrightarrow> distinct (map fst config) \<Longrightarrow> distinct (map fst config')"
  by (auto simp: apply_region_config_def Let_def split: if_splits region_result.splits)

lemma build_event_cong:
  "map_of c = map_of c' \<Longrightarrow> build_event_provider E t c = build_event_provider E t c'"
proof -
  assume "map_of c = map_of c'"
  then have "dict_get c = dict_get c'" by (simp add: fun_eq_iff dict_get_def)
  then show ?thesis by (simp only: build_event_provider_def dict_at_def)
qed

subsection \<open>What a validation leaves alone\<close>

text \<open>Clients of outside systems do not touch the program's own state.\<close>

definition probes_outside :: "'x probes \<Rightarrow> bool" where
  "probes_outside P \<longleftrightarrow>
     (\<forall>V v p b. frames core (pb_http P V v p b)) \<and> (\<forall>c. frames core (pb_kafka P c))"

definition view :: "'x world \<times> manager \<Rightarrow> database \<times> database" where
  "view s = store (fst s)"

lemma frames_on_world: "frames store m \<Longrightarrow> frames view (on_world m)"
  by (auto simp: frames_def on_world_def zoomA_def view_def split: prod.splits) (metis snd_conv)

lemma frames_upd_manager [frames_intros]: "frames view (upd_manager f)"
  by (auto simp: upd_manager_def view_def intro: frames_modify)

lemma frames_install [frames_intros]: "frames view (install key a)"
  unfolding frames_def by (auto simp: install_run view_def)

lemma frames_active_row [frames_intros]: "frames view (active_row d k)"
  unfolding active_row_def by (intro frames_intros frames_on_world)

lemma frames_get_broker: "frames view (get_broker_provider d)"
  unfolding get_broker_provider_def active_type_def by (intro frames_intros)

lemma frames_get_infra: "frames view (get_infrastructure_provider E engine d)"
  unfolding get_infrastructure_provider_def build_mock_infra_def Let_def by (intro frames_intros)

lemma frames_describe: "frames view (describe_infrastructure E engine d)"
  unfolding describe_infrastructure_def Let_def by (intro frames_intros frames_get_infra)

lemma frames_probed [frames_intros]: "frames f (probed probe x)"
  unfolding probed_def by (intro frames_intros)

lemma store_of_core: "frames core m \<Longrightarrow> frames store m"
  by (erule frames_via) (simp add: core_def store_def)

lemma frames_validate:
  assumes "probes_outside P"
  shows "frames view (validate_config E P k body config)"
proof -
  have kafka: "frames store (pb_kafka P c)" and http: "frames store (pb_http P V v p b)" for c V v p b
    using assms by (simp_all add: probes_outside_def store_of_core)
  have probe: "frames store (on_broker m)" for m :: "(mock_broker \<times> nat, exn, dict) act"
    by (intro frames_intros) simp
  show ?thesis
    unfolding validate_config_def validate_event_def validate_infrastructure_def validate_other_def
      probe_event_config_def probe_mock_infra_def Let_def
    by (intro frames_intros frames_on_world frames_get_broker probe kafka frames_vultr http)
qed

lemma frames_response: "frames view (provider_response E P row v s p)"
  unfolding provider_response_def by (intro frames_intros frames_describe)

subsection \<open>What an activation leaves\<close>

lemma activate_steps:
  assumes "activate_provider E P kind body admin (w, M) = (Inr resp, (w', M'))"
  obtains k config0 config w1 M1 row w2 where
    "parse_kind kind = Some k" "apply_region_config E (aq_config body) = Inr config0"
    "validate_config E P k body config0 (w, M) = (Inr config, (w1, M1))"
    "store_config E k body admin config w1 = (Inr row, w2)"
    "provider_response E P row (Some (aq_validate_first body)) (Some (fst (split_config config)))
       (Some (snd (split_config config))) (w2, invalidate (Some kind) M1) = (Inr resp, (w', M'))"
proof -
  obtain k where k: "parse_kind kind = Some k"
    using assms by (cases "parse_kind kind") (auto simp: activate_provider_def)
  show thesis
    using assms k
    by (auto simp: activate_provider_def bindA_Inr seqA_Inr on_world_def zoomA_eq upd_manager_run)
       (metis that)
qed

lemma store_config_run:
  assumes "store_config E k body admin config w = (r, w')"
  defines "row \<equiv> config_row E (uuid_at E (drawn w)) (clock w) k body admin (next_version k (db w)) config"
  shows "r = Inr row" "saved w' = db w'"
    "provider_configs (db w') = retire_active k (provider_configs (db w)) @ [row]"
  using assms(1) by (auto simp: store_config_def run_simps Let_def row_def split: if_splits)

lemma response_keeps_store:
  "provider_response E P row v s p (w, M) = (r, (w', M')) \<Longrightarrow> store w' = store w"
  using framesD [OF frames_response] by (fastforce simp: view_def)

lemma validate_keeps_store:
  "probes_outside P \<Longrightarrow> validate_config E P k body c (w, M) = (r, (w', M')) \<Longrightarrow> store w' = store w"
  using framesD [OF frames_validate] by (fastforce simp: view_def)

text \<open>The rows after an activation that returned.\<close>

lemma activated_rows:
  assumes "probes_outside P"
    and run: "activate_provider E P kind body admin (w, M) = (Inr resp, (w', M'))"
  obtains k u now config where "parse_kind kind = Some k"
    "provider_configs (db w') = retire_active k (provider_configs (db w)) @
       [config_row E u now k body admin (next_version k (db w)) config]"
    "saved w' = db w'"
proof (rule activate_steps [OF run])
  fix k config0 config w1 M1 row w2
  assume k: "parse_kind kind = Some k"
    and valid: "validate_config E P k body config0 (w, M) = (Inr config, (w1, M1))"
    and stored: "store_config E k body admin config w1 = (Inr row, w2)"
    and shown: "provider_response E P row (Some (aq_validate_first body)) (Some (fst (split_config config)))
       (Some (snd (split_config config))) (w2, invalidate (Some kind) M1) = (Inr resp, (w', M'))"
  have before: "db w1 = db w" using validate_keeps_store [OF assms(1) valid] by (simp add: store_def)
  have after: "db w' = db w2" "saved w' = saved w2"
    using response_keeps_store [OF shown] by (simp_all add: store_def)
  note row = store_config_run [OF stored]
  show thesis
  proof (rule that [OF k])
    show "provider_configs (db w') = retire_active k (provider_configs (db w)) @
       [config_row E (uuid_at E (drawn w1)) (clock w1) k body admin (next_version k (db w)) config]"
      using row(3) by (simp only: before after(1))
    show "saved w' = db w'" using row(2) by (simp only: after)
  qed
qed

lemma next_version_above: "v \<in> set (versions_of k d) \<Longrightarrow> v < next_version k d"
proof -
  assume v: "v \<in> set (versions_of k d)"
  then have "v \<le> Max (set (versions_of k d))" by simp
  moreover have "versions_of k d \<noteq> []" using v by auto
  ultimately show ?thesis by (simp add: next_version_def)
qed

lemma retire_active_Cons [simp]:
  "retire_active k [] = []"
  "retire_active k (r # rows) =
     (if pc_kind r = k \<and> pc_status r = PsActive then r\<lparr>pc_status := PsRetired\<rparr> else r) # retire_active k rows"
  by (simp_all add: retire_active_def upd_rows_def)

lemma active_retired:
  "filter (\<lambda>r. pc_kind r = k \<and> pc_status r = PsActive) (retire_active k' rows) =
   (if k = k' then [] else filter (\<lambda>r. pc_kind r = k \<and> pc_status r = PsActive) rows)"
  by (induction rows) auto

lemma retired_inactive:
  "r \<in> set (retire_active k rows) \<Longrightarrow> pc_kind r = k \<Longrightarrow> pc_status r \<noteq> PsActive"
  using active_retired [of k k rows] by (auto simp: filter_empty_conv)

lemma retired_others:
  "filter (\<lambda>r. pc_kind r \<noteq> k) (retire_active k rows) = filter (\<lambda>r. pc_kind r \<noteq> k) rows"
  by (induction rows) auto

lemma config_row_fields [simp]:
  "pc_kind (config_row E u now k body admin v config) = k"
  "pc_version (config_row E u now k body admin v config) = v"
  "pc_client_id (config_row E u now k body admin v config) = aq_client_id body"
  "pc_scope_type (config_row E u now k body admin v config) = ScopeGlobal"
  "pc_provider_type (config_row E u now k body admin v config) = aq_provider_type body"
  "pc_status (config_row E u now k body admin v config) = (if aq_activate body then PsActive else PsPending)"
  "pc_config_non_secret (config_row E u now k body admin v config) = snd (split_config config)"
  by (simp_all add: config_row_def Let_def split: prod.splits)

subsection \<open>Versions of a kind never repeat\<close>

definition versions_distinct :: "database \<Rightarrow> bool" where
  "versions_distinct d \<longleftrightarrow> (\<forall>k. distinct (versions_of k d))"

definition one_active_config :: "database \<Rightarrow> bool" where
  "one_active_config d \<longleftrightarrow>
     (\<forall>k. length (filter (\<lambda>r. pc_kind r = k \<and> pc_status r = PsActive) (provider_configs d)) \<le> 1)"

lemma versions_retired:
  "map pc_version (filter (\<lambda>r. pc_kind r = k) (retire_active k' rows)) =
   map pc_version (filter (\<lambda>r. pc_kind r = k) rows)"
  by (induction rows) auto

lemma versions_stored:
  assumes "versions_distinct d"
    "provider_configs d' = retire_active k (provider_configs d) @ [config_row E u now k body admin (next_version k d) config]"
  shows "versions_distinct d'"
proof -
  have "distinct (versions_of k' d')" for k'
  proof (cases "k' = k")
    case True
    then have "versions_of k' d' = versions_of k d @ [next_version k d]"
      using assms(2) by (simp add: versions_of_def versions_retired)
    with assms(1) next_version_above show ?thesis
      by (fastforce simp: versions_distinct_def)
  next
    case False
    then have "versions_of k' d' = versions_of k' d"
      using assms(2) by (simp add: versions_of_def versions_retired)
    with assms(1) show ?thesis by (simp add: versions_distinct_def)
  qed
  then show ?thesis by (simp add: versions_distinct_def)
qed

lemma one_active_stored:
  assumes "one_active_config d"
    "provider_configs d' = retire_active k (provider_configs d) @ [config_row E u now k body admin v config]"
  shows "one_active_config d'"
  using assms by (simp add: one_active_config_def active_retired)

subsection \<open>An activated event configuration is what the manager serves\<close>

lemma validate_event_same:
  assumes "validate_config E P PkEvent body config0 s = (Inr config, s')"
  shows "config = config0"
  using assms by (auto simp: validate_config_def validate_event_def probed_def bindA_Inr split: if_splits)

lemma uncached_after_invalidate: "cached ''event'' (invalidate (Some ''event'') M) = None"
  by (auto simp: invalidate_def to_stale_def cached_def uncache_def delete_conv' split: option.splits)

lemma activated_event_source:
  assumes region: "apply_region_config E (aq_config body) = Inr config0"
    and laws: "secrets_readable E (fst (split_config config0))" "distinct (map fst (aq_config body))"
    and active: "aq_activate body" "aq_client_id body = None"
    and run: "activate_provider E P ''event'' body admin (w, M) = (Inr resp, (w', M'))"
  shows "event_source E True (db w') = (pv_version resp, build_event_provider E (aq_provider_type body) config0)"
    "cached ''event'' M' = None"
proof -
  obtain k config1 config w1 M1 row w2 where k: "parse_kind ''event'' = Some k"
    and region1: "apply_region_config E (aq_config body) = Inr config1"
    and valid: "validate_config E P k body config1 (w, M) = (Inr config, (w1, M1))"
    and stored: "store_config E k body admin config w1 = (Inr row, w2)"
    and shown: "provider_response E P row (Some (aq_validate_first body)) (Some (fst (split_config config)))
       (Some (snd (split_config config))) (w2, invalidate (Some ''event'') M1) = (Inr resp, (w', M'))"
    by (rule activate_steps [OF run])
  have event: "k = PkEvent" using k by (simp add: parse_kind_def kind_names_def)
  have same: "config = config0" using validate_event_same valid region region1 by (simp add: event)
  have keys: "distinct (map fst config)" using region_config_keys [OF region laws(2)] same by simp
  define r where "r = config_row E (uuid_at E (drawn w1)) (clock w1) k body admin (next_version k (db w1)) config"
  have row: "row = r" and rows: "provider_configs (db w2) = retire_active k (provider_configs (db w1)) @ [r]"
    using store_config_run [OF stored] by (simp_all add: r_def)
  have fields: "pc_kind r = PkEvent" "pc_status r = PsActive" "pc_client_id r = None" "pc_scope_type r = ScopeGlobal"
    "pc_provider_type r = aq_provider_type body"
    using active by (simp_all add: r_def event)
  have resp: "pv_version resp = pc_version r" "w' = w2" "M' = invalidate (Some ''event'') M1"
    using shown fields(1) by (auto simp: provider_response_def row bindA_Inr)
  have "active_rows PkEvent (db w') = [r]"
    using fields by (simp add: active_rows_def resp(2) rows event active_retired)
  moreover have "map_of (load_event_secrets E r) = map_of config"
    unfolding r_def using laws(1) keys by (intro load_config_row) (simp_all add: same)
  ultimately show "event_source E True (db w') =
      (pv_version resp, build_event_provider E (aq_provider_type body) config0)"
    using build_event_cong [of "load_event_secrets E r" config E]
    by (simp add: event_source_def first_row_def resp(1) fields(5) same)
  show "cached ''event'' M' = None" by (simp add: resp(3) uncached_after_invalidate)
qed

lemma serve_event_cold:
  assumes "cached ''event'' M = None" "serve_event src M = (h, M')"
  shows "snd h = snd src" "mg_event_version M' = Some (fst src)" "fst h = length (mg_made M)"
    "mg_made M' = mg_made M @ [snd src]"
proof -
  have none: "cached ''event'' (close_stale M) = None"
    using assms(1) by (simp add: cached_def close_stale_def)
  then have "close_stale (to_stale ''event'' (close_stale M)) = close_stale M"
    by (simp add: to_stale_def close_stale_idle)
  moreover have "mg_made (close_stale M) = mg_made M" by (simp add: close_stale_def)
  ultimately have "serve_event src M = ((length (mg_made M), snd src),
      (installed ''event'' (snd src) (close_stale M))\<lparr>mg_event_version := Some (fst src)\<rparr>)"
    using none by (simp add: serve_event_def Let_def)
  with assms(2) show "snd h = snd src" "mg_event_version M' = Some (fst src)"
    "fst h = length (mg_made M)" "mg_made M' = mg_made M @ [snd src]"
    by (auto simp: installed_def close_stale_def)
qed

lemma activated_event_served:
  assumes region: "apply_region_config E (aq_config body) = Inr config"
    and laws: "secrets_readable E (fst (split_config config))" "distinct (map fst (aq_config body))"
    and active: "aq_activate body" "aq_client_id body = None"
    and run: "activate_provider E P ''event'' body admin (w, M) = (Inr resp, (w', M'))"
    and served: "get_event_provider E True (w', M') = (r, (w'', M''))"
  shows "r = Inr (length (mg_made M'), build_event_provider E (aq_provider_type body) config)"
    "mg_event_version M'' = Some (pv_version resp)"
proof -
  note source = activated_event_source [OF region laws active run]
  obtain h M1 where serve: "serve_event (event_source E True (db w')) M' = (h, M1)" by fastforce
  note cold = serve_event_cold [OF source(2) serve]
  have "r = Inr h" "M'' = M1" using served serve get_event_run [of E True w' M'] by (simp_all add: Let_def)
  then show "r = Inr (length (mg_made M'), build_event_provider E (aq_provider_type body) config)"
    "mg_event_version M'' = Some (pv_version resp)"
    using source(1) cold(1-3) by (cases h; simp)+
qed

subsection \<open>Activating a lock configuration forgets the locks that are held\<close>

lemma lock_activation_forgets_locks:
  assumes "lock_provider_name (cfg E) \<noteq> ''redis''"
  shows "\<exists>h M'. get_lock_provider E (w, invalidate (Some ''lock'') M) =
    (Inr h, (w\<lparr>mem_locks := Map.empty\<rparr>, M'))"
proof -
  have "cached ''lock'' (invalidate (Some ''lock'') M) = None"
    by (simp add: invalidate_def Let_def)
  then show ?thesis
    using assms
    by (simp add: get_lock_provider_def get_or_install_def bindA_def askA_def install_run fresh_instance_def)
qed

end
