(* ===== verification/Api.thy ===== *)
theory Api
  imports Auth Orders Replay Rotation Whitelist Simulator OutboxSvc Subscriptions
begin

text \<open>
  The HTTP routes (\<^verbatim>\<open>app/api/routes/\<close>): the roles each requires, the checks of the request that
  FastAPI makes before the handler runs, and the service call behind it, in one database session.
  A response repeats attributes of the row the service returned, so a handler returns the row,
  except where the response leaves attributes out. The activation of providers is in
  \<open>AdminProviders\<close>, the dashboard in \<open>Monitoring\<close>.
\<close>

subsection \<open>Pages\<close>

text \<open>\<^verbatim>\<open>limit: int = Query(25, ge=1, le=top), offset: int = Query(0, ge=0)\<close>\<close>

definition page_params :: "int \<Rightarrow> int \<Rightarrow> bool" where
  "page_params lmt off \<longleftrightarrow> 1 \<le> lmt \<and> lmt \<le> 100 \<and> 0 \<le> off"

text \<open>\<^verbatim>\<open>PaginatedList.build(...)\<close> over what a list service returned.\<close>

definition paged :: "int \<Rightarrow> int \<Rightarrow> ('x, 'a list \<times> nat) op \<Rightarrow> ('x, 'a paginated_list) op" where
  "paged lmt off m = bindA m (\<lambda>(rows, total). liftA (build_page rows (int total) lmt off))"

subsection \<open>Orders (orders.py)\<close>

text \<open>The constraints of \<^verbatim>\<open>OrderPlaceRequest\<close>.\<close>

definition valid_order_body :: "order_request \<Rightarrow> bool" where
  "valid_order_body rq \<longleftrightarrow>
     1 \<le> length (rq_client_order_id rq) \<and> length (rq_client_order_id rq) \<le> 128 \<and>
     1 \<le> length (rq_symbol rq) \<and> length (rq_symbol rq) \<le> 64 \<and> 0 < rq_quantity rq \<and>
     rq_order_type rq \<in> {''MARKET'', ''LIMIT''} \<and> rq_time_in_force rq \<in> {''DAY'', ''GTC'', ''IOC''}"

text \<open>The status code beside the order: 201 when it was created, 200 on a replay.\<close>

definition place_route ::
  "auth_lib \<Rightarrow> 'x env \<Rightarrow> ('x world \<Rightarrow> 'x world) \<Rightarrow> string \<Rightarrow> string option \<Rightarrow> order_request \<Rightarrow>
   ('x, int \<times> order) op" where
  "place_route A E others side token rq =
     guarded A E traders token (\<lambda>_. checked (valid_order_body rq)
       (bindA (place_order E others (rq\<lparr>rq_side := side\<rparr>)) (\<lambda>(o', created).
          ret (if created then 201 else 200, o'))))"

definition buy_order ::
  "auth_lib \<Rightarrow> 'x env \<Rightarrow> ('x world \<Rightarrow> 'x world) \<Rightarrow> string option \<Rightarrow> order_request \<Rightarrow> ('x, int \<times> order) op" where
  "buy_order A E others = place_route A E others ''BUY''"

definition sell_order ::
  "auth_lib \<Rightarrow> 'x env \<Rightarrow> ('x world \<Rightarrow> 'x world) \<Rightarrow> string option \<Rightarrow> order_request \<Rightarrow> ('x, int \<times> order) op" where
  "sell_order A E others = place_route A E others ''SELL''"

definition cancel_order_route :: "auth_lib \<Rightarrow> 'x env \<Rightarrow> string option \<Rightarrow> uuid \<Rightarrow> ('x, order) op" where
  "cancel_order_route A E token i = guarded A E traders token (\<lambda>_. cancel_order E i)"

definition get_order_route :: "auth_lib \<Rightarrow> 'x env \<Rightarrow> string option \<Rightarrow> uuid \<Rightarrow> ('x, order) op" where
  "get_order_route A E token i = guarded A E everyone token (\<lambda>_. get_order i)"

definition list_orders_route ::
  "auth_lib \<Rightarrow> 'x env \<Rightarrow> string option \<Rightarrow> uuid option \<Rightarrow> string option \<Rightarrow> string option \<Rightarrow> int \<Rightarrow> int \<Rightarrow>
   ('x, order paginated_list) op" where
  "list_orders_route A E token client_id status symbol lmt off =
     guarded A E everyone token (\<lambda>_. checked (page_params lmt off)
       (bindA (list_orders client_id status symbol lmt off) (\<lambda>(items, total).
          let nxt = off + int (length items) in
          ret \<lparr>pg_items = items, pg_total = int total, pg_limit = lmt, pg_offset = off,
               pg_next_offset = (if nxt \<ge> int total \<or> items = [] then None else Some nxt)\<rparr>)))"

subsection \<open>Brokers (brokers.py)\<close>

text \<open>\<^verbatim>\<open>BrokerResponse\<close>: an account without its credentials.\<close>

record broker_response =
  br2_id :: uuid
  br2_client_id :: uuid
  br2_provider_type :: string
  br2_display_name :: string
  br2_priority :: int
  br2_enabled :: bool
  br2_allowed_regions :: "string list"
  br2_capabilities :: dict
  br2_rate_limit_rps :: "rat option"

definition broker_shown :: "broker_account \<Rightarrow> broker_response" where
  "broker_shown b =
     \<lparr>br2_id = ba_id b, br2_client_id = ba_client_id b, br2_provider_type = ba_provider_type b,
      br2_display_name = ba_display_name b, br2_priority = ba_priority b, br2_enabled = ba_enabled b,
      br2_allowed_regions = ba_allowed_regions b, br2_capabilities = ba_capabilities b,
      br2_rate_limit_rps = ba_rate_limit_rps b\<rparr>"

definition showing :: "('x, broker_account) op \<Rightarrow> ('x, broker_response) op" where
  "showing m = bindA m (\<lambda>b. ret (broker_shown b))"

record broker_body =
  bb_client_id :: uuid
  bb_provider_type :: string
  bb_display_name :: string
  bb_credentials :: dict
  bb_priority :: int
  bb_allowed_regions :: "string list"
  bb_rate_limit_rps :: "rat option"
  bb_enabled :: bool

definition create_broker_route ::
  "auth_lib \<Rightarrow> 'x env \<Rightarrow> string option \<Rightarrow> broker_body \<Rightarrow> ('x, broker_response) op" where
  "create_broker_route A E token body =
     guarded A E admin_only token (\<lambda>_. showing
       (create_broker E (bb_client_id body) (bb_provider_type body) (bb_display_name body)
          (bb_credentials body) (bb_priority body) (Some (bb_allowed_regions body))
          (bb_rate_limit_rps body) (bb_enabled body)))"

definition list_brokers_route ::
  "auth_lib \<Rightarrow> 'x env \<Rightarrow> string option \<Rightarrow> int \<Rightarrow> int \<Rightarrow> ('x, broker_response paginated_list) op" where
  "list_brokers_route A E token lmt off =
     guarded A E viewers token (\<lambda>_. checked (page_params lmt off)
       (paged lmt off (bindA (list_brokers None lmt off) (\<lambda>(rows, n). ret (map broker_shown rows, n)))))"

definition get_broker_route :: "auth_lib \<Rightarrow> 'x env \<Rightarrow> string option \<Rightarrow> uuid \<Rightarrow> ('x, broker_response) op" where
  "get_broker_route A E token b = guarded A E viewers token (\<lambda>_. showing (get_broker b))"

definition patch_broker_route ::
  "auth_lib \<Rightarrow> 'x env \<Rightarrow> string option \<Rightarrow> uuid \<Rightarrow> bool option \<Rightarrow> int option \<Rightarrow> string option \<Rightarrow> rat option \<Rightarrow>
   string list option \<Rightarrow> ('x, broker_response) op" where
  "patch_broker_route A E token b enabled priority name rps regions =
     guarded A E admin_only token (\<lambda>_. showing (patch_broker b enabled priority name rps regions))"

definition refresh_capabilities_route ::
  "auth_lib \<Rightarrow> 'x env \<Rightarrow> string option \<Rightarrow> uuid \<Rightarrow> ('x, broker_response) op" where
  "refresh_capabilities_route A E token b =
     guarded A E operators token (\<lambda>_. showing (refresh_capabilities b))"

text \<open>\<^verbatim>\<open>SessionStatusResponse\<close>: no token leaves, only whether there is one.\<close>

record session_status =
  ss_broker :: uuid
  ss_display_name :: string
  ss_status :: string
  ss_expires_at :: "instant option"
  ss_updated_at :: "instant option"
  ss_has_tokens :: bool

definition session_shown :: "uuid \<Rightarrow> string \<Rightarrow> broker_session \<Rightarrow> session_status" where
  "session_shown b name s =
     \<lparr>ss_broker = b, ss_display_name = name, ss_status = bs_status s, ss_expires_at = bs_expires_at s,
      ss_updated_at = Some (bs_updated_at s),
      ss_has_tokens = (bs_access_token s \<noteq> None \<and> bs_access_token s \<noteq> Some [])\<rparr>"

definition get_broker_session ::
  "auth_lib \<Rightarrow> 'x env \<Rightarrow> string option \<Rightarrow> uuid \<Rightarrow> ('x, session_status) op" where
  "get_broker_session A E token b =
     guarded A E viewers token (\<lambda>_.
       bindA (get_broker b) (\<lambda>broker.
       bindA (get_for_broker b) (\<lambda>s.
         ret (case s of
                None \<Rightarrow> \<lparr>ss_broker = b, ss_display_name = ba_display_name broker, ss_status = ''missing'',
                         ss_expires_at = None, ss_updated_at = None, ss_has_tokens = False\<rparr>
              | Some r \<Rightarrow> session_shown b (ba_display_name broker) r))))"

definition ensure_broker_session ::
  "auth_lib \<Rightarrow> 'x env \<Rightarrow> string option \<Rightarrow> uuid \<Rightarrow> bool \<Rightarrow> ('x, session_status) op" where
  "ensure_broker_session A E token b force_refresh =
     guarded A E operators token (\<lambda>_.
       bindA (get_broker b) (\<lambda>broker.
       bindA (ensure_session E b force_refresh) (\<lambda>s. ret (session_shown b (ba_display_name broker) s))))"

subsection \<open>Subscriptions (subscriptions.py)\<close>

definition create_subscription_route ::
  "auth_lib \<Rightarrow> 'x env \<Rightarrow> string option \<Rightarrow> uuid \<Rightarrow> pydatetime \<Rightarrow> pydatetime \<Rightarrow> string option \<Rightarrow>
   ('x, subscription) op" where
  "create_subscription_route A E token client_id starts_at ends_at mode =
     guarded A E admin_only token (\<lambda>_. create_subscription E client_id starts_at ends_at mode)"

definition list_subscriptions_route ::
  "auth_lib \<Rightarrow> 'x env \<Rightarrow> string option \<Rightarrow> uuid option \<Rightarrow> int \<Rightarrow> int \<Rightarrow> ('x, subscription paginated_list) op" where
  "list_subscriptions_route A E token client_id lmt off =
     guarded A E viewers token (\<lambda>_. checked (page_params lmt off)
       (paged lmt off (list_subscriptions client_id lmt off)))"

definition enforce_expiry_route :: "auth_lib \<Rightarrow> 'x env \<Rightarrow> string option \<Rightarrow> ('x, nat \<times> nat) op" where
  "enforce_expiry_route A E token = guarded A E operators token (\<lambda>_. enforce_expiry E None)"

definition get_subscription_route ::
  "auth_lib \<Rightarrow> 'x env \<Rightarrow> string option \<Rightarrow> uuid \<Rightarrow> ('x, subscription) op" where
  "get_subscription_route A E token i = guarded A E viewers token (\<lambda>_. get_subscription i)"

definition expire_subscription_route ::
  "auth_lib \<Rightarrow> 'x env \<Rightarrow> string option \<Rightarrow> uuid \<Rightarrow> ('x, subscription) op" where
  "expire_subscription_route A E token i = guarded A E admin_only token (\<lambda>_. expire_now E i)"

subsection \<open>Infrastructure (infrastructure.py)\<close>

definition create_instance_route ::
  "auth_lib \<Rightarrow> 'x env \<Rightarrow> string option \<Rightarrow> uuid \<Rightarrow> string \<Rightarrow> string option \<Rightarrow> ('x, infra_instance) op" where
  "create_instance_route A E token client_id region label =
     guarded A E admin_only token (\<lambda>_. create_instance E client_id region label)"

definition list_instances_route :: "auth_lib \<Rightarrow> 'x env \<Rightarrow> string option \<Rightarrow> ('x, infra_instance list) op" where
  "list_instances_route A E token = guarded A E viewers token (\<lambda>_. list_instances)"

definition destroy_instance_route :: "auth_lib \<Rightarrow> 'x env \<Rightarrow> string option \<Rightarrow> uuid \<Rightarrow> ('x, unit) op" where
  "destroy_instance_route A E token i = guarded A E admin_only token (\<lambda>_. destroy_instance E i)"

definition suspend_instance_route ::
  "auth_lib \<Rightarrow> 'x env \<Rightarrow> string option \<Rightarrow> uuid \<Rightarrow> ('x, infra_instance) op" where
  "suspend_instance_route A E token i = guarded A E operators token (\<lambda>_. suspend_instance E i)"

definition start_instance_route ::
  "auth_lib \<Rightarrow> 'x env \<Rightarrow> string option \<Rightarrow> uuid \<Rightarrow> ('x, infra_instance) op" where
  "start_instance_route A E token i = guarded A E operators token (\<lambda>_. start_instance E i)"

definition allocate_ip_route :: "auth_lib \<Rightarrow> 'x env \<Rightarrow> string option \<Rightarrow> string \<Rightarrow> ('x, static_ip) op" where
  "allocate_ip_route A E token region = guarded A E admin_only token (\<lambda>_. allocate_ip E region)"

definition list_ips_route ::
  "auth_lib \<Rightarrow> 'x env \<Rightarrow> string option \<Rightarrow> string option \<Rightarrow> int \<Rightarrow> int \<Rightarrow> ('x, static_ip paginated_list) op" where
  "list_ips_route A E token region lmt off =
     guarded A E viewers token (\<lambda>_. checked (page_params lmt off) (paged lmt off (list_ips region lmt off)))"

definition rotate_ip_route ::
  "auth_lib \<Rightarrow> 'x env \<Rightarrow> ('x world \<Rightarrow> 'x world) \<Rightarrow> int \<Rightarrow> string option \<Rightarrow> uuid \<Rightarrow> bool \<Rightarrow>
   ('x, rotation_result) op" where
  "rotate_ip_route A E others poll token b force =
     guarded A E operators token (\<lambda>_. rotate E others poll b force)"

text \<open>\<^verbatim>\<open>next(r for r in rows if r["id"] == assignment.id)\<close> with no such row ends the coroutine with
  a \<^verbatim>\<open>RuntimeError\<close>.\<close>

definition assign_ip_route ::
  "auth_lib \<Rightarrow> 'x env \<Rightarrow> string option \<Rightarrow> uuid \<Rightarrow> uuid \<Rightarrow> uuid option \<Rightarrow> ('x, assignment_row) op" where
  "assign_ip_route A E token ip b client_id =
     guarded A E admin_only token (\<lambda>_.
       bindA (assign E ip b client_id) (\<lambda>a.
       bindA list_assignments (\<lambda>rows.
         case find (\<lambda>r. as_id (ar_assignment r) = as_id a) rows of
           None \<Rightarrow> raise (PyError ''RuntimeError'')
         | Some r \<Rightarrow> ret r)))"

definition attach_ip_route ::
  "auth_lib \<Rightarrow> 'x env \<Rightarrow> string option \<Rightarrow> uuid \<Rightarrow> uuid \<Rightarrow> ('x, static_ip) op" where
  "attach_ip_route A E token ip i = guarded A E admin_only token (\<lambda>_. attach E ip i)"

definition detach_ip_route :: "auth_lib \<Rightarrow> 'x env \<Rightarrow> string option \<Rightarrow> uuid \<Rightarrow> ('x, static_ip) op" where
  "detach_ip_route A E token ip = guarded A E admin_only token (\<lambda>_. detach E ip)"

definition release_ip_route :: "auth_lib \<Rightarrow> 'x env \<Rightarrow> string option \<Rightarrow> uuid \<Rightarrow> ('x, static_ip) op" where
  "release_ip_route A E token ip = guarded A E admin_only token (\<lambda>_. release_ip E ip)"

definition list_assignments_route :: "auth_lib \<Rightarrow> 'x env \<Rightarrow> string option \<Rightarrow> ('x, assignment_row list) op" where
  "list_assignments_route A E token = guarded A E viewers token (\<lambda>_. list_assignments)"

definition sync_whitelist_route ::
  "auth_lib \<Rightarrow> 'x env \<Rightarrow> string option \<Rightarrow> uuid \<Rightarrow> ('x, whitelist_snapshot \<times> whitelist_finding list) op" where
  "sync_whitelist_route A E token b = guarded A E operators token (\<lambda>_. sync_whitelist E b None)"

subsection \<open>Configuration, replay and fault simulation (admin_config.py, admin_replay.py, admin_sim.py)\<close>

definition list_config_route ::
  "auth_lib \<Rightarrow> 'x env \<Rightarrow> string option \<Rightarrow> string option \<Rightarrow> ('x, config_item list) op" where
  "list_config_route A E token pre = guarded A E viewers token (\<lambda>_. config_list_items pre)"

definition get_config_route :: "auth_lib \<Rightarrow> 'x env \<Rightarrow> string option \<Rightarrow> string \<Rightarrow> ('x, config_item) op" where
  "get_config_route A E token key = guarded A E viewers token (\<lambda>_. config_get key)"

definition put_config_route ::
  "auth_lib \<Rightarrow> 'x env \<Rightarrow> string option \<Rightarrow> string \<Rightarrow> dict \<Rightarrow> ('x, config_item) op" where
  "put_config_route A E token key v =
     guarded A E operators token (\<lambda>user.
       bindA (config_put E key v (Some (u_id user))) (\<lambda>item.
         if prefix ''ip.rotation.'' key \<or> prefix ''routing.'' key then
           seqA (enqueue_outbox E ''config.updated'' ''config''
                   [(''key'', JStr key), (''version'', JInt (ci_version item))])
             (seqA commit (ret item))
         else ret item))"

definition run_replay_route ::
  "auth_lib \<Rightarrow> 'x env \<Rightarrow> string option \<Rightarrow> int \<Rightarrow>
   ('x, replay_status \<times> (uuid \<times> (string + replay_outcome)) list) op" where
  "run_replay_route A E token lmt =
     guarded A E operators token (\<lambda>_. checked (1 \<le> lmt \<and> lmt \<le> 100) (run_replay E lmt))"

text \<open>\<^verbatim>\<open>auto_scan_on_startup\<close> is always false.\<close>

definition replay_status_route :: "auth_lib \<Rightarrow> 'x env \<Rightarrow> string option \<Rightarrow> ('x, replay_status) op" where
  "replay_status_route A E token = guarded A E viewers token (\<lambda>_. get_last_replay_status)"

definition emit_sim_event :: "'x env \<Rightarrow> string \<Rightarrow> dict \<Rightarrow> ('x, unit) op" where
  "emit_sim_event E event_type payload =
     seqA (enqueue_outbox E event_type ''config'' payload)
       (seqA commit (bindA (drain_outbox E 20 ''brokerbridge-sim'') (\<lambda>_. ret ())))"

definition get_faults_route :: "auth_lib \<Rightarrow> 'x env \<Rightarrow> string option \<Rightarrow> ('x, fault list) op" where
  "get_faults_route A E token = guarded A E viewers token (\<lambda>_. askA (\<lambda>w. list_faults (sim_flags w)))"

definition set_fault_route :: "auth_lib \<Rightarrow> 'x env \<Rightarrow> string option \<Rightarrow> string \<Rightarrow> bool \<Rightarrow> ('x, fault) op" where
  "set_fault_route A E token fid enabled =
     guarded A E operators token (\<lambda>_. checked (1 \<le> length fid \<and> length fid \<le> 64)
       (bindA (tryA (set_fault fid enabled) (\<lambda>e. raise (if e = PyError ''KeyError'' then not_found else e))) (\<lambda>row.
        seqA (if f_target row = ''broker'' then bindA (probe_all E) (\<lambda>_. ret ()) else ret ())
        (let action = (if enabled then ''enabled'' else ''disabled'') in
         seqA (emit_sim_event E (''sim.fault.'' @ action)
                 [(''fault_id'', JStr (f_id row)), (''target'', JStr (f_target row)),
                  (''code'', JStr (f_code row)), (''enabled'', JBool (f_enabled row)),
                  (''action'', JStr action)])
           (ret row)))))"

definition clear_faults_route :: "auth_lib \<Rightarrow> 'x env \<Rightarrow> string option \<Rightarrow> ('x, fault list) op" where
  "clear_faults_route A E token =
     guarded A E operators token (\<lambda>_.
       bindA clear_all_faults (\<lambda>rows.
       seqA (bindA (probe_all E) (\<lambda>_. ret ()))
       (seqA (emit_sim_event E ''sim.fault.cleared''
                [(''action'', JStr ''cleared''), (''faults'', JList (map (\<lambda>r. JStr (f_id r)) rows))])
         (ret rows))))"

definition fault_history_route ::
  "auth_lib \<Rightarrow> 'x env \<Rightarrow> string option \<Rightarrow> int \<Rightarrow> int \<Rightarrow> ('x, toggle paginated_list) op" where
  "fault_history_route A E token lmt off =
     guarded A E viewers token (\<lambda>_.
       let l = clamp_limit (Some lmt); o' = clamp_offset (Some off) in
       paged l o' (askA (\<lambda>w. get_fault_history l o' (sim_flags w))))"

subsection \<open>Monitoring (monitoring.py)\<close>

definition list_sessions_route ::
  "auth_lib \<Rightarrow> 'x env \<Rightarrow> string option \<Rightarrow> int \<Rightarrow> int \<Rightarrow> ('x, session_status paginated_list) op" where
  "list_sessions_route A E token lmt off =
     guarded A E viewers token (\<lambda>_. checked (page_params lmt off)
       (paged lmt off (bindA (list_all_sessions lmt off) (\<lambda>(rows, n).
          ret (map (\<lambda>(s, b). session_shown (bs_broker s) (ba_display_name b) s) rows, n)))))"

definition list_broker_health_route :: "auth_lib \<Rightarrow> 'x env \<Rightarrow> string option \<Rightarrow> ('x, health_row list) op" where
  "list_broker_health_route A E token = guarded A E viewers token (\<lambda>_. latest_for_brokers E True)"

definition probe_broker_health_route :: "auth_lib \<Rightarrow> 'x env \<Rightarrow> string option \<Rightarrow> ('x, health_row list) op" where
  "probe_broker_health_route A E token =
     guarded A E operators token (\<lambda>_. bindA (probe_all E) (\<lambda>_. latest_for_brokers E False))"

definition list_rate_limits_route :: "auth_lib \<Rightarrow> 'x env \<Rightarrow> string option \<Rightarrow> ('x, broker_rate list) op" where
  "list_rate_limits_route A E token = guarded A E viewers token (\<lambda>_. list_rate_snapshots E)"

definition list_failovers_route ::
  "auth_lib \<Rightarrow> 'x env \<Rightarrow> string option \<Rightarrow> int \<Rightarrow> int \<Rightarrow> ('x, failover_event paginated_list) op" where
  "list_failovers_route A E token lmt off =
     guarded A E viewers token (\<lambda>_. checked (page_params lmt off) (paged lmt off (list_failovers lmt off)))"

definition orders_engine_route :: "auth_lib \<Rightarrow> 'x env \<Rightarrow> string option \<Rightarrow> ('x, engine_report) op" where
  "orders_engine_route A E token = guarded A E viewers token (\<lambda>_. engine_stats E)"

definition routing_preview_route ::
  "auth_lib \<Rightarrow> 'x env \<Rightarrow> string option \<Rightarrow> uuid \<Rightarrow> uuid option \<Rightarrow> string option \<Rightarrow>
   ('x, bool \<times> route_preview option \<times> route_preview list \<times> route_exclusion list) op" where
  "routing_preview_route A E token client_id preferred region =
     guarded A E viewers token (\<lambda>_. preview_route E client_id preferred region False)"

text \<open>The consumed rows of the buffer, unless there are none on the page and the source allows the
  outbox.\<close>

datatype event_source_param = SourceAuto | SourceConsumed | SourceOutbox

definition list_events_route ::
  "auth_lib \<Rightarrow> 'x env \<Rightarrow> string option \<Rightarrow> int \<Rightarrow> int \<Rightarrow> string option \<Rightarrow> event_source_param \<Rightarrow>
   ('x, (bus_row + outbox_event) paginated_list) op" where
  "list_events_route A E token lmt off status src =
     guarded A E viewers token (\<lambda>_. checked (page_params lmt off)
       (bindA (askA (\<lambda>w. buffer_list lmt off (ev_buffer (the_bus w)))) (\<lambda>(items, total).
          if src \<noteq> SourceOutbox \<and> (items \<noteq> [] \<or> src = SourceConsumed)
          then liftA (build_page (map Inl items) (int total) lmt off)
          else bindA (list_outbox lmt off status) (\<lambda>(rows, n).
            liftA (build_page (map Inr rows) (int n) lmt off)))))"

text \<open>The response adds \<^verbatim>\<open>pending\<close>, which the service always sets to 0.\<close>

definition drain_events_route :: "auth_lib \<Rightarrow> 'x env \<Rightarrow> string option \<Rightarrow> int \<Rightarrow> ('x, nat \<times> nat) op" where
  "drain_events_route A E token lmt =
     guarded A E operators token (\<lambda>_. checked (1 \<le> lmt \<and> lmt \<le> 200)
       (drain_outbox E (nat lmt) ''brokerbridge-api''))"

text \<open>The event socket: who may open it. The rows it then pushes are those of the feed.\<close>

definition feed_rows :: "int \<Rightarrow> ('x, bus_row list + outbox_event list) op" where
  "feed_rows lmt =
     bindA (askA (\<lambda>w. fst (buffer_list lmt 0 (ev_buffer (the_bus w))))) (\<lambda>items.
       if items \<noteq> [] then ret (Inl items)
       else bindA (list_outbox lmt 0 None) (\<lambda>(rows, n). ret (Inr rows)))"

end
