(* ===== verification/Monitoring.thy ===== *)
theory Monitoring
  imports Api
begin

text \<open>
  The dashboard (\<^verbatim>\<open>app/monitoring/service.py\<close>): the figures of every component in one answer.
  Whether PostgreSQL, Redis and Redpanda accept a connection is an argument; the texts of the
  checks are left out.
\<close>

record dashboard =
  db_ready :: bool
  db_checks :: "bool \<times> bool \<times> bool"  \<comment> \<open>PostgreSQL, Redis, Redpanda\<close>
  db_sessions_total :: nat
  db_sessions_by_status :: "(string \<times> nat) list"
  db_ips_total :: nat
  db_ips_by_status :: "(string \<times> nat) list"
  db_failovers_total :: nat
  db_failovers_recent :: "failover_event list"
  db_rate_brokers :: nat
  db_max_pressure :: rat
  db_rate_snapshots :: "broker_rate list"
  db_fault_pressure :: bool
  db_rate_unavailable :: bool
  db_engine :: engine_report
  db_orders_total :: nat
  db_health_count :: nat
  db_health_statuses :: "(string \<times> nat) list"
  db_events :: bus_stats
  db_active_faults :: "fault list"

text \<open>\<^verbatim>\<open>d[k] = d.get(k, 0) + 1\<close> over the keys, as the code counts.\<close>

definition tally_keys :: "string list \<Rightarrow> (string \<times> nat) list" where
  "tally_keys ks = foldl (\<lambda>d k. dict_set d k (Suc (dict_get d k 0))) [] ks"

definition total_of :: "(string \<times> nat) list \<Rightarrow> nat" where
  "total_of d = sum_list (map snd d)"

text \<open>\<^verbatim>\<open>str(r.get("status") or "unknown")\<close>\<close>

definition status_text :: "string \<Rightarrow> string" where
  "status_text s = (if s \<noteq> [] then s else ''unknown'')"

text \<open>\<^verbatim>\<open>max((float(r.get("pressure") or 0) for r in rate_rows), default=0.0)\<close>, raised by active
  faults.\<close>

definition max_pressure :: "broker_rate list \<Rightarrow> fault list \<Rightarrow> rat" where
  "max_pressure rows faults =
     (let m = (case rows of [] \<Rightarrow> 0 | r # rs \<Rightarrow> foldl (\<lambda>x s. max x (rb_pressure s)) (rb_pressure r) rs)
      in if faults \<noteq> [] then max m (85 / 100 + 5 / 100 * of_nat (min (length faults) 3)) else m)"

definition build_dashboard :: "'x env \<Rightarrow> (bool \<times> bool \<times> bool) \<Rightarrow> ('x, dashboard) op" where
  "build_dashboard E checks =
     bindA (list_all_sessions 100 0) (\<lambda>(session_rows, _).
     bindA (ask_db (\<lambda>d. tally_keys (map ip_status (static_ips d)))) (\<lambda>ips_by_status.
     bindA (ask_db (\<lambda>d. length (failovers d))) (\<lambda>failover_count.
     bindA (list_failovers 5 0) (\<lambda>(recent, _).
     bindA (engine_stats E) (\<lambda>engine.
     bindA (tryA (bindA (list_rate_snapshots E) (\<lambda>rows. ret (rows, False)))
             (\<lambda>e. case e of
                AppError code st \<Rightarrow> if code = ''REDIS_UNAVAILABLE'' then ret ([], True) else raise e
              | _ \<Rightarrow> raise e)) (\<lambda>(rate_rows, unavailable).
     bindA (latest_for_brokers E False) (\<lambda>health_rows.
     bindA (askA (\<lambda>w. buffer_stats (ev_buffer (the_bus w)))) (\<lambda>bus.
     bindA (askA (\<lambda>w. filter f_enabled (list_faults (sim_flags w)))) (\<lambda>faults.
     bindA (ask_db (\<lambda>d. length (orders d))) (\<lambda>order_total.
       let by_status = tally_keys (map (\<lambda>(s, b). bs_status s) session_rows);
           (pg, rd, rp) = checks
       in ret \<lparr>db_ready = (pg \<and> rd \<and> rp), db_checks = checks,
               db_sessions_total = total_of by_status, db_sessions_by_status = by_status,
               db_ips_total = total_of ips_by_status, db_ips_by_status = ips_by_status,
               db_failovers_total = failover_count, db_failovers_recent = recent,
               db_rate_brokers = length rate_rows, db_max_pressure = max_pressure rate_rows faults,
               db_rate_snapshots = take 10 rate_rows, db_fault_pressure = (faults \<noteq> []),
               db_rate_unavailable = unavailable, db_engine = engine, db_orders_total = order_total,
               db_health_count = length health_rows,
               db_health_statuses = tally_keys (map (\<lambda>r. status_text (hr_status r)) health_rows),
               db_events = bus, db_active_faults = faults\<rparr>))))))))))"

definition dashboard_route ::
  "auth_lib \<Rightarrow> 'x env \<Rightarrow> (bool \<times> bool \<times> bool) \<Rightarrow> string option \<Rightarrow> ('x, dashboard) op" where
  "dashboard_route A E checks token = guarded A E viewers token (\<lambda>_. build_dashboard E checks)"

subsection \<open>The figures agree with the tables\<close>

lemma dict_get_tally: "dict_get (foldl (\<lambda>d k. dict_set d k (Suc (dict_get d k 0))) d ks) k 0 =
    dict_get d k 0 + length (filter (\<lambda>x. x = k) ks)"
  by (induction ks arbitrary: d) auto

lemma total_tally: "total_of (foldl (\<lambda>d k. dict_set d k (Suc (dict_get d k 0))) d ks) = total_of d + length ks"
  by (induction ks arbitrary: d) (simp_all add: total_of_def sum_list_dict_set)

lemma distinct_tally:
  "distinct (map fst d) \<Longrightarrow> distinct (map fst (foldl (\<lambda>d k. dict_set d k (Suc (dict_get d k 0))) d ks))"
  by (induction ks arbitrary: d) simp_all

lemma tally_keys:
  "dict_get (tally_keys ks) k 0 = length (filter (\<lambda>x. x = k) ks)" "total_of (tally_keys ks) = length ks"
  "distinct (map fst (tally_keys ks))"
  using total_tally [of "[]" ks] dict_get_tally [of "[]" ks k] distinct_tally [of "[]" ks]
  by (simp_all add: tally_keys_def total_of_def dict_get_def)

end
