(* ===== verification/Access.thy ===== *)
theory Access
  imports Monitoring
begin

text \<open>
  The route table as a whole: every HTTP call on the database, the roles its route names, and
  what running it does. Over this table: a caller without the role changes nothing, and a caller
  who may only read changes no business data.
\<close>

subsection \<open>The table\<close>

datatype (plugins only: code size) api_call =
    Buy order_request
  | Sell order_request
  | CancelOrder uuid
  | GetOrder uuid
  | ListOrders "uuid option" "string option" "string option" int int
  | CreateBroker broker_body
  | ListBrokers int int
  | GetBroker uuid
  | PatchBroker uuid "bool option" "int option" "string option" "rat option" "string list option"
  | RefreshCapabilities uuid
  | GetSession uuid
  | EnsureSession uuid bool
  | CreateSubscription uuid pydatetime pydatetime "string option"
  | ListSubscriptions "uuid option" int int
  | EnforceExpiry
  | GetSubscription uuid
  | ExpireSubscription uuid
  | CreateInstance uuid string "string option"
  | ListInstances
  | DestroyInstance uuid
  | SuspendInstance uuid
  | StartInstance uuid
  | AllocateIp string
  | ListIps "string option" int int
  | RotateIp uuid bool
  | AssignIp uuid uuid "uuid option"
  | AttachIp uuid uuid
  | DetachIp uuid
  | ReleaseIp uuid
  | ListAssignments
  | SyncWhitelist uuid
  | ListConfig "string option"
  | GetConfig string
  | PutConfig string dict
  | RunReplay int
  | ReplayStatus
  | GetFaults
  | SetFault string bool
  | ClearFaults
  | FaultHistory int int
  | ListSessions int int
  | BrokerHealth
  | ProbeHealth
  | RateLimits
  | ListFailovers int int
  | OrdersEngine
  | RoutingPreview uuid "uuid option" "string option"
  | ListEvents int int "string option" event_source_param
  | DrainEvents int
  | Dashboard "bool \<times> bool \<times> bool"

text \<open>The arguments of \<^verbatim>\<open>require_roles\<close> in the route's declaration.\<close>

primrec roles_of :: "api_call \<Rightarrow> user_role list" where
  "roles_of (Buy a) = traders"
| "roles_of (Sell a) = traders"
| "roles_of (CancelOrder a) = traders"
| "roles_of (GetOrder a) = everyone"
| "roles_of (ListOrders a b c d e) = everyone"
| "roles_of (CreateBroker a) = admin_only"
| "roles_of (ListBrokers a b) = viewers"
| "roles_of (GetBroker a) = viewers"
| "roles_of (PatchBroker a b c d e f) = admin_only"
| "roles_of (RefreshCapabilities a) = operators"
| "roles_of (GetSession a) = viewers"
| "roles_of (EnsureSession a b) = operators"
| "roles_of (CreateSubscription a b c d) = admin_only"
| "roles_of (ListSubscriptions a b c) = viewers"
| "roles_of EnforceExpiry = operators"
| "roles_of (GetSubscription a) = viewers"
| "roles_of (ExpireSubscription a) = admin_only"
| "roles_of (CreateInstance a b c) = admin_only"
| "roles_of ListInstances = viewers"
| "roles_of (DestroyInstance a) = admin_only"
| "roles_of (SuspendInstance a) = operators"
| "roles_of (StartInstance a) = operators"
| "roles_of (AllocateIp a) = admin_only"
| "roles_of (ListIps a b c) = viewers"
| "roles_of (RotateIp a b) = operators"
| "roles_of (AssignIp a b c) = admin_only"
| "roles_of (AttachIp a b) = admin_only"
| "roles_of (DetachIp a) = admin_only"
| "roles_of (ReleaseIp a) = admin_only"
| "roles_of ListAssignments = viewers"
| "roles_of (SyncWhitelist a) = operators"
| "roles_of (ListConfig a) = viewers"
| "roles_of (GetConfig a) = viewers"
| "roles_of (PutConfig a b) = operators"
| "roles_of (RunReplay a) = operators"
| "roles_of ReplayStatus = viewers"
| "roles_of GetFaults = viewers"
| "roles_of (SetFault a b) = operators"
| "roles_of ClearFaults = operators"
| "roles_of (FaultHistory a b) = viewers"
| "roles_of (ListSessions a b) = viewers"
| "roles_of BrokerHealth = viewers"
| "roles_of ProbeHealth = operators"
| "roles_of RateLimits = viewers"
| "roles_of (ListFailovers a b) = viewers"
| "roles_of OrdersEngine = viewers"
| "roles_of (RoutingPreview a b c) = viewers"
| "roles_of (ListEvents a b c d) = viewers"
| "roles_of (DrainEvents a) = operators"
| "roles_of (Dashboard a) = viewers"

text \<open>Running a call and dropping the response. \<open>others\<close> and \<open>poll\<close> are the arguments of
  placing and of rotating: what other tasks do during a wait, and the polling interval.\<close>

primrec perform ::
  "auth_lib \<Rightarrow> 'x env \<Rightarrow> ('x world \<Rightarrow> 'x world) \<Rightarrow> int \<Rightarrow> string option \<Rightarrow> api_call \<Rightarrow> ('x, unit) op" where
  "perform A E others poll token (Buy a) = discard (buy_order A E others token a)"
| "perform A E others poll token (Sell a) = discard (sell_order A E others token a)"
| "perform A E others poll token (CancelOrder a) = discard (cancel_order_route A E token a)"
| "perform A E others poll token (GetOrder a) = discard (get_order_route A E token a)"
| "perform A E others poll token (ListOrders a b c d e) = discard (list_orders_route A E token a b c d e)"
| "perform A E others poll token (CreateBroker a) = discard (create_broker_route A E token a)"
| "perform A E others poll token (ListBrokers a b) = discard (list_brokers_route A E token a b)"
| "perform A E others poll token (GetBroker a) = discard (get_broker_route A E token a)"
| "perform A E others poll token (PatchBroker a b c d e f) = discard (patch_broker_route A E token a b c d e f)"
| "perform A E others poll token (RefreshCapabilities a) = discard (refresh_capabilities_route A E token a)"
| "perform A E others poll token (GetSession a) = discard (get_broker_session A E token a)"
| "perform A E others poll token (EnsureSession a b) = discard (ensure_broker_session A E token a b)"
| "perform A E others poll token (CreateSubscription a b c d) = discard (create_subscription_route A E token a b c d)"
| "perform A E others poll token (ListSubscriptions a b c) = discard (list_subscriptions_route A E token a b c)"
| "perform A E others poll token EnforceExpiry = discard (enforce_expiry_route A E token)"
| "perform A E others poll token (GetSubscription a) = discard (get_subscription_route A E token a)"
| "perform A E others poll token (ExpireSubscription a) = discard (expire_subscription_route A E token a)"
| "perform A E others poll token (CreateInstance a b c) = discard (create_instance_route A E token a b c)"
| "perform A E others poll token ListInstances = discard (list_instances_route A E token)"
| "perform A E others poll token (DestroyInstance a) = discard (destroy_instance_route A E token a)"
| "perform A E others poll token (SuspendInstance a) = discard (suspend_instance_route A E token a)"
| "perform A E others poll token (StartInstance a) = discard (start_instance_route A E token a)"
| "perform A E others poll token (AllocateIp a) = discard (allocate_ip_route A E token a)"
| "perform A E others poll token (ListIps a b c) = discard (list_ips_route A E token a b c)"
| "perform A E others poll token (RotateIp a b) = discard (rotate_ip_route A E others poll token a b)"
| "perform A E others poll token (AssignIp a b c) = discard (assign_ip_route A E token a b c)"
| "perform A E others poll token (AttachIp a b) = discard (attach_ip_route A E token a b)"
| "perform A E others poll token (DetachIp a) = discard (detach_ip_route A E token a)"
| "perform A E others poll token (ReleaseIp a) = discard (release_ip_route A E token a)"
| "perform A E others poll token ListAssignments = discard (list_assignments_route A E token)"
| "perform A E others poll token (SyncWhitelist a) = discard (sync_whitelist_route A E token a)"
| "perform A E others poll token (ListConfig a) = discard (list_config_route A E token a)"
| "perform A E others poll token (GetConfig a) = discard (get_config_route A E token a)"
| "perform A E others poll token (PutConfig a b) = discard (put_config_route A E token a b)"
| "perform A E others poll token (RunReplay a) = discard (run_replay_route A E token a)"
| "perform A E others poll token ReplayStatus = discard (replay_status_route A E token)"
| "perform A E others poll token GetFaults = discard (get_faults_route A E token)"
| "perform A E others poll token (SetFault a b) = discard (set_fault_route A E token a b)"
| "perform A E others poll token ClearFaults = discard (clear_faults_route A E token)"
| "perform A E others poll token (FaultHistory a b) = discard (fault_history_route A E token a b)"
| "perform A E others poll token (ListSessions a b) = discard (list_sessions_route A E token a b)"
| "perform A E others poll token BrokerHealth = discard (list_broker_health_route A E token)"
| "perform A E others poll token ProbeHealth = discard (probe_broker_health_route A E token)"
| "perform A E others poll token RateLimits = discard (list_rate_limits_route A E token)"
| "perform A E others poll token (ListFailovers a b) = discard (list_failovers_route A E token a b)"
| "perform A E others poll token OrdersEngine = discard (orders_engine_route A E token)"
| "perform A E others poll token (RoutingPreview a b c) = discard (routing_preview_route A E token a b c)"
| "perform A E others poll token (ListEvents a b c d) = discard (list_events_route A E token a b c d)"
| "perform A E others poll token (DrainEvents a) = discard (drain_events_route A E token a)"
| "perform A E others poll token (Dashboard a) = discard (dashboard_route A E a token)"

lemmas route_defs = place_route_def buy_order_def sell_order_def cancel_order_route_def get_order_route_def list_orders_route_def create_broker_route_def list_brokers_route_def get_broker_route_def patch_broker_route_def refresh_capabilities_route_def get_broker_session_def ensure_broker_session_def create_subscription_route_def list_subscriptions_route_def enforce_expiry_route_def get_subscription_route_def expire_subscription_route_def create_instance_route_def list_instances_route_def destroy_instance_route_def suspend_instance_route_def start_instance_route_def allocate_ip_route_def list_ips_route_def rotate_ip_route_def assign_ip_route_def attach_ip_route_def detach_ip_route_def release_ip_route_def list_assignments_route_def sync_whitelist_route_def list_config_route_def get_config_route_def put_config_route_def run_replay_route_def replay_status_route_def get_faults_route_def set_fault_route_def clear_faults_route_def fault_history_route_def list_sessions_route_def list_broker_health_route_def probe_broker_health_route_def list_rate_limits_route_def list_failovers_route_def orders_engine_route_def routing_preview_route_def list_events_route_def drain_events_route_def dashboard_route_def

subsection \<open>Callers without the role\<close>

text \<open>The check reads the database and changes nothing.\<close>

lemma get_current_user_frame: "snd (get_current_user A E token w) = w"
  by (auto simp: get_current_user_def decode_access_token_def run_simps tryA_def liftA_def
      split: option.splits sum.splits)

lemma require_roles_frame: "snd (require_roles A E roles token w) = w"
  using get_current_user_frame [of A E token w]
  by (auto simp: require_roles_def bindA_def raise_run ret_run split: prod.splits sum.splits)

text \<open>Who a token stands for: what \<open>get_current_user\<close> returns, if it returns.\<close>

definition caller :: "auth_lib \<Rightarrow> 'x env \<Rightarrow> 'x world \<Rightarrow> string option \<Rightarrow> user option" where
  "caller A E w token = (case fst (get_current_user A E token w) of Inl _ \<Rightarrow> None | Inr u \<Rightarrow> Some u)"

lemma require_roles_run:
  "require_roles A E roles token w =
   (case fst (get_current_user A E token w) of
      Inl e \<Rightarrow> (Inl e, w)
    | Inr u \<Rightarrow> (if u_role u \<in> set roles then Inr u else Inl forbidden, w))"
  using get_current_user_frame [of A E token w]
  by (cases "get_current_user A E token w")
     (auto simp: require_roles_def bindA_def raise_run ret_run split: sum.splits)

lemma finally_discard: "discard (finallyA m c) w = finallyA (discard m) c w"
  by (auto simp: discard_def bindA_def finallyA_def ret_def split: prod.splits sum.splits)

definition entitled :: "auth_lib \<Rightarrow> 'x env \<Rightarrow> 'x world \<Rightarrow> string option \<Rightarrow> user_role list \<Rightarrow> bool" where
  "entitled A E w token roles =
     (case caller A E w token of None \<Rightarrow> False | Some u \<Rightarrow> u_role u \<in> set roles)"

lemma guarded_refused:
  assumes "db w = saved w" "\<not> entitled A E w token roles"
  shows "\<exists>e. discard (guarded A E roles token body) w = (Inl e, w)"
proof -
  obtain e where "require_roles A E roles token w = (Inl e, w)"
    using assms(2)
    by (cases "fst (get_current_user A E token w)")
       (simp_all add: require_roles_run entitled_def caller_def)
  moreover have "rollback w = (Inr (), w)" using assms(1) by (simp add: rollback_run)
  ultimately show ?thesis
    by (simp add: guarded_def request_def discard_def bindA_def finallyA_def)
qed

lemma refused_call:
  assumes "db w = saved w" "\<not> entitled A E w token (roles_of c)"
  shows "\<exists>e. perform A E others poll token c w = (Inl e, w)"
  using assms by (cases c) (simp_all only: perform.simps roles_of.simps route_defs guarded_refused simp_thms)

text \<open>With unique ids the refusal is a 401 or a 403.\<close>

lemma one_user: "distinct (map u_id us) \<Longrightarrow> length (filter (\<lambda>u. u_id u = i) us) \<le> 1"
proof (induction us)
  case (Cons a us)
  show ?case
  proof (cases "u_id a = i")
    case True
    then have "filter (\<lambda>u. u_id u = i) us = []" using Cons.prems by (auto simp: filter_empty_conv) (metis imageI)
    then show ?thesis by simp
  qed (use Cons in simp)
qed simp

lemma get_current_user_error:
  assumes "distinct (map u_id (users (db w)))" "get_current_user A E token w = (Inl e, w')"
  shows "e = unauthorized"
proof -
  have "\<exists>u. scalar_one_or_none (users_with_id i (db w)) = Inr u" for i
    using one_user [OF assms(1), of i]
    by (cases "users_with_id i (db w)" rule: scalar_one_or_none.cases) (auto simp: users_with_id_def)
  note lookup = this
  show ?thesis
  proof (cases token)
    case None
    with assms(2) show ?thesis by (simp add: get_current_user_def)
  next
    case (Some t)
    obtain d where d: "jwt_decode A (clock w) t (jwt_secret (cfg E)) (jwt_algorithm (cfg E)) = d" by simp
    show ?thesis
      using assms(2) Some d lookup
      by (cases d; cases "case d of Inr p \<Rightarrow> user_id_from_payload E p | Inl e \<Rightarrow> Inl e")
         (auto simp: get_current_user_def decode_access_token_def run_simps tryA_def liftA_def
           split: if_splits sum.splits option.splits; metis sum.distinct(1))+
  qed
qed

lemma guarded_refused_error:
  assumes "db w = saved w" "distinct (map u_id (users (db w)))" "\<not> entitled A E w token roles"
  shows "discard (guarded A E roles token body) w =
    (Inl (if caller A E w token = None then unauthorized else forbidden), w)"
proof -
  have "require_roles A E roles token w =
      (Inl (if caller A E w token = None then unauthorized else forbidden), w)"
    using assms(3) get_current_user_error [OF assms(2), of A E token] get_current_user_frame [of A E token w]
    by (cases "get_current_user A E token w"; cases "fst (get_current_user A E token w)")
       (auto simp: require_roles_run entitled_def caller_def)
  moreover have "rollback w = (Inr (), w)" using assms(1) by (simp add: rollback_run)
  ultimately show ?thesis
    by (simp add: guarded_def request_def discard_def bindA_def finallyA_def)
qed

lemma refused_call_error:
  assumes "db w = saved w" "distinct (map u_id (users (db w)))" "\<not> entitled A E w token (roles_of c)"
  shows "perform A E others poll token c w =
    (Inl (if caller A E w token = None then unauthorized else forbidden), w)"
  using assms by (cases c) (simp_all only: perform.simps roles_of.simps route_defs guarded_refused_error simp_thms)

subsection \<open>Callers who may only read\<close>

text \<open>The database without the health snapshots, which a read may refresh.\<close>

definition business :: "database \<Rightarrow> database" where
  "business d = d\<lparr>snapshots := []\<rparr>"

definition same_business :: "database \<Rightarrow> database \<Rightarrow> bool" where
  "same_business d0 d \<longleftrightarrow> business d = business d0"

lemma same_business_snapshots: "same_business d0 d \<Longrightarrow> same_business d0 (d\<lparr>snapshots := s\<rparr>)"
  by (simp add: same_business_def business_def)

named_theorems read_only \<open>reading operations keep every invariant of the database\<close>

lemma keeps_reads [read_only]:
  "keeps (both Q) (get_order i)" "keeps (both Q) (list_orders c st sy l f)"
  "keeps (both Q) (list_brokers c' l f)" "keeps (both Q) (get_broker b)" "keeps (both Q) (get_for_broker b)"
  "keeps (both Q) (list_subscriptions c l f)" "keeps (both Q) (get_subscription i)"
  "keeps (both Q) list_instances" "keeps (both Q) (list_ips rg l f)" "keeps (both Q) list_assignments"
  "keeps (both Q) (config_list_items p)" "keeps (both Q) get_last_replay_status"
  "keeps (both Q) (list_all_sessions l f)" "keeps (both Q) (list_failovers l f)"
  "keeps (both Q) (list_outbox l f st)"
  unfolding get_order_def list_orders_def list_brokers_def get_broker_def get_for_broker_def
    list_subscriptions_def get_subscription_def list_instances_def list_ips_def list_assignments_def
    config_list_items_def get_last_replay_status_def list_all_sessions_def list_failovers_def list_outbox_def
  by (intro keeps_intros)+

lemma keeps_engine [read_only]: "keeps (both Q) (engine_stats E)"
  unfolding engine_stats_def execution_mode_def by (intro keeps_intros)

lemma keeps_rates [read_only]: "keeps (both Q) (list_rate_snapshots E)"
  unfolding list_rate_snapshots_def snapshot_for_broker_def raise_redis_unavailable_def
  by (intro keeps_intros)

lemma keeps_exn_app [keeps_intros]:
  "(\<And>c st. keeps P (m c st)) \<Longrightarrow> (\<And>e. keeps P (n e)) \<Longrightarrow>
   keeps P (case e of AppError c st \<Rightarrow> m c st | _ \<Rightarrow> n e)"
  by (cases e) auto

lemma keeps_health [read_only]: "keeps (both (same_business d0)) (latest_for_brokers E p)"
  by (rule keeps_both_probe(2)) (rule same_business_snapshots)

lemma keeps_preview [read_only]: "keeps (both (same_business d0)) (preview_route E c pf rg cn)"
  unfolding preview_route_def select_route_def judge_broker_def active_assignment_def require_assigned_ip_def Let_def
  by (intro keeps_intros keeps_health)

lemma keeps_dashboard [read_only]: "keeps (both (same_business d0)) (build_dashboard E checks)"
  unfolding build_dashboard_def Let_def by (intro keeps_intros read_only)

lemma keeps_paged: "keeps P m \<Longrightarrow> keeps P (paged l f m)"
  unfolding paged_def by (intro keeps_intros)

lemma keeps_checked: "keeps P m \<Longrightarrow> keeps P (checked ok m)"
  unfolding checked_def by (intro keeps_intros)

lemma keeps_showing: "keeps P m \<Longrightarrow> keeps P (showing m)"
  unfolding showing_def by (intro keeps_intros)

lemma keeps_guarded:
  assumes "\<And>u. keeps (both Q) (body u)"
  shows "keeps (both Q) (guarded A E roles token body)"
proof -
  have "keeps (both Q) (require_roles A E roles token)"
    by (rule keepsI) (metis require_roles_frame snd_conv)
  then show ?thesis
    unfolding guarded_def request_def using assms by (intro keeps_intros)
qed

lemmas read_routes = get_order_route_def list_orders_route_def list_brokers_route_def get_broker_route_def
  get_broker_session_def list_subscriptions_route_def get_subscription_route_def list_instances_route_def
  list_ips_route_def list_assignments_route_def list_config_route_def get_config_route_def
  replay_status_route_def get_faults_route_def fault_history_route_def list_sessions_route_def
  list_broker_health_route_def list_rate_limits_route_def list_failovers_route_def orders_engine_route_def
  routing_preview_route_def list_events_route_def dashboard_route_def

lemma reader_keeps:
  assumes "RoleReadonly \<in> set (roles_of c)"
  shows "keeps (both (same_business d0)) (perform A E others poll token c)"
  using assms
  by (cases c)
     (simp_all add: admin_only_def operators_def traders_def,
      unfold read_routes Let_def,
      (intro keeps_discard keeps_guarded keeps_checked keeps_paged keeps_showing read_only keeps_intros)+)

lemma reader_changes_nothing:
  assumes "db w = saved w" "caller A E w token = Some u" "u_role u = RoleReadonly"
    "perform A E others poll token c w = (r, w')"
  shows "business (db w') = business (db w)" "business (saved w') = business (saved w)"
proof -
  have "both (same_business (db w)) w'"
  proof (cases "RoleReadonly \<in> set (roles_of c)")
    case True
    show ?thesis
      by (rule keepsD [OF reader_keeps [OF True] _ assms(4)])
         (simp add: both_def same_business_def assms(1))
  next
    case False
    then have "\<not> entitled A E w token (roles_of c)" using assms(2,3) by (simp add: entitled_def)
    from refused_call [OF assms(1) this, of others poll] have "w' = w" using assms(4) by auto
    then show ?thesis by (simp add: both_def same_business_def assms(1))
  qed
  then show "business (db w') = business (db w)" "business (saved w') = business (saved w)"
    using assms(1) by (simp_all add: both_def same_business_def)
qed

end
