(* ===== verification/Admission.thy ===== *)
theory Admission
  imports Access AdminProviders Demo
begin

text \<open>The properties of the edge of the program: who may call what, and which provider
  configuration is in force.\<close>

subsection \<open>A concrete library and users for the witnesses\<close>

text \<open>A token that is the text of the user's id, and one user of each kind.\<close>

definition plain_auth :: auth_lib where
  "plain_auth = \<lparr>jwt_encode = (\<lambda>p s a. ''t''), jwt_decode = (\<lambda>now t s a. Inr [(''sub'', JStr t)]),
     check_password = (\<lambda>p h. Inr (p = h))\<rparr>"

definition demo_user :: "uuid \<Rightarrow> user_role \<Rightarrow> user" where
  "demo_user i role = \<lparr>u_id = i, u_client_id = None, u_email = show_nat i, u_role = role,
     u_password_hash = Some ''pw'', u_is_active = True\<rparr>"

definition users_db :: database where
  "users_db = demo_db\<lparr>users := [demo_user 1 RoleAdmin, demo_user 2 RoleReadonly]\<rparr>"

lemma db_world_of: "db (world_of d) = d" "saved (world_of d) = d"
  by (simp_all add: world_of_def)

lemma caller_plain:
  assumes "i < 2 ^ 128" "users_with_id i (db w) = [u]" "u_is_active u"
  shows "caller plain_auth E w (Some (uuid_text i)) = Some u"
proof -
  have "uuid_text i \<noteq> []" by (simp add: uuid_text_def Let_def)
  then show ?thesis
    using assms
    by (simp add: caller_def get_current_user_def decode_access_token_def run_simps plain_auth_def
        liftA_def tryA_def user_id_from_payload_def parse_uuid_text)
qed

subsection \<open>A configuration to activate\<close>

definition event_config :: dict where
  "event_config = [(''topic_prefix'', JStr ''desk''), (''password'', JStr ''pw'')]"

definition event_request :: activate_request where
  "event_request = \<lparr>aq_provider_type = ''memory'', aq_scope = ''global'', aq_client_id = None,
     aq_validate_first = True, aq_activate = True, aq_config = event_config\<rparr>"

definition stored_config :: "provider_kind \<Rightarrow> int \<Rightarrow> provider_config" where
  "stored_config k v = \<lparr>pc_id = 9, pc_kind = k, pc_provider_type = ''memory'', pc_scope_type = ScopeGlobal,
     pc_client_id = None, pc_status = PsActive, pc_version = v, pc_config_encrypted = None,
     pc_config_non_secret = [], pc_last_validation_status = None, pc_last_validation_at = None,
     pc_activated_at = None, pc_created_by = None\<rparr>"

definition configs_db :: database where
  "configs_db = demo_db\<lparr>provider_configs := [stored_config PkEvent 1, stored_config PkCache 4]\<rparr>"

text \<open>An environment that reads the secrets of that configuration back, and clients that answer
  nothing.\<close>

definition config_env :: "table env" where
  "config_env = demo_env\<lparr>json_loads := (\<lambda>_. Inr (JObj [(''password'', JStr ''pw'')]))\<rparr>"

definition no_probes :: "table probes" where
  "no_probes = \<lparr>pb_engine = (\<lambda>w h. Inr ()), pb_ping = (\<lambda>w h. None),
     pb_http = (\<lambda>V v p b. raise (PyError ''HTTPError'')), pb_kafka = (\<lambda>c. ret [])\<rparr>"

lemma no_probes_outside: "probes_outside no_probes"
  by (simp add: probes_outside_def no_probes_def frames_intros)

lemma event_config_split: "split_config event_config = ([(''password'', JStr ''pw'')], [(''topic_prefix'', JStr ''desk'')])"
  by (simp add: split_config_def event_config_def secret_key_def) code_simp

lemma event_config_region: "apply_region_config config_env event_config = Inr event_config"
  by (simp add: apply_region_config_def blank_def event_config_def dict_get_def)

lemma event_secrets_readable: "secrets_readable config_env [(''password'', JStr ''pw'')]"
  by (simp add: secrets_readable_def config_env_def)

lemma memory_lower: "py_lower ''memory'' = ''memory''"
  by code_simp

lemma event_config_valid:
  "validate_config config_env no_probes PkEvent event_request event_config s = (Inr event_config, s)"
  by (simp add: validate_config_def validate_event_def event_request_def EVENT_TYPES_def probe_event_config_def
      memory_lower memory_bus_probe_def new_memory_bus_def on_world_def zoomA_eq run_simps probed_def dict_get_def
      split: prod.splits)

lemma event_activation:
  obtains resp w M where "activate_provider config_env no_probes ''event'' event_request 1
    (world_of configs_db, new_manager) = (Inr resp, (w, M))"
proof -
  obtain r w where stored: "store_config config_env PkEvent event_request 1 event_config (world_of configs_db) = (r, w)"
    by fastforce
  note row = store_config_run(1) [OF stored]
  have "\<exists>resp. activate_provider config_env no_probes ''event'' event_request 1
    (world_of configs_db, new_manager) = (Inr resp, (w, invalidate (Some ''event'') new_manager))"
    using event_config_region event_config_valid stored row
    by (simp add: activate_provider_def parse_kind_def kind_names_def event_request_def bindA_Inr seqA_Inr
        on_world_def zoomA_eq liftA_def upd_manager_run provider_response_def)
  with that show thesis by blast
qed




text \<open>C31: an activation that answered has superseded what was in force: the rows of its kind that
  were active are retired, one new row with a version above every earlier one of the kind is added
  and is the only active one of its kind (none is when the request asked not to activate), every
  other kind is as it was, no public field of the row has a secret key's name, and all of it is
  committed.\<close>

theorem activation_supersedes:
  assumes "probes_outside P" "parse_kind kind = Some k"
    and "activate_provider E P kind body admin (w, M) = (Inr resp, (w', M'))"
  shows "\<exists>row. provider_configs (db w') = retire_active k (provider_configs (db w)) @ [row] \<and>
      pc_kind row = k \<and> (\<forall>v \<in> set (versions_of k (db w)). v < pc_version row) \<and>
      filter (\<lambda>r. pc_kind r = k \<and> pc_status r = PsActive) (provider_configs (db w')) =
        (if aq_activate body then [row] else []) \<and>
      filter (\<lambda>r. pc_kind r \<noteq> k) (provider_configs (db w')) =
        filter (\<lambda>r. pc_kind r \<noteq> k) (provider_configs (db w)) \<and>
      (\<forall>key \<in> fst ` set (pc_config_non_secret row). \<not> secret_key key) \<and>
      saved w' = db w'"
proof -
  obtain k' u now config where k': "parse_kind kind = Some k'"
    and rows: "provider_configs (db w') = retire_active k' (provider_configs (db w)) @
       [config_row E u now k' body admin (next_version k' (db w)) config]"
    and "saved w' = db w'"
    by (rule activated_rows [OF assms(1,3)])
  moreover have "k' = k" using assms(2) k' by simp
  moreover have "\<forall>key \<in> fst ` set (snd (split_config config)). \<not> secret_key key"
    by (auto simp: split_config_def)
  ultimately show ?thesis
    by (intro exI [of _ "config_row E u now k body admin (next_version k (db w)) config"])
       (simp add: next_version_above active_retired retired_others)
qed

lemma activation_supersedes_witness:
  "\<exists>resp w M. activate_provider config_env no_probes ''event'' event_request 1 (world_of configs_db, new_manager) =
       (Inr resp, (w, M)) \<and>
     map pc_status (provider_configs (db w)) = [PsRetired, PsActive, PsActive] \<and> saved w = db w"
proof -
  obtain resp w M where run: "activate_provider config_env no_probes ''event'' event_request 1
      (world_of configs_db, new_manager) = (Inr resp, (w, M))"
    by (rule event_activation)
  have kind: "parse_kind ''event'' = Some PkEvent" by (simp add: parse_kind_def kind_names_def)
  obtain row where rows: "provider_configs (db w) = retire_active PkEvent (provider_configs configs_db) @ [row]"
    and active: "filter (\<lambda>r. pc_kind r = PkEvent \<and> pc_status r = PsActive) (provider_configs (db w)) = [row]"
    and "saved w = db w"
    using activation_supersedes [OF no_probes_outside kind run]
    by (auto simp: event_request_def db_world_of)
  moreover from active have "row \<in> {r \<in> set (provider_configs (db w)). pc_kind r = PkEvent \<and> pc_status r = PsActive}"
    by (metis list.set_intros(1) set_filter)
  ultimately show ?thesis
    using run by (simp add: configs_db_def stored_config_def)
qed



text \<open>C39: an event configuration that was activated for everyone is what the manager serves next: a
  new adapter built from the configuration as it was sent (with the region it was normalised to), the
  decrypted secrets merged back in, under the version of the response; encryption and the JSON library
  read the secrets back.\<close>

theorem activated_event_config_is_served:
  assumes "apply_region_config E (aq_config body) = Inr config"
    and "secrets_readable E (fst (split_config config))" "distinct (map fst (aq_config body))"
    and "aq_activate body" "aq_client_id body = None"
    and "activate_provider E P ''event'' body admin (w, M) = (Inr resp, (w', M'))"
    and "get_event_provider E True (w', M') = (r, (w'', M''))"
  shows "r = Inr (length (mg_made M'), build_event_provider E (aq_provider_type body) config) \<and>
    mg_event_version M'' = Some (pv_version resp)"
  using activated_event_served [OF assms] by (rule conjI)

lemma activated_event_config_is_served_witness:
  "\<exists>resp w M. activate_provider config_env no_probes ''event'' event_request 1 (world_of configs_db, new_manager) =
       (Inr resp, (w, M)) \<and>
     fst (get_event_provider config_env True (w, M)) =
       Inr (length (mg_made M), build_event_provider config_env ''memory'' event_config)"
proof -
  obtain resp w M where run: "activate_provider config_env no_probes ''event'' event_request 1
      (world_of configs_db, new_manager) = (Inr resp, (w, M))"
    by (rule event_activation)
  obtain r w' M' where served: "get_event_provider config_env True (w, M) = (r, (w', M'))"
    by (metis surj_pair)
  have region: "apply_region_config config_env (aq_config event_request) = Inr event_config"
    by (simp add: event_request_def event_config_region)
  have readable: "secrets_readable config_env (fst (split_config event_config))"
    by (simp add: event_config_split event_secrets_readable)
  have body: "distinct (map fst (aq_config event_request))" "aq_activate event_request"
    "aq_client_id event_request = None" "aq_provider_type event_request = ''memory''"
    by (simp_all add: event_request_def event_config_def)
  show ?thesis
    using activated_event_config_is_served [OF region readable body(1-3) run served] run served body(4) by simp
qed

text \<open>C40: whatever the manager was asked before, once it has handed out the event adapter that
  adapter is the cached one and belongs to the version in force, every other event adapter it ever
  built has been closed, none of them twice, and the one handed out has not been closed.\<close>

theorem event_adapters_are_closed_once:
  assumes "manager_run E engine calls (w, new_manager) = (r, (w', M))"
    and "get_event_provider E with_db (w', M) = (r', (w'', M'))"
  shows "\<exists>h. r' = Inr h \<and> cached ''event'' M' = Some h \<and> h \<in> event_handles M' \<and>
      mg_event_version M' = Some (fst (event_source E with_db (db w'))) \<and>
      distinct (mg_closed M') \<and> set (mg_closed M') = event_handles M' - {h}"
proof -
  obtain h M1 where serve: "serve_event (event_source E with_db (db w')) M = (h, M1)" by fastforce
  then have "r' = Inr h" "M' = M1"
    using assms(2) get_event_run [of E with_db w' M] by (simp_all add: Let_def)
  with serve_event_settles [OF run_accounted [OF assms(1)] source_kind serve] show ?thesis by simp
qed

definition manager_history :: "table manager_call list" where
  "manager_history = [GetEvent True, Invalidate (Some ''event''), GetInfra False]"

lemma event_adapters_are_closed_once_witness:
  "\<exists>w M h w' M'. snd (manager_run demo_env (\<lambda>w h. Inr ()) manager_history (world_of demo_db, new_manager)) = (w, M) \<and>
     get_event_provider demo_env True (w, M) = (Inr h, (w', M')) \<and>
     cached ''event'' M' = Some h \<and> set (mg_closed M') = event_handles M' - {h}"
proof -
  obtain r w M where run: "manager_run demo_env (\<lambda>w h. Inr ()) manager_history (world_of demo_db, new_manager) = (r, (w, M))"
    by (metis surj_pair)
  obtain r' w' M' where served: "get_event_provider demo_env True (w, M) = (r', (w', M'))"
    by (metis surj_pair)
  from event_adapters_are_closed_once [OF run served] show ?thesis using run served by auto
qed


subsection \<open>A token that its holder is admitted by\<close>

text \<open>PyJWT on the claims of an access token, under one secret: a token is not empty, it is read
  back, times in whole seconds, from the second it was issued in, and refused once it has expired.\<close>

definition access_claims :: "string \<Rightarrow> string \<Rightarrow> instant \<Rightarrow> instant \<Rightarrow> (string \<times> claim) list" where
  "access_claims subject role issued expires =
     [(''sub'', ClaimJson (JStr subject)), (''role'', ClaimJson (JStr role)),
      (''iat'', ClaimTime issued), (''exp'', ClaimTime expires)]"

definition jwt_laws :: "auth_lib \<Rightarrow> settings \<Rightarrow> bool" where
  "jwt_laws A c \<longleftrightarrow> (\<forall>subject role issued expires now.
     let p = access_claims subject role issued expires;
         t = jwt_encode A p (jwt_secret c) (jwt_algorithm c);
         d = jwt_decode A now t (jwt_secret c) (jwt_algorithm c)
     in t \<noteq> [] \<and>
        (issued \<le> now \<and> now < expires div 1000000 * 1000000 \<longrightarrow> d = Inr (map (\<lambda>(k, v). (k, wire v)) p)) \<and>
        (expires div 1000000 * 1000000 \<le> now \<longrightarrow> (\<exists>e. d = Inl e)))"

text \<open>What a valid token of one user is worth: the users stored under its id now.\<close>

definition admits :: "user_role list \<Rightarrow> user list \<Rightarrow> exn + user" where
  "admits allowed us =
     (case us of
        [] \<Rightarrow> Inl unauthorized
      | u # _ \<Rightarrow> if \<not> u_is_active u then Inl unauthorized
                  else if u_role u \<notin> set allowed then Inl forbidden else Inr u)"

definition deadline :: "settings \<Rightarrow> instant \<Rightarrow> instant" where
  "deadline c issued = (issued + jwt_expire_minutes c * 60 * 1000000) div 1000000 * 1000000"

lemma login_token:
  assumes "login A E username password w = (Inr resp, w')"
  obtains u h where "u \<in> set (users (db w))" "u_email u = username" "u_is_active u"
    "u_password_hash u = Some h" "check_password A password h = Inr True"
    "tr_access_token resp = jwt_encode A (access_claims (uuid_text (u_id u)) (role_value (u_role u)) (clock w)
       (clock w + jwt_expire_minutes (cfg E) * 60 * 1000000)) (jwt_secret (cfg E)) (jwt_algorithm (cfg E))"
proof -
  obtain u where row: "scalar_one_or_none (filter (\<lambda>u. u_email u = username) (users (db w))) = Inr (Some u)"
    and rest: "(case u_password_hash u of None \<Rightarrow> raise unauthorized
            | Some h \<Rightarrow> if h = [] then raise unauthorized
                else bindA (liftA (check_password A password h)) (\<lambda>ok.
                  if \<not> ok then raise unauthorized
                  else if \<not> u_is_active u then raise unauthorized
                  else bindA (create_access_token A E (uuid_text (u_id u)) (role_value (u_role u)) None)
                    (\<lambda>t. ret \<lparr>tr_access_token = t, tr_role = role_value (u_role u),
                              tr_email = u_email u\<rparr>))) w = (Inr resp, w')"
    using assms by (auto simp: login_def run_simps split: option.splits sum.splits)
  from row have "u \<in> set (filter (\<lambda>u. u_email u = username) (users (db w)))"
    by (cases "filter (\<lambda>u. u_email u = username) (users (db w))" rule: scalar_one_or_none.cases) auto
  then have "u \<in> set (users (db w))" "u_email u = username" by simp_all
  with rest that show thesis
    by (auto simp: create_access_token_def token_payload_def access_claims_def dict_update_def run_simps liftA_def
        split: option.splits sum.splits if_splits)
qed

lemma token_read_back:
  assumes "jwt_laws A (cfg E)" "distinct (map u_id (users (db w)))" "i < 2 ^ 128" "issued \<le> clock w"
    and "token = jwt_encode A (access_claims (uuid_text i) role issued
           (issued + jwt_expire_minutes (cfg E) * 60 * 1000000)) (jwt_secret (cfg E)) (jwt_algorithm (cfg E))"
  shows "require_roles A E allowed (Some token) w =
    ((if clock w < deadline (cfg E) issued then admits allowed (users_with_id i (db w)) else Inl unauthorized), w)"
proof -
  let ?p = "access_claims (uuid_text i) role issued (issued + jwt_expire_minutes (cfg E) * 60 * 1000000)"
  let ?read = "jwt_decode A (clock w) token (jwt_secret (cfg E)) (jwt_algorithm (cfg E))"
  note law = assms(1) [unfolded jwt_laws_def Let_def, THEN spec, of "uuid_text i", THEN spec, of role, THEN spec, of issued,
      THEN spec, of "issued + jwt_expire_minutes (cfg E) * 60 * 1000000", THEN spec, of "clock w",
      folded deadline_def, folded assms(5)]
  have token: "token \<noteq> []"
    and live: "clock w < deadline (cfg E) issued \<Longrightarrow> ?read = Inr (map (\<lambda>(k, v). (k, wire v)) ?p)"
    and dead: "\<not> clock w < deadline (cfg E) issued \<Longrightarrow> \<exists>e. ?read = Inl e"
    using law assms(4) by simp_all
  have user: "user_id_from_payload E (map (\<lambda>(k, v). (k, wire v)) ?p) = Inr i"
    by (simp add: user_id_from_payload_def access_claims_def parse_uuid_text [OF assms(3)])
  have "length (users_with_id i (db w)) \<le> 1"
    using one_user [OF assms(2)] by (simp add: users_with_id_def)
  then consider "users_with_id i (db w) = []" | u where "users_with_id i (db w) = [u]"
    by (cases "users_with_id i (db w)") auto
  then show ?thesis
  proof cases
    case 1
    then show ?thesis
      using token live dead user
      by (cases "clock w < deadline (cfg E) issued")
         (auto simp: require_roles_def get_current_user_def decode_access_token_def run_simps tryA_def liftA_def
           admits_def split: option.splits sum.splits)
  next
    case 2
    then show ?thesis
      using token live dead user
      by (cases "clock w < deadline (cfg E) issued")
         (auto simp: require_roles_def get_current_user_def decode_access_token_def run_simps tryA_def liftA_def
           admits_def split: option.splits sum.splits)
  qed
qed

text \<open>C37: a token from the login admits its user until it expires, and no longer: a later call with it
  is judged by the account as it is stored then under the same id, by its active flag and its current
  role, and after the last whole second before expiry it is answered 401.\<close>

theorem token_admits_its_user:
  assumes "jwt_laws A (cfg E)" "login A E username password w0 = (Inr resp, w1)"
    and "\<forall>u \<in> set (users (db w0)). u_id u < 2 ^ 128"
    and "distinct (map u_id (users (db w)))" "clock w0 \<le> clock w"
  shows "\<exists>u h. u \<in> set (users (db w0)) \<and> u_email u = username \<and> u_is_active u \<and>
      u_password_hash u = Some h \<and> check_password A password h = Inr True \<and>
      require_roles A E allowed (Some (tr_access_token resp)) w =
        ((if clock w < deadline (cfg E) (clock w0) then admits allowed (users_with_id (u_id u) (db w))
          else Inl unauthorized), w)"
proof -
  obtain u h where u: "u \<in> set (users (db w0))" "u_email u = username" "u_is_active u"
    "u_password_hash u = Some h" "check_password A password h = Inr True"
    and token: "tr_access_token resp = jwt_encode A (access_claims (uuid_text (u_id u)) (role_value (u_role u)) (clock w0)
       (clock w0 + jwt_expire_minutes (cfg E) * 60 * 1000000)) (jwt_secret (cfg E)) (jwt_algorithm (cfg E))"
    by (rule login_token [OF assms(2)])
  have "u_id u < 2 ^ 128" using assms(3) u(1) by blast
  from token_read_back [OF assms(1,4) this assms(5) token] u show ?thesis by blast
qed


text \<open>A library that meets the laws: the four claims one after the other, every character marked and
  every claim ended by a dot.\<close>

definition pack :: "string list \<Rightarrow> string" where
  "pack ss = concat (map (\<lambda>s. concat (map (\<lambda>c. [CHR ''x'', c]) s) @ ''.'') ss)"

fun unpack :: "string \<Rightarrow> string \<Rightarrow> string list" where
  "unpack acc (c # d # cs) = (if c = CHR ''x'' then unpack (acc @ [d]) cs else acc # unpack [] (d # cs))"
| "unpack acc [c] = [acc]"
| "unpack acc [] = []"

lemma unpack_field: "unpack acc (concat (map (\<lambda>c. [CHR ''x'', c]) s) @ ''.'' @ rest) = (acc @ s) # unpack [] rest"
  by (induction s arbitrary: acc) (cases rest; simp)+

lemma unpack_pack: "unpack [] (pack ss) = ss"
proof (induction ss)
  case (Cons s ss)
  then show ?case using unpack_field [of "[]" s "pack ss"] by (simp add: pack_def)
qed (simp add: pack_def)

fun claim_text :: "claim \<Rightarrow> string" where
  "claim_text (ClaimJson (JStr s)) = s"
| "claim_text (ClaimTime t) = show_int (t div 1000000)"
| "claim_text c = []"

definition packed_decode :: "instant \<Rightarrow> string \<Rightarrow> exn + dict" where
  "packed_decode now token =
     (case unpack [] token of
        [subject, role, issued, expires] \<Rightarrow>
          (case (parse_int issued, parse_int expires) of
             (Some i, Some e) \<Rightarrow>
               if i * 1000000 \<le> now \<and> now < e * 1000000
               then Inr [(''sub'', JStr subject), (''role'', JStr role), (''iat'', JInt i), (''exp'', JInt e)]
               else Inl (PyError ''InvalidTokenError'')
           | _ \<Rightarrow> Inl (PyError ''InvalidTokenError''))
      | _ \<Rightarrow> Inl (PyError ''InvalidTokenError''))"

definition packed_auth :: auth_lib where
  "packed_auth = \<lparr>jwt_encode = (\<lambda>p s a. pack (map (claim_text \<circ> snd) p)),
     jwt_decode = (\<lambda>now t s a. packed_decode now t), check_password = (\<lambda>p h. Inr (p = h))\<rparr>"

lemma packed_laws: "jwt_laws packed_auth c"
proof -
  have "issued div 1000000 * 1000000 \<le> now" if "issued \<le> now" for issued now :: int
    using that mult_div_mod_eq [of 1000000 issued] pos_mod_sign [of 1000000 issued] by linarith
  moreover have "pack (s # ss) \<noteq> []" for s ss by (simp add: pack_def)
  ultimately show ?thesis
    by (simp add: jwt_laws_def Let_def access_claims_def packed_auth_def packed_decode_def unpack_pack parse_int_show)
qed

lemma token_admits_its_user_witness:
  "\<exists>resp. fst (login packed_auth demo_env ''2'' ''pw'' (world_of users_db)) = Inr resp \<and>
     require_roles packed_auth demo_env viewers (Some (tr_access_token resp)) (world_of users_db) =
       (Inr (demo_user 2 RoleReadonly), world_of users_db)"
proof -
  let ?w = "world_of users_db"
  have mail: "show_nat (Suc 0) = ''1''" "show_nat 2 = ''2''" by code_simp+
  have "\<exists>resp. login packed_auth demo_env ''2'' ''pw'' ?w = (Inr resp, ?w)"
    by (simp add: login_def run_simps users_db_def world_of_def demo_user_def mail packed_auth_def liftA_def
        create_access_token_def)
  then obtain resp where login: "login packed_auth demo_env ''2'' ''pw'' ?w = (Inr resp, ?w)" by blast
  have facts: "\<forall>u \<in> set (users (db ?w)). u_id u < 2 ^ 128" "distinct (map u_id (users (db ?w)))" "clock ?w \<le> clock ?w"
    by (simp_all add: db_world_of users_db_def demo_user_def)
  have live: "clock ?w < deadline (cfg demo_env) (clock ?w)"
    by (simp add: deadline_def world_of_def default_settings_def)
  from token_admits_its_user [OF packed_laws login facts, of viewers] live
  obtain u where u: "u \<in> set (users (db ?w))" "u_email u = ''2''"
    and run: "require_roles packed_auth demo_env viewers (Some (tr_access_token resp)) ?w =
      (admits viewers (users_with_id (u_id u) (db ?w)), ?w)"
    by (auto simp only: if_True)
  have "u = demo_user 2 RoleReadonly"
    using u by (auto simp: db_world_of users_db_def demo_user_def mail)
  with run have "require_roles packed_auth demo_env viewers (Some (tr_access_token resp)) ?w =
      (Inr (demo_user 2 RoleReadonly), ?w)"
    by (simp add: admits_def users_with_id_def db_world_of users_db_def demo_user_def viewers_def)
  with login show ?thesis by simp
qed

end
