(* ===== verification/Worker.thy ===== *)
theory Worker
  imports Manager OutboxSvc Subscriptions
begin

text \<open>
  The background process (\<^verbatim>\<open>app/workers/main.py\<close>) and the event consumer it runs
  (\<^verbatim>\<open>app/events/consumer.py\<close>): four loops over one provider manager, each a tick that swallows
  its exceptions and a sleep. A tick is one step; what other tasks and processes do between two
  ticks is a step of its own. The buses an adapter stands for are a parameter, except the
  in-process one.
\<close>

subsection \<open>The state of the process\<close>

text \<open>\<open>wk_published\<close> is the \<^verbatim>\<open>last_version\<close> of the publisher, \<open>wk_seen\<close> that of the consumer, where
  \<open>None\<close> is the object made at its start, equal to no version. \<open>wk_consuming\<close> tells that there is a
  consume task.\<close>

record 'x worker =
  wk_world :: "'x world"
  wk_manager :: manager
  wk_published :: "int option"
  wk_seen :: "int option option"
  wk_provider :: "handle option"
  wk_consuming :: bool

type_synonym ('x, 'a) wop = "('x worker, exn, 'a) act"

text \<open>What an adapter does: publishing and its topic settings, and \<^verbatim>\<open>subscribe\<close> with topics and
  group.\<close>

record 'x buses =
  bs_ops :: "adapter \<Rightarrow> 'x world event_ops"
  bs_subscribe :: "adapter \<Rightarrow> string list \<Rightarrow> string \<Rightarrow> ('x, unit) op"

text \<open>The in-process adapter, and any other for the Kafka adapters.\<close>

definition buses_with :: "'x env \<Rightarrow> 'x buses \<Rightarrow> 'x buses" where
  "buses_with E K =
     \<lparr>bs_ops = (\<lambda>a. case a of KafkaEvents k \<Rightarrow> bs_ops K a | _ \<Rightarrow> memory_event_ops (str_of E) (isotext E)),
      bs_subscribe = (\<lambda>a topics grp. case a of
          KafkaEvents k \<Rightarrow> bs_subscribe K a topics grp
        | _ \<Rightarrow> bindA now_utc (\<lambda>now. zoomA the_bus (\<lambda>S w. w\<lparr>the_bus := S\<rparr>)
                 (memory_subscribe (str_of E) (isotext E now) topics (Some grp))))\<rparr>"

definition on_manager :: "('x, 'a) mop \<Rightarrow> ('x, 'a) wop" where
  "on_manager = zoomA (\<lambda>s. (wk_world s, wk_manager s)) (\<lambda>(w, M) s. s\<lparr>wk_world := w, wk_manager := M\<rparr>)"

text \<open>\<^verbatim>\<open>async with factory() as session\<close>, and \<^verbatim>\<open>except Exception: logger.exception(...)\<close>.\<close>

definition in_session :: "('x, 'a) wop \<Rightarrow> ('x, 'a) wop" where
  "in_session m = finallyA m (on_manager (on_world rollback))"

definition swallow :: "('x, unit) wop \<Rightarrow> ('x, unit) wop" where
  "swallow m = tryA m (\<lambda>_. ret ())"

subsection \<open>The outbox publisher\<close>

text \<open>\<^verbatim>\<open>drain_outbox(session, manager, ...)\<close>: the drain of \<open>OutboxSvc\<close> through the adapter the
  manager serves, which is asked for only when there are rows.\<close>

definition drain_through ::
  "'x env \<Rightarrow> 'x buses \<Rightarrow> nat \<Rightarrow> string \<Rightarrow> ('x, nat \<times> nat) mop" where
  "drain_through E B lmt producer =
     bindA (on_world (ask_db (pending_batch lmt))) (\<lambda>rows.
       if rows = [] then ret (0, 0)
       else bindA (get_event_provider E True) (\<lambda>h.
         on_world (drain_outbox (E\<lparr>event_bus := bs_ops B (snd h)\<rparr>) lmt producer)))"

definition reconnect :: "'x env \<Rightarrow> int option \<Rightarrow> ('x, unit) wop" where
  "reconnect E version =
     seqA (on_manager (upd_manager (invalidate (Some ''event''))))
       (bindA (on_manager (get_event_provider E True)) (\<lambda>h.
          modifyA (\<lambda>s. s\<lparr>wk_published := version\<rparr>)))"

definition publisher_tick :: "'x env \<Rightarrow> 'x buses \<Rightarrow> ('x, unit) wop" where
  "publisher_tick E B =
     swallow (in_session (
       bindA (on_manager (active_event_version True)) (\<lambda>version.
       bindA (askA wk_published) (\<lambda>last.
       seqA (if version \<noteq> last then reconnect E version else ret ())
         (discard (on_manager (drain_through E B 50 ''brokerbridge-worker'')))))))"

subsection \<open>The event consumer\<close>

text \<open>\<^verbatim>\<open>_cancel_consume\<close>. The \<^verbatim>\<open>_stop\<close> flag it sets on the adapter only ends the task it cancels.\<close>

definition cancel_consume :: "('x, unit) wop" where
  "cancel_consume = modifyA (\<lambda>s. s\<lparr>wk_consuming := False, wk_provider := None\<rparr>)"

text \<open>\<^verbatim>\<open>getattr(provider, "consumer_group", None) or "brokerbridge-lab"\<close>\<close>

definition group_of :: "adapter \<Rightarrow> string" where
  "group_of a =
     (let g = (case a of KafkaEvents k \<Rightarrow> kf_consumer_group k
               | MemoryEvents g p m \<Rightarrow> mb_consumer_group (new_memory_bus (Some g)) | _ \<Rightarrow> [])
      in if g = [] then ''brokerbridge-lab'' else g)"

definition consumer_tick :: "'x env \<Rightarrow> 'x buses \<Rightarrow> string \<Rightarrow> ('x, unit) wop" where
  "consumer_tick E B sfx =
     swallow (in_session (
       bindA (on_manager (active_event_version True)) (\<lambda>version.
       bindA (askA wk_seen) (\<lambda>seen.
         if seen = Some version then ret ()
         else
           seqA cancel_consume
           (seqA (on_manager (upd_manager (invalidate (Some ''event''))))
           (bindA (on_manager (get_event_provider E True)) (\<lambda>h.
            bindA (askA (\<lambda>s. (eo_topic_prefix (bs_ops B (snd h)) (wk_world s),
                              eo_topic_map (bs_ops B (snd h)) (wk_world s)))) (\<lambda>(topic_prefix, topic_map).
            seqA (on_manager (on_world (bs_subscribe B (snd h)
                    (default_topics (str_of E) topic_prefix topic_map) (group_of (snd h) @ sfx))))
              (modifyA (\<lambda>s. s\<lparr>wk_provider := Some h, wk_consuming := True, wk_seen := Some version\<rparr>))))))))))"

text \<open>The \<^verbatim>\<open>finally\<close> clause of the loop.\<close>

definition consumer_stop :: "('x, unit) wop" where
  "consumer_stop = cancel_consume"

subsection \<open>The watcher and the expiry sweep\<close>

text \<open>The watcher only counts, for its log.\<close>

definition draining_count :: "database \<Rightarrow> nat" where
  "draining_count d = length (filter (\<lambda>a. as_status a = ''draining'') (assignments d))"

definition drain_watcher_tick :: "('x, unit) wop" where
  "drain_watcher_tick = swallow (in_session (discard (on_manager (on_world (ask_db draining_count)))))"

definition expiry_tick :: "'x env \<Rightarrow> ('x, unit) wop" where
  "expiry_tick E = swallow (in_session (discard (on_manager (on_world (enforce_expiry E None)))))"

subsection \<open>Runs\<close>

datatype 'x worker_step =
    Publisher
  | Consumer
  | Watcher
  | Expiry
  | Others "'x world \<Rightarrow> 'x world"

fun do_step :: "'x env \<Rightarrow> 'x buses \<Rightarrow> string \<Rightarrow> 'x worker_step \<Rightarrow> ('x, unit) wop" where
  "do_step E B sfx Publisher = publisher_tick E B"
| "do_step E B sfx Consumer = consumer_tick E B sfx"
| "do_step E B sfx Watcher = drain_watcher_tick"
| "do_step E B sfx Expiry = expiry_tick E"
| "do_step E B sfx (Others f) = modifyA (\<lambda>s. s\<lparr>wk_world := f (wk_world s)\<rparr>)"

definition worker_run ::
  "'x env \<Rightarrow> 'x buses \<Rightarrow> string \<Rightarrow> 'x worker_step list \<Rightarrow> ('x, unit) wop" where
  "worker_run E B sfx steps = forA steps (do_step E B sfx)"

definition started :: "'x world \<Rightarrow> manager \<Rightarrow> 'x worker" where
  "started w M = \<lparr>wk_world = w, wk_manager = M, wk_published = None, wk_seen = None,
     wk_provider = None, wk_consuming = False\<rparr>"

subsection \<open>No exception ends a loop\<close>

lemma swallow_Inr: "fst (swallow m s) = Inr ()"
  by (auto simp: swallow_def tryA_def ret_def split: prod.splits sum.splits)

lemma do_step_Inr: "fst (do_step E B sfx c s) = Inr ()"
  by (cases c) (simp_all add: publisher_tick_def consumer_tick_def drain_watcher_tick_def expiry_tick_def
      swallow_Inr modifyA_def)

lemma worker_run_Inr: "fst (worker_run E B sfx steps s) = Inr ()"
  unfolding worker_run_def
proof (induction steps arbitrary: s)
  case (Cons c steps)
  then show ?case
    using do_step_Inr [of E B sfx c s]
    by (cases "do_step E B sfx c s") (simp add: seqA_def bindA_def)
qed (simp add: ret_def)

lemma worker_run_append:
  "snd (worker_run E B sfx (xs @ ys) s) = snd (worker_run E B sfx ys (snd (worker_run E B sfx xs s)))"
  unfolding worker_run_def
proof (induction xs arbitrary: s)
  case (Cons c xs)
  then show ?case
    using do_step_Inr [of E B sfx c s]
    by (cases "do_step E B sfx c s") (simp add: seqA_def bindA_def)
qed (simp add: ret_def)


subsection \<open>The manager's account of its event adapters holds throughout\<close>

abbreviation worker_ok :: "'x worker \<Rightarrow> bool" where
  "worker_ok s \<equiv> events_accounted (wk_manager s)"

lemma keeps_on_manager: "keeps accounted m \<Longrightarrow> keeps worker_ok (on_manager m)"
  unfolding on_manager_def keeps_def zoomA_def by (auto split: prod.splits) (metis snd_conv)

lemma keeps_session: "keeps worker_ok m \<Longrightarrow> keeps worker_ok (in_session m)"
  unfolding in_session_def by (intro keeps_intros keeps_on_manager)

lemma keeps_swallow: "keeps P m \<Longrightarrow> keeps P (swallow m)"
  unfolding swallow_def by (intro keeps_intros)

lemma keeps_active_version [keeps_intros]: "keeps accounted (active_event_version d)"
  unfolding active_event_version_def by (intro keeps_intros)

lemma keeps_invalidate: "keeps accounted (upd_manager (invalidate k))"
  by (rule keeps_upd_manager) (rule accounted_invalidate)

lemma keeps_drain_through: "keeps accounted (drain_through E B n p)"
  unfolding drain_through_def by (intro keeps_intros keeps_get_event)

lemma keeps_worker_upd [keeps_intros]:
  "(\<And>s. wk_manager (f s) = wk_manager s) \<Longrightarrow> keeps worker_ok (modifyA f)"
  by (rule keeps_modify) simp

lemma keeps_step: "keeps worker_ok (do_step E B sfx c)"
  by (cases c)
     (auto simp: publisher_tick_def consumer_tick_def drain_watcher_tick_def expiry_tick_def cancel_consume_def
         reconnect_def
       intro!: keeps_swallow keeps_session keeps_intros keeps_discard keeps_on_manager keeps_invalidate
         keeps_get_event keeps_drain_through)

lemma worker_run_accounted:
  assumes "events_accounted (wk_manager s)"
  shows "events_accounted (wk_manager (snd (worker_run E B sfx steps s)))"
proof -
  have "keeps worker_ok (worker_run E B sfx steps)"
    unfolding worker_run_def by (intro keeps_intros keeps_step)
  from keeps_snd [OF this assms] show ?thesis .
qed


subsection \<open>The outbox is worked off\<close>

definition event_version :: "database \<Rightarrow> int option" where
  "event_version d = map_option pc_version (first_row (active_rows PkEvent d))"

lemma on_manager_run:
  "m (wk_world s, wk_manager s) = (r, (w, M)) \<Longrightarrow> on_manager m s = (r, s\<lparr>wk_world := w, wk_manager := M\<rparr>)"
  by (simp add: on_manager_def zoomA_def)

lemma on_manager_same:
  "m (wk_world s, wk_manager s) = (r, (wk_world s, wk_manager s)) \<Longrightarrow> on_manager m s = (r, s)"
  by (simp add: on_manager_def zoomA_def)

lemma rollback_tick: "on_manager (on_world rollback) s = (Inr (), s\<lparr>wk_world := (wk_world s)\<lparr>db := saved (wk_world s)\<rparr>\<rparr>)"
  by (simp add: on_manager_def on_world_def zoomA_def rollback_def modifyA_def)

lemma active_version_run: "on_manager (active_event_version True) s = (Inr (event_version (db (wk_world s))), s)"
  by (rule on_manager_same)
     (simp add: active_event_version_def bindA_def active_row_run ret_def event_version_def)

lemma get_event_store:
  obtains h w' M' where "get_event_provider E d (w, M) = (Inr h, (w', M'))" "store w' = store w"
    "serve_event (event_source E d (db w)) M = (h, M')"
proof -
  obtain h M' where serve: "serve_event (event_source E d (db w)) M = (h, M')" by fastforce
  with get_event_run [of E d w M] have
    "get_event_provider E d (w, M) = (Inr h, (if length (mg_made M') = length (mg_made M) then w
       else fresh_instance (snd (event_source E d (db w))) w, M'))"
    by (simp add: Let_def)
  then show thesis by (rule that [OF _ _ serve]) simp
qed

definition quiet_buses :: "'x buses \<Rightarrow> bool" where
  "quiet_buses B \<longleftrightarrow> (\<forall>a t e. frames store (eo_publish (bs_ops B a) t e)) \<and>
     (\<forall>a ts g. frames store (bs_subscribe B a ts g))"

lemma drain_through_effect:
  assumes "quiet_buses B"
  shows "\<exists>r w' M' new. drain_through E B n p (w, M) = (Inr r, (w', M')) \<and>
    db w' = (db w)\<lparr>outbox := new\<rparr> \<and> outbox_after (pending_batch n (db w)) (outbox (db w)) new \<and>
    (db w = saved w \<longrightarrow> saved w' = db w')"
proof (cases "pending_batch n (db w) = []")
  case True
  have "outbox_after [] (outbox (db w)) (outbox (db w))" by (simp add: outbox_after_def list_all2_same)
  moreover have "drain_through E B n p (w, M) = (Inr (0, 0), (w, M))"
    using True by (simp add: drain_through_def bindA_def on_world_def zoomA_def ask_db_run ret_def)
  moreover have "db w = (db w)\<lparr>outbox := outbox (db w)\<rparr>" by simp
  ultimately show ?thesis using True by metis
next
  case False
  obtain h w1 M1 where get: "get_event_provider E True (w, M) = (Inr h, (w1, M1))" "store w1 = store w"
    by (rule get_event_store)
  then have db1: "db w1 = db w" by (simp add: store_def)
  let ?E = "E\<lparr>event_bus := bs_ops B (snd h)\<rparr>"
  have "event_env ?E" using assms by unfold_locales (simp add: quiet_buses_def)
  from event_env.drain_outbox_effect [OF this, of n p w1]
  obtain s e w' new where drain: "drain_outbox ?E n p w1 = (Inr (s, e), w')" "db w' = (db w1)\<lparr>outbox := new\<rparr>"
    "outbox_after (pending_batch n (db w1)) (outbox (db w1)) new" "pending_batch n (db w1) \<noteq> [] \<longrightarrow> saved w' = db w'"
    by blast
  have "drain_through E B n p (w, M) = (Inr (s, e), (w', M1))"
    using False get(1) drain(1) by (simp add: drain_through_def bindA_def on_world_def zoomA_def ask_db_run)
  with drain False show ?thesis by (auto simp: db1)
qed

lemma publisher_tick_effect:
  fixes E :: "'x env"
  assumes "quiet_buses B" "db (wk_world s) = saved (wk_world s)"
  defines "s' \<equiv> snd (publisher_tick E B s)"
  shows "\<exists>new. db (wk_world s') = (db (wk_world s))\<lparr>outbox := new\<rparr> \<and>
      outbox_after (pending_batch 50 (db (wk_world s))) (outbox (db (wk_world s))) new"
    "saved (wk_world s') = db (wk_world s')" "wk_published s' = event_version (db (wk_world s))"
    "wk_seen s' = wk_seen s" "wk_provider s' = wk_provider s" "wk_consuming s' = wk_consuming s"
proof -
  let ?v = "event_version (db (wk_world s))"
  have "\<exists>s1. (if ?v \<noteq> wk_published s then reconnect E ?v else ret ()) s = (Inr (), s1) \<and>
     store (wk_world s1) = store (wk_world s) \<and> wk_published s1 = ?v \<and> wk_seen s1 = wk_seen s \<and>
     wk_provider s1 = wk_provider s \<and> wk_consuming s1 = wk_consuming s"
  proof (cases "?v = wk_published s")
    case False
    obtain h w1 M1 where "get_event_provider E True (wk_world s, invalidate (Some ''event'') (wk_manager s)) = (Inr h, (w1, M1))"
      "store w1 = store (wk_world s)" by (rule get_event_store)
    then show ?thesis
      using False
      by (simp add: reconnect_def seqA_def bindA_def on_manager_def zoomA_def upd_manager_run modifyA_def)
  qed (simp add: ret_def)
  then obtain s1 where s1: "(if ?v \<noteq> wk_published s then reconnect E ?v else ret ()) s = (Inr (), s1)"
    "store (wk_world s1) = store (wk_world s)" "wk_published s1 = ?v" "wk_seen s1 = wk_seen s"
    "wk_provider s1 = wk_provider s" "wk_consuming s1 = wk_consuming s" by blast
  obtain r w' M' new where drain: "drain_through E B 50 ''brokerbridge-worker'' (wk_world s1, wk_manager s1) = (Inr r, (w', M'))"
    "db w' = (db (wk_world s1))\<lparr>outbox := new\<rparr>"
    "outbox_after (pending_batch 50 (db (wk_world s1))) (outbox (db (wk_world s1))) new"
    "db (wk_world s1) = saved (wk_world s1) \<longrightarrow> saved w' = db w'"
    using drain_through_effect [OF assms(1)] by blast
  have dbs: "db (wk_world s1) = db (wk_world s)" "saved (wk_world s1) = saved (wk_world s)"
    using s1(2) by (simp_all add: store_def)
  then have saved: "saved w' = db w'" using drain(4) assms(2) by simp
  have drained: "on_manager (drain_through E B 50 ''brokerbridge-worker'') s1 = (Inr r, s1\<lparr>wk_world := w', wk_manager := M'\<rparr>)"
    using drain(1) by (rule on_manager_run)
  have "publisher_tick E B s = (Inr (), s1\<lparr>wk_world := w'\<lparr>db := saved w'\<rparr>, wk_manager := M'\<rparr>)"
    using s1(1) drained
    by (simp add: publisher_tick_def swallow_def tryA_def in_session_def finallyA_def active_version_run
        discard_def askA_def ret_def rollback_tick)
  then have s': "s' = s1\<lparr>wk_world := w'\<lparr>db := saved w'\<rparr>, wk_manager := M'\<rparr>" by (simp add: s'_def)
  show "\<exists>new. db (wk_world s') = (db (wk_world s))\<lparr>outbox := new\<rparr> \<and>
      outbox_after (pending_batch 50 (db (wk_world s))) (outbox (db (wk_world s))) new"
    using drain(2,3) saved by (auto simp: s' dbs)
  show "saved (wk_world s') = db (wk_world s')" "wk_published s' = ?v" "wk_seen s' = wk_seen s"
    "wk_provider s' = wk_provider s" "wk_consuming s' = wk_consuming s"
    using s1(3-6) by (simp_all add: s')
qed


text \<open>The consumer and the watcher leave a committed database alone.\<close>

abbreviation rests :: "database \<Rightarrow> 'x worker \<Rightarrow> bool" where
  "rests d s \<equiv> store (wk_world s) = (d, d)"

lemma keeps_rests_manager: "frames (\<lambda>p. store (fst p)) m \<Longrightarrow> keeps (rests d) (on_manager m)"
  unfolding keeps_def frames_def on_manager_def zoomA_def by (auto split: prod.splits) (metis fst_conv snd_conv)

lemma frames_store_world: "frames store m \<Longrightarrow> frames (\<lambda>p. store (fst p)) (on_world m)"
  unfolding frames_def on_world_def zoomA_def by (auto split: prod.splits) (metis snd_conv)

lemma keeps_rests_session: "keeps (rests d) m \<Longrightarrow> keeps (rests d) (in_session m)"
  unfolding in_session_def
  by (intro keeps_intros) (auto simp: keeps_def rollback_tick store_def)

lemma frames_store_active: "frames (\<lambda>p. store (fst p)) (active_event_version True)"
  unfolding active_event_version_def active_row_def by (intro frames_intros frames_store_world)

lemma frames_store_manager: "frames (\<lambda>p. store (fst p)) (upd_manager f)"
  by (auto simp: upd_manager_def intro: frames_modify)

lemma frames_store_get_event: "frames (\<lambda>p. store (fst p)) (get_event_provider E d)"
proof (rule framesI)
  fix p r p' assume run: "get_event_provider E d p = (r, p')"
  show "store (fst p') = store (fst p)"
    using get_event_store [of E d "fst p" "snd p"] run by (metis fst_conv prod.collapse snd_conv)
qed

lemma keeps_rests_modify: "(\<And>s. wk_world (f s) = wk_world s) \<Longrightarrow> keeps (rests d) (modifyA f)"
  by (rule keeps_modify) simp

lemma rests_consumer: "quiet_buses B \<Longrightarrow> keeps (rests d) (consumer_tick E B sfx)"
  unfolding consumer_tick_def cancel_consume_def quiet_buses_def
  by (intro keeps_swallow keeps_rests_session keeps_intros keeps_rests_manager keeps_rests_modify
      frames_store_active frames_store_manager frames_store_get_event frames_store_world) simp_all

lemma rests_watcher: "keeps (rests d) drain_watcher_tick"
  unfolding drain_watcher_tick_def
  by (intro keeps_swallow keeps_rests_session keeps_discard keeps_rests_manager frames_store_world frames_intros)

text \<open>What is left to publish.\<close>

definition pending_rows :: "database \<Rightarrow> outbox_event list" where
  "pending_rows d = filter (\<lambda>r. ob_status r = ''pending'') (outbox d)"

definition worked_on :: "outbox_event list \<Rightarrow> outbox_event list \<Rightarrow> bool" where
  "worked_on = list_all2 (\<lambda>r r'. r' = r \<or> ob_status r = ''pending'' \<and> drained r r')"

lemma not_pending_drained: "drained r r' \<Longrightarrow> ob_status r' \<noteq> ''pending''"
  by (auto simp: drained_def)

lemma pending_after:
  assumes "outbox_after batch old new" "set batch \<subseteq> {r \<in> set old. ob_status r = ''pending''}" "distinct (map ob_id old)"
  shows "worked_on old new" "map ob_id new = map ob_id old"
    "filter (\<lambda>r. ob_status r = ''pending'') new = filter (\<lambda>r. ob_status r = ''pending'' \<and> ob_id r \<notin> ob_id ` set batch) old"
proof -
  have row: "r \<in> set batch" if "r \<in> set old" "ob_id r \<in> ob_id ` set batch" for r
    using that assms(2,3) by (auto simp: distinct_map inj_on_def)
  have all: "list_all2 (\<lambda>r r'. if ob_id r \<in> ob_id ` set batch then drained r r' else r' = r) old new"
    using assms(1) by (simp add: outbox_after_def)
  show "worked_on old new"
    unfolding worked_on_def
    by (rule list.rel_mono_strong [OF all]) (use row assms(2) in \<open>auto split: if_splits\<close>)
  show "map ob_id new = map ob_id old"
    using all by (induction old new rule: list_all2_induct) (auto simp: drained_def split: if_splits)
  show "filter (\<lambda>r. ob_status r = ''pending'') new = filter (\<lambda>r. ob_status r = ''pending'' \<and> ob_id r \<notin> ob_id ` set batch) old"
    using all by (induction old new rule: list_all2_induct) (auto dest: not_pending_drained split: if_splits)
qed

lemma pending_fewer:
  assumes "outbox_after (pending_batch n d) (outbox d) new" "distinct (map ob_id (outbox d))"
  shows "length (pending_rows (d\<lparr>outbox := new\<rparr>)) = length (pending_rows d) - n" "worked_on (outbox d) new"
    "map ob_id new = map ob_id (outbox d)"
proof -
  let ?b = "pending_batch n d"
  have mem: "set ?b \<subseteq> set (pending_rows d)"
    by (auto simp: pending_batch_def pending_rows_def dest: in_set_takeD)
  have sub: "set ?b \<subseteq> {r \<in> set (outbox d). ob_status r = ''pending''}"
    using mem by (auto simp: pending_rows_def)
  note after = pending_after [OF assms(1) sub assms(2)]
  show "worked_on (outbox d) new" "map ob_id new = map ob_id (outbox d)" using after by simp_all
  have inj: "inj_on ob_id (set (outbox d))" "distinct (outbox d)" using assms(2) by (simp_all add: distinct_map)
  have "distinct ?b"
    using inj(2) by (simp add: pending_batch_def order_asc_def)
  have len: "length ?b = min (length (pending_rows d)) n"
    by (simp add: pending_batch_def pending_rows_def order_asc_def)
  have "filter (\<lambda>r. ob_status r = ''pending'' \<and> ob_id r \<notin> ob_id ` set ?b) (outbox d) = filter (\<lambda>r. r \<notin> set ?b) (pending_rows d)"
    unfolding pending_rows_def filter_filter
    using sub inj(1) by (intro filter_cong) (auto simp: inj_on_def)
  moreover have "length (filter (\<lambda>r. r \<notin> set ?b) (pending_rows d)) = card (set (pending_rows d) - set ?b)"
    using inj(2) by (subst distinct_card [symmetric]) (auto simp: pending_rows_def set_diff_eq)
  moreover have "card (set (pending_rows d) - set ?b) = length (pending_rows d) - length ?b"
    using distinct_card [OF distinct_filter [OF inj(2)], of "\<lambda>r. ob_status r = ''pending''"] \<open>distinct ?b\<close> mem
    by (simp add: card_Diff_subset distinct_card pending_rows_def)
  ultimately show "length (pending_rows (d\<lparr>outbox := new\<rparr>)) = length (pending_rows d) - n"
    using after(3) len by (simp add: pending_rows_def)
qed

lemma worked_on_refl: "worked_on os os"
  by (simp add: worked_on_def list_all2_same)

lemma worked_on_trans: "worked_on os os1 \<Longrightarrow> worked_on os1 os2 \<Longrightarrow> worked_on os os2"
  unfolding worked_on_def
  by (erule (1) list_all2_trans [rotated]) (auto dest: drained_trans)


text \<open>After enough publisher ticks, whatever the consumer and the watcher do between them, every
  row that was pending is sent or marked with its error, no other row has changed, and the result is
  committed: each tick takes up to 50 rows.\<close>

definition publishers :: "'x worker_step list \<Rightarrow> nat" where
  "publishers steps = length (filter (\<lambda>c. case c of Publisher \<Rightarrow> True | _ \<Rightarrow> False) steps)"

definition bus_step :: "'x worker_step \<Rightarrow> bool" where
  "bus_step c \<longleftrightarrow> (case c of Publisher \<Rightarrow> True | Consumer \<Rightarrow> True | Watcher \<Rightarrow> True | _ \<Rightarrow> False)"

definition progressed :: "nat \<Rightarrow> database \<Rightarrow> database \<Rightarrow> bool" where
  "progressed k d d' \<longleftrightarrow> (\<exists>new. d' = d\<lparr>outbox := new\<rparr> \<and> worked_on (outbox d) new \<and>
     map ob_id new = map ob_id (outbox d) \<and> length (pending_rows d') = length (pending_rows d) - 50 * k)"

lemma progressed_refl: "progressed 0 d d"
  unfolding progressed_def by (intro exI [of _ "outbox d"]) (simp add: worked_on_refl)

lemma progressed_trans:
  assumes "progressed j d d1" "progressed k d1 d2"
  shows "progressed (j + k) d d2"
proof -
  obtain new1 where one: "d1 = d\<lparr>outbox := new1\<rparr>" "worked_on (outbox d) new1" "map ob_id new1 = map ob_id (outbox d)"
    "length (pending_rows d1) = length (pending_rows d) - 50 * j"
    using assms(1) unfolding progressed_def by blast
  obtain new2 where two: "d2 = d1\<lparr>outbox := new2\<rparr>" "worked_on (outbox d1) new2" "map ob_id new2 = map ob_id (outbox d1)"
    "length (pending_rows d2) = length (pending_rows d1) - 50 * k"
    using assms(2) unfolding progressed_def by blast
  have "worked_on (outbox d) new2" using one(1,2) two(2) worked_on_trans by simp
  then show ?thesis
    using one two unfolding progressed_def by (intro exI [of _ new2]) (simp add: algebra_simps)
qed

lemma bus_step_progress:
  assumes "quiet_buses B" "rests d s" "distinct (map ob_id (outbox d))" "bus_step c"
  shows "\<exists>d'. rests d' (snd (do_step E B sfx c s)) \<and> progressed (publishers [c]) d d'"
proof (cases c)
  case Publisher
  have d: "db (wk_world s) = d" "saved (wk_world s) = d" using assms(2) by (simp_all add: store_def)
  obtain new where new: "db (wk_world (snd (publisher_tick E B s))) = d\<lparr>outbox := new\<rparr>"
    "outbox_after (pending_batch 50 d) (outbox d) new"
    using publisher_tick_effect(1) [OF assms(1), of s E] d by auto
  moreover have "saved (wk_world (snd (publisher_tick E B s))) = db (wk_world (snd (publisher_tick E B s)))"
    using publisher_tick_effect(2) [OF assms(1), of s E] d by simp
  ultimately show ?thesis
    using pending_fewer [OF new(2) assms(3)] Publisher
    by (intro exI [of _ "d\<lparr>outbox := new\<rparr>"]) (auto simp: progressed_def publishers_def store_def)
next
  case Consumer
  then show ?thesis
    using keeps_snd [OF rests_consumer [OF assms(1)] assms(2)] progressed_refl
    by (auto simp: publishers_def)
next
  case Watcher
  then show ?thesis
    using keeps_snd [OF rests_watcher assms(2)] progressed_refl by (auto simp: publishers_def)
qed (use assms(4) in \<open>simp_all add: bus_step_def\<close>)

lemma bus_run_progress:
  assumes "quiet_buses B" "rests d s" "distinct (map ob_id (outbox d))" "\<forall>c \<in> set steps. bus_step c"
  shows "\<exists>d'. rests d' (snd (worker_run E B sfx steps s)) \<and> progressed (publishers steps) d d'"
  using assms(2-4)
proof (induction steps arbitrary: d s)
  case Nil
  then show ?case using progressed_refl by (auto simp: worker_run_def ret_def publishers_def)
next
  case (Cons c steps)
  obtain d1 where d1: "rests d1 (snd (do_step E B sfx c s))" "progressed (publishers [c]) d d1"
    using bus_step_progress [OF assms(1) Cons.prems(1,2), of c E sfx] Cons.prems(3) by auto
  have ids: "distinct (map ob_id (outbox d1))" using d1(2) Cons.prems(2) by (auto simp: progressed_def)
  have rest: "\<forall>c \<in> set steps. bus_step c" using Cons.prems(3) by simp
  obtain d' where "rests d' (snd (worker_run E B sfx steps (snd (do_step E B sfx c s))))"
    "progressed (publishers steps) d1 d'"
    using Cons.IH [OF d1(1) ids rest] by blast
  moreover have "snd (worker_run E B sfx (c # steps) s) = snd (worker_run E B sfx steps (snd (do_step E B sfx c s)))"
    using worker_run_append [of E B sfx "[c]" steps s] do_step_Inr [of E B sfx c s]
    by (cases "do_step E B sfx c s") (simp add: worker_run_def seqA_def bindA_def ret_def)
  moreover have "publishers (c # steps) = publishers [c] + publishers steps" by (simp add: publishers_def)
  ultimately show ?case using progressed_trans [OF d1(2)] by auto
qed

lemma backlog_settled:
  assumes "quiet_buses B" "rests d s" "distinct (map ob_id (outbox d))" "\<forall>c \<in> set steps. bus_step c"
    and "length (pending_rows d) \<le> 50 * publishers steps"
  shows "\<exists>d'. rests d' (snd (worker_run E B sfx steps s)) \<and> d' = d\<lparr>outbox := outbox d'\<rparr> \<and>
    list_all2 (\<lambda>r r'. if ob_status r = ''pending'' then drained r r' else r' = r) (outbox d) (outbox d')"
proof -
  obtain d' new where run: "rests d' (snd (worker_run E B sfx steps s))" and d': "d' = d\<lparr>outbox := new\<rparr>"
    and work: "worked_on (outbox d) new" and none: "length (pending_rows d') = length (pending_rows d) - 50 * publishers steps"
    using bus_run_progress [OF assms(1-4), of E sfx] unfolding progressed_def by blast
  have "pending_rows d' = []" using none assms(5) by simp
  then have rest: "r' \<in> set new \<Longrightarrow> ob_status r' \<noteq> ''pending''" for r'
    by (simp add: d' pending_rows_def filter_empty_conv)
  have "list_all2 (\<lambda>r r'. if ob_status r = ''pending'' then drained r r' else r' = r) (outbox d) new"
    using work unfolding worked_on_def
    by (rule list.rel_mono_strong) (use rest in \<open>auto split: if_splits\<close>)
  then show ?thesis using run d' by auto
qed


subsection \<open>The consumer follows the configuration, and can lose its adapter to the publisher\<close>

text \<open>The consume task runs until its adapter is closed.\<close>

definition receiving :: "'x worker \<Rightarrow> bool" where
  "receiving s \<longleftrightarrow> wk_consuming s \<and>
     (\<exists>h. wk_provider s = Some h \<and> h \<notin> set (mg_closed (wk_manager s)))"

definition subscribing_buses :: "'x buses \<Rightarrow> bool" where
  "subscribing_buses B \<longleftrightarrow> (\<forall>a ts g w. fst (bs_subscribe B a ts g w) = Inr ())"

lemma consumer_idle:
  assumes "wk_seen s = Some (event_version (db (wk_world s)))" "db (wk_world s) = saved (wk_world s)"
  shows "consumer_tick E B sfx s = (Inr (), s)"
proof -
  have "(wk_world s)\<lparr>db := saved (wk_world s)\<rparr> = wk_world s" using assms(2) by (simp flip: assms(2))
  then show ?thesis
    using assms(1)
    by (simp add: consumer_tick_def swallow_def tryA_def in_session_def finallyA_def active_version_run askA_def
        ret_def rollback_tick)
qed

lemma consumer_subscribes:
  assumes "subscribing_buses B" "wk_seen s \<noteq> Some (event_version (db (wk_world s)))"
    and "consumer_tick E B sfx s = (r, s')"
  obtains h w1 M1 where "serve_event (event_source E True (db (wk_world s))) (invalidate (Some ''event'') (wk_manager s)) = (h, M1)"
    "wk_manager s' = M1" "wk_provider s' = Some h" "wk_consuming s'" "wk_seen s' = Some (event_version (db (wk_world s)))"
    "wk_published s' = wk_published s"
proof -
  let ?v = "event_version (db (wk_world s))"
  obtain h w1 M1 where get: "get_event_provider E True (wk_world s, invalidate (Some ''event'') (wk_manager s)) = (Inr h, (w1, M1))"
    and serve: "serve_event (event_source E True (db (wk_world s))) (invalidate (Some ''event'') (wk_manager s)) = (h, M1)"
    by (rule get_event_store)
  define topics where "topics = default_topics (str_of E) (eo_topic_prefix (bs_ops B (snd h)) w1) (eo_topic_map (bs_ops B (snd h)) w1)"
  obtain w2 where sub: "bs_subscribe B (snd h) topics (group_of (snd h) @ sfx) w1 = (Inr (), w2)"
    using assms(1) unfolding subscribing_buses_def by (metis surjective_pairing)
  define s1 where "s1 = s\<lparr>wk_consuming := False, wk_provider := None, wk_manager := invalidate (Some ''event'') (wk_manager s)\<rparr>"
  have steps: "cancel_consume s = (Inr (), s\<lparr>wk_consuming := False, wk_provider := None\<rparr>)"
    "on_manager (upd_manager (invalidate (Some ''event''))) (s\<lparr>wk_consuming := False, wk_provider := None\<rparr>) = (Inr (), s1)"
    "on_manager (get_event_provider E True) s1 = (Inr h, s1\<lparr>wk_world := w1, wk_manager := M1\<rparr>)"
    using get by (simp_all add: cancel_consume_def modifyA_def on_manager_def zoomA_def upd_manager_run s1_def)
  have subscribed: "on_manager (on_world (bs_subscribe B (snd h) topics (group_of (snd h) @ sfx))) (s1\<lparr>wk_world := w1, wk_manager := M1\<rparr>) =
      (Inr (), s1\<lparr>wk_world := w2, wk_manager := M1\<rparr>)"
    using sub by (simp add: on_manager_def on_world_def zoomA_def)
  have "s' = s1\<lparr>wk_manager := M1, wk_provider := Some h, wk_consuming := True, wk_seen := Some ?v,
      wk_world := w2\<lparr>db := saved w2\<rparr>\<rparr>"
    using assms(2,3) steps subscribed
    by (simp add: consumer_tick_def swallow_def tryA_def in_session_def finallyA_def active_version_run askA_def
        ret_def rollback_tick modifyA_def topics_def)
  with serve that show thesis by (simp add: s1_def)
qed

text \<open>After a tick in which it subscribed, the consumer receives from the adapter built for the
  version in force, the only event adapter not closed.\<close>

lemma consumer_receives:
  assumes "subscribing_buses B" "worker_ok s" "wk_seen s \<noteq> Some (event_version (db (wk_world s)))"
    and "consumer_tick E B sfx s = (r, s')"
  shows "receiving s'" "wk_provider s' = cached ''event'' (wk_manager s')"
    "mg_event_version (wk_manager s') = Some (fst (event_source E True (db (wk_world s))))"
    "wk_seen s' = Some (event_version (db (wk_world s)))"
proof -
  obtain h w1 M1 where sub: "serve_event (event_source E True (db (wk_world s))) (invalidate (Some ''event'') (wk_manager s)) = (h, M1)"
    "wk_manager s' = M1" "wk_provider s' = Some h" "wk_consuming s'" "wk_seen s' = Some (event_version (db (wk_world s)))"
    by (rule consumer_subscribes [OF assms(1,3,4)])
  note settled = serve_event_settles [OF accounted_invalidate [OF assms(2)] source_kind sub(1)]
  show "receiving s'" using sub(2-4) settled(4) by (auto simp: receiving_def)
  show "wk_provider s' = cached ''event'' (wk_manager s')"
    "mg_event_version (wk_manager s') = Some (fst (event_source E True (db (wk_world s))))"
    "wk_seen s' = Some (event_version (db (wk_world s)))"
    using sub settled(1,2) by simp_all
qed

text \<open>A closed adapter stays closed.\<close>

lemma closed_serve: "serve_event src M = (h, M') \<Longrightarrow> set (mg_closed M) \<union> set (mg_stale M) \<subseteq> set (mg_closed M')"
  by (auto simp: serve_event_def Let_def installed_def close_stale_def to_stale_def uncache_def split: option.splits if_splits)

lemma closed_get_event:
  "get_event_provider E d (w, M) = (r, (w', M')) \<Longrightarrow> set (mg_closed M) \<union> set (mg_stale M) \<subseteq> set (mg_closed M')"
  using get_event_store [of E d w M] closed_serve by (metis Pair_inject)

lemma closed_invalidate: "mg_closed (invalidate k M) = mg_closed M"
  by (auto simp: invalidate_def Let_def to_stale_def uncache_def split: option.splits)

abbreviation closed_in :: "handle \<Rightarrow> 'x worker \<Rightarrow> bool" where
  "closed_in h s \<equiv> h \<in> set (mg_closed (wk_manager s))"

lemma keeps_closed_manager: "(\<And>p r p'. m p = (r, p') \<Longrightarrow> set (mg_closed (snd p)) \<subseteq> set (mg_closed (snd p'))) \<Longrightarrow> keeps (closed_in h) (on_manager m)"
  unfolding keeps_def on_manager_def zoomA_def by (fastforce split: prod.splits)

lemma closed_on_world: "on_world m p = (r, p') \<Longrightarrow> snd p' = snd p"
  by (cases p) (auto simp: on_world_def zoomA_eq)

lemma closed_drain: "drain_through E B n q p = (r, p') \<Longrightarrow> set (mg_closed (snd p)) \<subseteq> set (mg_closed (snd p'))"
proof -
  assume run: "drain_through E B n q p = (r, p')"
  obtain h w1 M1 where get: "get_event_provider E True p = (Inr h, (w1, M1))"
    using get_event_store [of E True "fst p" "snd p"] by (metis prod.collapse)
  have "set (mg_closed (snd p)) \<subseteq> set (mg_closed M1)"
    using closed_get_event [of E True "fst p" "snd p"] get by auto
  then show ?thesis
    using run get
    by (cases "pending_batch n (db (fst p)) = []")
       (auto simp: drain_through_def bindA_def on_world_def zoomA_def ask_db_run ret_def split: prod.splits)
qed

lemma keeps_closed_publisher: "keeps (closed_in h) (publisher_tick E B)"
proof -
  have get: "keeps (closed_in h) (on_manager (get_event_provider E True))"
    by (rule keeps_closed_manager) (metis Un_subset_iff closed_get_event prod.collapse)
  have inval: "keeps (closed_in h) (on_manager (upd_manager (invalidate k)))" for k
    by (rule keeps_closed_manager) (auto simp: upd_manager_def closed_invalidate)
  have active: "keeps (closed_in h) (on_manager (active_event_version True))"
    by (rule keepsI) (simp add: active_version_run)
  have undo: "keeps (closed_in h) (on_manager (on_world rollback))"
    by (rule keepsI) (simp add: rollback_tick)
  have drain: "keeps (closed_in h) (on_manager (drain_through E B n q))" for n q
    by (rule keeps_closed_manager) (rule closed_drain)
  show ?thesis
    unfolding publisher_tick_def reconnect_def in_session_def
    by (intro keeps_swallow keeps_intros keeps_discard get inval active undo drain keeps_modify) simp
qed

text \<open>The consumer's adapter has been closed and nothing tells it so.\<close>

definition deaf :: "handle \<Rightarrow> int option \<Rightarrow> 'x worker \<Rightarrow> bool" where
  "deaf h v s \<longleftrightarrow> closed_in h s \<and> wk_provider s = Some h \<and> wk_seen s = Some v \<and>
     event_version (db (wk_world s)) = v \<and> db (wk_world s) = saved (wk_world s)"

lemma deaf_step:
  assumes "quiet_buses B" "bus_step c" "deaf h v s"
  shows "deaf h v (snd (do_step E B sfx c s))"
proof (cases c)
  case Publisher
  have "db (wk_world s) = saved (wk_world s)" using assms(3) by (simp add: deaf_def)
  note tick = publisher_tick_effect [OF assms(1) this, of E]
  have "event_version (db (wk_world (snd (publisher_tick E B s)))) = event_version (db (wk_world s))"
    using tick(1) by (auto simp: event_version_def active_rows_def)
  moreover have "closed_in h (snd (publisher_tick E B s))"
    using assms(3) by (intro keeps_snd [OF keeps_closed_publisher]) (simp add: deaf_def)
  ultimately show ?thesis
    using tick(2,4,5) assms(3) unfolding deaf_def Publisher do_step.simps by metis
next
  case Consumer
  then show ?thesis using assms(3) consumer_idle [of s E B sfx] by (auto simp: deaf_def)
next
  case Watcher
  have "drain_watcher_tick s = (Inr (), s)"
  proof -
    have "(wk_world s)\<lparr>db := saved (wk_world s)\<rparr> = wk_world s"
      using assms(3) unfolding deaf_def by (cases "wk_world s") simp
    then show ?thesis
      by (simp add: drain_watcher_tick_def swallow_def tryA_def in_session_def finallyA_def discard_def bindA_def
          on_manager_def on_world_def zoomA_def ask_db_run rollback_def modifyA_def ret_def)
  qed
  then show ?thesis using Watcher assms(3) by simp
qed (use assms(2) in \<open>simp_all add: bus_step_def\<close>)


lemma deaf_run:
  assumes "quiet_buses B" "deaf h v s" "\<forall>c \<in> set steps. bus_step c"
  shows "deaf h v (snd (worker_run E B sfx steps s))"
  using assms(2,3)
proof (induction steps arbitrary: s)
  case Nil
  then show ?case by (simp add: worker_run_def ret_def)
next
  case (Cons c steps)
  have "deaf h v (snd (do_step E B sfx c s))" using deaf_step [OF assms(1)] Cons.prems by simp
  then have "deaf h v (snd (worker_run E B sfx steps (snd (do_step E B sfx c s))))"
    using Cons by simp
  moreover have "snd (worker_run E B sfx (c # steps) s) = snd (worker_run E B sfx steps (snd (do_step E B sfx c s)))"
    using worker_run_append [of E B sfx "[c]" steps s] do_step_Inr [of E B sfx c s]
    by (cases "do_step E B sfx c s") (simp add: worker_run_def seqA_def bindA_def ret_def)
  ultimately show ?case by simp
qed

text \<open>When the consumer notices a new version before the publisher does, the publisher's own
  invalidation closes the adapter the consumer has just subscribed, and as long as that version
  stands the consumer stays without one.\<close>

lemma publisher_closes_consumer:
  assumes "quiet_buses B" "db (wk_world s) = saved (wk_world s)"
    and "wk_seen s = Some (event_version (db (wk_world s)))" "wk_provider s = Some h"
    and "cached ''event'' (wk_manager s) = Some h" "wk_published s \<noteq> event_version (db (wk_world s))"
  shows "deaf h (event_version (db (wk_world s))) (snd (publisher_tick E B s))"
proof -
  let ?v = "event_version (db (wk_world s))"
  note tick = publisher_tick_effect [OF assms(1,2), of E]
  have version: "event_version (db (wk_world (snd (publisher_tick E B s)))) = ?v"
    using tick(1) by (auto simp: event_version_def active_rows_def)
  have stale: "h \<in> set (mg_stale (invalidate (Some ''event'') (wk_manager s)))"
    using assms(5) by (simp add: invalidate_def to_stale_def uncache_def)
  obtain h1 w1 M1 where get: "get_event_provider E True (wk_world s, invalidate (Some ''event'') (wk_manager s)) = (Inr h1, (w1, M1))"
    by (rule get_event_store)
  have closed1: "h \<in> set (mg_closed M1)" using closed_get_event [OF get] stale by auto
  define s1 where "s1 = s\<lparr>wk_world := w1, wk_manager := M1, wk_published := ?v\<rparr>"
  have connect: "reconnect E ?v s = (Inr (), s1)"
    using get by (simp add: reconnect_def seqA_def bindA_def on_manager_def zoomA_def upd_manager_run modifyA_def s1_def)
  obtain r w2 M2 where drain: "drain_through E B 50 ''brokerbridge-worker'' (wk_world s1, wk_manager s1) = (Inr r, (w2, M2))"
    using drain_through_effect [OF assms(1)] by blast
  have "h \<in> set (mg_closed M2)" using closed_drain [OF drain] closed1 by (auto simp: s1_def)
  moreover have "wk_manager (snd (publisher_tick E B s)) = M2"
  proof -
    have drained: "on_manager (drain_through E B 50 ''brokerbridge-worker'') s1 = (Inr r, s1\<lparr>wk_world := w2, wk_manager := M2\<rparr>)"
      using drain by (rule on_manager_run)
    then show ?thesis
      using connect assms(6)
      by (simp add: publisher_tick_def swallow_def tryA_def in_session_def finallyA_def active_version_run
          discard_def askA_def ret_def rollback_tick)
  qed
  ultimately show ?thesis
    using tick(2,4,5) version assms(3,4) by (simp add: deaf_def)
qed

lemma publisher_silences_consumer:
  assumes "quiet_buses B" "db (wk_world s) = saved (wk_world s)"
    and "wk_seen s = Some (event_version (db (wk_world s)))" "wk_provider s = Some h"
    and "cached ''event'' (wk_manager s) = Some h" "wk_published s \<noteq> event_version (db (wk_world s))"
    and "\<forall>c \<in> set steps. bus_step c"
  shows "\<not> receiving (snd (worker_run E B sfx steps (snd (publisher_tick E B s))))"
  using deaf_run [OF assms(1) publisher_closes_consumer [OF assms(1-6)] assms(7)]
  by (auto simp: receiving_def deaf_def)

end
