(* ===== verification/Kafka.thy ===== *)
theory Kafka
  imports Manager OutboxSvc
begin

text \<open>
  The Kafka event provider (\<^verbatim>\<open>app/providers/kafka_event.py\<close>) over the aiokafka clients, which are
  a parameter (\<open>kafka_lib\<close>): creating missing topics, publishing, subscribing, the consume loop,
  the probe and closing. Logging is left out, and so is a topic prefix that is no string.
\<close>

subsection \<open>State and clients\<close>

text \<open>The attributes that change after the construction. \<open>ka_producer\<close> and \<open>ka_consumer\<close> tell
  whether \<^verbatim>\<open>_producer\<close> and \<^verbatim>\<open>_consumer\<close> hold a client.\<close>

record kafka_state =
  ka_group :: string
  ka_producer :: bool
  ka_consumer :: bool
  ka_handler :: bool
  ka_topics :: "string list"
  ka_stop :: bool
  ka_closed :: bool

definition new_kafka :: "kafka_config \<Rightarrow> kafka_state" where
  "new_kafka c = \<lparr>ka_group = kf_consumer_group c, ka_producer = False, ka_consumer = False,
     ka_handler = False, ka_topics = [], ka_stop = False, ka_closed = False\<rparr>"

text \<open>The keyword arguments of every client.\<close>

record client_args =
  ca_servers :: string
  ca_protocol :: string
  ca_ssl_context :: bool
  ca_sasl :: "(json \<times> json \<times> json) option"  \<comment> \<open>mechanism, user name, password\<close>

definition client_kwargs :: "kafka_config \<Rightarrow> client_args" where
  "client_kwargs c =
     (let protocol =
        (if kf_ssl c \<and> kf_security_protocol c = ''PLAINTEXT'' then ''SSL''
         else if kf_ssl c \<and> kf_security_protocol c = ''SASL_PLAINTEXT'' then ''SASL_SSL''
         else kf_security_protocol c)
      in \<lparr>ca_servers = kf_brokers c, ca_protocol = protocol,
          ca_ssl_context = (protocol \<in> {''SSL'', ''SASL_SSL''}),
          ca_sasl = (if truthy (kf_sasl_mechanism c) \<and> kf_username c \<noteq> JNull
                     then Some (kf_sasl_mechanism c, kf_username c, py_or (kf_password c) (JStr []))
                     else None)\<rparr>)"

text \<open>The calls of the admin client, the producer and the consumer. A message is its topic and its
  value, the text of its bytes or the error of decoding them; no value is \<open>None\<close>.\<close>

record 'w kafka_lib =
  kl_admin_new :: "client_args \<Rightarrow> ('w, exn, unit) act"
  kl_admin_start :: "('w, exn, unit) act"
  kl_list_topics :: "('w, exn, string list) act"
  kl_create_topics :: "string list \<Rightarrow> ('w, exn, unit) act"
  kl_admin_close :: "('w, exn, unit) act"
  kl_producer_new :: "client_args \<Rightarrow> ('w, exn, unit) act"
  kl_producer_start :: "('w, exn, unit) act"
  kl_send :: "string \<Rightarrow> string \<Rightarrow> string option \<Rightarrow> ('w, exn, unit) act"
  kl_producer_stop :: "('w, exn, unit) act"
  kl_consumer_new :: "client_args \<Rightarrow> string list \<Rightarrow> string \<Rightarrow> ('w, exn, unit) act"
  kl_consumer_start :: "('w, exn, unit) act"
  kl_getmany :: "('w, exn, (string \<times> (exn + string) option) list) act"
  kl_consumer_stop :: "('w, exn, unit) act"

text \<open>An operation of the provider works on its own state and the world.\<close>

type_synonym ('w, 'a) kop = "(kafka_state \<times> 'w, exn, 'a) act"

definition prefix_text :: "kafka_config \<Rightarrow> string option" where
  "prefix_text c = (case kf_topic_prefix c of JStr s \<Rightarrow> Some s | _ \<Rightarrow> None)"

definition default_physical_topics :: "'x env \<Rightarrow> kafka_config \<Rightarrow> string list" where
  "default_physical_topics E c = default_topics (str_of E) (prefix_text c) (Some (kf_topic_map c))"

subsection \<open>Topics\<close>

record ensured =
  en_ok :: bool
  en_created :: "string list"
  en_existing :: "string list"
  en_error :: "string option"

definition wanted_topics :: "string list \<Rightarrow> string list" where
  "wanted_topics topics = filter (\<lambda>t. t \<noteq> []) (dedup topics)"

text \<open>\<^verbatim>\<open>sorted(set(existing) | set(missing))\<close>\<close>

definition create_missing :: "'x env \<Rightarrow> 'w kafka_lib \<Rightarrow> string list \<Rightarrow> string list \<Rightarrow> ('w, ensured) kop" where
  "create_missing E L existing missing =
     tryA (seqA (on_snd (kl_create_topics L missing))
             (ret \<lparr>en_ok = True, en_created = missing, en_existing = existing, en_error = None\<rparr>))
       (\<lambda>e. if e = PyError ''TopicAlreadyExistsError'' then
               ret \<lparr>en_ok = True, en_created = [], en_existing = sort (remdups (existing @ missing)), en_error = None\<rparr>
            else if e = PyError ''TopicAuthorizationFailedError'' then
               ret \<lparr>en_ok = False, en_created = [], en_existing = existing,
                    en_error = Some (''TopicAuthorizationFailedError: '' @ exn_text E e)\<rparr>
            else raise e)"

definition ensure_topics ::
  "'x env \<Rightarrow> 'w kafka_lib \<Rightarrow> kafka_config \<Rightarrow> string list \<Rightarrow> ('w, ensured) kop" where
  "ensure_topics E L c topics =
     (let wanted = wanted_topics topics in
      if wanted = [] then ret \<lparr>en_ok = True, en_created = [], en_existing = [], en_error = None\<rparr>
      else
        seqA (on_snd (kl_admin_new L (client_kwargs c)))
          (finallyA
            (tryA
              (seqA (on_snd (kl_admin_start L))
              (bindA (on_snd (kl_list_topics L)) (\<lambda>known.
                 let existing = sort (filter (\<lambda>t. t \<in> set known) wanted);
                     missing = filter (\<lambda>t. t \<notin> set known) wanted
                 in if missing \<noteq> [] then create_missing E L existing missing
                    else ret \<lparr>en_ok = True, en_created = [], en_existing = existing, en_error = None\<rparr>)))
              (\<lambda>e. ret \<lparr>en_ok = False, en_created = [], en_existing = [], en_error = Some (exn_text E e)\<rparr>))
            (ignoring (on_snd (kl_admin_close L)))))"

subsection \<open>Publishing\<close>

definition ensure_producer :: "'w kafka_lib \<Rightarrow> kafka_config \<Rightarrow> ('w, unit) kop" where
  "ensure_producer L c =
     bindA (askA (\<lambda>s. ka_producer (fst s))) (\<lambda>there.
       if there then ret ()
       else seqA (on_snd (kl_producer_new L (client_kwargs c)))
         (seqA (on_snd (kl_producer_start L)) (upd_fst (\<lambda>k. k\<lparr>ka_producer := True\<rparr>))))"

text \<open>\<^verbatim>\<open>str(event.get("event_id") or "").encode("utf-8") or None\<close>\<close>

definition message_key :: "'x env \<Rightarrow> dict \<Rightarrow> string option" where
  "message_key E event =
     (let key = py_str (str_of E) (py_or (dict_get event ''event_id'' JNull) (JStr []))
      in if key = [] then None else Some key)"

definition kafka_publish ::
  "'x env \<Rightarrow> 'w kafka_lib \<Rightarrow> kafka_config \<Rightarrow> string \<Rightarrow> dict \<Rightarrow> ('w, unit) kop" where
  "kafka_publish E L c topic event =
     bindA (ensure_topics E L c [topic]) (\<lambda>_.
     seqA (ensure_producer L c)
       (on_snd (kl_send L topic (json_dumps E (JObj event)) (message_key E event))))"

subsection \<open>Consuming\<close>

definition kafka_subscribe ::
  "'x env \<Rightarrow> 'w kafka_lib \<Rightarrow> kafka_config \<Rightarrow> string list \<Rightarrow> string option \<Rightarrow> ('w, unit) kop" where
  "kafka_subscribe E L c topics grp =
     bindA (askA (\<lambda>s. ka_closed (fst s))) (\<lambda>closed.
       if closed then raise (PyError ''RuntimeError'')
       else
         seqA (upd_fst (\<lambda>k. k\<lparr>ka_handler := True, ka_topics := topics,
                 ka_group := (case grp of Some g \<Rightarrow> if g \<noteq> [] then g else ka_group k | None \<Rightarrow> ka_group k),
                 ka_stop := False\<rparr>))
           (discard (ensure_topics E L c topics)))"

text \<open>\<^verbatim>\<open>msg.value.decode("utf-8") if msg.value else "{}"\<close>, parsed; what is no object is wrapped.\<close>

definition message_event :: "'x env \<Rightarrow> (exn + string) option \<Rightarrow> exn + dict" where
  "message_event E v =
     (case (case v of None \<Rightarrow> Inr ''{}'' | Some (Inr s) \<Rightarrow> Inr (if s = [] then ''{}'' else s) | Some (Inl e) \<Rightarrow> Inl e) of
        Inl e \<Rightarrow> Inl e
      | Inr raw \<Rightarrow>
          (case json_loads E raw of
             Inl e \<Rightarrow> Inl e
           | Inr (JObj d) \<Rightarrow> Inr d
           | Inr j \<Rightarrow> Inr [(''payload'', j)]))"

definition deliver ::
  "'x env \<Rightarrow> (string \<Rightarrow> dict \<Rightarrow> ('w, exn, unit) act) \<Rightarrow> string \<times> (exn + string) option \<Rightarrow> ('w, unit) kop" where
  "deliver E handler = (\<lambda>(topic, v).
     ignoring (bindA (liftA (message_event E v)) (\<lambda>event. on_snd (handler topic event))))"

text \<open>One round of the loop: a failed poll is logged and waited out.\<close>

definition poll_round ::
  "'x env \<Rightarrow> 'w kafka_lib \<Rightarrow> (string \<Rightarrow> dict \<Rightarrow> ('w, exn, unit) act) \<Rightarrow> ('w, unit) kop" where
  "poll_round E L handler =
     bindA (tryA (on_snd (kl_getmany L)) (\<lambda>_. ret [])) (\<lambda>messages.
       forA messages (\<lambda>m.
         bindA (askA (\<lambda>s. ka_handler (fst s))) (\<lambda>h. if h then deliver E handler m else ret ())))"

text \<open>The rounds until \<^verbatim>\<open>_stop\<close> or \<^verbatim>\<open>_closed\<close> is set; \<open>others\<close> is what other tasks do during a round.
  The result tells whether the loop ended within the given number of rounds.\<close>

fun poll_rounds ::
  "nat \<Rightarrow> (kafka_state \<times> 'w \<Rightarrow> kafka_state \<times> 'w) \<Rightarrow> ('w, unit) kop \<Rightarrow> ('w, bool) kop" where
  "poll_rounds 0 others body = ret False"
| "poll_rounds (Suc n) others body =
     bindA (askA (\<lambda>s. ka_stop (fst s) \<or> ka_closed (fst s))) (\<lambda>over.
       if over then ret True
       else seqA body (seqA (modifyA others) (poll_rounds n others body)))"

text \<open>Without topics or handler \<^verbatim>\<open>run_consumer\<close> waits for the stop flag.\<close>

definition run_consumer ::
  "'x env \<Rightarrow> 'w kafka_lib \<Rightarrow> kafka_config \<Rightarrow> (string \<Rightarrow> dict \<Rightarrow> ('w, exn, unit) act) \<Rightarrow> nat \<Rightarrow>
   (kafka_state \<times> 'w \<Rightarrow> kafka_state \<times> 'w) \<Rightarrow> ('w, bool) kop" where
  "run_consumer E L c handler fuel others =
     bindA (askA fst) (\<lambda>k.
       if ka_topics k = [] \<or> \<not> ka_handler k then poll_rounds fuel others (ret ())
       else
         bindA (ensure_topics E L c (ka_topics k)) (\<lambda>_.
         bindA (askA fst) (\<lambda>k1.
         seqA (on_snd (kl_consumer_new L (client_kwargs c) (ka_topics k1) (ka_group k1)))
         (seqA (upd_fst (\<lambda>k. k\<lparr>ka_consumer := True\<rparr>))
         (seqA (on_snd (kl_consumer_start L))
           (finallyA (poll_rounds fuel others (poll_round E L handler))
              (seqA (ignoring (on_snd (kl_consumer_stop L)))
                 (upd_fst (\<lambda>k. k\<lparr>ka_consumer := False\<rparr>)))))))))"

subsection \<open>Closing\<close>

definition kafka_aclose :: "'w kafka_lib \<Rightarrow> ('w, unit) kop" where
  "kafka_aclose L =
     seqA (upd_fst (\<lambda>k. k\<lparr>ka_closed := True, ka_stop := True\<rparr>))
     (seqA (bindA (askA (\<lambda>s. ka_consumer (fst s))) (\<lambda>c.
              if c then seqA (ignoring (on_snd (kl_consumer_stop L))) (upd_fst (\<lambda>k. k\<lparr>ka_consumer := False\<rparr>))
              else ret ()))
       (bindA (askA (\<lambda>s. ka_producer (fst s))) (\<lambda>p.
          if p then seqA (ignoring (on_snd (kl_producer_stop L))) (upd_fst (\<lambda>k. k\<lparr>ka_producer := False\<rparr>))
          else ret ())))"

subsection \<open>The probe\<close>

text \<open>The metadata of the probe, \<open>None\<close> with the error when it failed.\<close>

definition probe_metadata ::
  "'x env \<Rightarrow> 'w kafka_lib \<Rightarrow> kafka_config \<Rightarrow> ('w, string + string list) kop" where
  "probe_metadata E L c =
     bindA (tryA (seqA (on_snd (kl_admin_new L (client_kwargs c))) (ret None))
             (\<lambda>e. ret (Some (exn_text E e)))) (\<lambda>failed.
       case failed of
         Some e \<Rightarrow> ret (Inl e)
       | None \<Rightarrow>
           finallyA
             (tryA (seqA (on_snd (kl_admin_start L))
                     (bindA (on_snd (kl_list_topics L)) (\<lambda>topics. ret (Inr topics))))
                (\<lambda>e. ret (Inl (exn_text E e))))
             (ignoring (on_snd (kl_admin_close L))))"

text \<open>The topic the probe sends to.\<close>

definition scratch_topic :: "'x env \<Rightarrow> kafka_config \<Rightarrow> string list \<Rightarrow> string" where
  "scratch_topic E c known =
     (let pre = (case prefix_text c of Some p \<Rightarrow> p | None \<Rightarrow> []);
          scratch = rstrip_dot (if pre \<noteq> [] then pre else ''brokerbridge'') @ ''.probe''
      in if scratch \<notin> set known \<and> known \<noteq> [] then
           (if rstrip_dot pre \<in> set known then rstrip_dot pre
            else case find (\<lambda>t. t \<in> set known) (default_physical_topics E c) of
                   Some t \<Rightarrow> t
                 | None \<Rightarrow> hd (sort known))
         else scratch)"

definition ensured_json :: "ensured \<Rightarrow> json" where
  "ensured_json e =
     JObj ([(''ok'', JBool (en_ok e)), (''created'', JList (map JStr (en_created e))),
            (''existing'', JList (map JStr (en_existing e)))] @
           (case en_error e of None \<Rightarrow> [] | Some t \<Rightarrow> [(''error'', JStr t)]))"

text \<open>Sending one message with a producer of its own; stopping it is not guarded.\<close>

definition probe_produce :: "'x env \<Rightarrow> 'w kafka_lib \<Rightarrow> kafka_config \<Rightarrow> string \<Rightarrow> ('w, dict) kop" where
  "probe_produce E L c scratch =
     (let failed = (\<lambda>e. [(''produce_error'', JStr (exn_text E e)), (''probe_topic_attempted'', JStr scratch)]) in
      bindA (tryA (seqA (on_snd (kl_producer_new L (client_kwargs c))) (ret None)) (\<lambda>e. ret (Some (failed e)))) (\<lambda>d.
        case d of
          Some detail \<Rightarrow> ret detail
        | None \<Rightarrow>
            finallyA
              (tryA (seqA (on_snd (kl_producer_start L))
                      (seqA (on_snd (kl_send L scratch (CHR 0x7B # CHR 0x22 # ''probe'' @ [CHR 0x22] @ '':true'' @ [CHR 0x7D]) None))
                         (ret [(''probe_topic'', JStr scratch)])))
                 (\<lambda>e. ret (failed e)))
              (on_snd (kl_producer_stop L))))"

definition kafka_probe :: "'x env \<Rightarrow> 'w kafka_lib \<Rightarrow> kafka_config \<Rightarrow> ('w, dict) kop" where
  "kafka_probe E L c =
     bindA (probe_metadata E L c) (\<lambda>meta.
       case meta of
         Inl e \<Rightarrow> ret [(''ok'', JBool False), (''error'', JStr e), (''provider_type'', JStr (kf_provider_type c))]
       | Inr topics \<Rightarrow>
           bindA (ensure_topics E L c (default_physical_topics E c)) (\<lambda>ens.
           bindA (askA (\<lambda>s. ka_group (fst s))) (\<lambda>grp.
             let sample = take 20 (sort topics);
                 known = remdups (sample @ en_created ens @ en_existing ens);
                 detail = [(''topics_sample'', JList (map JStr sample)),
                           (''broker_count'', JInt (int (length topics))), (''consumer_group'', JStr grp),
                           (''topics_ensured'', ensured_json ens)] @
                          (if en_ok ens then [] else
                             [(''ensure_topics_error'', case en_error ens of Some t \<Rightarrow> JStr t | None \<Rightarrow> JNull)])
             in bindA (probe_produce E L c (scratch_topic E c known)) (\<lambda>produced.
                  ret ([(''ok'', JBool True), (''provider_type'', JStr (kf_provider_type c)),
                        (''brokers'', JStr (kf_brokers c))] @ detail @ produced)))))"


subsection \<open>Topics are there after a successful check\<close>

lemma set_wanted: "set (wanted_topics ts) = {t \<in> set ts. t \<noteq> []}"
  by (auto simp: wanted_topics_def)

lemma create_missing_covers:
  "create_missing E L existing missing s = (Inr e, s') \<Longrightarrow> en_ok e \<Longrightarrow>
   set (en_created e) \<union> set (en_existing e) = set existing \<union> set missing"
  by (auto simp: create_missing_def tryA_Inr seqA_Inr split: if_splits)

lemma ensure_topics_covers:
  assumes "ensure_topics E L c ts s = (Inr e, s')" "en_ok e"
  shows "set (en_created e) \<union> set (en_existing e) = {t \<in> set ts. t \<noteq> []}"
proof (cases "wanted_topics ts = []")
  case True
  then show ?thesis using assms set_wanted [of ts] by (auto simp: ensure_topics_def)
next
  case False
  with assms obtain known s1 s2 where
    "(let existing = sort (filter (\<lambda>t. t \<in> set known) (wanted_topics ts));
          missing = filter (\<lambda>t. t \<notin> set known) (wanted_topics ts)
      in if missing \<noteq> [] then create_missing E L existing missing
         else ret \<lparr>en_ok = True, en_created = [], en_existing = existing, en_error = None\<rparr>) s1 = (Inr e, s2)"
    by (auto simp: ensure_topics_def Let_def seqA_Inr bindA_Inr finallyA_Inr tryA_Inr)
  then have "set (en_created e) \<union> set (en_existing e) = set (wanted_topics ts)"
    using create_missing_covers assms(2) by (fastforce simp: Let_def filter_empty_conv split: if_splits)
  then show ?thesis by (simp only: set_wanted)
qed

subsection \<open>The loop survives its errors and ends\<close>

lemma forA_Inr: "(\<And>x s. fst (f x s) = Inr ()) \<Longrightarrow> fst (forA xs f s) = Inr ()"
proof (induction xs arbitrary: s)
  case (Cons x xs)
  then show ?case by (cases "f x s") (metis fst_conv forA.simps(2) seqA_run_Inr)
qed (simp add: ret_def)

lemma poll_round_Inr: "fst (poll_round E L handler s) = Inr ()"
proof -
  have "fst (deliver E handler m s) = Inr ()" for m s
    by (cases m) (simp add: deliver_def ignoring_Inr)
  then have "fst (forA ms (\<lambda>m. bindA (askA (\<lambda>s. ka_handler (fst s))) (\<lambda>h. if h then deliver E handler m else ret ())) s) = Inr ()" for ms s
    by (intro forA_Inr) (simp add: bindA_def askA_def ret_def)
  then show ?thesis
    by (auto simp: poll_round_def bindA_def tryA_def ret_def split: prod.splits sum.splits)
qed

text \<open>When the stop flag or the closed flag is up after at most \<open>k\<close> rounds, more rounds of fuel than
  that end the loop.\<close>

definition after_round :: "(kafka_state \<times> 'w \<Rightarrow> kafka_state \<times> 'w) \<Rightarrow> ('w, unit) kop \<Rightarrow> kafka_state \<times> 'w \<Rightarrow> kafka_state \<times> 'w" where
  "after_round others body s = others (snd (body s))"

lemma poll_rounds_ends:
  assumes "\<And>s. fst (body s) = Inr ()" "k < n"
    and "ka_stop (fst ((after_round others body ^^ k) s)) \<or> ka_closed (fst ((after_round others body ^^ k) s))"
  shows "fst (poll_rounds n others body s) = Inr True"
  using assms(2,3)
proof (induction n arbitrary: k s)
  case (Suc n)
  show ?case
  proof (cases "ka_stop (fst s) \<or> ka_closed (fst s)")
    case True
    then show ?thesis by (simp add: bindA_def askA_def ret_def)
  next
    case False
    then obtain j where k: "k = Suc j" using Suc.prems(2) by (cases k) auto
    have "(after_round others body ^^ k) s = (after_round others body ^^ j) (after_round others body s)"
      by (simp add: k funpow_swap1)
    with Suc.prems k have "fst (poll_rounds n others body (after_round others body s)) = Inr True"
      by (intro Suc.IH [of j]) auto
    then show ?thesis
      using False assms(1) [of s]
      by (cases "body s") (simp add: bindA_def seqA_def askA_def modifyA_def after_round_def)
  qed
qed simp

subsection \<open>Closing\<close>

lemma aclose_closes:
  obtains w' where "kafka_aclose L (k, w) = (Inr (), (k\<lparr>ka_closed := True, ka_stop := True, ka_consumer := False, ka_producer := False\<rparr>, w'))"
proof -
  have run: "\<exists>w'. ignoring (on_snd m) (k, w) = (Inr (), (k, w'))" for m and k :: kafka_state and w :: 'a
    by (cases "m w"; cases "fst (m w)") (auto simp: ignoring_def on_snd_def tryA_def zoomA_def ret_def)
  define k1 where "k1 = k\<lparr>ka_closed := True, ka_stop := True\<rparr>"
  obtain w1 where one: "ignoring (on_snd (kl_consumer_stop L)) (k1, w) = (Inr (), (k1, w1))" using run by blast
  define k2 where "k2 = (if ka_consumer k then k1\<lparr>ka_consumer := False\<rparr> else k1)"
  define w2 where "w2 = (if ka_consumer k then w1 else w)"
  obtain w3 where two: "ignoring (on_snd (kl_producer_stop L)) (k2, w2) = (Inr (), (k2, w3))" using run by blast
  have k2: "ka_producer k2 = ka_producer k" "ka_consumer k1 = ka_consumer k"
    by (simp_all add: k1_def k2_def)
  have "kafka_aclose L (k, w) = (Inr (), (if ka_producer k then k2\<lparr>ka_producer := False\<rparr> else k2,
      if ka_producer k then w3 else w2))"
    using one two k2 unfolding kafka_aclose_def upd_fst_def
    by (cases "ka_consumer k"; cases "ka_producer k")
       (simp_all add: seqA_def bindA_def modifyA_def askA_def ret_def k2_def w2_def flip: k1_def)
  moreover have "(if ka_producer k then k2\<lparr>ka_producer := False\<rparr> else k2) =
      k\<lparr>ka_closed := True, ka_stop := True, ka_consumer := False, ka_producer := False\<rparr>"
    by (cases k) (simp add: k1_def k2_def)
  ultimately show thesis using that by metis
qed

subsection \<open>The provider as the outbox's bus\<close>

definition kafka_event_ops ::
  "'x env \<Rightarrow> 'x world kafka_lib \<Rightarrow> kafka_config \<Rightarrow> ('x \<Rightarrow> kafka_state) \<Rightarrow> (kafka_state \<Rightarrow> 'x \<Rightarrow> 'x) \<Rightarrow>
   'x world event_ops" where
  "kafka_event_ops E L c kget kput =
     \<lparr>eo_publish = (\<lambda>topic event. in_ext kget kput (kafka_publish E L c topic event)),
      eo_topic_prefix = (\<lambda>w. prefix_text c), eo_topic_map = (\<lambda>w. Some (kf_topic_map c))\<rparr>"

text \<open>Clients of a Kafka cluster do not touch the program's database session.\<close>

definition quiet_lib :: "'x world kafka_lib \<Rightarrow> bool" where
  "quiet_lib L \<longleftrightarrow>
     (\<forall>a. frames store (kl_admin_new L a)) \<and> frames store (kl_admin_start L) \<and>
     frames store (kl_list_topics L) \<and> (\<forall>ts. frames store (kl_create_topics L ts)) \<and>
     frames store (kl_admin_close L) \<and> (\<forall>a. frames store (kl_producer_new L a)) \<and>
     frames store (kl_producer_start L) \<and> (\<forall>t p k. frames store (kl_send L t p k)) \<and>
     frames store (kl_producer_stop L) \<and> (\<forall>a ts g. frames store (kl_consumer_new L a ts g)) \<and>
     frames store (kl_consumer_start L) \<and> frames store (kl_getmany L) \<and> frames store (kl_consumer_stop L)"

abbreviation kview :: "kafka_state \<times> 'x world \<Rightarrow> database \<times> database" where
  "kview p \<equiv> store (snd p)"

lemma frames_ensure_topics: "quiet_lib L \<Longrightarrow> frames kview (ensure_topics E L c ts)"
  unfolding ensure_topics_def create_missing_def Let_def quiet_lib_def
  by (intro frames_intros frames_on_snd [where f = store] frames_ignoring; simp)

lemma frames_publish: "quiet_lib L \<Longrightarrow> frames kview (kafka_publish E L c t e)"
  unfolding kafka_publish_def ensure_producer_def
  by (intro frames_intros frames_on_snd [where f = store] frames_upd_fst [where f = store] frames_ensure_topics; simp add: quiet_lib_def)

lemma kafka_is_bus:
  assumes "quiet_lib L"
  shows "event_env (E\<lparr>event_bus := kafka_event_ops E L c kget kput\<rparr>)"
  by unfold_locales (simp add: kafka_event_ops_def frames_in_ext frames_publish assms)

subsection \<open>A closed provider opens a producer again\<close>

text \<open>\<^verbatim>\<open>publish\<close> does not look at \<^verbatim>\<open>_closed\<close>: after \<^verbatim>\<open>aclose\<close> it starts a new producer, which
  nothing stops, since the manager closes an adapter once.\<close>

lemma ensure_keeps_state: "frames fst (ensure_topics E L c ts)"
proof -
  have create: "frames fst (create_missing E L es ms)" for es ms
    unfolding create_missing_def by (intro frames_try frames_seq frames_if frames_ret frames_raise frames_fst_on_snd)
  show ?thesis
    unfolding ensure_topics_def Let_def
    by (intro frames_if frames_ret frames_seq frames_finally frames_try frames_bind frames_fst_on_snd create frames_ignoring)
qed

lemma publish_keeps_closed:
  fixes L :: "'w kafka_lib"
  shows "frames (\<lambda>p. ka_closed (fst p)) (kafka_publish E L c t e)"
proof -
  have "frames (\<lambda>p. ka_closed (fst p)) (ensure_topics E L c ts)" for ts
    using ensure_keeps_state by (rule frames_via) simp
  moreover have "frames (\<lambda>p. ka_closed (fst p)) (on_snd m)" for m :: "('w, exn, unit) act"
    using frames_fst_on_snd by (rule frames_via) simp
  moreover have "frames (\<lambda>p. ka_closed (fst p)) (upd_fst (\<lambda>k. k\<lparr>ka_producer := True\<rparr>) :: ('w, unit) kop)"
    by (simp add: upd_fst_def frames_def modifyA_def)
  ultimately show ?thesis
    unfolding kafka_publish_def ensure_producer_def
    by (intro frames_bind frames_seq frames_if frames_ask frames_ret)
qed

lemma ensure_producer_there: "ensure_producer L c s = (Inr (), s') \<Longrightarrow> ka_producer (fst s')"
  by (auto simp: ensure_producer_def bindA_Inr seqA_Inr upd_fst_def split: if_splits)

lemma publish_after_close_leaks:
  assumes "kafka_aclose L (k, w) = (r, s)" "kafka_publish E L c t e s = (Inr (), s')"
  shows "ka_producer (fst s')" "ka_closed (fst s')"
proof -
  obtain s1 s2 where "ensure_producer L c s1 = (Inr (), s2)"
    and send: "on_snd (kl_send L t (json_dumps E (JObj e)) (message_key E e)) s2 = (Inr (), s')"
    using assms(2) unfolding kafka_publish_def bindA_Inr seqA_Inr by (elim exE conjE) (rule that)
  from this(1) have producer: "ka_producer (fst s2)" by (rule ensure_producer_there)
  show "ka_producer (fst s')"
    using producer framesD [OF frames_fst_on_snd send] by simp
  have "ka_closed (fst s)"
  proof (rule aclose_closes [of L k w])
    fix w' assume "kafka_aclose L (k, w) =
      (Inr (), (k\<lparr>ka_closed := True, ka_stop := True, ka_consumer := False, ka_producer := False\<rparr>, w'))"
    then show "ka_closed (fst s)" using assms(1) by auto
  qed
  then show "ka_closed (fst s')" using framesD [OF publish_keeps_closed assms(2)] by simp
qed

end
