(* ===== verification/Docker.thy ===== *)
theory Docker
  imports Manager
begin

text \<open>
  The Docker backend of the mock infrastructure (\<^verbatim>\<open>app/providers/infrastructure/mock_docker.py\<close>) and
  the availability check (\<^verbatim>\<open>docker_util.py\<close>) over the Docker SDK, which is a parameter
  (\<open>docker_lib\<close>). Instances are containers; the addresses are simulated by the allocator of
  \<open>MockInfra\<close>. The texts of the errors are left out.
\<close>

subsection \<open>State and SDK\<close>

record docker_backend =
  dk_host :: "string option"
  dk_client :: bool  \<comment> \<open>whether \<^verbatim>\<open>_client\<close> is set\<close>
  dk_counter :: nat  \<comment> \<open>the allocator's next number\<close>
  dk_ips :: "(string \<times> dict) list"
  dk_instances :: "(string \<times> dict) list"
  dk_probe_fail :: bool

definition new_docker :: "string option \<Rightarrow> docker_backend" where
  "new_docker host = \<lparr>dk_host = host, dk_client = False, dk_counter = 1, dk_ips = [], dk_instances = [],
     dk_probe_fail = False\<rparr>"

text \<open>Whether the package is installed; a client for a host; \<^verbatim>\<open>ping\<close>; \<^verbatim>\<open>containers.run\<close> with name and
  the external id of the label; \<^verbatim>\<open>get\<close> by id; \<^verbatim>\<open>list\<close> by the labels; and the calls of a container.\<close>

record 'w docker_lib =
  dl_installed :: bool
  dl_client :: "string option \<Rightarrow> ('w, exn, unit) act"
  dl_ping :: "('w, exn, unit) act"
  dl_run :: "string \<Rightarrow> string \<Rightarrow> ('w, exn, string) act"
  dl_get :: "string \<Rightarrow> ('w, exn, string) act"
  dl_list :: "string \<Rightarrow> ('w, exn, string list) act"
  dl_remove :: "string \<Rightarrow> ('w, exn, unit) act"
  dl_stop :: "string \<Rightarrow> ('w, exn, unit) act"
  dl_start :: "string \<Rightarrow> ('w, exn, unit) act"

type_synonym ('x, 'a) dop = "(docker_backend \<times> 'x world, exn, 'a) act"

definition docker_fault :: "docker_backend \<times> 'x world \<Rightarrow> bool" where
  "docker_fault s \<longleftrightarrow> dk_probe_fail (fst s) \<or> infra_fault_enabled (sim_flags (snd s))"

definition dk_set_probe_fail :: "bool \<Rightarrow> docker_backend \<Rightarrow> docker_backend" where
  "dk_set_probe_fail enabled B = B\<lparr>dk_probe_fail := enabled\<rparr>"

text \<open>A host that is empty counts as none.\<close>

definition client_host :: "string option \<Rightarrow> string option" where
  "client_host h = (case h of Some (c # t) \<Rightarrow> Some (c # t) | _ \<Rightarrow> None)"

definition get_client :: "'x world docker_lib \<Rightarrow> ('x, unit) dop" where
  "get_client L =
     bindA (askA (\<lambda>s. dk_client (fst s))) (\<lambda>there.
       if there then ret ()
       else if \<not> dl_installed L then raise (MockInfrastructureError ''DOCKER_SDK_MISSING'' 503)
       else bindA (askA (\<lambda>s. dk_host (fst s))) (\<lambda>host.
         tryA (seqA (on_snd (dl_client L (client_host host))) (upd_fst (\<lambda>B. B\<lparr>dk_client := True\<rparr>)))
           (\<lambda>_. raise (MockInfrastructureError ''DOCKER_UNAVAILABLE'' 503))))"

text \<open>The parts of a probe's answer: the error code, or none when the engine answered.\<close>

definition dk_probe :: "'x world docker_lib \<Rightarrow> ('x, string option) dop" where
  "dk_probe L =
     bindA (askA docker_fault) (\<lambda>fault.
       if fault then ret (Some ''INFRA_UNAVAILABLE'')
       else tryA (seqA (get_client L) (seqA (on_snd (dl_ping L)) (ret None)))
         (\<lambda>e. ret (Some (case e of MockInfrastructureError code st \<Rightarrow> code | _ \<Rightarrow> ''DOCKER_UNAVAILABLE''))))"

definition probe_answer :: "string option \<Rightarrow> dict" where
  "probe_answer error =
     (let base = (\<lambda>ok. [(''ok'', JBool ok), (''provider'', JStr ''mock''), (''backend'', JStr ''docker'')]) in
      case error of
        None \<Rightarrow> base True
      | Some code \<Rightarrow> base False @ [(''error'', JStr code)] @
          (if code = ''INFRA_UNAVAILABLE'' then [] else [(''hint'', JStr docker_socket_hint)]))"

subsection \<open>Addresses\<close>

definition infra_unavailable :: exn where
  "infra_unavailable = MockInfrastructureError ''INFRA_UNAVAILABLE'' 503"

text \<open>\<^verbatim>\<open>note\<close> is a remark for people and is left out.\<close>

definition dk_create_ip :: "'x env \<Rightarrow> string \<Rightarrow> ('x, dict) dop" where
  "dk_create_ip E region =
     bindA (askA docker_fault) (\<lambda>fault.
       if fault then raise infra_unavailable
       else
         bindA (on_snd (fresh_uuid E)) (\<lambda>u.
         bindA (askA (\<lambda>(B, w). next_address (uuid_at E) (addresses_in (dk_ips B)) (dk_counter B, drawn w)))
           (\<lambda>(addr, c', d').
           let external_id = ''mock-ip-'' @ take 12 (uuid_hex u);
               resource = [(''id'', JStr external_id), (''external_id'', JStr external_id),
                 (''ip_address'', JStr addr), (''region'', JStr region), (''status'', JStr ''allocated''),
                 (''provider'', JStr ''mock''), (''backend'', JStr ''docker'')]
           in seqA (on_snd (modifyA (\<lambda>w. w\<lparr>drawn := d'\<rparr>)))
              (seqA (upd_fst (\<lambda>B. B\<lparr>dk_counter := c', dk_ips := dict_set (dk_ips B) external_id resource\<rparr>))
                 (ret resource)))))"

definition dk_delete_ip :: "string \<Rightarrow> ('x, unit) dop" where
  "dk_delete_ip external_id =
     upd_fst (\<lambda>B. case map_of (dk_ips B) external_id of
        Some r \<Rightarrow> B\<lparr>dk_ips := dict_set (dk_ips B) external_id (dict_set r ''status'' (JStr ''released''))\<rparr>
      | None \<Rightarrow> B)"

definition dk_attach_ip :: "string \<Rightarrow> string \<Rightarrow> ('x, unit) dop" where
  "dk_attach_ip external_id instance_id =
     upd_fst (\<lambda>B. B\<lparr>dk_ips := dict_set (dk_ips B) external_id
        (case map_of (dk_ips B) external_id of
           None \<Rightarrow> [(''external_id'', JStr external_id), (''status'', JStr ''attached''),
                    (''instance_external_id'', JStr instance_id)]
         | Some r \<Rightarrow> dict_set (dict_set r ''status'' (JStr ''attached'')) ''instance_external_id'' (JStr instance_id))\<rparr>)"

definition dk_detach_ip :: "string \<Rightarrow> ('x, unit) dop" where
  "dk_detach_ip external_id =
     upd_fst (\<lambda>B. case map_of (dk_ips B) external_id of
        Some r \<Rightarrow> B\<lparr>dk_ips := dict_set (dk_ips B) external_id
          (dict_pop (dict_set r ''status'' (JStr ''detached'')) ''instance_external_id'')\<rparr>
      | None \<Rightarrow> B)"

definition dk_list_ips :: "string option \<Rightarrow> docker_backend \<Rightarrow> dict list" where
  "dk_list_ips region B =
     (let rows = map snd (dk_ips B) in
      case region of
        Some (c # t) \<Rightarrow> filter (\<lambda>r. dict_get r ''region'' JNull = JStr (c # t)) rows
      | _ \<Rightarrow> rows)"

definition dk_get_ip :: "string \<Rightarrow> docker_backend \<Rightarrow> dict option" where
  "dk_get_ip external_id B =
     (case map_of (dk_ips B) external_id of Some r \<Rightarrow> if r = [] then None else Some r | None \<Rightarrow> None)"

subsection \<open>Instances\<close>

text \<open>\<^verbatim>\<open>external_id[-12:]\<close>\<close>

definition last12 :: "string \<Rightarrow> string" where
  "last12 s = drop (length s - 12) s"

definition dk_create_instance :: "'x env \<Rightarrow> 'x world docker_lib \<Rightarrow> string \<Rightarrow> string option \<Rightarrow> ('x, dict) dop" where
  "dk_create_instance E L region label =
     bindA (askA docker_fault) (\<lambda>fault.
       if fault then raise infra_unavailable
       else seqA (get_client L)
         (bindA (on_snd (fresh_uuid E)) (\<lambda>u.
           let external_id = ''mock-inst-'' @ take 12 (uuid_hex u);
               lbl = (case label of Some (c # t) \<Rightarrow> c # t | _ \<Rightarrow> ''Lab Instance '' @ region)
           in bindA (tryA (on_snd (dl_run L (''bb-mock-'' @ last12 external_id) external_id))
                      (\<lambda>_. raise (MockInfrastructureError ''DOCKER_CREATE_FAILED'' 503))) (\<lambda>container_id.
              let resource = [(''id'', JStr external_id), (''external_id'', JStr external_id),
                    (''region'', JStr region), (''status'', JStr ''running''), (''provider'', JStr ''mock''),
                    (''backend'', JStr ''docker''), (''label'', JStr lbl), (''container_id'', JStr container_id),
                    (''auto_renew'', JBool True)]
              in seqA (upd_fst (\<lambda>B. B\<lparr>dk_instances := dict_set (dk_instances B) external_id resource\<rparr>))
                   (ret resource)))))"

text \<open>By the recorded id, else by the labels, which survive a restart of the program.\<close>

definition recorded_container :: "string \<Rightarrow> docker_backend \<Rightarrow> string option" where
  "recorded_container external_id B =
     (case dict_get (case map_of (dk_instances B) external_id of Some m \<Rightarrow> m | None \<Rightarrow> []) ''container_id'' JNull of
        JStr (c # t) \<Rightarrow> Some (c # t) | _ \<Rightarrow> None)"

definition container_for :: "'x world docker_lib \<Rightarrow> string \<Rightarrow> ('x, string option) dop" where
  "container_for L external_id =
     seqA (get_client L)
       (bindA (askA (\<lambda>s. recorded_container external_id (fst s))) (\<lambda>cid.
        bindA (case cid of
                 Some c \<Rightarrow> tryA (bindA (on_snd (dl_get L c)) (\<lambda>x. ret (Some x))) (\<lambda>_. ret None)
               | None \<Rightarrow> ret None) (\<lambda>direct.
          case direct of
            Some x \<Rightarrow> ret (Some x)
          | None \<Rightarrow> bindA (on_snd (dl_list L external_id)) (\<lambda>matches.
              ret (case matches of m # ms \<Rightarrow> Some m | [] \<Rightarrow> None)))))"

definition dk_set_status :: "string \<Rightarrow> string \<Rightarrow> ('x, unit) dop" where
  "dk_set_status external_id status =
     upd_fst (\<lambda>B. case map_of (dk_instances B) external_id of
        Some r \<Rightarrow> B\<lparr>dk_instances := dict_set (dk_instances B) external_id (dict_set r ''status'' (JStr status))\<rparr>
      | None \<Rightarrow> B)"

definition on_container ::
  "'x world docker_lib \<Rightarrow> string \<Rightarrow> (string \<Rightarrow> ('x, unit) dop) \<Rightarrow> ('x, unit) dop" where
  "on_container L external_id act =
     bindA (container_for L external_id) (\<lambda>c. case c of None \<Rightarrow> ret () | Some x \<Rightarrow> act x)"

text \<open>Destroying ignores an error of the daemon; suspending and starting report it.\<close>

definition dk_destroy_instance :: "'x world docker_lib \<Rightarrow> string \<Rightarrow> ('x, unit) dop" where
  "dk_destroy_instance L e =
     seqA (on_container L e (\<lambda>c. ignoring (on_snd (dl_remove L c)))) (dk_set_status e ''destroyed'')"

definition dk_suspend_instance :: "'x world docker_lib \<Rightarrow> string \<Rightarrow> ('x, unit) dop" where
  "dk_suspend_instance L e =
     seqA (on_container L e (\<lambda>c. tryA (on_snd (dl_stop L c))
                                   (\<lambda>_. raise (MockInfrastructureError ''DOCKER_SUSPEND_FAILED'' 503))))
       (dk_set_status e ''suspended'')"

definition dk_start_instance :: "'x world docker_lib \<Rightarrow> string \<Rightarrow> ('x, unit) dop" where
  "dk_start_instance L e =
     seqA (on_container L e (\<lambda>c. tryA (on_snd (dl_start L c))
                                   (\<lambda>_. raise (MockInfrastructureError ''DOCKER_START_FAILED'' 503))))
       (dk_set_status e ''running'')"

definition renew_in :: "string \<Rightarrow> bool \<Rightarrow> (string \<times> dict) list \<Rightarrow> (string \<times> dict) list" where
  "renew_in rid enabled rows =
     (case map_of rows rid of Some r \<Rightarrow> dict_set rows rid (dict_set r ''auto_renew'' (JBool enabled)) | None \<Rightarrow> rows)"

definition dk_set_auto_renew :: "string \<Rightarrow> bool \<Rightarrow> ('x, unit) dop" where
  "dk_set_auto_renew rid enabled =
     upd_fst (\<lambda>B. B\<lparr>dk_instances := renew_in rid enabled (dk_instances B), dk_ips := renew_in rid enabled (dk_ips B)\<rparr>)"

subsection \<open>The availability check (docker_util.py)\<close>

definition docker_engine_available :: "'w docker_lib \<Rightarrow> string option \<Rightarrow> ('w, exn, bool) act" where
  "docker_engine_available L host =
     (if \<not> dl_installed L then ret False
      else tryA (seqA (dl_client L (client_host host)) (seqA (dl_ping L) (ret True))) (\<lambda>_. ret False))"

definition docker_probe_failure :: "'w docker_lib \<Rightarrow> string option \<Rightarrow> ('w, exn, dict) act" where
  "docker_probe_failure L host =
     bindA (docker_engine_available L host) (\<lambda>ok.
       ret (probe_answer (if ok then None else Some ''DOCKER_UNAVAILABLE'')))"

subsection \<open>The backend as infrastructure provider\<close>

definition docker_infra_ops ::
  "'x env \<Rightarrow> 'x world docker_lib \<Rightarrow> ('x \<Rightarrow> docker_backend) \<Rightarrow> (docker_backend \<Rightarrow> 'x \<Rightarrow> 'x) \<Rightarrow> 'x world infra_ops" where
  "docker_infra_ops E L dget dput =
     \<lparr>io_probe = in_ext dget dput (bindA (dk_probe L) (\<lambda>e. ret (probe_answer e))),
      io_create_ip = (\<lambda>r. in_ext dget dput (dk_create_ip E r)),
      io_delete_ip = (\<lambda>e. in_ext dget dput (dk_delete_ip e)),
      io_attach_ip = (\<lambda>e i. in_ext dget dput (dk_attach_ip e i)),
      io_detach_ip = (\<lambda>e. in_ext dget dput (dk_detach_ip e)),
      io_create_instance = (\<lambda>r l. in_ext dget dput (dk_create_instance E L r l)),
      io_destroy_instance = (\<lambda>e. in_ext dget dput (dk_destroy_instance L e)),
      io_suspend_instance = (\<lambda>e. in_ext dget dput (dk_suspend_instance L e)),
      io_start_instance = (\<lambda>e. in_ext dget dput (dk_start_instance L e)),
      io_set_auto_renew = (\<lambda>e b. in_ext dget dput (dk_set_auto_renew e b)),
      io_list_ips = (\<lambda>r. in_ext dget dput (askA (\<lambda>s. dk_list_ips r (fst s)))),
      io_get_ip = (\<lambda>e. in_ext dget dput (askA (\<lambda>s. dk_get_ip e (fst s))))\<rparr>"

definition with_docker ::
  "'x world docker_lib \<Rightarrow> ('x \<Rightarrow> docker_backend) \<Rightarrow> (docker_backend \<Rightarrow> 'x \<Rightarrow> 'x) \<Rightarrow> 'x env \<Rightarrow> 'x env" where
  "with_docker L dget dput E = E\<lparr>infra := docker_infra_ops E L dget dput\<rparr>"

text \<open>The SDK talks to a daemon outside of the program.\<close>

definition quiet_docker :: "'x world docker_lib \<Rightarrow> bool" where
  "quiet_docker L \<longleftrightarrow> (\<forall>h. frames core (dl_client L h)) \<and> frames core (dl_ping L) \<and>
     (\<forall>n e. frames core (dl_run L n e)) \<and> (\<forall>c. frames core (dl_get L c)) \<and> (\<forall>e. frames core (dl_list L e)) \<and>
     (\<forall>c. frames core (dl_remove L c)) \<and> (\<forall>c. frames core (dl_stop L c)) \<and> (\<forall>c. frames core (dl_start L c))"

abbreviation dview :: "docker_backend \<times> 'x world \<Rightarrow>
    database \<times> database \<times> instant \<times> flags \<times> memory_lock \<times> memory_hits \<times>
    memory_session \<times> mock_broker \<times> event_state \<times> int \<times> int option" where
  "dview p \<equiv> core (snd p)"

lemmas docker_frames = frames_on_snd [where f = core] frames_upd_fst [where f = core] frames_ignoring

lemma core_ext [simp]: "core (w\<lparr>ext := x\<rparr>) = core w" "core (w\<lparr>drawn := n\<rparr>) = core w"
  by (simp_all add: core_def)

lemma frames_get_client: "quiet_docker L \<Longrightarrow> frames dview (get_client L)"
  unfolding get_client_def by (intro frames_intros docker_frames) (simp_all add: quiet_docker_def)

lemma frames_container_for: "quiet_docker L \<Longrightarrow> frames dview (container_for L e)"
  unfolding container_for_def
  by (intro frames_intros docker_frames frames_get_client) (simp_all add: quiet_docker_def)

lemma frames_fresh_core: "frames core (fresh_uuid E)"
  by (rule frames_fresh_uuid) simp

lemma frames_on_container:
  "quiet_docker L \<Longrightarrow> (\<And>c. frames dview (act c)) \<Longrightarrow> frames dview (on_container L e act)"
  unfolding on_container_def by (intro frames_intros frames_container_for)

lemma frames_docker:
  assumes "quiet_docker L"
  shows "frames dview (dk_probe L)" "frames dview (dk_create_ip E r)" "frames dview (dk_create_instance E L r l)"
    "frames dview (dk_destroy_instance L e)" "frames dview (dk_suspend_instance L e)"
    "frames dview (dk_start_instance L e)"
  unfolding dk_probe_def dk_create_ip_def dk_create_instance_def dk_destroy_instance_def
    dk_suspend_instance_def dk_start_instance_def dk_set_status_def Let_def
  using assms
  by ((intro frames_intros docker_frames frames_get_client frames_on_container frames_fresh_core frames_modify;
       simp add: quiet_docker_def)+)

lemma docker_is_provider:
  assumes "quiet_docker L"
  shows "infra_env (with_docker L dget dput E)"
  by unfold_locales
     (simp_all add: with_docker_def docker_infra_ops_def frames_in_ext frames_docker [OF assms] frames_bind frames_ret
       frames_ask dk_delete_ip_def dk_attach_ip_def dk_detach_ip_def dk_set_auto_renew_def
       frames_upd_fst [where f = core])

subsection \<open>Addresses and containers\<close>

text \<open>A new address is a documentation address, and not one the backend knows unless every candidate
  of the 64 rounds was taken.\<close>

lemma dk_create_ip_address:
  assumes "dk_create_ip E region (B, w) = (Inr resource, s')"
  obtains a where "dict_get resource ''ip_address'' JNull = JStr a" "a \<in> docnet_addresses"
    "a \<notin> set (addresses_in (dk_ips B)) \<or>
     (\<forall>i < 64. candidate_address (dk_counter B + i) (salt_of (uuid_at E (Suc (drawn w) + i))) \<in> set (addresses_in (dk_ips B)))"
proof -
  obtain a c' d' where addr: "next_address (uuid_at E) (addresses_in (dk_ips B)) (dk_counter B, Suc (drawn w)) = (a, c', d')"
    by (metis prod_cases3)
  have "dict_get resource ''ip_address'' JNull = JStr a"
    using assms addr
    by (auto simp: dk_create_ip_def bindA_def seqA_def askA_def on_snd_def zoomA_def fresh_uuid_def upd_fst_def
        modifyA_def raise_def ret_def Let_def dict_get_def infra_unavailable_def split: if_splits)
  with next_address_loop_spec [OF addr [unfolded next_address_def]] that show thesis by blast
qed

text \<open>A container the program has forgotten is found again by its label.\<close>

lemma container_found_by_label:
  assumes "dk_client B" "recorded_container e B = None" "dl_list L e w = (Inr (c # cs), w')"
  shows "container_for L e (B, w) = (Inr (Some c), (B, w'))"
  using assms
  by (simp add: container_for_def get_client_def seqA_def bindA_def askA_def ret_def on_snd_def zoomA_def)

end
