(* ===== verification/Seed.thy ===== *)
theory Seed
  imports World
begin

text \<open>
  The rows the program starts with (\<^verbatim>\<open>app/db/seed.py\<close>): an administrator, the provider
  configurations of the settings, a demonstration client with two mock brokers, and the
  configuration defaults, each added only where its query finds nothing. Hashing a password is a
  parameter. A primary key is drawn when its row is added.
\<close>

subsection \<open>Adding what is missing\<close>

text \<open>\<^verbatim>\<open>if (await session.execute(q)).scalar_one_or_none() is None: session.add(...)\<close>, and the same
  with \<^verbatim>\<open>scalars().first()\<close>.\<close>

definition add_unless ::
  "'x env \<Rightarrow> (database \<Rightarrow> 'r list) \<Rightarrow> (uuid \<Rightarrow> database \<Rightarrow> database) \<Rightarrow> ('x, unit) op" where
  "add_unless E q add =
     bindA (one_of q) (\<lambda>row. case row of Some r \<Rightarrow> ret () | None \<Rightarrow> bindA (fresh_uuid E) (\<lambda>u. upd_db (add u)))"

definition add_unless_any ::
  "'x env \<Rightarrow> (database \<Rightarrow> 'r list) \<Rightarrow> (uuid \<Rightarrow> database \<Rightarrow> database) \<Rightarrow> ('x, unit) op" where
  "add_unless_any E q add =
     bindA (ask_db (\<lambda>d. first_row (q d))) (\<lambda>row.
       case row of Some r \<Rightarrow> ret () | None \<Rightarrow> bindA (fresh_uuid E) (\<lambda>u. upd_db (add u)))"

subsection \<open>The rows\<close>

definition admin_rows :: "settings \<Rightarrow> database \<Rightarrow> user list" where
  "admin_rows C d = filter (\<lambda>u. u_email u = seed_admin_email C) (users d)"

definition add_admin :: "settings \<Rightarrow> (string \<Rightarrow> string) \<Rightarrow> uuid \<Rightarrow> database \<Rightarrow> database" where
  "add_admin C hash i d =
     d\<lparr>users := users d @ [\<lparr>u_id = i, u_client_id = None, u_email = seed_admin_email C, u_role = RoleAdmin,
        u_password_hash = Some (hash (seed_admin_password C)), u_is_active = True\<rparr>]\<rparr>"

definition seed_kinds :: "settings \<Rightarrow> (provider_kind \<times> string) list" where
  "seed_kinds C = [(PkInfrastructure, infra_provider C), (PkBrokerDefault, broker_provider C)]"

definition active_of :: "provider_kind \<Rightarrow> database \<Rightarrow> provider_config list" where
  "active_of kind d = filter (\<lambda>r. pc_kind r = kind \<and> pc_status r = PsActive) (provider_configs d)"

definition add_provider :: "settings \<Rightarrow> provider_kind \<Rightarrow> string \<Rightarrow> uuid \<Rightarrow> database \<Rightarrow> database" where
  "add_provider C kind ptype i d =
     d\<lparr>provider_configs := provider_configs d @
        [\<lparr>pc_id = i, pc_kind = kind, pc_provider_type = (if ptype \<noteq> [] then ptype else ''mock''),
          pc_scope_type = ScopeGlobal, pc_client_id = None, pc_status = PsActive, pc_version = 1,
          pc_config_encrypted = None,
          pc_config_non_secret = (if kind = PkInfrastructure
             then [(''mock_backend'', JStr (if mock_infra_backend C \<noteq> [] then mock_infra_backend C else ''database''))]
             else []),
          pc_last_validation_status = None, pc_last_validation_at = None, pc_activated_at = None,
          pc_created_by = None\<rparr>]\<rparr>"

definition demo_clients :: "database \<Rightarrow> client list" where
  "demo_clients d = filter (\<lambda>c. cl_name c = ''Demo Lab Client'') (clients d)"

definition seed_client :: "'x env \<Rightarrow> ('x, client) op" where
  "seed_client E =
     bindA (one_of demo_clients) (\<lambda>row.
       case row of
         Some c \<Rightarrow> ret c
       | None \<Rightarrow> bindA (fresh_uuid E) (\<lambda>u.
           let c = \<lparr>cl_id = u, cl_name = ''Demo Lab Client'', cl_status = ''active''\<rparr>
           in seqA (upd_db (\<lambda>d. d\<lparr>clients := clients d @ [c]\<rparr>)) (ret c)))"

definition default_items :: "settings \<Rightarrow> (string \<times> dict) list" where
  "default_items C =
     [(''ip.reuse.cooldown_hours'', [(''hours'', JInt (ip_reuse_cooldown_hours C))]),
      (''routing.weights'', [(''w_lat'', JFloat (25 / 100)), (''w_succ'', JFloat (30 / 100)),
         (''w_conn'', JFloat (15 / 100)), (''w_to'', JFloat (20 / 100)), (''w_ip'', JFloat (10 / 100))]),
      (''routing.health_thresholds'', [(''healthy_min'', JInt 80), (''degraded_min'', JInt 50)]),
      (''routing.require_assigned_ip'', [(''enabled'', JBool True)]),
      (''routing.policy'', [(''policy'', JStr ''WEIGHTED_SCORE'')]),
      (''rate_limit.exceed_policy'', [(''policy'', JStr ''REROUTE'')]),
      (''orders.execution_mode'', [(''mode'', JStr ''inline'')]),
      (''ip.rotation.drain_timeout_seconds'', [(''seconds'', JInt 30)]),
      (''ip.rotation.on_timeout'', [(''policy'', JStr ''ABORT'')]),
      (''subscription.teardown_mode'', [(''mode'', JStr ''SUSPEND'')])]"

definition add_item :: "string \<Rightarrow> dict \<Rightarrow> uuid \<Rightarrow> database \<Rightarrow> database" where
  "add_item key v i d =
     d\<lparr>config_items := config_items d @ [\<lparr>ci_id = i, ci_key = key, ci_value = v, ci_version = 1, ci_updated_by = None\<rparr>]\<rparr>"

definition brokers_of :: "uuid \<Rightarrow> database \<Rightarrow> broker_account list" where
  "brokers_of client_id d = filter (\<lambda>b. ba_client_id b = client_id) (brokers d)"

definition demo_accounts :: "uuid \<Rightarrow> string \<Rightarrow> uuid \<Rightarrow> uuid \<Rightarrow> broker_account list" where
  "demo_accounts client_id creds i j =
     [\<lparr>ba_id = i, ba_client_id = client_id, ba_provider_type = ''mock'', ba_display_name = ''Mock Alpha Broker'',
       ba_priority = 10, ba_enabled = True, ba_allowed_regions = [''ewr'', ''ord''],
       ba_capabilities = [(''asset_classes'', JList [JStr ''equities'']),
         (''order_types'', JList [JStr ''MARKET'', JStr ''LIMIT'']), (''supports_whitelist'', JBool True)],
       ba_credentials = creds, ba_rate_limit_rps = Some 50\<rparr>,
      \<lparr>ba_id = j, ba_client_id = client_id, ba_provider_type = ''mock'', ba_display_name = ''Mock Beta Broker'',
       ba_priority = 20, ba_enabled = True, ba_allowed_regions = [''ewr''],
       ba_capabilities = [(''asset_classes'', JList [JStr ''equities'', JStr ''fx'']),
         (''order_types'', JList [JStr ''MARKET'']), (''supports_whitelist'', JBool True),
         (''whitelist_format'', JStr ''xml'')],
       ba_credentials = creds, ba_rate_limit_rps = Some 25\<rparr>]"

definition seed_brokers :: "'x env \<Rightarrow> client \<Rightarrow> ('x, unit) op" where
  "seed_brokers E c =
     bindA (ask_db (\<lambda>d. first_row (brokers_of (cl_id c) d))) (\<lambda>row.
       case row of
         Some b \<Rightarrow> ret ()
       | None \<Rightarrow>
           let creds = encrypt E (json_dumps E (JObj [(''api_key'', JStr ''mock-demo-key''),
                         (''api_secret'', JStr ''mock-demo-secret'')]))
           in bindA (fresh_uuid E) (\<lambda>i. bindA (fresh_uuid E) (\<lambda>j.
                upd_db (\<lambda>d. d\<lparr>brokers := brokers d @ demo_accounts (cl_id c) creds i j\<rparr>))))"

definition seed_defaults :: "'x env \<Rightarrow> (string \<Rightarrow> string) \<Rightarrow> ('x, unit) op" where
  "seed_defaults E hash =
     (let C = cfg E in
      seqA (add_unless E (admin_rows C) (add_admin C hash))
      (seqA (forA (seed_kinds C) (\<lambda>(k, t). add_unless_any E (active_of k) (add_provider C k t)))
      (bindA (seed_client E) (\<lambda>c.
       seqA (forA (default_items C) (\<lambda>(k, v). add_unless E (config_rows k) (add_item k v)))
       (seqA (seed_brokers E c) commit)))))"

subsection \<open>What is there after seeding\<close>

definition one_row :: "'r list \<Rightarrow> bool" where
  "one_row rows \<longleftrightarrow> (\<exists>r. rows = [r])"

definition seeded :: "settings \<Rightarrow> database \<Rightarrow> bool" where
  "seeded C d \<longleftrightarrow> one_row (admin_rows C d) \<and> (\<forall>k \<in> fst ` set (seed_kinds C). active_of k d \<noteq> []) \<and>
     (\<exists>c. demo_clients d = [c] \<and> brokers_of (cl_id c) d \<noteq> []) \<and>
     (\<forall>k \<in> fst ` set (default_items C). one_row (config_rows k d))"

lemma one_row_scalar: "one_row rows \<Longrightarrow> \<exists>r. scalar_one_or_none rows = Inr (Some r)"
  by (auto simp: one_row_def)

lemma scalar_one_row: "scalar_one_or_none rows = Inr (Some r) \<longleftrightarrow> rows = [r]"
  by (cases rows rule: scalar_one_or_none.cases) auto

lemma scalar_no_row: "scalar_one_or_none rows = Inr None \<longleftrightarrow> rows = []"
  by (cases rows rule: scalar_one_or_none.cases) auto

lemma first_row_None: "first_row rows = None \<longleftrightarrow> rows = []"
  by (cases rows) (auto simp: first_row_def)

lemma add_unless_idle: "one_row (q (db w)) \<Longrightarrow> add_unless E q add w = (Inr (), w)"
  by (auto simp: add_unless_def one_of_run one_row_def bindA_def ret_def)

lemma add_unless_any_idle: "q (db w) \<noteq> [] \<Longrightarrow> add_unless_any E q add w = (Inr (), w)"
  by (cases "q (db w)") (auto simp: add_unless_any_def ask_db_run first_row_def bindA_def ret_def)

lemma forA_idle: "(\<And>x. x \<in> set xs \<Longrightarrow> f x w = (Inr (), w)) \<Longrightarrow> forA xs f w = (Inr (), w)"
  by (induction xs) (simp_all add: ret_def)

lemma seed_idle:
  assumes "seeded (cfg E) (db w)"
  shows "seed_defaults E hash w = (Inr (), w\<lparr>saved := db w\<rparr>)"
proof -
  let ?C = "cfg E"
  obtain c where c: "demo_clients (db w) = [c]" "brokers_of (cl_id c) (db w) \<noteq> []"
    using assms by (auto simp: seeded_def)
  have "add_unless E (admin_rows ?C) (add_admin ?C hash) w = (Inr (), w)"
    using assms by (intro add_unless_idle) (simp add: seeded_def)
  moreover have "forA (seed_kinds ?C) (\<lambda>(k, t). add_unless_any E (active_of k) (add_provider ?C k t)) w = (Inr (), w)"
    using assms by (intro forA_idle) (auto simp: seeded_def intro!: add_unless_any_idle)
  moreover have "seed_client E w = (Inr c, w)"
    using c(1) by (simp add: seed_client_def one_of_run bindA_def ret_def)
  moreover have "forA (default_items ?C) (\<lambda>(k, v). add_unless E (config_rows k) (add_item k v)) w = (Inr (), w)"
    using assms by (intro forA_idle) (auto simp: seeded_def intro!: add_unless_idle)
  moreover have "seed_brokers E c w = (Inr (), w)"
    using c(2) by (cases "brokers_of (cl_id c) (db w)")
      (auto simp: seed_brokers_def ask_db_run first_row_def bindA_def ret_def)
  ultimately show ?thesis by (simp add: seed_defaults_def Let_def commit_run)
qed


lemma add_unless_cases:
  assumes "add_unless E q add w = (Inr (), w')"
  obtains (there) "one_row (q (db w))" "w' = w" | (added) u where "q (db w) = []" "db w' = add u (db w)"
proof -
  obtain row where row: "scalar_one_or_none (q (db w)) = Inr row"
    using assms by (cases "scalar_one_or_none (q (db w))") (auto simp: add_unless_def bindA_def one_of_run)
  show thesis
  proof (cases row)
    case None
    then have "q (db w) = []" using row by (simp add: scalar_no_row)
    moreover from this have "db w' = add (uuid_at E (drawn w)) (db w)"
      using assms by (auto simp: add_unless_def bindA_def one_of_run fresh_uuid_run upd_db_run)
    ultimately show ?thesis by (rule added)
  next
    case (Some r)
    then have "q (db w) = [r]" using row by (simp add: scalar_one_row)
    moreover from this have "w' = w" using assms by (auto simp: add_unless_def bindA_def one_of_run ret_def)
    ultimately show ?thesis by (intro there) (simp_all add: one_row_def)
  qed
qed

lemma add_unless_any_cases:
  assumes "add_unless_any E q add w = (Inr (), w')"
  obtains (there) "q (db w) \<noteq> []" "w' = w" | (added) u where "q (db w) = []" "db w' = add u (db w)"
  using assms
  by (cases "q (db w)") (auto simp: add_unless_any_def bindA_def ask_db_run first_row_def ret_def fresh_uuid_run upd_db_run)

definition items_grown :: "string set \<Rightarrow> database \<Rightarrow> database \<Rightarrow> bool" where
  "items_grown ks d d' \<longleftrightarrow> (\<exists>new. d' = d\<lparr>config_items := config_items d @ new\<rparr>) \<and>
     (\<forall>k \<in> ks. one_row (config_rows k d')) \<and> (\<forall>k. one_row (config_rows k d) \<longrightarrow> one_row (config_rows k d'))"

lemma items_grown_refl: "items_grown {} d d"
  by (auto simp: items_grown_def intro: exI [of _ "[]"])

lemma items_grown_trans: "items_grown ks d d1 \<Longrightarrow> items_grown ks' d1 d' \<Longrightarrow> items_grown (ks \<union> ks') d d'"
  by (auto simp: items_grown_def)

lemma item_added:
  assumes "add_unless E (config_rows k) (add_item k v) w = (Inr (), w')"
  shows "items_grown {k} (db w) (db w')"
  using assms
proof (cases rule: add_unless_cases)
  case there
  then show ?thesis by (auto simp: items_grown_def intro: exI [of _ "[]"])
next
  case (added u)
  then show ?thesis by (auto simp: items_grown_def add_item_def config_rows_def one_row_def)
qed

lemma items_added:
  "forA kvs (\<lambda>(k, v). add_unless E (config_rows k) (add_item k v)) w = (Inr (), w') \<Longrightarrow>
   items_grown (fst ` set kvs) (db w) (db w')"
proof (induction kvs arbitrary: w)
  case Nil
  then show ?case by (simp add: items_grown_refl)
next
  case (Cons kv kvs)
  obtain k v where kv: "kv = (k, v)" by fastforce
  obtain w1 where "add_unless E (config_rows k) (add_item k v) w = (Inr (), w1)"
    "forA kvs (\<lambda>(k, v). add_unless E (config_rows k) (add_item k v)) w1 = (Inr (), w')"
    using Cons.prems by (auto simp: kv seqA_Inr)
  from items_grown_trans [OF item_added [OF this(1)] Cons.IH [OF this(2)]] show ?case by (simp add: kv)
qed

definition configs_grown :: "provider_kind set \<Rightarrow> database \<Rightarrow> database \<Rightarrow> bool" where
  "configs_grown ks d d' \<longleftrightarrow> (\<exists>new. d' = d\<lparr>provider_configs := provider_configs d @ new\<rparr>) \<and>
     (\<forall>k \<in> ks. active_of k d' \<noteq> []) \<and> (\<forall>k. active_of k d \<noteq> [] \<longrightarrow> active_of k d' \<noteq> [])"

lemma config_added:
  assumes "add_unless_any E (active_of k) (add_provider C k t) w = (Inr (), w')"
  shows "configs_grown {k} (db w) (db w')"
  using assms
proof (cases rule: add_unless_any_cases)
  case there
  then show ?thesis by (auto simp: configs_grown_def intro: exI [of _ "[]"])
next
  case (added u)
  then show ?thesis by (auto simp: configs_grown_def add_provider_def active_of_def)
qed

lemma configs_added:
  "forA kts (\<lambda>(k, t). add_unless_any E (active_of k) (add_provider C k t)) w = (Inr (), w') \<Longrightarrow>
   configs_grown (fst ` set kts) (db w) (db w')"
proof (induction kts arbitrary: w)
  case Nil
  then show ?case by (auto simp: configs_grown_def intro: exI [of _ "[]"])
next
  case (Cons kt kts)
  obtain k t where kt: "kt = (k, t)" by fastforce
  obtain w1 where "add_unless_any E (active_of k) (add_provider C k t) w = (Inr (), w1)"
    "forA kts (\<lambda>(k, t). add_unless_any E (active_of k) (add_provider C k t)) w1 = (Inr (), w')"
    using Cons.prems by (auto simp: kt seqA_Inr)
  with config_added [of E k C t w w1] Cons.IH [of w1] show ?case by (auto simp: kt configs_grown_def)
qed

lemma client_added:
  assumes "seed_client E w = (Inr c, w')"
  shows "demo_clients (db w') = [c]" "\<exists>new. db w' = (db w)\<lparr>clients := clients (db w) @ new\<rparr>"
proof -
  obtain row where row: "scalar_one_or_none (demo_clients (db w)) = Inr row"
    using assms by (cases "scalar_one_or_none (demo_clients (db w))") (auto simp: seed_client_def bindA_def one_of_run)
  have "demo_clients (db w') = [c] \<and> (\<exists>new. db w' = (db w)\<lparr>clients := clients (db w) @ new\<rparr>)"
  proof (cases row)
    case None
    then have "demo_clients (db w) = []" using row by (simp add: scalar_no_row)
    then show ?thesis
      using assms row None
      by (auto simp: seed_client_def bindA_def seqA_def one_of_run fresh_uuid_run upd_db_run ret_def Let_def
          demo_clients_def)
  next
    case (Some r)
    then have "demo_clients (db w) = [r]" using row by (simp add: scalar_one_row)
    then show ?thesis
      using assms row Some
      by (auto simp: seed_client_def bindA_def one_of_run ret_def intro: exI [of _ "[]"])
  qed
  then show "demo_clients (db w') = [c]" "\<exists>new. db w' = (db w)\<lparr>clients := clients (db w) @ new\<rparr>" by blast+
qed

lemma brokers_added:
  assumes "seed_brokers E c w = (Inr (), w')"
  shows "brokers_of (cl_id c) (db w') \<noteq> []" "\<exists>new. db w' = (db w)\<lparr>brokers := brokers (db w) @ new\<rparr>"
proof -
  have "brokers_of (cl_id c) (db w') \<noteq> [] \<and> (\<exists>new. db w' = (db w)\<lparr>brokers := brokers (db w) @ new\<rparr>)"
    using assms
    by (cases "brokers_of (cl_id c) (db w)")
       (auto simp: seed_brokers_def bindA_def ask_db_run first_row_def fresh_uuid_run upd_db_run ret_def Let_def
         brokers_of_def demo_accounts_def intro: exI [of _ "[]"])
  then show "brokers_of (cl_id c) (db w') \<noteq> []" "\<exists>new. db w' = (db w)\<lparr>brokers := brokers (db w) @ new\<rparr>" by blast+
qed

text \<open>A seeding that returned has added rows at the end of five tables, changed nothing else, and
  found or made everything it looks for; another one then changes nothing.\<close>

lemma seed_result:
  assumes "seed_defaults E hash w = (Inr (), w')"
  shows "seeded (cfg E) (db w')" "saved w' = db w'"
    "\<exists>us ps cs is bs. db w' = (db w)\<lparr>users := users (db w) @ us, provider_configs := provider_configs (db w) @ ps,
       clients := clients (db w) @ cs, config_items := config_items (db w) @ is, brokers := brokers (db w) @ bs\<rparr>"
proof -
  let ?C = "cfg E"
  obtain w1 w2 w3 w4 w5 c where steps:
    "add_unless E (admin_rows ?C) (add_admin ?C hash) w = (Inr (), w1)"
    "forA (seed_kinds ?C) (\<lambda>(k, t). add_unless_any E (active_of k) (add_provider ?C k t)) w1 = (Inr (), w2)"
    "seed_client E w2 = (Inr c, w3)"
    "forA (default_items ?C) (\<lambda>(k, v). add_unless E (config_rows k) (add_item k v)) w3 = (Inr (), w4)"
    "seed_brokers E c w4 = (Inr (), w5)" "w' = w5\<lparr>saved := db w5\<rparr>"
    using assms unfolding seed_defaults_def Let_def seqA_Inr bindA_Inr commit_run
    by (elim exE conjE) (rule that, auto)
  have admin: "one_row (admin_rows ?C (db w1)) \<and> (\<exists>us. db w1 = (db w)\<lparr>users := users (db w) @ us\<rparr>)"
    using steps(1)
  proof (cases rule: add_unless_cases)
    case there
    then show ?thesis by (auto intro: exI [of _ "[]"])
  next
    case (added u)
    then show ?thesis by (auto simp: add_admin_def admin_rows_def one_row_def)
  qed
  then obtain us where us: "db w1 = (db w)\<lparr>users := users (db w) @ us\<rparr>" by blast
  note configs = configs_added [OF steps(2)]
  then obtain ps where ps: "db w2 = (db w1)\<lparr>provider_configs := provider_configs (db w1) @ ps\<rparr>"
    by (auto simp: configs_grown_def)
  obtain cs where cs: "db w3 = (db w2)\<lparr>clients := clients (db w2) @ cs\<rparr>" using client_added(2) [OF steps(3)] by blast
  note items = items_added [OF steps(4)]
  then obtain "is" where "is": "db w4 = (db w3)\<lparr>config_items := config_items (db w3) @ is\<rparr>"
    by (auto simp: items_grown_def)
  obtain bs where bs: "db w5 = (db w4)\<lparr>brokers := brokers (db w4) @ bs\<rparr>" using brokers_added(2) [OF steps(5)] by blast
  have "admin_rows ?C (db w5) = admin_rows ?C (db w1)" "active_of k (db w5) = active_of k (db w2)"
    "demo_clients (db w5) = demo_clients (db w3)" "config_rows key (db w5) = config_rows key (db w4)" for k key
    by (simp_all add: ps cs "is" bs admin_rows_def active_of_def demo_clients_def config_rows_def)
  then show "seeded ?C (db w')"
    using admin configs items client_added(1) [OF steps(3)] brokers_added(1) [OF steps(5)] steps(6)
    by (simp add: seeded_def configs_grown_def items_grown_def)
  show "saved w' = db w'" using steps(6) by simp
  show "\<exists>us ps cs is bs. db w' = (db w)\<lparr>users := users (db w) @ us, provider_configs := provider_configs (db w) @ ps,
       clients := clients (db w) @ cs, config_items := config_items (db w) @ is, brokers := brokers (db w) @ bs\<rparr>"
    by (intro exI [of _ us] exI [of _ ps] exI [of _ cs] exI [of _ "is"] exI [of _ bs])
       (simp add: steps(6) us ps cs "is" bs)
qed

lemma seed_again:
  assumes "seed_defaults E hash w = (Inr (), w')"
  shows "seed_defaults E hash' w' = (Inr (), w')"
  using seed_idle [OF seed_result(1) [OF assms]] seed_result(2) [OF assms] by (cases w') simp


text \<open>It returns unless a query for one row finds two.\<close>

definition seedable :: "settings \<Rightarrow> database \<Rightarrow> bool" where
  "seedable C d \<longleftrightarrow> length (admin_rows C d) \<le> 1 \<and> length (demo_clients d) \<le> 1 \<and>
     (\<forall>k \<in> fst ` set (default_items C). length (config_rows k d) \<le> 1)"

lemma at_most_one_row: "length rows \<le> 1 \<Longrightarrow> rows = [] \<or> (\<exists>r. rows = [r])"
  by (cases rows) (auto simp: le_Suc_eq)

lemma one_row_length: "one_row rows \<Longrightarrow> length rows \<le> 1"
  by (auto simp: one_row_def)

lemma add_unless_returns: "length (q (db w)) \<le> 1 \<Longrightarrow> \<exists>w'. add_unless E q add w = (Inr (), w')"
  using at_most_one_row [of "q (db w)"]
  by (auto simp: add_unless_def bindA_def one_of_run fresh_uuid_run upd_db_run ret_def)

lemma items_return:
  "(\<forall>k \<in> fst ` set kvs. length (config_rows k (db w)) \<le> 1) \<Longrightarrow>
   \<exists>w'. forA kvs (\<lambda>(k, v). add_unless E (config_rows k) (add_item k v)) w = (Inr (), w')"
proof (induction kvs arbitrary: w)
  case (Cons kv kvs)
  obtain k v where kv: "kv = (k, v)" by fastforce
  obtain w1 where w1: "add_unless E (config_rows k) (add_item k v) w = (Inr (), w1)"
    using add_unless_returns [of "config_rows k" w E "add_item k v"] Cons.prems by (auto simp: kv)
  have "config_rows k' (db w1) = config_rows k' (db w)" if "k' \<noteq> k" for k'
    using w1 by (cases rule: add_unless_cases) (use that in \<open>auto simp: add_item_def config_rows_def\<close>)
  moreover have "length (config_rows k (db w1)) \<le> 1"
    using item_added [OF w1] by (intro one_row_length) (simp add: items_grown_def)
  ultimately have "\<forall>k' \<in> fst ` set kvs. length (config_rows k' (db w1)) \<le> 1"
    using Cons.prems by (metis kv fst_conv image_insert insert_iff list.simps(15))
  from Cons.IH [OF this] show ?case by (simp add: kv seqA_Inr w1)
qed (simp add: ret_def)

lemma kinds_return: "\<exists>w'. forA kts (\<lambda>(k, t). add_unless_any E (active_of k) (add_provider C k t)) w = (Inr (), w')"
proof (induction kts arbitrary: w)
  case (Cons kt kts)
  obtain k t where kt: "kt = (k, t)" by fastforce
  obtain w1 where "add_unless_any E (active_of k) (add_provider C k t) w = (Inr (), w1)"
    by (cases "active_of k (db w)")
       (auto simp: add_unless_any_def bindA_def ask_db_run first_row_def fresh_uuid_run upd_db_run ret_def)
  with Cons.IH [of w1] show ?case by (simp add: kt seqA_Inr)
qed (simp add: ret_def)

lemma seed_returns:
  assumes "seedable (cfg E) (db w)"
  shows "\<exists>w'. seed_defaults E hash w = (Inr (), w')"
proof -
  let ?C = "cfg E"
  obtain w1 where w1: "add_unless E (admin_rows ?C) (add_admin ?C hash) w = (Inr (), w1)"
    using add_unless_returns [of "admin_rows ?C" w E "add_admin ?C hash"] assms by (auto simp: seedable_def)
  have db1: "demo_clients (db w1) = demo_clients (db w)" "config_rows k (db w1) = config_rows k (db w)" for k
    using w1 by (cases rule: add_unless_cases; auto simp: add_admin_def demo_clients_def config_rows_def)+
  obtain w2 where w2: "forA (seed_kinds ?C) (\<lambda>(k, t). add_unless_any E (active_of k) (add_provider ?C k t)) w1 = (Inr (), w2)"
    using kinds_return by blast
  obtain new where "db w2 = (db w1)\<lparr>provider_configs := provider_configs (db w1) @ new\<rparr>"
    using configs_added [OF w2] by (auto simp: configs_grown_def)
  then have db2: "demo_clients (db w2) = demo_clients (db w)" "config_rows k (db w2) = config_rows k (db w)" for k
    using db1 by (simp_all add: demo_clients_def config_rows_def)
  obtain c w3 where w3: "seed_client E w2 = (Inr c, w3)"
    using at_most_one_row [of "demo_clients (db w2)"] assms
    by (auto simp: seedable_def db2 seed_client_def bindA_def seqA_def one_of_run fresh_uuid_run upd_db_run ret_def Let_def)
  have "config_rows k (db w3) = config_rows k (db w)" for k
    using client_added(2) [OF w3] db2 by (auto simp: config_rows_def)
  then obtain w4 where w4: "forA (default_items ?C) (\<lambda>(k, v). add_unless E (config_rows k) (add_item k v)) w3 = (Inr (), w4)"
    using items_return [of "default_items ?C" w3 E] assms by (auto simp: seedable_def)
  obtain w5 where w5: "seed_brokers E c w4 = (Inr (), w5)"
    by (cases "brokers_of (cl_id c) (db w4)")
       (auto simp: seed_brokers_def bindA_def ask_db_run first_row_def fresh_uuid_run upd_db_run ret_def Let_def)
  show ?thesis
    by (simp add: seed_defaults_def Let_def seqA_Inr bindA_Inr w1 w2 w3 w4 w5 commit_run)
qed


lemma seeded_seedable:
  assumes "seeded C d"
  shows "seedable C d"
proof -
  have "length (demo_clients d) \<le> 1" using assms by (auto simp: seeded_def)
  moreover have "length (admin_rows C d) \<le> 1"
    using assms one_row_length unfolding seeded_def by blast
  moreover have "\<forall>k \<in> fst ` set (default_items C). length (config_rows k d) \<le> 1"
    using assms one_row_length unfolding seeded_def by blast
  ultimately show ?thesis by (simp add: seedable_def)
qed

end
