(* ===== verification/Edge.thy ===== *)
theory Edge
  imports Api Worker Seed
begin

text \<open>
  Where the program meets its clients: request ids (\<^verbatim>\<open>app/core/middleware.py\<close>), the error
  envelope (\<^verbatim>\<open>app/core/exception_handlers.py\<close>, \<^verbatim>\<open>app/schemas/errors.py\<close>), the loop of the event
  socket (\<^verbatim>\<open>app/api/routes/ws_events.py\<close>) and the start of a process (\<^verbatim>\<open>lifespan\<close> of
  \<^verbatim>\<open>app/main.py\<close>).
\<close>

subsection \<open>Request ids\<close>

text \<open>Header keys are lower case, as ASGI delivers them.\<close>

fun incoming_request_id :: "(string \<times> string) list \<Rightarrow> string option" where
  "incoming_request_id [] = None"
| "incoming_request_id ((k, v) # headers) =
     (if k = ''x-request-id'' then Some v else incoming_request_id headers)"

text \<open>\<^verbatim>\<open>_incoming_request_id(scope) or str(uuid.uuid4())\<close>\<close>

definition request_id :: "'x env \<Rightarrow> (string \<times> string) list \<Rightarrow> ('x, string) op" where
  "request_id E headers =
     (case incoming_request_id headers of
        Some (c # t) \<Rightarrow> ret (c # t)
      | _ \<Rightarrow> bindA (fresh_uuid E) (\<lambda>u. ret (uuid_text u)))"

definition get_request_id :: "string option \<Rightarrow> string" where
  "get_request_id state = (case state of Some (c # t) \<Rightarrow> c # t | _ \<Rightarrow> ''unknown'')"

record http_response =
  hr_status :: int
  hr_headers :: "(string \<times> string) list"
  hr_content :: json

definition REQUEST_ID_HEADER :: string where
  "REQUEST_ID_HEADER = ''X-Request-ID''"

text \<open>\<^verbatim>\<open>send_with_request_id\<close>\<close>

definition with_request_id :: "string \<Rightarrow> http_response \<Rightarrow> http_response" where
  "with_request_id rid r = r\<lparr>hr_headers := dict_set (hr_headers r) REQUEST_ID_HEADER rid\<rparr>"

text \<open>The middleware around an application, which finds the id in its request's state.\<close>

definition middleware_call ::
  "'x env \<Rightarrow> (string \<times> string) list \<Rightarrow> (string option \<Rightarrow> ('x, http_response) op) \<Rightarrow> ('x, http_response) op" where
  "middleware_call E headers app =
     bindA (request_id E headers) (\<lambda>rid.
     bindA (app (Some rid)) (\<lambda>r. ret (with_request_id rid r)))"

subsection \<open>The error envelope\<close>

definition envelope :: "string \<Rightarrow> string \<Rightarrow> string \<Rightarrow> dict option \<Rightarrow> dict" where
  "envelope code message rid details =
     [(''error_code'', JStr code), (''message'', JStr message), (''request_id'', JStr rid),
      (''details'', JObj (case details of Some d \<Rightarrow> d | None \<Rightarrow> []))]"

definition error_response :: "int \<Rightarrow> string \<Rightarrow> string \<Rightarrow> string \<Rightarrow> dict option \<Rightarrow> http_response" where
  "error_response status code message rid details =
     \<lparr>hr_status = status, hr_headers = [(REQUEST_ID_HEADER, rid)],
      hr_content = JObj (envelope code message rid details)\<rparr>"

text \<open>The exceptions FastAPI hands to the four handlers, with what the handlers read of them.\<close>

datatype raised =
    RaisedApp string string int dict
  | RaisedValidation json
  | RaisedHttp int json
  | RaisedOther

fun handle_error :: "(json \<Rightarrow> string) \<Rightarrow> string option \<Rightarrow> raised \<Rightarrow> http_response" where
  "handle_error text_of state (RaisedApp code message status details) =
     error_response status code message (get_request_id state) (Some details)"
| "handle_error text_of state (RaisedValidation errors) =
     error_response 422 ''VALIDATION_ERROR'' ''Request validation failed'' (get_request_id state)
       (Some [(''errors'', errors)])"
| "handle_error text_of state (RaisedHttp status detail) =
     (let rid = get_request_id state in
      case detail of
        JObj d \<Rightarrow>
          if map_of d ''error_code'' \<noteq> None
          then \<lparr>hr_status = status, hr_headers = [(REQUEST_ID_HEADER, rid)], hr_content = JObj d\<rparr>
          else error_response status (''HTTP_'' @ show_int status) (py_str text_of detail) rid None
      | _ \<Rightarrow> error_response status (''HTTP_'' @ show_int status) (py_str text_of detail) rid None)"
| "handle_error text_of state RaisedOther =
     error_response 500 ''INTERNAL_ERROR'' ''An unexpected error occurred'' (get_request_id state) None"

text \<open>An endpoint of the application: its result rendered, or its exception handled. The text and
  details of an \<^verbatim>\<open>AppError\<close> come from \<open>about\<close>.\<close>

fun raised_by :: "(exn \<Rightarrow> string \<times> dict) \<Rightarrow> exn \<Rightarrow> raised" where
  "raised_by about (AppError code status) =
     RaisedApp code (fst (about (AppError code status))) status (snd (about (AppError code status)))"
| "raised_by about e = RaisedOther"

definition endpoint ::
  "'x env \<Rightarrow> (exn \<Rightarrow> string \<times> dict) \<Rightarrow> ('a \<Rightarrow> http_response) \<Rightarrow> ('x, 'a) op \<Rightarrow>
   string option \<Rightarrow> ('x, http_response) op" where
  "endpoint E about render m state =
     tryA (bindA m (\<lambda>a. ret (render a))) (\<lambda>e. ret (handle_error (str_of E) state (raised_by about e)))"

lemma get_request_id_some: "rid \<noteq> [] \<Longrightarrow> get_request_id (Some rid) = rid"
  by (cases rid) (simp_all add: get_request_id_def)

lemma uuid_text_nonempty: "uuid_text u \<noteq> []"
  by (simp add: uuid_text_def Let_def uuid_hex_def)

lemma request_id_run:
  obtains rid w' where "request_id E headers w = (Inr rid, w')" "rid \<noteq> []" "store w' = store w"
    "\<forall>t. incoming_request_id headers = Some t \<and> t \<noteq> [] \<longrightarrow> rid = t"
proof (cases "incoming_request_id headers = None \<or> incoming_request_id headers = Some []")
  case True
  then have "request_id E headers w = (Inr (uuid_text (uuid_at E (drawn w))), w\<lparr>drawn := Suc (drawn w)\<rparr>)"
    by (auto simp: request_id_def bindA_def fresh_uuid_run ret_def)
  then show thesis using True by (elim that [OF _ uuid_text_nonempty]) (auto simp: store_def)
next
  case False
  then obtain c t where t: "incoming_request_id headers = Some (c # t)" by (metis list.exhaust option.exhaust)
  show thesis by (rule that [of "c # t" w]) (simp_all add: request_id_def t ret_def)
qed

text \<open>Every call is answered, with the id its client sent or a fresh one in its header; an error
  also has it in its envelope.\<close>

definition is_envelope :: "string \<Rightarrow> string \<Rightarrow> http_response \<Rightarrow> bool" where
  "is_envelope code rid r \<longleftrightarrow> (\<exists>message details. hr_content r = JObj (envelope code message rid details))"

fun status_of :: "exn \<Rightarrow> int" where
  "status_of (AppError code status) = status"
| "status_of e = 500"

fun code_of :: "exn \<Rightarrow> string" where
  "code_of (AppError code status) = code"
| "code_of e = ''INTERNAL_ERROR''"

lemma handled:
  assumes "rid \<noteq> []"
  shows "hr_status (handle_error text_of (Some rid) (raised_by about e)) = status_of e"
    "is_envelope (code_of e) rid (handle_error text_of (Some rid) (raised_by about e))"
  using assms unfolding is_envelope_def
  by (cases e; auto simp: error_response_def get_request_id_some)+

lemma answered:
  fixes E :: "'x env"
  obtains rid r w1 w' where
    "middleware_call E headers (endpoint E about render m) w = (Inr r, w')"
    "rid \<noteq> []" "store w1 = store w" "w' = snd (m w1)"
    "map_of (hr_headers r) REQUEST_ID_HEADER = Some rid"
    "\<And>t. incoming_request_id headers = Some t \<Longrightarrow> t \<noteq> [] \<Longrightarrow> rid = t"
    "\<And>e. fst (m w1) = Inl e \<Longrightarrow> hr_status r = status_of e \<and> is_envelope (code_of e) rid r"
    "\<And>a. fst (m w1) = Inr a \<Longrightarrow> r = with_request_id rid (render a)"
proof -
  obtain rid w1 where rid: "request_id E headers w = (Inr rid, w1)" "rid \<noteq> []" "store w1 = store w"
    "\<forall>t. incoming_request_id headers = Some t \<and> t \<noteq> [] \<longrightarrow> rid = t"
    by (rule request_id_run [of E headers w])
  obtain res w' where m: "m w1 = (res, w')" by fastforce
  define r0 where "r0 = (case res of Inr a \<Rightarrow> render a
    | Inl e \<Rightarrow> handle_error (str_of E) (Some rid) (raised_by about e))"
  have run: "middleware_call E headers (endpoint E about render m) w = (Inr (with_request_id rid r0), w')"
    using rid(1) m
    by (cases res) (simp_all add: middleware_call_def endpoint_def bindA_def tryA_def ret_def r0_def)
  show thesis
  proof (rule that [OF run rid(2,3)])
    show "w' = snd (m w1)" by (simp add: m)
    show "map_of (hr_headers (with_request_id rid r0)) REQUEST_ID_HEADER = Some rid"
      by (simp add: with_request_id_def)
    show "rid = t" if "incoming_request_id headers = Some t" "t \<noteq> []" for t using rid(4) that by blast
    show "hr_status (with_request_id rid r0) = status_of e \<and> is_envelope (code_of e) rid (with_request_id rid r0)"
      if "fst (m w1) = Inl e" for e
      using that handled [OF rid(2), where text_of = "str_of E" and about = about and e = e]
      by (simp add: m r0_def with_request_id_def is_envelope_def)
    show "with_request_id rid r0 = with_request_id rid (render a)" if "fst (m w1) = Inr a" for a
      using that by (simp add: m r0_def)
  qed
qed


subsection \<open>The event socket\<close>

text \<open>The five entries of an event the fingerprint looks at; \<open>json_time\<close> is the text pydantic
  gives a time.\<close>

fun event_key :: "(instant \<Rightarrow> string) \<Rightarrow> bus_row + outbox_event \<Rightarrow> json" where
  "event_key json_time (Inl r) =
     JList [JStr (br_id r), JStr ''consumed'', br_occurred_at r, JNull, JStr (br_source r)]"
| "event_key json_time (Inr row) =
     JList [JStr (uuid_text (ob_id row)), JStr (ob_status row),
            (case ob_sent_at row of Some t \<Rightarrow> JStr (json_time t) | None \<Rightarrow> JNull),
            (case ob_error row of Some e \<Rightarrow> JStr e | None \<Rightarrow> JNull), JStr ''outbox'']"

text \<open>\<open>dumps\<close> is \<^verbatim>\<open>json.dumps\<close> with the compact separators.\<close>

definition fingerprint ::
  "'x env \<Rightarrow> (json \<Rightarrow> string) \<Rightarrow> (instant \<Rightarrow> string) \<Rightarrow> (bus_row + outbox_event) list \<Rightarrow> string" where
  "fingerprint E dumps json_time events =
     take 24 (sha256 E (dumps (JList (map (event_key json_time) events))))"

record ws_message =
  wm_type :: string
  wm_fingerprint :: string
  wm_feed :: string
  wm_events :: "(bus_row + outbox_event) list"

text \<open>One round of the loop: the message it sends, if any, and the new \<^verbatim>\<open>last_fp\<close>.\<close>

definition ws_round ::
  "'x env \<Rightarrow> (json \<Rightarrow> string) \<Rightarrow> (instant \<Rightarrow> string) \<Rightarrow> int \<Rightarrow> string option \<Rightarrow>
   ('x, ws_message option \<times> string) op" where
  "ws_round E dumps json_time lmt last_fp =
     bindA (feed_rows lmt) (\<lambda>rows.
       let (feed, events) = (case rows of Inl items \<Rightarrow> (''consumed'', map Inl items)
                             | Inr rs \<Rightarrow> (''outbox'', map Inr rs));
           fp = fingerprint E dumps json_time events
       in ret (if Some fp \<noteq> last_fp
               then Some \<lparr>wm_type = (if last_fp = None then ''snapshot'' else ''update''),
                          wm_fingerprint = fp, wm_feed = feed, wm_events = events\<rparr>
               else None, fp))"

text \<open>The loop until the client disconnects, given what happens in the program before each
  round.\<close>

fun ws_rounds ::
  "'x env \<Rightarrow> (json \<Rightarrow> string) \<Rightarrow> (instant \<Rightarrow> string) \<Rightarrow> int \<Rightarrow> string option \<Rightarrow>
   ('x world \<Rightarrow> 'x world) list \<Rightarrow> ('x, ws_message list) op" where
  "ws_rounds E dumps json_time lmt last_fp [] = ret []"
| "ws_rounds E dumps json_time lmt last_fp (f # fs) =
     seqA (modifyA f)
       (bindA (ws_round E dumps json_time lmt last_fp) (\<lambda>(msg, fp).
        bindA (ws_rounds E dumps json_time lmt (Some fp) fs) (\<lambda>msgs.
          ret (case msg of Some m \<Rightarrow> m # msgs | None \<Rightarrow> msgs))))"

datatype ws_outcome = Refused int | Sent "ws_message list"

definition outbox_events_ws ::
  "auth_lib \<Rightarrow> 'x env \<Rightarrow> (json \<Rightarrow> string) \<Rightarrow> (instant \<Rightarrow> string) \<Rightarrow> string option \<Rightarrow> int \<Rightarrow>
   ('x world \<Rightarrow> 'x world) list \<Rightarrow> ('x, ws_outcome) op" where
  "outbox_events_ws A E dumps json_time token lmt fs =
     bindA (authenticate_ws A E token) (\<lambda>user.
       case user of
         None \<Rightarrow> ret (Refused 4401)
       | Some u \<Rightarrow> bindA (ws_rounds E dumps json_time lmt None fs) (\<lambda>msgs. ret (Sent msgs)))"

text \<open>What the feed shows: the rows a poll at this moment would send.\<close>

definition feed_of :: "int \<Rightarrow> 'x world \<Rightarrow> (bus_row + outbox_event) list" where
  "feed_of lmt w =
     (case fst (feed_rows lmt w) of
        Inr (Inl items) \<Rightarrow> map Inl items
      | Inr (Inr rows) \<Rightarrow> map Inr rows
      | Inl e \<Rightarrow> [])"

lemma feed_rows_run: "\<exists>rows. feed_rows lmt w = (Inr rows, w)"
  by (auto simp: feed_rows_def bindA_def askA_def ret_def list_outbox_def ask_db_run Let_def split: prod.splits)

lemma ws_round_run:
  fixes E :: "'x env" and dumps json_time lmt
  defines "fp \<equiv> \<lambda>w. fingerprint E dumps json_time (feed_of lmt w)"
  shows "\<exists>m. wm_type m = (if last_fp = None then ''snapshot'' else ''update'') \<and> wm_fingerprint m = fp w \<and>
    wm_events m = feed_of lmt w \<and>
    ws_round E dumps json_time lmt last_fp w = (Inr (if Some (fp w) \<noteq> last_fp then Some m else None, fp w), w)"
proof -
  obtain rows where rows: "feed_rows lmt w = (Inr rows, w)" using feed_rows_run by blast
  show ?thesis
    by (rule exI [of _ "\<lparr>wm_type = (if last_fp = None then ''snapshot'' else ''update''), wm_fingerprint = fp w,
          wm_feed = (case rows of Inl _ \<Rightarrow> ''consumed'' | Inr _ \<Rightarrow> ''outbox''), wm_events = feed_of lmt w\<rparr>"];
        cases rows; simp add: ws_round_def bindA_def rows ret_def feed_of_def fp_def Let_def)
qed

text \<open>What a client holds after some rounds is what the feed shows, up to the fingerprint; it got
  nothing twice in a row.\<close>

lemma ws_rounds_follow:
  fixes E :: "'x env" and dumps json_time lmt
  defines "fp \<equiv> \<lambda>w. fingerprint E dumps json_time (feed_of lmt w)"
  assumes "ws_rounds E dumps json_time lmt last_fp fs w = (r, w')"
  shows "\<exists>msgs. r = Inr msgs \<and>
    successively (\<noteq>) ((case last_fp of Some p \<Rightarrow> [p] | None \<Rightarrow> []) @ map wm_fingerprint msgs) \<and>
    (\<forall>m \<in> set msgs. wm_fingerprint m = fingerprint E dumps json_time (wm_events m)) \<and>
    (\<forall>m \<in> set (if last_fp = None then tl msgs else msgs). wm_type m = ''update'') \<and>
    (fs \<noteq> [] \<longrightarrow> (case last_fp of Some p \<Rightarrow> last (p # map wm_fingerprint msgs) = fp w'
                    | None \<Rightarrow> msgs \<noteq> [] \<and> wm_type (hd msgs) = ''snapshot'' \<and> wm_fingerprint (last msgs) = fp w'))"
  using assms(2)
proof (induction fs arbitrary: last_fp w r w')
  case Nil
  then show ?case by (auto simp: ret_def split: option.splits)
next
  case (Cons f fs)
  obtain m where m: "wm_type m = (if last_fp = None then ''snapshot'' else ''update'')" "wm_fingerprint m = fp (f w)"
    "wm_events m = feed_of lmt (f w)"
    "ws_round E dumps json_time lmt last_fp (f w) = (Inr (if Some (fp (f w)) \<noteq> last_fp then Some m else None, fp (f w)), f w)"
    unfolding fp_def using ws_round_run by blast
  obtain r1 w1 where rest: "ws_rounds E dumps json_time lmt (Some (fp (f w))) fs (f w) = (r1, w1)" by fastforce
  obtain msgs where msgs: "r1 = Inr msgs" "successively (\<noteq>) (fp (f w) # map wm_fingerprint msgs)"
    "\<forall>m \<in> set msgs. wm_fingerprint m = fingerprint E dumps json_time (wm_events m)"
    "\<forall>m \<in> set msgs. wm_type m = ''update''" "fs \<noteq> [] \<longrightarrow> last (fp (f w) # map wm_fingerprint msgs) = fp w1"
    using Cons.IH [OF rest] by auto
  have "fs = [] \<longrightarrow> msgs = [] \<and> w1 = f w" using rest msgs(1) by (auto simp: ret_def)
  then have final: "last (fp (f w) # map wm_fingerprint msgs) = fp w1" using msgs(5) by auto
  have run: "r = Inr (if Some (fp (f w)) \<noteq> last_fp then m # msgs else msgs)" "w' = w1"
    using Cons.prems m(4) rest msgs(1) by (auto simp: modifyA_def seqA_def bindA_def ret_def split: if_splits)
  show ?case
  proof (cases "Some (fp (f w)) = last_fp")
    case True
    then show ?thesis using run msgs final by auto
  next
    case False
    have "fp (f w) = fingerprint E dumps json_time (wm_events m)" by (simp add: m(3) fp_def)
    moreover have "last_fp = Some p \<Longrightarrow> p \<noteq> fp (f w)" for p using False by auto
    ultimately show ?thesis
      using run msgs(2-4) final False m(1,2)
      by (cases last_fp) (auto simp: last_map successively_Cons split: if_splits)
  qed
qed

text \<open>A socket that was refused sends nothing, and no poll changes anything.\<close>

lemma ws_refused:
  assumes "outbox_events_ws A E dumps json_time token lmt fs w = (Inr (Refused c), w')"
  shows "c = 4401" "fst (authenticate_ws A E token w) = Inr None"
  using assms
  by (auto simp: outbox_events_ws_def bindA_def ret_def split: prod.splits sum.splits option.splits)

lemma authenticate_ws_user:
  assumes "authenticate_ws A E token w = (Inr (Some u), w')"
  shows "u \<in> set (users (db w)) \<and> u_is_active u \<and> u_role u \<in> set ws_allowed"
proof -
  obtain t where t: "token = Some t" "t \<noteq> []"
    using assms by (cases token) (auto simp: authenticate_ws_def ret_def split: if_splits)
  define who where "who = tryA (bindA (decode_access_token A E t) (\<lambda>payload.
      bindA (liftA (user_id_from_payload E payload)) (\<lambda>i. ret (Some i)))) (\<lambda>_. ret None)"
  have "snd (who w) = w"
    by (auto simp: who_def decode_access_token_def tryA_def liftA_def run_simps split: sum.splits prod.splits)
  then obtain i where "who w = (Inr (Some i), w)" and one: "one_of (users_with_id i) w = (Inr (Some u), w)"
    and "u_is_active u" "u_role u \<in> set ws_allowed"
    using assms t
    by (cases "who w")
       (auto simp: authenticate_ws_def who_def [symmetric] bindA_def ret_def one_of_run
         split: sum.splits option.splits if_splits)
  moreover have "u \<in> set (users_with_id i (db w))"
    using one by (cases "users_with_id i (db w)" rule: scalar_one_or_none.cases) (auto simp: one_of_run)
  ultimately show ?thesis by (simp add: users_with_id_def)
qed

subsection \<open>Starting a process\<close>

text \<open>\<^verbatim>\<open>lifespan\<close> up to the consumer task, which then runs as in \<open>Worker\<close>: the seeding, and the first
  look at the infrastructure, whose exceptions are swallowed.\<close>

definition startup :: "'x env \<Rightarrow> 'x engine \<Rightarrow> (string \<Rightarrow> string) \<Rightarrow> ('x, unit) wop" where
  "startup E engine hash =
     in_session (seqA (on_manager (on_world (seed_defaults E hash)))
       (swallow (discard (on_manager (describe_infrastructure E engine True)))))"

lemma frames_store_install: "frames (\<lambda>p. store (fst p)) (install key a)"
  by (rule framesI) (metis Pair_inject fst_conv install_run prod.collapse store_fresh_instance)

lemma frames_store_describe: "frames (\<lambda>p. store (fst p)) (describe_infrastructure E engine d)"
  unfolding describe_infrastructure_def get_infrastructure_provider_def build_mock_infra_def active_row_def Let_def
  by (intro frames_intros frames_store_install frames_store_manager frames_store_world)

text \<open>A start that succeeds leaves the seeded rows committed and changes no others; the next start,
  over any state of the process, finds them and changes nothing in the database.\<close>

lemma startup_seeds:
  assumes "startup E engine hash s = (Inr (), s')"
  shows "\<exists>w. seed_defaults E hash (wk_world s) = (Inr (), w) \<and> rests (db w) s'"
proof -
  obtain r w where seed: "seed_defaults E hash (wk_world s) = (r, w)" by fastforce
  have on: "on_manager (on_world (seed_defaults E hash)) s = (r, s\<lparr>wk_world := w\<rparr>)"
    using seed by (simp add: on_manager_def on_world_def zoomA_def)
  have r: "r = Inr ()"
    using assms by (cases r) (simp_all add: startup_def in_session_def finallyA_def seqA_def bindA_def on rollback_tick)
  have "rests (db w) (s\<lparr>wk_world := w\<rparr>)"
    using seed_result(2) [of E hash "wk_world s" w] seed r by (simp add: store_def)
  moreover have "keeps (rests (db w)) (in_session (swallow (discard (on_manager (describe_infrastructure E engine True)))))"
    by (intro keeps_rests_session keeps_swallow keeps_discard keeps_rests_manager frames_store_describe)
  ultimately have "rests (db w) (snd (in_session (swallow (discard (on_manager (describe_infrastructure E engine True)))) (s\<lparr>wk_world := w\<rparr>)))"
    by (rule keeps_snd [rotated])
  moreover have "startup E engine hash s =
      in_session (swallow (discard (on_manager (describe_infrastructure E engine True)))) (s\<lparr>wk_world := w\<rparr>)"
    by (simp add: startup_def in_session_def finallyA_def seqA_def bindA_def on r)
  ultimately have "rests (db w) s'" using assms by (metis snd_conv)
  then show ?thesis using seed r by auto
qed

lemma startup_returns:
  assumes "seedable (cfg E) (db (wk_world s))"
  shows "\<exists>s'. startup E engine hash s = (Inr (), s')"
proof -
  obtain w where seed: "seed_defaults E hash (wk_world s) = (Inr (), w)"
    using seed_returns [OF assms] by blast
  have "on_manager (on_world (seed_defaults E hash)) s = (Inr (), s\<lparr>wk_world := w\<rparr>)"
    using seed by (simp add: on_manager_def on_world_def zoomA_def)
  moreover obtain s1 where "swallow (discard (on_manager (describe_infrastructure E engine True))) (s\<lparr>wk_world := w\<rparr>) = (Inr (), s1)"
    using swallow_Inr by (metis prod.collapse)
  ultimately show ?thesis
    by (simp add: startup_def in_session_def finallyA_def seqA_def bindA_def rollback_tick)
qed

lemma startup_again:
  assumes "startup E engine hash s = (Inr (), s')" "store (wk_world t) = store (wk_world s')"
  shows "\<exists>t'. startup E engine' hash' t = (Inr (), t') \<and> store (wk_world t') = store (wk_world s')"
proof -
  obtain w where w: "seed_defaults E hash (wk_world s) = (Inr (), w)" "rests (db w) s'"
    using startup_seeds [OF assms(1)] by blast
  have t: "db (wk_world t) = db w" using assms(2) w(2) by (simp add: store_def)
  have seeded: "seeded (cfg E) (db (wk_world t))" using seed_result(1) [OF w(1)] t by simp
  then have idle: "seed_defaults E hash' (wk_world t) = (Inr (), (wk_world t)\<lparr>saved := db w\<rparr>)"
    using seed_idle [of E "wk_world t" hash'] t by simp
  obtain t' where t': "startup E engine' hash' t = (Inr (), t')"
    using startup_returns [OF seeded_seedable [OF seeded]] by blast
  with startup_seeds [OF t'] idle t w(2) show ?thesis by auto
qed


subsection \<open>What was sent is shown\<close>

text \<open>The row of the ring buffer for an outbox row.\<close>

definition shown_row ::
  "'x env \<Rightarrow> string option \<Rightarrow> dict option \<Rightarrow> string \<Rightarrow> instant \<Rightarrow> outbox_event \<Rightarrow> bus_row" where
  "shown_row E tp tm producer now r =
     \<lparr>br_id = uuid_text (ob_id r),
      br_event_type = (if ob_event_type r \<noteq> [] then ob_event_type r else ''unknown''),
      br_topic = resolve_physical_topic (str_of E) (ob_topic r) tp tm, br_payload = ob_payload r,
      br_correlation_id = (case ob_correlation_id r of None \<Rightarrow> JNull | Some c \<Rightarrow> JStr c),
      br_occurred_at = JStr (isotext E now),
      br_source = ''consumed'', br_env_event_id = JStr (uuid_text (ob_id r)), br_env_producer = JStr producer\<rparr>"

abbreviation envelope_of :: "'x env \<Rightarrow> string \<Rightarrow> instant \<Rightarrow> outbox_event \<Rightarrow> dict" where
  "envelope_of E producer now r \<equiv> build_envelope (isotext E) now (ob_event_type r) (ob_payload r) producer
     (ob_correlation_id r) (ob_id r)"

lemma bus_row_of_envelope:
  "bus_row_of (str_of E) (isotext E now) n (resolve_physical_topic (str_of E) (ob_topic r) tp tm)
     (envelope_of E producer now r) ''consumed'' = shown_row E tp tm producer now r"
  using uuid_text_nonempty [of "ob_id r"]
  by (auto simp: bus_row_of_def shown_row_def build_envelope_def dict_get_def py_or_def)


abbreviation add_shown ::
  "'x env \<Rightarrow> string option \<Rightarrow> dict option \<Rightarrow> string \<Rightarrow> instant \<Rightarrow> outbox_event \<Rightarrow> bus_buffer \<Rightarrow> bus_buffer" where
  "add_shown E tp tm producer now r \<equiv>
     buffer_append (str_of E) (isotext E now) (resolve_physical_topic (str_of E) (ob_topic r) tp tm)
       (envelope_of E producer now r) ''consumed''"

lemma envelope_id: "truthy (dict_get (envelope_of E producer now r) ''event_id'' JNull)"
  by (simp add: build_envelope_def dict_get_def uuid_text_nonempty)

lemma add_shown_again:
  "0 < bb_maxlen B \<Longrightarrow> add_shown E tp tm producer now r (add_shown E tp tm producer now r B) = add_shown E tp tm producer now r B"
  by (rule buffer_append_idem) (simp_all add: envelope_id)

lemma add_shown_rows:
  "bb_rows (add_shown E tp tm producer now r B) =
     (if uuid_text (ob_id r) \<in> br_id ` set (bb_rows B) then bb_rows B
      else take (bb_maxlen B) (shown_row E tp tm producer now r # bb_rows B))"
  "bb_maxlen (add_shown E tp tm producer now r B) = bb_maxlen B"
  by (auto simp: buffer_append_def Let_def bus_row_of_envelope) (simp_all add: shown_row_def)

text \<open>The handlers of the in-process bus and the drain itself append the same event, which is kept
  once.\<close>

lemma handlers_append:
  assumes "0 < bb_maxlen (ev_buffer S)"
  shows "\<exists>B. forA hs (\<lambda>filt. if wants filt (resolve_physical_topic (str_of E) (ob_topic r) tp tm)
        then on_consumed_event (str_of E) (isotext E now) (resolve_physical_topic (str_of E) (ob_topic r) tp tm)
               (envelope_of E producer now r)
        else ret ()) S = (Inr (), S\<lparr>ev_buffer := B\<rparr>) \<and>
      (B = ev_buffer S \<or> B = add_shown E tp tm producer now r (ev_buffer S))"
  using assms
proof (induction hs arbitrary: S)
  case Nil
  then show ?case by (auto simp: ret_def intro: exI [of _ "ev_buffer S"])
next
  case (Cons filt hs)
  let ?A = "add_shown E tp tm producer now r"
  let ?t = "resolve_physical_topic (str_of E) (ob_topic r) tp tm"
  show ?case
  proof (cases "wants filt ?t")
    case True
    obtain B where "forA hs (\<lambda>filt. if wants filt ?t then on_consumed_event (str_of E) (isotext E now) ?t
          (envelope_of E producer now r) else ret ()) (S\<lparr>ev_buffer := ?A (ev_buffer S)\<rparr>) = (Inr (), S\<lparr>ev_buffer := B\<rparr>)"
      "B = ?A (ev_buffer S) \<or> B = ?A (?A (ev_buffer S))"
      using Cons.IH [of "S\<lparr>ev_buffer := ?A (ev_buffer S)\<rparr>"] Cons.prems by (auto simp: add_shown_rows(2))
    then show ?thesis
      using True add_shown_again [OF Cons.prems, where E = E and tp = tp and tm = tm and producer = producer and now = now and r = r]
      by (intro exI [of _ B]) (auto simp: seqA_def bindA_def on_consumed_event_def modifyA_def)
  next
    case False
    then show ?thesis using Cons.IH [OF Cons.prems] by (simp add: seqA_def bindA_def ret_def)
  qed
qed

lemma publish_appends:
  assumes "\<not> mb_closed (ev_bus (the_bus w))" "0 < bb_maxlen (ev_buffer (the_bus w))"
  shows "\<exists>M B. eo_publish (event_bus (with_memory_bus E)) (resolve_physical_topic (str_of E) (ob_topic r) tp tm)
      (envelope_of E producer (clock w) r) w =
      (Inr (), w\<lparr>the_bus := \<lparr>ev_bus = M, ev_buffer = B\<rparr>\<rparr>) \<and> \<not> mb_closed M \<and>
      (B = ev_buffer (the_bus w) \<or> B = add_shown E tp tm producer (clock w) r (ev_buffer (the_bus w)))"
proof -
  let ?topic = "resolve_physical_topic (str_of E) (ob_topic r) tp tm"
  let ?S = "the_bus w"
  let ?e = "envelope_of E producer (clock w) r"
  define S1 where "S1 = ?S\<lparr>ev_bus := (ev_bus ?S)\<lparr>mb_published := mb_published (ev_bus ?S) @ [(?topic, ?e)]\<rparr>\<rparr>"
  obtain B where loop: "forA (mb_handlers (ev_bus ?S)) (\<lambda>filt. if wants filt ?topic
        then on_consumed_event (str_of E) (isotext E (clock w)) ?topic ?e else ret ()) S1 = (Inr (), S1\<lparr>ev_buffer := B\<rparr>)"
    and B: "B = ev_buffer ?S \<or> B = add_shown E tp tm producer (clock w) r (ev_buffer ?S)"
    using handlers_append [of S1 "mb_handlers (ev_bus ?S)" E r tp tm "clock w" producer] assms(2)
    by (auto simp: S1_def)
  have "memory_publish (str_of E) (isotext E (clock w)) ?topic ?e ?S = (Inr (), S1\<lparr>ev_buffer := B\<rparr>)"
    using assms(1) loop
    by (simp add: memory_publish_def bindA_def seqA_def askA_def modifyA_def S1_def)
  then have "eo_publish (event_bus (with_memory_bus E)) ?topic ?e w = (Inr (), w\<lparr>the_bus := S1\<lparr>ev_buffer := B\<rparr>\<rparr>)"
    by (simp add: with_memory_bus_def memory_event_ops_def run_simps zoomA_def)
  moreover have "S1\<lparr>ev_buffer := B\<rparr> = \<lparr>ev_bus = ev_bus S1, ev_buffer = B\<rparr>" by (cases S1) simp
  moreover have "\<not> mb_closed (ev_bus S1)" using assms(1) by (simp add: S1_def)
  ultimately show ?thesis using B by metis
qed

text \<open>So one row of the drain is sent, and its event is in the buffer once.\<close>

lemma drain_one_shown:
  assumes "\<not> mb_closed (ev_bus (the_bus w))" "0 < bb_maxlen (ev_buffer (the_bus w))"
  shows "\<exists>w'. drain_one (with_memory_bus E) tp tm producer r w = (Inr True, w') \<and>
      \<not> mb_closed (ev_bus (the_bus w')) \<and> clock w' = clock w \<and>
      ev_buffer (the_bus w') = add_shown E tp tm producer (clock w) r (ev_buffer (the_bus w))"
proof -
  obtain M B where pub: "eo_publish (event_bus (with_memory_bus E))
      (resolve_physical_topic (str_of E) (ob_topic r) tp tm) (envelope_of E producer (clock w) r) w =
      (Inr (), w\<lparr>the_bus := \<lparr>ev_bus = M, ev_buffer = B\<rparr>\<rparr>)" and "\<not> mb_closed M"
    and B: "B = ev_buffer (the_bus w) \<or> B = add_shown E tp tm producer (clock w) r (ev_buffer (the_bus w))"
    using publish_appends [OF assms, where E = E and r = r and tp = tp and tm = tm and producer = producer] by (elim exE conjE)
  have same: "str_of (with_memory_bus E) = str_of E" "isotext (with_memory_bus E) = isotext E"
    by (simp_all add: with_memory_bus_def)
  have "add_shown E tp tm producer (clock w) r B = add_shown E tp tm producer (clock w) r (ev_buffer (the_bus w))"
    using B add_shown_again [OF assms(2), where E = E and tp = tp and tm = tm and producer = producer and now = "clock w" and r = r] by (elim disjE) simp_all
  then show ?thesis
    using pub \<open>\<not> mb_closed M\<close> by (simp add: drain_one_def run_simps upd_outbox_def Let_def same)
qed

lemma drain_rows_shown:
  assumes "\<not> mb_closed (ev_bus (the_bus w))" "0 < bb_maxlen (ev_buffer (the_bus w))"
  shows "\<exists>w'. drain_rows (with_memory_bus E) tp tm producer rows (sent, errs) w = (Inr (sent + length rows, errs), w') \<and>
      ev_buffer (the_bus w') = fold (add_shown E tp tm producer (clock w)) rows (ev_buffer (the_bus w))"
  using assms
proof (induction rows arbitrary: sent w)
  case Nil
  then show ?case by (simp add: run_simps)
next
  case (Cons r rows)
  obtain w1 where one: "drain_one (with_memory_bus E) tp tm producer r w = (Inr True, w1)"
    "\<not> mb_closed (ev_bus (the_bus w1))" "clock w1 = clock w"
    "ev_buffer (the_bus w1) = add_shown E tp tm producer (clock w) r (ev_buffer (the_bus w))"
    using drain_one_shown [OF Cons.prems, where E = E and tp = tp and tm = tm and producer = producer and r = r] by (elim exE conjE)
  have "0 < bb_maxlen (ev_buffer (the_bus w1))" using Cons.prems(2) one(4) add_shown_rows(2) by metis
  from Cons.IH [OF one(2) this, of "Suc sent"] one show ?case by (simp add: run_simps)
qed

lemma take_append_take: "take n (xs @ take n ys) = take n (xs @ ys)"
  by (simp add: min_def)

text \<open>The buffer after the whole batch: newest first, as much as fits.\<close>

lemma fold_add_shown:
  assumes "distinct (map (uuid_text \<circ> ob_id) rows)"
    "\<And>r. r \<in> set rows \<Longrightarrow> uuid_text (ob_id r) \<notin> br_id ` set (bb_rows B)" "length (bb_rows B) \<le> bb_maxlen B"
  shows "bb_rows (fold (add_shown E tp tm producer now) rows B) =
      take (bb_maxlen B) (rev (map (shown_row E tp tm producer now) rows) @ bb_rows B)"
  using assms
proof (induction rows arbitrary: B)
  case Nil
  then show ?case by simp
next
  case (Cons r rows)
  let ?B = "add_shown E tp tm producer now r B"
  let ?row = "shown_row E tp tm producer now r"
  have B: "bb_rows ?B = take (bb_maxlen B) (?row # bb_rows B)" "bb_maxlen ?B = bb_maxlen B"
    using Cons.prems(2) [of r] by (simp_all add: add_shown_rows)
  have apart: "uuid_text (ob_id q) \<noteq> uuid_text (ob_id r)" if "q \<in> set rows" for q
    using that Cons.prems(1) by (simp add: image_iff) metis
  have "br_id ?row = uuid_text (ob_id r)" by (simp add: shown_row_def)
  then have new: "uuid_text (ob_id q) \<notin> br_id ` set (bb_rows ?B)" if "q \<in> set rows" for q
    using that apart [OF that] Cons.prems(2) [of q] unfolding B(1) by (auto dest!: in_set_takeD)
  have "bb_rows (fold (add_shown E tp tm producer now) rows ?B) =
      take (bb_maxlen B) (rev (map (shown_row E tp tm producer now) rows) @ take (bb_maxlen B) (?row # bb_rows B))"
    using Cons.IH [of ?B] Cons.prems(1) new B by simp
  then show ?case by (simp add: take_append_take)
qed

lemma drain_outbox_shown:
  assumes "\<not> mb_closed (ev_bus (the_bus w))" "0 < bb_maxlen (ev_buffer (the_bus w))"
  shows "\<exists>w'. drain_outbox (with_memory_bus E) n producer w = (Inr (length (pending_batch n (db w)), 0), w') \<and>
      ev_buffer (the_bus w') = fold (add_shown E (mb_topic_prefix (ev_bus (the_bus w))) (mb_topic_map (ev_bus (the_bus w)))
        producer (clock w)) (pending_batch n (db w)) (ev_buffer (the_bus w))"
proof (cases "pending_batch n (db w) = []")
  case True
  then show ?thesis by (simp add: drain_outbox_def run_simps)
next
  case False
  obtain w' where "drain_rows (with_memory_bus E) (mb_topic_prefix (ev_bus (the_bus w))) (mb_topic_map (ev_bus (the_bus w)))
      producer (pending_batch n (db w)) (0, 0) w = (Inr (length (pending_batch n (db w)), 0), w')"
    "ev_buffer (the_bus w') = fold (add_shown E (mb_topic_prefix (ev_bus (the_bus w))) (mb_topic_map (ev_bus (the_bus w)))
        producer (clock w)) (pending_batch n (db w)) (ev_buffer (the_bus w))"
    using drain_rows_shown [OF assms, where E = E and tp = "mb_topic_prefix (ev_bus (the_bus w))"
      and tm = "mb_topic_map (ev_bus (the_bus w))" and producer = producer and rows = "pending_batch n (db w)"
      and sent = 0 and errs = 0] by (elim exE conjE) simp
  moreover have "eo_topic_prefix (event_bus (with_memory_bus E)) w = mb_topic_prefix (ev_bus (the_bus w))"
    "eo_topic_map (event_bus (with_memory_bus E)) w = mb_topic_map (ev_bus (the_bus w))"
    by (simp_all add: with_memory_bus_def memory_event_ops_def)
  ultimately show ?thesis using False by (simp add: drain_outbox_def run_simps)
qed

end
