(* ===== verification/Readiness.thy ===== *)
theory Readiness
  imports Monitoring Demo
begin

text \<open>
  The readiness checks (\<^verbatim>\<open>app/core/health_checks.py\<close>) and the liveness routes
  (\<^verbatim>\<open>app/api/routes/health.py\<close>): host and port are read from the configured addresses as
  \<^verbatim>\<open>urllib.parse\<close> does, and each gets one TCP connect. Whether a connect succeeds is a parameter
  (\<open>connects\<close>), and so is the check of \<^verbatim>\<open>ipaddress\<close> that a host in brackets is an address
  (\<open>ip_ok\<close>). Latencies and the texts of failures are left out.
\<close>

subsection \<open>Host and port of an address\<close>

text \<open>\<^verbatim>\<open>s.partition(c)\<close>: what comes before, whether there is a separator, what comes after.\<close>

definition cut :: "char \<Rightarrow> string \<Rightarrow> string \<times> bool \<times> string" where
  "cut c s = (takeWhile (\<lambda>x. x \<noteq> c) s, c \<in> set s, drop 1 (dropWhile (\<lambda>x. x \<noteq> c) s))"

text \<open>\<^verbatim>\<open>s.rpartition(c)[2]\<close>\<close>

definition after_last :: "char \<Rightarrow> string \<Rightarrow> string" where
  "after_last c s = rev (takeWhile (\<lambda>x. x \<noteq> c) (rev s))"

definition is_digit :: "char \<Rightarrow> bool" where
  "is_digit c \<longleftrightarrow> digit_of c \<noteq> None"

definition is_alpha :: "char \<Rightarrow> bool" where
  "is_alpha c \<longleftrightarrow> (let n = (of_char c :: nat) in 65 \<le> n \<and> n \<le> 90 \<or> 97 \<le> n \<and> n \<le> 122)"

definition scheme_char :: "char \<Rightarrow> bool" where
  "scheme_char c \<longleftrightarrow> is_alpha c \<or> is_digit c \<or> c \<in> set ''+-.''"

text \<open>\<^verbatim>\<open>s.isdigit()\<close>\<close>

definition all_digits :: "string \<Rightarrow> bool" where
  "all_digits s \<longleftrightarrow> s \<noteq> [] \<and> list_all is_digit s"

text \<open>\<^verbatim>\<open>urlsplit\<close> as far as the network location: control characters and blanks are dropped from
  the front, tabs and line ends everywhere.\<close>

definition cleaned :: "string \<Rightarrow> string" where
  "cleaned url =
     filter (\<lambda>c. of_char c \<notin> {9, 10, 13::nat}) (dropWhile (\<lambda>c. of_char c \<le> (32::nat)) url)"

definition without_scheme :: "string \<Rightarrow> string" where
  "without_scheme url =
     (let (s, found, rest) = cut CHR '':'' url in
      if found \<and> s \<noteq> [] \<and> is_alpha (hd s) \<and> list_all scheme_char s then rest else url)"

definition is_stop :: "char \<Rightarrow> bool" where
  "is_stop c \<longleftrightarrow> c \<in> set ''/?#''"

definition netloc :: "string \<Rightarrow> string" where
  "netloc url =
     (let u = without_scheme (cleaned url) in
      if take 2 u = ''//'' then takeWhile (\<lambda>c. \<not> is_stop c) (drop 2 u) else [])"

text \<open>\<^verbatim>\<open>_hostinfo\<close>: the host and the text of the port, empty when there is none.\<close>

definition hostinfo :: "string \<Rightarrow> string \<times> string" where
  "hostinfo n =
     (let (before, bracket, bracketed) = cut CHR ''['' (after_last CHR ''@'' n) in
      if bracket then
        (let (host, _, rest) = cut CHR '']'' bracketed; (_, _, port) = cut CHR '':'' rest in (host, port))
      else (let (host, _, port) = cut CHR '':'' (after_last CHR ''@'' n) in (host, port)))"

definition url_hostname :: "string \<Rightarrow> string option" where
  "url_hostname n =
     (let host = fst (hostinfo n); (name, percent, zone) = cut CHR ''%'' host in
      if host = [] then None
      else Some (py_lower name @ (if percent then ''%'' else []) @ zone))"

definition value_error :: exn where
  "value_error = PyError ''ValueError''"

definition url_port :: "string \<Rightarrow> exn + nat option" where
  "url_port n =
     (let port = snd (hostinfo n) in
      if port = [] then Inr None
      else if all_digits port then
        (case parse_nat port of
           Some k \<Rightarrow> if k \<le> 65535 then Inr (Some k) else Inl value_error
         | None \<Rightarrow> Inl value_error)
      else Inl value_error)"

definition host_port_from_url :: "(string \<Rightarrow> bool) \<Rightarrow> string \<Rightarrow> nat \<Rightarrow> exn + (string \<times> nat)" where
  "host_port_from_url ip_ok url default_port =
     (let n = netloc url in
      if (CHR ''['' \<in> set n) \<noteq> (CHR '']'' \<in> set n) \<or> CHR ''['' \<in> set n \<and> \<not> ip_ok n then Inl value_error
      else
        (let host = (case url_hostname n of Some h \<Rightarrow> h | None \<Rightarrow> ''localhost'') in
         case url_port n of
           Inl e \<Rightarrow> Inl e
         | Inr p \<Rightarrow> Inr (host, case p of Some (Suc k) \<Rightarrow> Suc k | _ \<Rightarrow> default_port)))"

text \<open>Only the first broker of the list is looked at.\<close>

definition host_port_from_brokers :: "(string \<Rightarrow> bool) \<Rightarrow> string \<Rightarrow> exn + (string \<times> nat)" where
  "host_port_from_brokers ip_ok addresses =
     (let first = py_strip (fst (cut CHR '','' addresses)) in
      if contains first ''://'' then host_port_from_url ip_ok first 9092
      else
        (let (host, sep, port) = cut CHR '':'' first; host' = (if host \<noteq> [] then host else ''localhost'') in
         if \<not> sep \<or> \<not> all_digits port then Inr (host', 9092)
         else case parse_nat port of Some k \<Rightarrow> Inr (host', k) | None \<Rightarrow> Inl value_error))"

subsection \<open>The checks and their routes\<close>

record ready_response =
  rr_status :: string
  rr_postgres :: string
  rr_redis :: string
  rr_redpanda :: string

definition tcp_check :: "(string \<Rightarrow> nat \<Rightarrow> bool) \<Rightarrow> string \<times> nat \<Rightarrow> string" where
  "tcp_check connects = (\<lambda>(host, port). if connects host port then ''ok'' else ''fail'')"

definition run_readiness_checks ::
  "(string \<Rightarrow> bool) \<Rightarrow> (string \<Rightarrow> nat \<Rightarrow> bool) \<Rightarrow> settings \<Rightarrow> exn + ready_response" where
  "run_readiness_checks ip_ok connects C =
     (case host_port_from_url ip_ok (database_url C) 5432 of
        Inl e \<Rightarrow> Inl e
      | Inr pg \<Rightarrow>
          (case host_port_from_url ip_ok (redis_url C) 6379 of
             Inl e \<Rightarrow> Inl e
           | Inr rd \<Rightarrow>
               (case host_port_from_brokers ip_ok (redpanda_brokers C) of
                  Inl e \<Rightarrow> Inl e
                | Inr rp \<Rightarrow>
                    (let results = map (tcp_check connects) [pg, rd, rp] in
                     Inr \<lparr>rr_status = (if list_all (\<lambda>r. r = ''ok'') results then ''ok'' else ''not_ready''),
                          rr_postgres = results ! 0, rr_redis = results ! 1, rr_redpanda = results ! 2\<rparr>))))"

definition live_route :: "int \<times> string" where
  "live_route = (200, ''ok'')"

definition ready_route ::
  "(string \<Rightarrow> bool) \<Rightarrow> (string \<Rightarrow> nat \<Rightarrow> bool) \<Rightarrow> settings \<Rightarrow> exn + (int \<times> ready_response)" where
  "ready_route ip_ok connects C =
     (case run_readiness_checks ip_ok connects C of
        Inl e \<Rightarrow> Inl e
      | Inr r \<Rightarrow> Inr (if rr_status r \<noteq> ''ok'' then 503 else 200, r))"

text \<open>The dashboard makes the checks first and lets their exception through.\<close>

definition dashboard_checked ::
  "auth_lib \<Rightarrow> 'x env \<Rightarrow> (string \<Rightarrow> bool) \<Rightarrow> (string \<Rightarrow> nat \<Rightarrow> bool) \<Rightarrow> string option \<Rightarrow> ('x, dashboard) op" where
  "dashboard_checked A E ip_ok connects token =
     guarded A E viewers token (\<lambda>_.
       bindA (liftA (run_readiness_checks ip_ok connects (cfg E))) (\<lambda>r.
         build_dashboard E (rr_postgres r = ''ok'', rr_redis r = ''ok'', rr_redpanda r = ''ok'')))"

subsection \<open>A well-formed address is read back\<close>

lemma takeWhile_upto: "list_all P a \<Longrightarrow> \<not> P c \<Longrightarrow> takeWhile P (a @ c # b) = a"
  by (induction a) auto

lemma takeWhile_whole: "list_all P a \<Longrightarrow> takeWhile P a = a"
  by (induction a) auto

lemma cut_there: "c \<notin> set a \<Longrightarrow> cut c (a @ c # b) = (a, True, b)"
  by (induction a) (auto simp: cut_def)

lemma cut_absent: "c \<notin> set a \<Longrightarrow> cut c a = (a, False, [])"
  by (induction a) (auto simp: cut_def)

lemma after_last_there: "c \<notin> set b \<Longrightarrow> after_last c (a @ c # b) = b"
proof -
  assume "c \<notin> set b"
  then have "list_all (\<lambda>x. x \<noteq> c) (rev b)" by (auto simp: list_all_iff)
  from takeWhile_upto [OF this, of c "rev a"] show ?thesis by (simp add: after_last_def)
qed

text \<open>The characters of a user part and of a host name.\<close>

abbreviation printable :: "char \<Rightarrow> bool" where
  "printable c \<equiv> of_char c > (32::nat)"

definition user_char :: "char \<Rightarrow> bool" where
  "user_char c \<longleftrightarrow> printable c \<and> \<not> is_stop c \<and> c \<noteq> CHR ''['' \<and> c \<noteq> CHR '']''"

definition host_char :: "char \<Rightarrow> bool" where
  "host_char c \<longleftrightarrow> user_char c \<and> c \<noteq> CHR ''@'' \<and> c \<noteq> CHR '':'' \<and> c \<noteq> CHR ''%''"

lemma cleaned_id: "list_all printable s \<Longrightarrow> cleaned s = s"
  by (cases s) (auto simp: cleaned_def list_all_iff filter_id_conv)

lemma scheme_char_printable: "scheme_char c \<Longrightarrow> printable c \<and> c \<noteq> CHR '':''"
  by (auto simp: scheme_char_def is_alpha_def is_digit_def digit_of_def Let_def split: if_splits)

lemma is_digit_plain: "is_digit c \<Longrightarrow> host_char c"
  by (auto simp: is_digit_def digit_of_def Let_def host_char_def user_char_def is_stop_def split: if_splits)

lemma show_nat_all_digits: "all_digits (show_nat n)"
proof -
  have "is_digit c" if "c \<in> set (show_nat n)" for c
    using show_nat_digits [OF that] by (auto simp: is_digit_def digit_of_digit_char)
  then show ?thesis by (simp add: all_digits_def list_all_iff show_nat_nonempty)
qed

lemma port_chars: "list_all host_char (show_nat n)"
  using show_nat_all_digits [of n] is_digit_plain by (auto simp: all_digits_def list_all_iff)

lemma host_user: "list_all host_char s \<Longrightarrow> list_all user_char s"
  by (auto simp: list_all_iff host_char_def)

lemma separator_chars: "user_char CHR ''@''" "user_char CHR '':''"
  by (simp_all add: user_char_def is_stop_def)

lemma authority_chars:
  assumes "list_all user_char user" "list_all host_char host"
  shows "list_all user_char (user @ ''@'' @ host @ '':'' @ show_nat port)"
  using assms host_user port_chars separator_chars by simp

lemma user_chars:
  assumes "list_all user_char s"
  shows "list_all printable s" "list_all (\<lambda>c. \<not> is_stop c) s" "CHR ''['' \<notin> set s" "CHR '']'' \<notin> set s"
  using assms by (auto simp: list_all_iff user_char_def)

lemma host_chars:
  assumes "list_all host_char s"
  shows "CHR ''@'' \<notin> set s" "CHR '':'' \<notin> set s" "CHR ''%'' \<notin> set s" "CHR ''['' \<notin> set s"
  using assms by (auto simp: list_all_iff host_char_def user_char_def)

lemma without_scheme_there:
  assumes "s \<noteq> []" "is_alpha (hd s)" "list_all scheme_char s"
  shows "without_scheme (s @ CHR '':'' # rest) = rest"
proof -
  have "CHR '':'' \<notin> set s" using assms(3) scheme_char_printable by (auto simp: list_all_iff)
  then show ?thesis using assms by (simp add: without_scheme_def cut_there)
qed

definition address :: "string \<Rightarrow> string \<Rightarrow> string \<Rightarrow> nat \<Rightarrow> string \<Rightarrow> string" where
  "address scheme user host port path =
     scheme @ ''://'' @ user @ ''@'' @ host @ '':'' @ show_nat port @ path"

lemma netloc_address:
  assumes "scheme \<noteq> []" "is_alpha (hd scheme)" "list_all scheme_char scheme"
    and "list_all user_char user" "list_all host_char host" "path = [] \<or> hd path = CHR ''/''" "list_all printable path"
  shows "netloc (address scheme user host port path) = user @ ''@'' @ host @ '':'' @ show_nat port"
proof -
  define n where "n = user @ ''@'' @ host @ '':'' @ show_nat port"
  note chars = user_chars [OF authority_chars [OF assms(4,5), of port], folded n_def]
  have whole: "address scheme user host port path = scheme @ CHR '':'' # (''//'' @ n @ path)"
    by (simp add: address_def n_def)
  have "list_all printable scheme" using assms(3) scheme_char_printable by (auto simp: list_all_iff)
  then have "list_all printable (address scheme user host port path)"
    using chars(1) assms(7) by (simp add: whole)
  then have "without_scheme (cleaned (address scheme user host port path)) = ''//'' @ n @ path"
    using without_scheme_there [OF assms(1-3), of "''//'' @ n @ path"] by (simp add: cleaned_id whole)
  moreover have "takeWhile (\<lambda>c. \<not> is_stop c) (n @ path) = n"
  proof (cases path)
    case Nil
    then show ?thesis using takeWhile_whole [OF chars(2)] by simp
  next
    case (Cons c cs)
    then have "is_stop c" using assms(6) by (simp add: is_stop_def)
    then show ?thesis using takeWhile_upto [OF chars(2), of c cs] Cons by simp
  qed
  ultimately have "netloc (address scheme user host port path) = n" by (simp add: netloc_def)
  then show ?thesis by (simp only: n_def)
qed

lemma hostinfo_address:
  assumes "list_all host_char host"
  shows "hostinfo (user @ ''@'' @ host @ '':'' @ show_nat port) = (host, show_nat port)"
proof -
  note h = host_chars [OF assms] and p = host_chars [OF port_chars, of port]
  have "after_last CHR ''@'' (user @ CHR ''@'' # host @ '':'' @ show_nat port) = host @ '':'' @ show_nat port"
    using h(1) p(1) by (intro after_last_there) simp
  moreover have "cut CHR ''['' (host @ '':'' @ show_nat port) = (host @ '':'' @ show_nat port, False, [])"
    using h(4) p(4) by (intro cut_absent) simp
  moreover have "cut CHR '':'' (host @ CHR '':'' # show_nat port) = (host, True, show_nat port)"
    using h(2) by (rule cut_there)
  ultimately show ?thesis by (simp add: hostinfo_def)
qed

lemma address_read_back:
  assumes "scheme \<noteq> []" "is_alpha (hd scheme)" "list_all scheme_char scheme"
    and "list_all user_char user" "host \<noteq> []" "list_all host_char host"
    and "path = [] \<or> hd path = CHR ''/''" "list_all printable path" "0 < port" "port \<le> 65535"
  shows "host_port_from_url ip_ok (address scheme user host port path) default_port = Inr (py_lower host, port)"
proof -
  define n where "n = user @ ''@'' @ host @ '':'' @ show_nat port"
  note chars = user_chars [OF authority_chars [OF assms(4,6), of port], folded n_def]
  note info = hostinfo_address [OF assms(6), of user port, folded n_def]
  have "url_hostname n = Some (py_lower host)"
    using assms(5) info cut_absent [OF host_chars(3) [OF assms(6)]] by (simp add: url_hostname_def)
  moreover have "url_port n = Inr (Some port)"
    using assms(10) info show_nat_all_digits by (simp add: url_port_def show_nat_nonempty parse_nat_show)
  moreover have "netloc (address scheme user host port path) = n"
    unfolding n_def using assms by (intro netloc_address)
  ultimately show ?thesis
    using chars(3,4) assms(9) by (simp add: host_port_from_url_def split: nat.split)
qed

subsection \<open>Ready means that all three answer\<close>

lemma ready_iff:
  assumes "ready_route ip_ok connects C = Inr (status, r)"
  shows "status \<in> {200, 503}" "status = 200 \<longleftrightarrow> rr_postgres r = ''ok'' \<and> rr_redis r = ''ok'' \<and> rr_redpanda r = ''ok''"
  using assms
  by (auto simp: ready_route_def run_readiness_checks_def tcp_check_def Let_def split: sum.splits if_splits)

text \<open>A port that is no number makes the check raise instead of failing.\<close>

lemma bad_port_raises:
  assumes "host_port_from_url ip_ok (database_url C) 5432 = Inl e"
  shows "ready_route ip_ok connects C = Inl e"
  using assms by (simp add: ready_route_def run_readiness_checks_def)

end
