(* ===== verification/Dispatch.thy ===== *)
theory Dispatch
  imports Access Edge Readiness
begin

text \<open>
  From a request to its handler: the routes the modules of \<^verbatim>\<open>app/api/routes/\<close> declare, in the order
  in which \<^verbatim>\<open>app/api/router.py\<close> includes them, and the search for the first that matches. Over it,
  a whole HTTP call: middleware, search, handler, error envelope. A path is the list of its
  segments. The pages outside of \<^verbatim>\<open>api_router\<close> (documentation, console) are left out, and so is
  the status a handler or its decorator gives a success.
\<close>

subsection \<open>Routes\<close>

datatype http_method = GET | POST | PUT | PATCH | DELETE

text \<open>A parameter matches any segment that is not empty.\<close>

datatype segment = Lit string | Param

type_synonym route = "http_method \<times> segment list \<times> string"

definition under :: "segment list \<Rightarrow> route list \<Rightarrow> route list" where
  "under pre rs = map (\<lambda>(m, t, h). (m, pre @ t, h)) rs"

definition health_routes :: "route list" where
  "health_routes = under []
     [(GET, [Lit ''health'', Lit ''live''], ''live''),
      (GET, [Lit ''health'', Lit ''ready''], ''ready'')]"

definition auth_routes :: "route list" where
  "auth_routes = under [Lit ''api'', Lit ''v1'', Lit ''auth'']
     [(POST, [Lit ''token''], ''login'')]"

definition admin_providers_routes :: "route list" where
  "admin_providers_routes = under [Lit ''api'', Lit ''v1'', Lit ''admin'', Lit ''providers'']
     [(GET, [], ''list_providers''),
      (GET, [Param], ''get_provider''),
      (PUT, [Param], ''activate_provider'')]"

definition admin_config_routes :: "route list" where
  "admin_config_routes = under [Lit ''api'', Lit ''v1'', Lit ''admin'', Lit ''config'']
     [(GET, [], ''list_config''),
      (GET, [Param], ''get_config''),
      (PUT, [Param], ''put_config'')]"

definition admin_replay_routes :: "route list" where
  "admin_replay_routes = under [Lit ''api'', Lit ''v1'', Lit ''admin'', Lit ''replay'']
     [(POST, [Lit ''run''], ''run_replay''),
      (GET, [Lit ''status''], ''replay_status'')]"

definition admin_sim_routes :: "route list" where
  "admin_sim_routes = under [Lit ''api'', Lit ''v1'', Lit ''admin'', Lit ''sim'']
     [(GET, [Lit ''faults''], ''get_faults''),
      (POST, [Lit ''faults''], ''set_fault''),
      (POST, [Lit ''faults'', Lit ''clear''], ''clear_faults''),
      (GET, [Lit ''history''], ''fault_history'')]"

definition brokers_routes :: "route list" where
  "brokers_routes = under [Lit ''api'', Lit ''v1'', Lit ''brokers'']
     [(POST, [], ''create_broker''),
      (GET, [], ''list_brokers''),
      (GET, [Param], ''get_broker''),
      (PATCH, [Param], ''patch_broker''),
      (POST, [Param, Lit ''capabilities'', Lit ''refresh''], ''refresh_capabilities''),
      (GET, [Param, Lit ''sessions''], ''get_broker_session''),
      (POST, [Param, Lit ''sessions'', Lit ''ensure''], ''ensure_broker_session'')]"

definition infrastructure_routes :: "route list" where
  "infrastructure_routes = under [Lit ''api'', Lit ''v1'', Lit ''infrastructure'']
     [(POST, [Lit ''instances''], ''create_instance''),
      (GET, [Lit ''instances''], ''list_instances''),
      (DELETE, [Lit ''instances'', Param], ''destroy_instance''),
      (POST, [Lit ''instances'', Param, Lit ''suspend''], ''suspend_instance''),
      (POST, [Lit ''instances'', Param, Lit ''start''], ''start_instance''),
      (POST, [Lit ''ips''], ''allocate_ip''),
      (GET, [Lit ''ips''], ''list_ips''),
      (POST, [Lit ''brokers'', Param, Lit ''rotate-ip''], ''rotate_ip''),
      (POST, [Lit ''ips'', Param, Lit ''assign''], ''assign_ip''),
      (POST, [Lit ''ips'', Param, Lit ''attach''], ''attach_ip''),
      (POST, [Lit ''ips'', Param, Lit ''detach''], ''detach_ip''),
      (DELETE, [Lit ''ips'', Param], ''release_ip''),
      (GET, [Lit ''assignments''], ''list_assignments''),
      (POST, [Lit ''brokers'', Param, Lit ''whitelist'', Lit ''sync''], ''sync_whitelist'')]"

definition subscriptions_routes :: "route list" where
  "subscriptions_routes = under [Lit ''api'', Lit ''v1'', Lit ''subscriptions'']
     [(POST, [], ''create_subscription''),
      (GET, [], ''list_subscriptions''),
      (POST, [Lit ''enforce-expiry''], ''enforce_expiry''),
      (GET, [Param], ''get_subscription''),
      (POST, [Param, Lit ''expire''], ''expire_subscription'')]"

definition monitoring_routes :: "route list" where
  "monitoring_routes = under [Lit ''api'', Lit ''v1'', Lit ''monitoring'']
     [(GET, [Lit ''dashboard''], ''dashboard''),
      (GET, [Lit ''sessions''], ''list_sessions''),
      (GET, [Lit ''brokers'', Lit ''health''], ''list_broker_health''),
      (POST, [Lit ''brokers'', Lit ''health'', Lit ''probe''], ''probe_broker_health''),
      (GET, [Lit ''rate-limits''], ''list_rate_limits''),
      (GET, [Lit ''failovers''], ''list_failovers''),
      (GET, [Lit ''orders'', Lit ''engine''], ''orders_engine''),
      (POST, [Lit ''routing'', Lit ''preview''], ''routing_preview''),
      (GET, [Lit ''events''], ''list_events''),
      (POST, [Lit ''events'', Lit ''drain''], ''drain_events'')]"

definition orders_routes :: "route list" where
  "orders_routes = under [Lit ''api'', Lit ''v1'', Lit ''orders'']
     [(POST, [Lit ''buy''], ''buy_order''),
      (POST, [Lit ''sell''], ''sell_order''),
      (POST, [Param, Lit ''cancel''], ''cancel_order''),
      (GET, [Param], ''get_order''),
      (GET, [], ''list_orders'')]"

definition api_router :: "route list" where
  "api_router = health_routes @ auth_routes @ admin_providers_routes @ admin_config_routes @
     admin_replay_routes @ admin_sim_routes @ brokers_routes @ infrastructure_routes @
     subscriptions_routes @ monitoring_routes @ orders_routes"

fun matches :: "segment list \<Rightarrow> string list \<Rightarrow> bool" where
  "matches [] [] \<longleftrightarrow> True"
| "matches (Lit s # t) (x # p) \<longleftrightarrow> x = s \<and> matches t p"
| "matches (Param # t) (x # p) \<longleftrightarrow> x \<noteq> [] \<and> matches t p"
| "matches _ _ \<longleftrightarrow> False"

datatype dispatched = NotFound | MethodNotAllowed | Matched string

text \<open>The first route with the path and the method; a path that only other methods have gives 405.\<close>

definition dispatch :: "http_method \<times> string list \<Rightarrow> dispatched" where
  "dispatch = (\<lambda>(m, p).
     case find (\<lambda>(m', t, h). m' = m \<and> matches t p) api_router of
       Some (_, _, h) \<Rightarrow> Matched h
     | None \<Rightarrow> if list_ex (\<lambda>(m', t, h). matches t p) api_router then MethodNotAllowed else NotFound)"

subsection \<open>The address of a call\<close>

definition api :: "string list \<Rightarrow> string list" where
  "api p = ''api'' # ''v1'' # p"

primrec url_of :: "api_call \<Rightarrow> http_method \<times> string list" where
  "url_of (Buy a) = (POST, api [''orders'', ''buy''])"
| "url_of (Sell a) = (POST, api [''orders'', ''sell''])"
| "url_of (CancelOrder a) = (POST, api [''orders'', uuid_text a, ''cancel''])"
| "url_of (GetOrder a) = (GET, api [''orders'', uuid_text a])"
| "url_of (ListOrders a b c d e) = (GET, api [''orders''])"
| "url_of (CreateBroker a) = (POST, api [''brokers''])"
| "url_of (ListBrokers a b) = (GET, api [''brokers''])"
| "url_of (api_call.GetBroker a) = (GET, api [''brokers'', uuid_text a])"
| "url_of (PatchBroker a b c d e f) = (PATCH, api [''brokers'', uuid_text a])"
| "url_of (RefreshCapabilities a) = (POST, api [''brokers'', uuid_text a, ''capabilities'', ''refresh''])"
| "url_of (api_call.GetSession a) = (GET, api [''brokers'', uuid_text a, ''sessions''])"
| "url_of (EnsureSession a b) = (POST, api [''brokers'', uuid_text a, ''sessions'', ''ensure''])"
| "url_of (CreateSubscription a b c d) = (POST, api [''subscriptions''])"
| "url_of (ListSubscriptions a b c) = (GET, api [''subscriptions''])"
| "url_of EnforceExpiry = (POST, api [''subscriptions'', ''enforce-expiry''])"
| "url_of (GetSubscription a) = (GET, api [''subscriptions'', uuid_text a])"
| "url_of (ExpireSubscription a) = (POST, api [''subscriptions'', uuid_text a, ''expire''])"
| "url_of (CreateInstance a b c) = (POST, api [''infrastructure'', ''instances''])"
| "url_of ListInstances = (GET, api [''infrastructure'', ''instances''])"
| "url_of (DestroyInstance a) = (DELETE, api [''infrastructure'', ''instances'', uuid_text a])"
| "url_of (SuspendInstance a) = (POST, api [''infrastructure'', ''instances'', uuid_text a, ''suspend''])"
| "url_of (StartInstance a) = (POST, api [''infrastructure'', ''instances'', uuid_text a, ''start''])"
| "url_of (AllocateIp a) = (POST, api [''infrastructure'', ''ips''])"
| "url_of (ListIps a b c) = (GET, api [''infrastructure'', ''ips''])"
| "url_of (RotateIp a b) = (POST, api [''infrastructure'', ''brokers'', uuid_text a, ''rotate-ip''])"
| "url_of (AssignIp a b c) = (POST, api [''infrastructure'', ''ips'', uuid_text a, ''assign''])"
| "url_of (AttachIp a b) = (POST, api [''infrastructure'', ''ips'', uuid_text a, ''attach''])"
| "url_of (DetachIp a) = (POST, api [''infrastructure'', ''ips'', uuid_text a, ''detach''])"
| "url_of (ReleaseIp a) = (DELETE, api [''infrastructure'', ''ips'', uuid_text a])"
| "url_of ListAssignments = (GET, api [''infrastructure'', ''assignments''])"
| "url_of (SyncWhitelist a) = (POST, api [''infrastructure'', ''brokers'', uuid_text a, ''whitelist'', ''sync''])"
| "url_of (ListConfig a) = (GET, api [''admin'', ''config''])"
| "url_of (GetConfig a) = (GET, api [''admin'', ''config'', a])"
| "url_of (PutConfig a b) = (PUT, api [''admin'', ''config'', a])"
| "url_of (RunReplay a) = (POST, api [''admin'', ''replay'', ''run''])"
| "url_of ReplayStatus = (GET, api [''admin'', ''replay'', ''status''])"
| "url_of GetFaults = (GET, api [''admin'', ''sim'', ''faults''])"
| "url_of (SetFault a b) = (POST, api [''admin'', ''sim'', ''faults''])"
| "url_of ClearFaults = (POST, api [''admin'', ''sim'', ''faults'', ''clear''])"
| "url_of (FaultHistory a b) = (GET, api [''admin'', ''sim'', ''history''])"
| "url_of (ListSessions a b) = (GET, api [''monitoring'', ''sessions''])"
| "url_of BrokerHealth = (GET, api [''monitoring'', ''brokers'', ''health''])"
| "url_of ProbeHealth = (POST, api [''monitoring'', ''brokers'', ''health'', ''probe''])"
| "url_of RateLimits = (GET, api [''monitoring'', ''rate-limits''])"
| "url_of (ListFailovers a b) = (GET, api [''monitoring'', ''failovers''])"
| "url_of OrdersEngine = (GET, api [''monitoring'', ''orders'', ''engine''])"
| "url_of (RoutingPreview a b c) = (POST, api [''monitoring'', ''routing'', ''preview''])"
| "url_of (ListEvents a b c d) = (GET, api [''monitoring'', ''events''])"
| "url_of (DrainEvents a) = (POST, api [''monitoring'', ''events'', ''drain''])"
| "url_of (Dashboard a) = (GET, api [''monitoring'', ''dashboard''])"

primrec handler_of :: "api_call \<Rightarrow> string" where
  "handler_of (Buy a) = ''buy_order''"
| "handler_of (Sell a) = ''sell_order''"
| "handler_of (CancelOrder a) = ''cancel_order''"
| "handler_of (GetOrder a) = ''get_order''"
| "handler_of (ListOrders a b c d e) = ''list_orders''"
| "handler_of (CreateBroker a) = ''create_broker''"
| "handler_of (ListBrokers a b) = ''list_brokers''"
| "handler_of (api_call.GetBroker a) = ''get_broker''"
| "handler_of (PatchBroker a b c d e f) = ''patch_broker''"
| "handler_of (RefreshCapabilities a) = ''refresh_capabilities''"
| "handler_of (api_call.GetSession a) = ''get_broker_session''"
| "handler_of (EnsureSession a b) = ''ensure_broker_session''"
| "handler_of (CreateSubscription a b c d) = ''create_subscription''"
| "handler_of (ListSubscriptions a b c) = ''list_subscriptions''"
| "handler_of EnforceExpiry = ''enforce_expiry''"
| "handler_of (GetSubscription a) = ''get_subscription''"
| "handler_of (ExpireSubscription a) = ''expire_subscription''"
| "handler_of (CreateInstance a b c) = ''create_instance''"
| "handler_of ListInstances = ''list_instances''"
| "handler_of (DestroyInstance a) = ''destroy_instance''"
| "handler_of (SuspendInstance a) = ''suspend_instance''"
| "handler_of (StartInstance a) = ''start_instance''"
| "handler_of (AllocateIp a) = ''allocate_ip''"
| "handler_of (ListIps a b c) = ''list_ips''"
| "handler_of (RotateIp a b) = ''rotate_ip''"
| "handler_of (AssignIp a b c) = ''assign_ip''"
| "handler_of (AttachIp a b) = ''attach_ip''"
| "handler_of (DetachIp a) = ''detach_ip''"
| "handler_of (ReleaseIp a) = ''release_ip''"
| "handler_of ListAssignments = ''list_assignments''"
| "handler_of (SyncWhitelist a) = ''sync_whitelist''"
| "handler_of (ListConfig a) = ''list_config''"
| "handler_of (GetConfig a) = ''get_config''"
| "handler_of (PutConfig a b) = ''put_config''"
| "handler_of (RunReplay a) = ''run_replay''"
| "handler_of ReplayStatus = ''replay_status''"
| "handler_of GetFaults = ''get_faults''"
| "handler_of (SetFault a b) = ''set_fault''"
| "handler_of ClearFaults = ''clear_faults''"
| "handler_of (FaultHistory a b) = ''fault_history''"
| "handler_of (ListSessions a b) = ''list_sessions''"
| "handler_of BrokerHealth = ''list_broker_health''"
| "handler_of ProbeHealth = ''probe_broker_health''"
| "handler_of RateLimits = ''list_rate_limits''"
| "handler_of (ListFailovers a b) = ''list_failovers''"
| "handler_of OrdersEngine = ''orders_engine''"
| "handler_of (RoutingPreview a b c) = ''routing_preview''"
| "handler_of (ListEvents a b c d) = ''list_events''"
| "handler_of (DrainEvents a) = ''drain_events''"
| "handler_of (Dashboard a) = ''dashboard''"

text \<open>A configuration key that is empty or has a slash is no segment of a path.\<close>

definition addressable :: "api_call \<Rightarrow> bool" where
  "addressable c \<longleftrightarrow> (\<forall>seg \<in> set (snd (url_of c)). seg \<noteq> [] \<and> CHR ''/'' \<notin> set seg)"

subsection \<open>An HTTP call\<close>

definition http_call ::
  "auth_lib \<Rightarrow> 'x env \<Rightarrow> ('x world \<Rightarrow> 'x world) \<Rightarrow> int \<Rightarrow> (exn \<Rightarrow> string \<times> dict) \<Rightarrow>
   (string \<Rightarrow> http_response) \<Rightarrow> (string \<times> string) list \<Rightarrow> string option \<Rightarrow> api_call \<Rightarrow>
   ('x, http_response) op" where
  "http_call A E others poll about body headers token c =
     middleware_call E headers (\<lambda>state.
       case dispatch (url_of c) of
         NotFound \<Rightarrow> ret (handle_error (str_of E) state (RaisedHttp 404 (JStr ''Not Found'')))
       | MethodNotAllowed \<Rightarrow>
           ret (handle_error (str_of E) state (RaisedHttp 405 (JStr ''Method Not Allowed'')))
       | Matched h \<Rightarrow> endpoint E about (\<lambda>_. body h) (perform A E others poll token c) state)"

subsection \<open>No request matches two routes\<close>

definition clash :: "segment \<Rightarrow> segment \<Rightarrow> bool" where
  "clash a b \<longleftrightarrow> (case (a, b) of (Lit s, Lit t) \<Rightarrow> s \<noteq> t | _ \<Rightarrow> False)"

definition apart :: "segment list \<Rightarrow> segment list \<Rightarrow> bool" where
  "apart t t' \<longleftrightarrow> length t \<noteq> length t' \<or> list_ex (\<lambda>(a, b). clash a b) (zip t t')"

lemma matches_length: "matches t p \<Longrightarrow> length p = length t"
  by (induction t p rule: matches.induct) auto

lemma apart_matches: "apart t t' \<Longrightarrow> matches t p \<Longrightarrow> \<not> matches t' p"
proof (induction t p arbitrary: t' rule: matches.induct)
  case (2 s t x p)
  then show ?case
    by (cases t'; cases "hd t'") (auto simp: apart_def clash_def split: segment.splits)
next
  case (3 t x p)
  then show ?case
    by (cases t'; cases "hd t'") (auto simp: apart_def clash_def split: segment.splits)
qed (auto simp: apart_def dest: matches_length)

lemma routes_apart: "sorted_wrt (\<lambda>(m, t, h) (m', t', h'). m = m' \<longrightarrow> apart t t') api_router"
  by code_simp

lemma find_apart:
  assumes "sorted_wrt (\<lambda>(m, t, h) (m', t', h'). m = m' \<longrightarrow> apart t t') rs" "(m, t, h) \<in> set rs" "matches t p"
  shows "find (\<lambda>(m', t', h'). m' = m \<and> matches t' p) rs = Some (m, t, h)"
  using assms
proof (induction rs)
  case (Cons r rs)
  obtain m1 t1 h1 where r: "r = (m1, t1, h1)" using prod_cases3 by blast
  show ?case
  proof (cases "r = (m, t, h)")
    case False
    then have "(m, t, h) \<in> set rs" using Cons.prems(2) by simp
    moreover from this have "\<not> (m1 = m \<and> matches t1 p)"
      using Cons.prems(1,3) apart_matches by (fastforce simp: r)
    ultimately show ?thesis using Cons by (auto simp: r)
  qed (use Cons.prems(3) in simp)
qed simp

lemma dispatch_route:
  assumes "(m, t, h) \<in> set api_router" "matches t p"
  shows "dispatch (m, p) = Matched h"
  using find_apart [OF routes_apart assms] by (simp add: dispatch_def)


lemmas route_table = api_router_def health_routes_def auth_routes_def admin_providers_routes_def
  admin_config_routes_def admin_replay_routes_def admin_sim_routes_def brokers_routes_def
  infrastructure_routes_def subscriptions_routes_def monitoring_routes_def orders_routes_def under_def

text \<open>The table has a route for the address of every call, under the name of its handler.\<close>

lemma call_has_route:
  assumes "addressable c"
  shows "list_ex (\<lambda>(m, t, h). m = fst (url_of c) \<and> h = handler_of c \<and> matches t (snd (url_of c))) api_router"
  using assms by (cases c) (simp_all add: route_table api_def addressable_def)

lemma call_dispatched:
  assumes "addressable c"
  shows "dispatch (url_of c) = Matched (handler_of c)"
proof -
  obtain m t h where "(m, t, h) \<in> set api_router" "m = fst (url_of c)" "h = handler_of c" "matches t (snd (url_of c))"
    using call_has_route [OF assms] by (auto simp: list_ex_iff)
  with dispatch_route [of m t h "snd (url_of c)"] show ?thesis by simp
qed

lemma http_answered:
  fixes E :: "'x env"
  assumes "addressable c"
  shows "\<exists>rid r w1. http_call A E others poll about body headers token c w =
      (Inr r, snd (perform A E others poll token c w1)) \<and> store w1 = store w \<and>
    rid \<noteq> [] \<and> map_of (hr_headers r) REQUEST_ID_HEADER = Some rid \<and>
    (\<forall>t. incoming_request_id headers = Some t \<and> t \<noteq> [] \<longrightarrow> rid = t) \<and>
    (case fst (perform A E others poll token c w1) of
       Inl e \<Rightarrow> hr_status r = status_of e \<and> is_envelope (code_of e) rid r
     | Inr _ \<Rightarrow> r = with_request_id rid (body (handler_of c)))"
proof -
  let ?m = "perform A E others poll token c"
  have call: "http_call A E others poll about body headers token c w =
      middleware_call E headers (endpoint E about (\<lambda>_. body (handler_of c)) ?m) w"
    by (simp add: http_call_def call_dispatched [OF assms])
  show ?thesis
  proof (rule answered [of E headers about "\<lambda>_. body (handler_of c)" ?m w])
    fix rid r w1 w'
    assume a: "middleware_call E headers (endpoint E about (\<lambda>_. body (handler_of c)) ?m) w = (Inr r, w')"
      "rid \<noteq> []" "store w1 = store w" "w' = snd (?m w1)" "map_of (hr_headers r) REQUEST_ID_HEADER = Some rid"
      and sent: "\<And>t. incoming_request_id headers = Some t \<Longrightarrow> t \<noteq> [] \<Longrightarrow> rid = t"
      and failed: "\<And>e. fst (?m w1) = Inl e \<Longrightarrow> hr_status r = status_of e \<and> is_envelope (code_of e) rid r"
      and succeeded: "\<And>a. fst (?m w1) = Inr a \<Longrightarrow> r = with_request_id rid (body (handler_of c))"
    show ?thesis
      using a sent failed succeeded
      by (intro exI [of _ rid] exI [of _ r] exI [of _ w1] conjI) (auto simp: call split: sum.split)
  qed
qed

end
