(* ===== verification/Operations.thy ===== *)
theory Operations
  imports Admission Dispatch
begin

text \<open>The properties of the running process: its background loops, its start, the socket that shows
  its events, and the answers to HTTP calls.\<close>

subsection \<open>A concrete process\<close>

text \<open>Every adapter publishes into memory; subscribing does nothing.\<close>

definition demo_buses :: "table buses" where
  "demo_buses = \<lparr>bs_ops = (\<lambda>a. memory_event_ops (\<lambda>_. ''?'') show_int), bs_subscribe = (\<lambda>a ts g. ret ())\<rparr>"

lemma demo_buses_quiet: "quiet_buses demo_buses"
  using event_env.publish_store [OF demo_event_env]
  by (simp add: quiet_buses_def demo_buses_def frames_ret)

lemma demo_buses_subscribing: "subscribing_buses demo_buses"
  by (simp add: subscribing_buses_def demo_buses_def ret_def)

definition waiting_row :: outbox_event where
  "waiting_row = \<lparr>ob_id = 20, ob_event_type = ''order.submitted'', ob_topic = ''orders'', ob_payload = [],
     ob_status = ''pending'', ob_error = None, ob_correlation_id = None, ob_created_at = 0, ob_sent_at = None\<rparr>"

definition waiting_db :: database where
  "waiting_db = demo_db\<lparr>outbox := [waiting_row]\<rparr>"





text \<open>C30: the backlog is worked off. However the ticks of the publisher, the consumer and the watcher
  are interleaved, once there was a publisher tick for every 50 pending rows, each row that was
  pending is sent, with its time, or marked with its error; no other row and no other table has
  changed; and the result is committed. A bus that fails does not stop the loop.\<close>

theorem backlog_is_worked_off:
  assumes "quiet_buses B" "store (wk_world s) = (d, d)" "distinct (map ob_id (outbox d))"
    and "\<forall>c \<in> set steps. bus_step c" "length (pending_rows d) \<le> 50 * publishers steps"
  shows "\<exists>s' d'. worker_run E B sfx steps s = (Inr (), s') \<and> store (wk_world s') = (d', d') \<and>
    d' = d\<lparr>outbox := outbox d'\<rparr> \<and>
    list_all2 (\<lambda>r r'. if ob_status r = ''pending'' then drained r r' else r' = r) (outbox d) (outbox d')"
  using backlog_settled [OF assms, of E sfx] worker_run_Inr [of E B sfx steps s]
  by (cases "worker_run E B sfx steps s") auto

lemma backlog_is_worked_off_witness:
  "\<exists>s' row. worker_run demo_env demo_buses ''-w'' [Consumer, Publisher, Watcher]
       (started (world_of waiting_db) new_manager) = (Inr (), s') \<and>
     outbox (saved (wk_world s')) = [row] \<and> drained waiting_row row"
  using backlog_is_worked_off [OF demo_buses_quiet, where s = "started (world_of waiting_db) new_manager"
    and d = waiting_db and steps = "[Consumer, Publisher, Watcher]" and E = demo_env and sfx = "''-w''"]
  by (auto simp: started_def world_of_def store_def waiting_db_def waiting_row_def bus_step_def pending_rows_def
      publishers_def list_all2_Cons1)

text \<open>C32: starting again changes nothing. From a database where no query for one row finds two, a
  start returns, with every row the program needs in place and committed, having only added rows to
  five tables; and every later start on that database, whatever the rest of the process, returns and
  leaves it as it is.\<close>

theorem starting_again_changes_nothing:
  assumes "seedable (cfg E) (db (wk_world s))"
  shows "\<exists>s'. startup E engine hash s = (Inr (), s') \<and>
    seeded (cfg E) (db (wk_world s')) \<and> saved (wk_world s') = db (wk_world s') \<and>
    (\<exists>us ps cs is bs. let d = db (wk_world s) in db (wk_world s') =
       d\<lparr>users := users d @ us, provider_configs := provider_configs d @ ps, clients := clients d @ cs,
         config_items := config_items d @ is, brokers := brokers d @ bs\<rparr>) \<and>
    (\<forall>t. store (wk_world t) = store (wk_world s') \<longrightarrow>
       (\<exists>t'. startup E engine' hash' t = (Inr (), t') \<and> store (wk_world t') = store (wk_world s')))"
proof -
  obtain s' where s': "startup E engine hash s = (Inr (), s')" using startup_returns [OF assms] by blast
  obtain w where w: "seed_defaults E hash (wk_world s) = (Inr (), w)" "store (wk_world s') = (db w, db w)"
    using startup_seeds [OF s'] by blast
  then have "db (wk_world s') = db w" "saved (wk_world s') = db w" by (simp_all add: store_def)
  with s' seed_result(1,3) [OF w(1)] startup_again [OF s'] show ?thesis by (simp add: Let_def)
qed

lemma starting_again_changes_nothing_witness:
  "\<exists>s' t'. startup demo_env (\<lambda>w h. Inl None) (\<lambda>p. p) (started (world_of demo_db) new_manager) = (Inr (), s') \<and>
     startup demo_env (\<lambda>w h. Inr ()) (\<lambda>p. p) (started (wk_world s') new_manager) = (Inr (), t') \<and>
     db (wk_world t') = db (wk_world s')"
proof -
  have "seedable (cfg demo_env) (db (wk_world (started (world_of demo_db) new_manager)))"
    by (simp add: seedable_def started_def world_of_def demo_defs admin_rows_def demo_clients_def config_rows_def)
  from starting_again_changes_nothing [OF this, where engine = "\<lambda>w h. Inl None" and hash = "\<lambda>p. p"
      and engine' = "\<lambda>w h. Inr ()" and hash' = "\<lambda>p. p"]
  obtain s' where s': "startup demo_env (\<lambda>w h. Inl None) (\<lambda>p. p) (started (world_of demo_db) new_manager) = (Inr (), s')"
    "\<forall>t. store (wk_world t) = store (wk_world s') \<longrightarrow>
       (\<exists>t'. startup demo_env (\<lambda>w h. Inr ()) (\<lambda>p. p) t = (Inr (), t') \<and> store (wk_world t') = store (wk_world s'))"
    by blast
  have "store (wk_world (started (wk_world s') new_manager)) = store (wk_world s')" by (simp add: started_def)
  with s'(2) obtain t' where "startup demo_env (\<lambda>w h. Inr ()) (\<lambda>p. p) (started (wk_world s') new_manager) = (Inr (), t')"
    "store (wk_world t') = store (wk_world s')" by blast
  with s'(1) show ?thesis by (auto simp: store_def)
qed

text \<open>C34: what was sent is shown. A drain into the in-process bus sends its whole batch, and the feed
  then starts with the rows of the batch, the last one first, each once although both the bus's
  handlers and the drain report it, before what it held, as far as the feed's bound allows.\<close>

theorem drained_events_reach_the_feed:
  fixes E :: "'x env" and w :: "'x world"
  assumes "\<not> mb_closed (ev_bus (the_bus w))" "0 < bb_maxlen (ev_buffer (the_bus w))"
    and "length (bb_rows (ev_buffer (the_bus w))) \<le> bb_maxlen (ev_buffer (the_bus w))"
    and "distinct (map (uuid_text \<circ> ob_id) (pending_batch n (db w)))"
    and "\<And>r. r \<in> set (pending_batch n (db w)) \<Longrightarrow> uuid_text (ob_id r) \<notin> br_id ` set (bb_rows (ev_buffer (the_bus w)))"
  shows "\<exists>w'. drain_outbox (with_memory_bus E) n producer w = (Inr (length (pending_batch n (db w)), 0), w') \<and>
    bb_rows (ev_buffer (the_bus w')) =
      take (bb_maxlen (ev_buffer (the_bus w)))
        (rev (map (shown_row E (mb_topic_prefix (ev_bus (the_bus w))) (mb_topic_map (ev_bus (the_bus w))) producer (clock w))
                (pending_batch n (db w))) @ bb_rows (ev_buffer (the_bus w)))"
  using drain_outbox_shown [OF assms(1,2), where E = E and n = n and producer = producer]
    fold_add_shown [OF assms(4,5,3)] by (elim exE conjE) simp

lemma drained_events_reach_the_feed_witness:
  "\<exists>w' row. drain_outbox (with_memory_bus demo_env) 50 ''api'' (world_of waiting_db) = (Inr (1, 0), w') \<and>
     bb_rows (ev_buffer (the_bus w')) = [row] \<and> br_event_type row = ob_event_type waiting_row \<and>
     br_id row = uuid_text (ob_id waiting_row)"
proof -
  have batch: "pending_batch 50 (db (world_of waiting_db)) = [waiting_row]"
    by (simp add: pending_batch_def world_of_def waiting_db_def waiting_row_def order_asc_def)
  show ?thesis
    using drained_events_reach_the_feed [where E = demo_env and w = "world_of waiting_db" and n = 50 and producer = "''api''"]
    unfolding batch by (auto simp: world_of_def shown_row_def waiting_row_def new_memory_bus_def new_buffer_def)
qed

text \<open>C36: the socket shows the feed. Only an active administrator, operator or reader gets messages:
  first a snapshot, then updates, never two with the same fingerprint in a row, each with the
  fingerprint of its events; and after any number of polls the last message has the fingerprint of
  what the feed shows.\<close>

theorem socket_shows_the_feed:
  assumes "outbox_events_ws A E dumps json_time token lmt fs w = (Inr (Sent msgs), w')" "fs \<noteq> []"
  shows "(\<exists>u \<in> set (users (db w)). fst (authenticate_ws A E token w) = Inr (Some u) \<and> u_is_active u \<and>
      u_role u \<in> {RoleAdmin, RoleOps, RoleReadonly}) \<and>
    msgs \<noteq> [] \<and> wm_type (hd msgs) = ''snapshot'' \<and> (\<forall>m \<in> set (tl msgs). wm_type m = ''update'') \<and>
    successively (\<noteq>) (map wm_fingerprint msgs) \<and>
    (\<forall>m \<in> set msgs. wm_fingerprint m = fingerprint E dumps json_time (wm_events m)) \<and>
    wm_fingerprint (last msgs) = fingerprint E dumps json_time (feed_of lmt w')"
proof -
  obtain u w1 where auth: "authenticate_ws A E token w = (Inr (Some u), w1)"
    and rounds: "ws_rounds E dumps json_time lmt None fs w1 = (Inr msgs, w')"
    using assms(1)
    by (auto simp: outbox_events_ws_def bindA_def ret_def split: prod.splits sum.splits option.splits)
  have "u \<in> set (users (db w)) \<and> u_is_active u \<and> u_role u \<in> {RoleAdmin, RoleOps, RoleReadonly}"
    using authenticate_ws_user [OF auth] by (simp add: ws_allowed_def)
  then show ?thesis using auth ws_rounds_follow [OF rounds] assms(2) by auto
qed

lemma socket_shows_the_feed_witness:
  "\<exists>msgs w'. outbox_events_ws plain_auth demo_env (\<lambda>j. ''x'') show_int (Some (uuid_text 1)) 50 [id, id] (world_of users_db) =
       (Inr (Sent msgs), w') \<and> wm_type (hd msgs) = ''snapshot''"
proof -
  have auth: "authenticate_ws plain_auth demo_env (Some (uuid_text 1)) (world_of users_db) =
      (Inr (Some (demo_user 1 RoleAdmin)), world_of users_db)"
    by (simp add: authenticate_ws_def decode_access_token_def run_simps plain_auth_def liftA_def tryA_def
        user_id_from_payload_def parse_uuid_text uuid_text_nonempty users_with_id_def world_of_def users_db_def
        demo_user_def ws_allowed_def)
  obtain msgs w' where "ws_rounds demo_env (\<lambda>j. ''x'') show_int 50 None [id, id] (world_of users_db) = (Inr msgs, w')"
    using ws_rounds_follow by (metis surj_pair)
  with auth have "outbox_events_ws plain_auth demo_env (\<lambda>j. ''x'') show_int (Some (uuid_text 1)) 50 [id, id] (world_of users_db) =
      (Inr (Sent msgs), w')"
    by (simp add: outbox_events_ws_def bindA_def ret_def)
  with socket_shows_the_feed [OF this] show ?thesis by blast
qed

end
