(* ===== verification/Spec2Isabelle.thy ===== *)
theory Spec2Isabelle
  imports Prelude PyValues Tables Paging Faults Redis Locks RateLimiters SessionStores EventBus
    MockBroker MockInfra World OutboxSvc Subscriptions Health Sessions IpManager Demo Simulator
    Routing Orders Whitelist Replay Rotation Scenario Guarantees Contracts
    Auth Manager Vultr AdminProviders Api Monitoring Access Admission
    Worker Kafka Docker Seed Edge Operations Readiness Dispatch
begin

text \<open>
  Verification of BrokerBridge, a bridge between trading clients and broker APIs that sends every
  order from a leased static IP address.

  \<^bold>\<open>The program.\<close> An HTTP API (\<^verbatim>\<open>app/api\<close>) over services that share one SQL database: clients hold
  subscriptions and broker accounts; a broker account is given a static address, which may not be
  given to the same broker again before a cooldown is over; an order is routed to the best broker of
  its client, sent over the broker's address, and fails over along a chain of brokers; addresses are
  rotated while orders drain; orders that got stuck are replayed. Every change of business data
  stages a row in an outbox, which a worker publishes on an event bus; consumers feed a ring
  buffer, and a socket shows it to operators. The services reach the outside through adapters that
  one \<^verbatim>\<open>ProviderManager\<close> serves: broker, infrastructure, locks, rate limits, sessions, events.

  \<^bold>\<open>How it is modelled.\<close> An operation is a function from a state to an exception or a result, and a
  state (\<open>Prelude.act\<close>; \<open>bindA\<close>, \<open>tryA\<close>, \<open>finallyA\<close>, \<open>forA\<close> are the statements of Python); what
  was changed before an exception stays changed. The state \<open>world\<close> (\<open>World\<close>) has the tables as the
  session sees them (\<open>db\<close>) and as last committed (\<open>saved\<close>), the clock, the module-level state of the
  program and, in \<open>ext\<close>, that of adapters to the outside. \<open>env\<close> has the settings and what is not in
  the repository: uuids, the text of times and of JSON, encryption, hashes, and the adapters in force.
  Operations of one task run without interruption between the points where the code waits; where it
  waits for other tasks, what they do is an argument (\<open>others\<close>) or a step of its own (\<open>Worker\<close>).
  Numbers are \<open>int\<close> and \<open>nat\<close> (Python's are unbounded) and exact rationals for floats.

  \<^bold>\<open>Theories and sources\<close> (under \<^verbatim>\<open>src/app\<close>).
  \<^item> Data: \<open>PyValues\<close> (JSON, strings, times, exceptions of \<^verbatim>\<open>core/errors.py\<close>), \<open>Tables\<close> (\<^verbatim>\<open>models/\<close>),
    \<open>Paging\<close> (\<^verbatim>\<open>schemas/pagination.py\<close>).
  \<^item> Adapters: \<open>Faults\<close> (\<^verbatim>\<open>sim/flags.py\<close>), \<open>Redis\<close>, \<open>Locks\<close>, \<open>RateLimiters\<close>, \<open>SessionStores\<close>
    (\<^verbatim>\<open>providers/memory.py\<close>, \<^verbatim>\<open>redis_adapters.py\<close>), \<open>EventBus\<close> (\<^verbatim>\<open>events/envelope.py\<close>,
    \<^verbatim>\<open>bus_buffer.py\<close>), \<open>MockBroker\<close>, \<open>MockInfra\<close>, \<open>Docker\<close>, \<open>Vultr\<close> (\<^verbatim>\<open>providers/broker\<close>,
    \<^verbatim>\<open>providers/infrastructure\<close>), \<open>Kafka\<close> (\<^verbatim>\<open>providers/kafka_event.py\<close>).
  \<^item> Services: \<open>World\<close> (sessions of the database, locks and adapters as the services call them,
    \<^verbatim>\<open>config/\<close>), \<open>OutboxSvc\<close> (\<^verbatim>\<open>events/outbox.py\<close>), \<open>Subscriptions\<close>, \<open>Health\<close> (also \<^verbatim>\<open>rate_limit/\<close>),
    \<open>Sessions\<close> (also \<^verbatim>\<open>broker/\<close>), \<open>IpManager\<close>, \<open>Simulator\<close>, \<open>Routing\<close>, \<open>Orders\<close>, \<open>Whitelist\<close>,
    \<open>Replay\<close>, \<open>Rotation\<close>: the \<^verbatim>\<open>service.py\<close>, \<^verbatim>\<open>engine.py\<close> or \<^verbatim>\<open>rotation.py\<close> of the package of that name.
  \<^item> The manager: \<open>Manager\<close> (\<^verbatim>\<open>providers/manager.py\<close>), \<open>AdminProviders\<close> (the routes that activate a
    configuration).
  \<^item> The edge: \<open>Auth\<close> (\<^verbatim>\<open>auth/\<close>), \<open>Api\<close> (\<^verbatim>\<open>api/routes/\<close>), \<open>Monitoring\<close>, \<open>Readiness\<close>
    (\<^verbatim>\<open>core/health_checks.py\<close>), \<open>Access\<close> (every HTTP call with its roles and effect), \<open>Edge\<close> (request
    ids, error envelopes, the event socket, the start of a process), \<open>Dispatch\<close> (the routes and a
    whole HTTP call).
  \<^item> The process: \<open>Seed\<close> (\<^verbatim>\<open>db/seed.py\<close>), \<open>Worker\<close> (\<^verbatim>\<open>workers/main.py\<close>, \<^verbatim>\<open>events/consumer.py\<close>).
  \<^item> \<open>Demo\<close> and \<open>Scenario\<close> hold a concrete environment and worlds on which the witnesses evaluate.

  \<^bold>\<open>Interfaces.\<close> \<open>lock_provider\<close>, \<open>rate_limiter\<close> and \<open>session_store\<close> are the contracts of the adapters,
  interpreted on the in-process and the Redis implementations; \<open>event_env\<close> (a bus leaves the database
  alone) is met by the in-process bus and by Kafka; \<open>infra_env\<close> (an infrastructure adapter leaves
  the business state alone) by the database mode of the mock, the Docker backend and Vultr.

  \<^bold>\<open>What is shown.\<close> \<open>Guarantees\<close>: cooldown and rules of addresses, placing an order exactly once with
  its failovers and permits, the account of a routing decision, rotation, replay. \<open>Contracts\<close>: mutual
  exclusion of both locks, the window bound of both limiters, sessions, the trading gate, the expiry
  sweep, whitelists, paging. \<open>Admission\<close>: who may change what, tokens, activation of providers
  and which adapter then serves. \<open>Operations\<close>: the loops of the worker, restarts, the event feed and
  socket, and that every HTTP call is answered by its own handler. Lemmas named \<open>..._run\<close> give the behaviour of an
  operation on every branch; \<open>frames f m\<close> says that \<open>m\<close> leaves the part \<open>f\<close> of the state alone,
  \<open>keeps P m\<close> that it preserves an invariant; both are proved by the rules in \<open>frames_intros\<close> and
  \<open>keeps_intros\<close>. The component theories also prove what goes wrong: a Kafka adapter that publishes
  after it was closed (\<open>Kafka\<close>), a publisher that silences the consumer of its process (\<open>Worker\<close>),
  an activation that forgets held locks (\<open>AdminProviders\<close>).

  \<^bold>\<open>Bounds and fuel.\<close> The constants are the code's: 64 candidates for a free address, a batch of 50 rows
  per publisher tick. The drain wait of a rotation has a measure (time to the
  deadline). \<open>walk_pages\<close> takes one request more than there are rows, which suffices
  (\<open>paging_visits_every_row\<close>). The consume loop of Kafka is a number of rounds, and it ends within
  them when the stop flag rises before (\<open>poll_rounds_ends\<close>).

  \<^bold>\<open>Parameters and hypotheses.\<close> Redis (\<open>redis_laws\<close>), PyJWT and bcrypt (\<open>auth_lib\<close>, \<open>jwt_laws\<close>), Fernet
  (\<open>secrets_readable\<close>), aiokafka (\<open>quiet_lib\<close>), the Docker SDK (\<open>quiet_docker\<close>), httpx, SHA-256, the JSON
  and XML parsers, the text of a float and of a time (\<open>iso_readable\<close>), TCP connects, the probes of
  an activation (\<open>probes_outside\<close>). Each hypothesis states documented behaviour; the witnesses instantiate those of the properties.

  \<^bold>\<open>Not modelled.\<close> The JSON bodies of responses that repeat the attributes of a row, and the wording of
  messages, log lines and details for people; the static examples of \<^verbatim>\<open>api/openapi.py\<close> and the
  \<^verbatim>\<open>json_schema_extra\<close> of the schemas, which have no behaviour; the declarations of indexes and
  columns in \<^verbatim>\<open>migrations/\<close>, which repeat the models; the JavaScript console; connection pools
  (\<^verbatim>\<open>db/session.py\<close>) and logging, which only configure libraries; tests and scripts. Two tasks that
  interleave inside one service call are modelled only where the code waits on purpose (drain wait,
  permit, loops); the isolation of database transactions is left to the database.
\<close>

end
